(* ===== verification/Prelude.thy ===== *)
theory Prelude
  imports Main "HOL-Library.Multiset"
begin

text \<open>
  Shared vocabulary of the development: Go errors and results, the fragments of Go's
  \<open>strings\<close> and \<open>slices\<close> packages that the sources use, and generic lemmas on lists.

  A Go function with results \<open>(T, error)\<close> is modelled by a function into \<open>'a res\<close>:
  \<open>Ok x\<close> is a nil error, \<open>Err e\<close> a non-nil one and \<open>Panic\<close> a run-time panic (nil
  dereference, slice bounds, failed type assertion). Stateful functions return the new
  state beside it. Logging is not modelled: it changes no state of the program.
\<close>

section \<open>Errors and results\<close>

named_theorems go_simps \<open>defining equations of the model's small helper functions\<close>

text \<open>The status codes of \<open>google.golang.org/grpc/codes\<close> that the sources use.\<close>

datatype code = OK | Unknown | InvalidArgument | NotFound | AlreadyExists | PermissionDenied
  | FailedPrecondition | Aborted | Internal | Unauthenticated

text \<open>
  Error values. \<open>ErrText\<close> is \<open>errors.New\<close> or \<open>fmt.Errorf\<close> without \<open>%w\<close>;
  \<open>Wrap p e\<close> is \<open>fmt.Errorf("<p>%w", e)\<close>; \<open>Status c m\<close> is
  \<open>status.Errorf(c, m)\<close>. The others are sentinel values compared with \<open>errors.Is\<close>:
  those of \<open>persistence\<close>, of \<open>io\<close>, of gocron and of gorm.
\<close>

datatype go_error =
    ErrText string
  | Wrap string go_error
  | Status code string
  | ErrRecordNotFound
  | ErrConstraintFailed
  | ErrUniqueConstraintFailed
  | ErrUnsupportedType
  | EOF
  | ErrUnexpectedEOF
  | ErrJobNotFoundWithTag
  | GormErrRecordNotFound

fun code_name :: "code \<Rightarrow> string" where
  "code_name OK = ''OK''"
| "code_name Unknown = ''Unknown''"
| "code_name InvalidArgument = ''InvalidArgument''"
| "code_name NotFound = ''NotFound''"
| "code_name AlreadyExists = ''AlreadyExists''"
| "code_name PermissionDenied = ''PermissionDenied''"
| "code_name FailedPrecondition = ''FailedPrecondition''"
| "code_name Aborted = ''Aborted''"
| "code_name Internal = ''Internal''"
| "code_name Unauthenticated = ''Unauthenticated''"

text \<open>The \<open>Error()\<close> method.\<close>

fun error_string :: "go_error \<Rightarrow> string" where
  "error_string (ErrText s) = s"
| "error_string (Wrap s e) = s @ error_string e"
| "error_string (Status c m) = ''rpc error: code = '' @ code_name c @ '' desc = '' @ m"
| "error_string ErrRecordNotFound = ''record not in the database''"
| "error_string ErrConstraintFailed = ''constraint failed''"
| "error_string ErrUniqueConstraintFailed = ''unique constraint failed''"
| "error_string ErrUnsupportedType = ''unsupported type''"
| "error_string EOF = ''EOF''"
| "error_string ErrUnexpectedEOF = ''unexpected EOF''"
| "error_string ErrJobNotFoundWithTag = ''no jobs found with given tag''"
| "error_string GormErrRecordNotFound = ''record not found''"

text \<open>\<open>errors.Is\<close>: the error itself or one that it wraps is the target.\<close>

fun errors_Is :: "go_error \<Rightarrow> go_error \<Rightarrow> bool" where
  "errors_Is (Wrap s e) t = (Wrap s e = t \<or> errors_Is e t)"
| "errors_Is e t = (e = t)"

datatype 'a res = Ok 'a | Err go_error | Panic

fun is_ok :: "'a res \<Rightarrow> bool" where
  "is_ok (Ok _) = True"
| "is_ok _ = False"

fun map_res :: "('a \<Rightarrow> 'b) \<Rightarrow> 'a res \<Rightarrow> 'b res" where
  "map_res f (Ok x) = Ok (f x)"
| "map_res f (Err e) = Err e"
| "map_res f Panic = Panic"

text \<open>The status of an error, as the clients of the gRPC API see it.\<close>

fun status_code :: "go_error \<Rightarrow> code option" where
  "status_code (Status c m) = Some c"
| "status_code e = None"

fun res_code :: "'a res \<Rightarrow> code option" where
  "res_code (Err e) = status_code e"
| "res_code r = None"

lemma map_res_eq_Ok [simp]: "map_res f r = Ok y \<longleftrightarrow> (\<exists>x. r = Ok x \<and> y = f x)"
  by (cases r) auto

lemma map_res_eq_Err [simp]: "map_res f r = Err e \<longleftrightarrow> r = Err e"
  by (cases r) auto

lemma map_res_eq_Panic [simp]: "map_res f r = Panic \<longleftrightarrow> r = Panic"
  by (cases r) auto

lemma is_ok_iff: "is_ok r \<longleftrightarrow> (\<exists>x. r = Ok x)"
  by (cases r) auto

text \<open>\<open>service.ErrPermissionDenied\<close> and the common texts of status errors.\<close>

abbreviation ErrPermissionDenied :: go_error where
  "ErrPermissionDenied \<equiv> Status PermissionDenied ''access denied''"

definition database_error :: "go_error \<Rightarrow> go_error" where
  "database_error e = Status Internal (''database error: '' @ error_string e)"

lemma database_error_neq_PermissionDenied [simp]: "database_error e \<noteq> Status PermissionDenied m"
  by (simp add: database_error_def)

section \<open>Strings and slices of the Go standard library\<close>

type_synonym timestamp = int

text \<open>\<open>strings.HasPrefix\<close>, \<open>strings.HasSuffix\<close> and \<open>strings.Contains\<close>.\<close>

definition HasPrefix :: "string \<Rightarrow> string \<Rightarrow> bool" where
  "HasPrefix s p \<longleftrightarrow> take (length p) s = p"

definition HasSuffix :: "string \<Rightarrow> string \<Rightarrow> bool" where
  "HasSuffix s p \<longleftrightarrow> HasPrefix (rev s) (rev p)"

fun str_Contains :: "string \<Rightarrow> string \<Rightarrow> bool" where
  "str_Contains [] p = (p = [])"
| "str_Contains (c # s) p = (HasPrefix (c # s) p \<or> str_Contains s p)"

text \<open>\<open>strings.CutSuffix\<close> and \<open>strings.CutPrefix\<close>: the rest and whether it was found.\<close>

definition CutSuffix :: "string \<Rightarrow> string \<Rightarrow> string \<times> bool" where
  "CutSuffix s p = (if HasSuffix s p then (take (length s - length p) s, True) else (s, False))"

definition CutPrefix :: "string \<Rightarrow> string \<Rightarrow> string \<times> bool" where
  "CutPrefix s p = (if HasPrefix s p then (drop (length p) s, True) else (s, False))"

text \<open>\<open>strings.Join\<close>, on strings and on any other list of lists.\<close>

fun Join :: "'a list list \<Rightarrow> 'a list \<Rightarrow> 'a list" where
  "Join [] sep = []"
| "Join [x] sep = x"
| "Join (x # y # ys) sep = x @ sep @ Join (y # ys) sep"

text \<open>A string between single quotes, as in \<open>fmt\<close> texts with \<open>'%s'\<close>.\<close>

definition quoted :: "string \<Rightarrow> string" where
  "quoted s = CHR 0x27 # s @ [CHR 0x27]"

text \<open>\<open>slices.Contains\<close> and \<open>slices.Index\<close> (\<open>-1\<close> when absent).\<close>

abbreviation slices_Contains :: "'a list \<Rightarrow> 'a \<Rightarrow> bool" where
  "slices_Contains xs x \<equiv> List.member xs x"

fun slices_Index :: "'a list \<Rightarrow> 'a \<Rightarrow> int" where
  "slices_Index [] y = -1"
| "slices_Index (x # xs) y =
     (if x = y then 0 else let i = slices_Index xs y in if i < 0 then -1 else i + 1)"

lemma HasPrefix_append [simp]: "HasPrefix (p @ s) p"
  by (simp add: HasPrefix_def)

lemma HasPrefix_iff: "HasPrefix s p \<longleftrightarrow> (\<exists>r. s = p @ r)"
  unfolding HasPrefix_def by (metis append_eq_conv_conj append_take_drop_id)

lemma HasPrefix_trans: "HasPrefix s p \<Longrightarrow> HasPrefix p q \<Longrightarrow> HasPrefix s q"
  by (auto simp: HasPrefix_iff)

lemma str_Contains_iff: "str_Contains s p \<longleftrightarrow> (\<exists>a b. s = a @ p @ b)"
proof (induction s)
  case Nil
  then show ?case by auto
next
  case (Cons c s)
  show ?case
  proof
    assume "str_Contains (c # s) p"
    then show "\<exists>a b. c # s = a @ p @ b"
      using Cons.IH by (auto simp: HasPrefix_iff intro: exI [of _ "[]"]) (metis append_Cons)
  next
    assume "\<exists>a b. c # s = a @ p @ b"
    then obtain a b where ab: "c # s = a @ p @ b" by blast
    show "str_Contains (c # s) p"
    proof (cases a)
      case Nil
      with ab have "HasPrefix (c # s) p" unfolding HasPrefix_iff by auto
      then show ?thesis by simp
    next
      case (Cons d a')
      with ab have "s = a' @ p @ b" by simp
      with Cons.IH show ?thesis by auto
    qed
  qed
qed

lemma slices_Index_nonneg_iff: "0 \<le> slices_Index xs y \<longleftrightarrow> y \<in> set xs"
  by (induction xs) (auto simp: Let_def)

lemma slices_Index_ge: "-1 \<le> slices_Index xs y"
  by (induction xs) (auto simp: Let_def)

lemma slices_Index_nth:
  "distinct xs \<Longrightarrow> i < length xs \<Longrightarrow> slices_Index xs (xs ! i) = int i"
  by (induction xs arbitrary: i) (auto simp: Let_def nth_Cons split: nat.splits)

section \<open>Keyed lists: the rows of a database table\<close>

text \<open>Insert or overwrite the row with the same key, in place.\<close>

fun upsert :: "('r \<Rightarrow> 'k) \<Rightarrow> 'r \<Rightarrow> 'r list \<Rightarrow> 'r list" where
  "upsert key r [] = [r]"
| "upsert key r (x # xs) = (if key x = key r then r # xs else x # upsert key r xs)"

lemma set_upsert:
  "distinct (map key xs) \<Longrightarrow> set (upsert key r xs) = insert r {x \<in> set xs. key x \<noteq> key r}"
proof (induction xs)
  case Nil
  then show ?case by simp
next
  case (Cons x xs)
  then show ?case by (auto simp: image_iff)
qed

lemma keys_upsert: "key ` set (upsert key r xs) = insert (key r) (key ` set xs)"
  by (induction xs) auto

lemma distinct_upsert: "distinct (map key xs) \<Longrightarrow> distinct (map key (upsert key r xs))"
proof (induction xs)
  case Nil
  then show ?case by simp
next
  case (Cons x xs)
  then show ?case using keys_upsert [of key r xs] by auto
qed

lemma find_append: "List.find P (xs @ ys) = (case List.find P xs of None \<Rightarrow> List.find P ys | Some x \<Rightarrow> Some x)"
  by (induction xs) auto

lemma find_upsert_same [simp]:
  "List.find (\<lambda>x. key x = key r) (upsert key r xs) = Some r"
  by (induction xs) auto

lemma find_upsert_other:
  "k \<noteq> key r \<Longrightarrow> List.find (\<lambda>x. key x = k) (upsert key r xs) = List.find (\<lambda>x. key x = k) xs"
  by (induction xs) auto

lemma find_None_filter: "List.find P xs = None \<longleftrightarrow> filter P xs = []"
  by (induction xs) auto

lemma find_Some_filter: "List.find P xs = Some x \<Longrightarrow> \<exists>ys. filter P xs = x # ys"
  by (induction xs) (auto split: if_splits)

lemma find_SomeD: "List.find P xs = Some x \<Longrightarrow> x \<in> set xs \<and> P x"
  by (induction xs) (auto split: if_splits)

lemma find_Some_ex: "x \<in> set xs \<Longrightarrow> P x \<Longrightarrow> \<exists>y. List.find P xs = Some y"
  by (induction xs) auto

lemma find_key_unique:
  "distinct (map key xs) \<Longrightarrow> x \<in> set xs \<Longrightarrow> key x = k \<Longrightarrow> List.find (\<lambda>x. key x = k) xs = Some x"
  by (induction xs) (auto simp: image_iff)

lemma in_image: "k \<in> f ` A \<longleftrightarrow> (\<exists>x \<in> A. f x = k)"
  by auto

lemma singleton_image [simp]: "[x] \<in> (\<lambda>r. [f r]) ` A \<longleftrightarrow> x \<in> f ` A"
  by auto

lemma image_if_unique:
  assumes "a \<in> A" "P a" "\<And>x. x \<in> A \<Longrightarrow> P x \<Longrightarrow> x = a"
  shows "(\<lambda>x. if P x then f x else x) ` A = insert (f a) {x \<in> A. \<not> P x}"
proof -
  let ?f = "\<lambda>x. if P x then f x else x"
  have "A = insert a {x \<in> A. \<not> P x}" using assms by blast
  then have "?f ` A = ?f ` insert a {x \<in> A. \<not> P x}" by (rule arg_cong)
  also have "\<dots> = insert (f a) {x \<in> A. \<not> P x}" using assms(2) by auto
  finally show ?thesis .
qed

lemma take_drop_split: "take n (drop k xs) @ drop (k + n) xs = drop k xs"
  by (metis append_take_drop_id drop_drop add.commute)

end
