(* ===== verification/Sql.thy ===== *)
theory Sql
  imports Prelude
begin

text \<open>
  The condition strings that the services hand to the storage layer. A condition such as
  \<open>"cloud_service_id = ? AND id IN ?"\<close> is modelled by its token list, so that joining
  strings with \<open>" AND "\<close> is joining token lists with \<open>TAnd\<close>; a parenthesised group is one
  token. The arguments for the placeholders are a separate list, bound from left to right
  as \<open>database/sql\<close> does. \<open>sql_go\<close> gives the documented SQL meaning: \<open>AND\<close> binds more tightly
  than \<open>OR\<close>, and a comparison with \<open>NULL\<close> does not hold (no condition of the sources uses
  \<open>NOT\<close>, so unknown and false need not be told apart).
\<close>

section \<open>Values, conditions and their meaning\<close>

datatype sqlval = VNull | VStr string | VBool bool | VInt int | VTime timestamp
  | VStrs "string list" | VInts "int list"

text \<open>
  The atoms: \<open>c = ?\<close>, \<open>c IN ?\<close>, \<open>c LIKE ?\<close>, \<open>c IS NULL\<close>, \<open>c >= CURRENT_TIMESTAMP\<close>.
\<close>

datatype sql_atom = AEq string | AIn string | ALike string | AIsNull string | AGeNow string

datatype sql_tok = TAtom sql_atom | TAnd | TOr | TParen "sql_tok list"

type_synonym sql = "sql_tok list"

text \<open>What the meaning depends on beside the row: the clock and the \<open>LIKE\<close> of the database.\<close>

record sqlenv =
  sql_now :: timestamp
  sql_like :: "string \<Rightarrow> string \<Rightarrow> bool"

fun needs_arg :: "sql_atom \<Rightarrow> bool" where
  "needs_arg (AEq c) = True"
| "needs_arg (AIn c) = True"
| "needs_arg (ALike c) = True"
| "needs_arg (AIsNull c) = False"
| "needs_arg (AGeNow c) = False"

fun val_eq :: "sqlval \<Rightarrow> sqlval \<Rightarrow> bool" where
  "val_eq VNull v = False"
| "val_eq u v = (u = v)"

fun val_in :: "sqlval \<Rightarrow> sqlval \<Rightarrow> bool" where
  "val_in (VStr s) (VStrs xs) = (s \<in> set xs)"
| "val_in (VInt i) (VInts xs) = (i \<in> set xs)"
| "val_in u v = False"

fun val_like :: "sqlenv \<Rightarrow> sqlval \<Rightarrow> sqlval \<Rightarrow> bool" where
  "val_like env (VStr s) (VStr p) = sql_like env s p"
| "val_like env u v = False"

fun val_ge_now :: "sqlenv \<Rightarrow> sqlval \<Rightarrow> bool" where
  "val_ge_now env (VTime t) = (sql_now env \<le> t)"
| "val_ge_now env v = False"

fun atom_holds :: "sqlenv \<Rightarrow> (string \<Rightarrow> sqlval) \<Rightarrow> sql_atom \<Rightarrow> sqlval \<Rightarrow> bool" where
  "atom_holds env col (AEq c) v = val_eq (col c) v"
| "atom_holds env col (AIn c) v = val_in (col c) v"
| "atom_holds env col (ALike c) v = val_like env (col c) v"
| "atom_holds env col (AIsNull c) v = (col c = VNull)"
| "atom_holds env col (AGeNow c) v = val_ge_now env (col c)"

text \<open>
  \<open>sql_go env col ts args c\<close> reads the tokens with \<open>c\<close> the value of the conjunction read so
  far. It returns the truth value and the unused arguments, \<open>None\<close> when arguments run out.
\<close>

fun sql_go :: "sqlenv \<Rightarrow> (string \<Rightarrow> sqlval) \<Rightarrow> sql \<Rightarrow> sqlval list \<Rightarrow> bool \<Rightarrow> (bool \<times> sqlval list) option" where
  "sql_go env col [] args c = Some (c, args)"
| "sql_go env col (TAtom a # ts) args c =
     (if needs_arg a then
        (case args of [] \<Rightarrow> None | v # vs \<Rightarrow> sql_go env col ts vs (c \<and> atom_holds env col a v))
      else sql_go env col ts args (c \<and> atom_holds env col a VNull))"
| "sql_go env col (TAnd # ts) args c = sql_go env col ts args c"
| "sql_go env col (TOr # ts) args c =
     (case sql_go env col ts args True of None \<Rightarrow> None | Some (b, rest) \<Rightarrow> Some (c \<or> b, rest))"
| "sql_go env col (TParen us # ts) args c =
     (case sql_go env col us args True of
        None \<Rightarrow> None
      | Some (b, rest) \<Rightarrow> sql_go env col ts rest (c \<and> b))"

definition sql_holds :: "sqlenv \<Rightarrow> (string \<Rightarrow> sqlval) \<Rightarrow> sql \<Rightarrow> sqlval list \<Rightarrow> bool" where
  "sql_holds env col q args = (case sql_go env col q args True of None \<Rightarrow> False | Some (b, _) \<Rightarrow> b)"

abbreviation join_and :: "sql list \<Rightarrow> sql" where
  "join_and qs \<equiv> Join qs [TAnd]"

section \<open>Queries built from fragments\<close>

lemma sql_go_append:
  "TOr \<notin> set xs \<Longrightarrow>
   sql_go env col (xs @ ys) args c =
     (case sql_go env col xs args c of None \<Rightarrow> None | Some (b, rest) \<Rightarrow> sql_go env col ys rest b)"
proof (induction xs arbitrary: args c)
  case Nil
  then show ?case by simp
next
  case (Cons x xs)
  then show ?case by (cases x) (auto split: list.splits option.splits prod.splits)
qed

lemma sql_go_conj:
  "TOr \<notin> set xs \<Longrightarrow>
   sql_go env col xs args c = map_option (\<lambda>(b, rest). (c \<and> b, rest)) (sql_go env col xs args True)"
proof (induction xs arbitrary: args c)
  case Nil
  then show ?case by simp
next
  case (Cons x xs)
  then have no: "TOr \<notin> set xs" and x: "x \<noteq> TOr" by auto
  have IH: "sql_go env col xs as d = map_option (\<lambda>(b, rest). (d \<and> b, rest)) (sql_go env col xs as True)"
    for as d using Cons.IH no by blast
  show ?case
  proof (cases x)
    case (TAtom a)
    then show ?thesis
      by (auto simp: IH [of _ "_ \<and> _"] IH [of _ "atom_holds _ _ _ _"] option.map_comp o_def
          split_def conj_assoc split: list.splits)
  next
    case TAnd
    then show ?thesis using IH [of args c] by simp
  next
    case TOr
    with x show ?thesis by simp
  next
    case (TParen us)
    show ?thesis
    proof (cases "sql_go env col us args True")
      case None
      with TParen show ?thesis by simp
    next
      case (Some p)
      obtain a as where p: "p = (a, as)" by (cases p)
      with Some TParen show ?thesis
        using IH [of as "c \<and> a"] IH [of as a] by (cases "sql_go env col xs as True") auto
    qed
  qed
qed

text \<open>
  A fragment with the arguments it binds: no \<open>OR\<close> at its top level, and it uses up exactly
  its arguments, whatever follows.
\<close>

definition frag_ok :: "sqlenv \<Rightarrow> (string \<Rightarrow> sqlval) \<Rightarrow> sql \<times> sqlval list \<Rightarrow> bool" where
  "frag_ok env col f \<longleftrightarrow> TOr \<notin> set (fst f) \<and>
     (\<forall>rest. sql_go env col (fst f) (snd f @ rest) True = Some (sql_holds env col (fst f) (snd f), rest))"

lemma frag_ok_eq [simp]: "frag_ok env col ([TAtom (AEq c)], [v])"
  and frag_ok_in [simp]: "frag_ok env col ([TAtom (AIn c)], [v])"
  and frag_ok_like [simp]: "frag_ok env col ([TAtom (ALike c)], [v])"
  and frag_ok_null [simp]: "frag_ok env col ([TAtom (AIsNull c)], [])"
  by (simp_all add: frag_ok_def sql_holds_def)

lemma join_and_go:
  assumes "\<forall>f \<in> set fs. frag_ok env col f"
  shows "sql_go env col (join_and (map fst fs)) (concat (map snd fs) @ rest) True =
    Some (\<forall>f \<in> set fs. sql_holds env col (fst f) (snd f), rest)"
  using assms
proof (induction fs rule: induct_list012)
  case 1
  then show ?case by simp
next
  case (2 f)
  then show ?case by (simp add: frag_ok_def)
next
  case (3 f g fs)
  then have f: "frag_ok env col f" by simp
  let ?q = "join_and (map fst (g # fs))"
  let ?P = "\<lambda>f. sql_holds env col (fst f) (snd f)"
  have no: "TOr \<notin> set ?q"
    using "3.prems" by (induction fs arbitrary: g) (auto simp: frag_ok_def)
  have "sql_go env col (fst f @ TAnd # ?q) (snd f @ concat (map snd (g # fs)) @ rest) True =
      sql_go env col ?q (concat (map snd (g # fs)) @ rest) (?P f)"
    using f by (simp add: frag_ok_def sql_go_append)
  also have "\<dots> = Some (?P f \<and> (\<forall>h \<in> set (g # fs). ?P h), rest)"
    using "3.IH"(2) "3.prems" sql_go_conj [OF no, of env col "concat (map snd (g # fs)) @ rest" "?P f"]
    by simp
  finally show ?case by simp
qed

lemma join_and_holds:
  assumes "\<forall>f \<in> set fs. frag_ok env col f"
  shows "sql_holds env col (join_and (map fst fs)) (concat (map snd fs)) \<longleftrightarrow>
    (\<forall>f \<in> set fs. sql_holds env col (fst f) (snd f))"
  using join_and_go [OF assms, of "[]"] by (simp add: sql_holds_def)

lemma sql_holds_atoms [simp]:
  "sql_holds env col [TAtom (AEq c)] [v] = val_eq (col c) v"
  "sql_holds env col [TAtom (AIn c)] [v] = val_in (col c) v"
  "sql_holds env col [TAtom (ALike c)] [v] = val_like env (col c) v"
  "sql_holds env col [TAtom (AIsNull c)] [] = (col c = VNull)"
  by (simp_all add: sql_holds_def)

lemma sql_holds_eq2 [simp]:
  "sql_holds env col [TAtom (AEq c), TAnd, TAtom (AEq d)] [u, v] \<longleftrightarrow> val_eq (col c) u \<and> val_eq (col d) v"
  by (simp add: sql_holds_def)

lemma val_eq_VStr [simp]: "val_eq (VStr s) v \<longleftrightarrow> v = VStr s"
  by auto

lemma val_eq_VStr2 [simp]: "val_eq u (VStr s) \<longleftrightarrow> u = VStr s"
  by (cases u) auto

end
