(* ===== verification/Storage.thy ===== *)
theory Storage
  imports Sql
begin

text \<open>
  The storage layer: \<open>persistence.Storage\<close> (src/persistence/persistence.go) and its only
  implementation \<open>storage\<close> (src/persistence/gorm/gorm.go).

  The object-relational mapper gorm and the database behind it are third-party code. They
  are a parameter: a record \<open>gorm\<close> of the calls that gorm.go makes for one Go type, over an
  abstract database state. The functions \<open>storage_*\<close> are gorm.go on top of it. The locale
  \<open>gorm_table\<close> states what the gorm and SQL documentation promises of those calls; the locale
  \<open>storage_contract\<close> states the contract of \<open>persistence.Storage\<close>, which the services rely on. A
  sublocale declaration proves that gorm.go implements the contract. \<open>mem_gorm\<close> is an
  executable table engine that satisfies \<open>gorm_table\<close>.
\<close>

section \<open>Conditions and the calls into gorm\<close>

text \<open>
  The variadic \<open>conds ...any\<close>: a preload option, a query string, or a value.
\<close>

datatype cond = CPreload string "string list" | CQuery sql | CVal sqlval

datatype preload = PreloadAssociations | NoPreload | PreloadQuery string "string list"

text \<open>\<open>WithPreload\<close> and \<open>WithoutPreload\<close>.\<close>

definition WithPreload :: "string \<Rightarrow> string list \<Rightarrow> cond" where
  "WithPreload query args = CPreload query args"

definition WithoutPreload :: cond where
  "WithoutPreload = CPreload [] []"

text \<open>
  The raw statement of the two \<open>latest\<close> listings: \<open>ROW_NUMBER() OVER (PARTITION BY ... ORDER BY
  timestamp DESC)\<close> restricted to row number 1, over an optional \<open>WHERE\<close>, with a final order.
\<close>

datatype raw_sql = RawLatest (rq_partition: "string list") (rq_where: "sql option") (rq_order: "string list")

record ('r, 'db) gorm =
  gorm_Create :: "'r \<Rightarrow> 'db \<Rightarrow> go_error option \<times> 'db"
  gorm_First :: "preload \<Rightarrow> cond list \<Rightarrow> 'db \<Rightarrow> 'r res"
  gorm_Find :: "int option \<Rightarrow> int \<Rightarrow> preload \<Rightarrow> string \<Rightarrow> cond list \<Rightarrow> 'db \<Rightarrow> 'r list res"
  gorm_Raw :: "raw_sql \<Rightarrow> sqlval list \<Rightarrow> 'db \<Rightarrow> 'r list res"
  gorm_Count :: "(cond \<times> cond list) option \<Rightarrow> 'db \<Rightarrow> int res"
  gorm_Save :: "(cond \<times> cond list) option \<Rightarrow> 'r \<Rightarrow> 'db \<Rightarrow> go_error option \<times> 'db"
  gorm_SaveAll :: "'r list \<Rightarrow> 'db \<Rightarrow> go_error option \<times> 'db"
  gorm_Updates :: "(cond \<times> cond list) option \<Rightarrow> 'r \<Rightarrow> 'db \<Rightarrow> (int \<times> go_error option) \<times> 'db"
  gorm_Delete :: "'r \<Rightarrow> cond list \<Rightarrow> 'db \<Rightarrow> (int \<times> go_error option) \<times> 'db"

section \<open>gorm.go\<close>

text \<open>\<open>applyWhere\<close>: no condition, a single one, or a query with its arguments.\<close>

fun applyWhere :: "cond list \<Rightarrow> (cond \<times> cond list) option" where
  "applyWhere [] = None"
| "applyWhere [c] = Some (c, [])"
| "applyWhere (c # cs) = Some (c, cs)"

text \<open>\<open>applyPreload\<close>: the preload directive and the remaining conditions.\<close>

fun applyPreload :: "cond list \<Rightarrow> preload \<times> cond list" where
  "applyPreload (CPreload q args # cs) = (if q \<noteq> [] then (PreloadQuery q args, cs) else (NoPreload, cs))"
| "applyPreload cs = (PreloadAssociations, cs)"

definition storage_Create :: "('r, 'db) gorm \<Rightarrow> 'r \<Rightarrow> 'db \<Rightarrow> unit res \<times> 'db" where
  "storage_Create g r d =
     (case gorm_Create g r d of
        (None, d') \<Rightarrow> (Ok (), d')
      | (Some err, d') \<Rightarrow>
          (if str_Contains (error_string err) ''constraint failed: UNIQUE constraint failed'' \<or>
              str_Contains (error_string err) ''duplicate key value violates unique constraint''
           then (Err ErrUniqueConstraintFailed, d')
           else if str_Contains (error_string err) ''constraint failed''
           then (Err ErrConstraintFailed, d')
           else (Err err, d')))"

lemma storage_Create_returns: "fst (storage_Create g r d) \<noteq> Panic"
  by (simp add: storage_Create_def split: prod.split option.split)

definition storage_Get :: "('r, 'db) gorm \<Rightarrow> cond list \<Rightarrow> 'db \<Rightarrow> 'r res" where
  "storage_Get g conds d =
     (let (p, cs) = applyPreload conds
      in case gorm_First g p cs d of
           Err err \<Rightarrow> if errors_Is err GormErrRecordNotFound then Err ErrRecordNotFound else Err err
         | r \<Rightarrow> r)"

definition order_stmt :: "string \<Rightarrow> bool \<Rightarrow> string" where
  "order_stmt orderBy asc =
     (let orderDirection = (if \<not> asc then ''desc'' else ''asc'')
      in if orderBy = [] then [] else orderBy @ '' '' @ orderDirection)"

definition storage_List ::
  "('r, 'db) gorm \<Rightarrow> string \<Rightarrow> bool \<Rightarrow> int \<Rightarrow> int \<Rightarrow> cond list \<Rightarrow> 'db \<Rightarrow> 'r list res" where
  "storage_List g orderBy asc offset limit conds d =
     (let lim = (if limit \<noteq> -1 then Some limit else None);
          orderStmt = order_stmt orderBy asc;
          (p, cs) = applyPreload conds
      in gorm_Find g lim offset p orderStmt cs d)"

definition storage_Raw :: "('r, 'db) gorm \<Rightarrow> raw_sql \<Rightarrow> sqlval list \<Rightarrow> 'db \<Rightarrow> 'r list res" where
  "storage_Raw g query args d = gorm_Raw g query args d"

definition storage_Count :: "('r, 'db) gorm \<Rightarrow> cond list \<Rightarrow> 'db \<Rightarrow> int res" where
  "storage_Count g conds d = gorm_Count g (applyWhere conds) d"

definition storage_Save :: "('r, 'db) gorm \<Rightarrow> 'r \<Rightarrow> cond list \<Rightarrow> 'db \<Rightarrow> unit res \<times> 'db" where
  "storage_Save g r conds d =
     (case gorm_Save g (applyWhere conds) r d of
        (None, d') \<Rightarrow> (Ok (), d')
      | (Some err, d') \<Rightarrow>
          (if str_Contains (error_string err) ''constraint failed'' then (Err ErrConstraintFailed, d')
           else (Err err, d')))"

text \<open>\<open>Save\<close> with a slice as its argument (its only caller passes no conditions).\<close>

definition storage_SaveAll :: "('r, 'db) gorm \<Rightarrow> 'r list \<Rightarrow> 'db \<Rightarrow> unit res \<times> 'db" where
  "storage_SaveAll g rs d =
     (case gorm_SaveAll g rs d of
        (None, d') \<Rightarrow> (Ok (), d')
      | (Some err, d') \<Rightarrow>
          (if str_Contains (error_string err) ''constraint failed'' then (Err ErrConstraintFailed, d')
           else (Err err, d')))"

definition storage_Update :: "('r, 'db) gorm \<Rightarrow> 'r \<Rightarrow> cond list \<Rightarrow> 'db \<Rightarrow> unit res \<times> 'db" where
  "storage_Update g r conds d =
     (case gorm_Updates g (applyWhere conds) r d of
        ((_, Some err), d') \<Rightarrow>
          (if str_Contains (error_string err) ''constraint failed'' then (Err ErrConstraintFailed, d')
           else (Err err, d'))
      | ((n, None), d') \<Rightarrow> (if n = 0 then (Err ErrRecordNotFound, d') else (Ok (), d')))"

definition storage_Delete :: "('r, 'db) gorm \<Rightarrow> 'r \<Rightarrow> cond list \<Rightarrow> 'db \<Rightarrow> unit res \<times> 'db" where
  "storage_Delete g r conds d =
     (case gorm_Delete g r conds d of
        ((_, Some err), d') \<Rightarrow> (Err err, d')
      | ((n, None), d') \<Rightarrow> (if n = 0 then (Err ErrRecordNotFound, d') else (Ok (), d')))"

text \<open>\<open>persistence.BuildConds\<close>.\<close>

definition BuildConds :: "sql list \<Rightarrow> sqlval list \<Rightarrow> cond list" where
  "BuildConds query args = CQuery (join_and query) # map CVal args"

section \<open>The meaning of conditions\<close>

fun cond_val :: "cond \<Rightarrow> sqlval" where
  "cond_val (CVal v) = v"
| "cond_val c = VNull"

text \<open>
  An empty query string adds no condition; a list of strings in the place of the query
  selects by primary key \<open>pk\<close>.
\<close>

fun conds_hold :: "sqlenv \<Rightarrow> (string \<Rightarrow> sqlval) \<Rightarrow> sqlval \<Rightarrow> cond list \<Rightarrow> bool" where
  "conds_hold env col pk [] = True"
| "conds_hold env col pk (CQuery q # cs) = (q = [] \<or> sql_holds env col q (map cond_val cs))"
| "conds_hold env col pk (CVal (VStrs ks) # cs) = val_in pk (VStrs ks)"
| "conds_hold env col pk (CVal v # cs) = val_eq pk v"
| "conds_hold env col pk (CPreload q as # cs) = False"

text \<open>
  The list handlers append to a list of query fragments and to a list of arguments in step. A
  query built so holds of a row if and only if each of its fragments does.
\<close>

definition frag_conds :: "(sql \<times> sqlval list) list \<Rightarrow> cond list" where
  "frag_conds fs = BuildConds (map fst fs) (concat (map snd fs))"

lemma frag_conds_holds:
  assumes "\<forall>f \<in> set fs. frag_ok env col f"
  shows "conds_hold env col pk (frag_conds fs) \<longleftrightarrow> (\<forall>f \<in> set fs. sql_holds env col (fst f) (snd f))"
  using join_and_holds [OF assms]
  by (auto simp: frag_conds_def BuildConds_def o_def sql_holds_def)

text \<open>The fragment that an optional field of a filter adds.\<close>

definition opt_frag :: "sql_atom \<Rightarrow> ('a \<Rightarrow> sqlval) \<Rightarrow> 'a option \<Rightarrow> (sql \<times> sqlval list) list" where
  "opt_frag c val x = (case x of None \<Rightarrow> [] | Some a \<Rightarrow> [([TAtom c], [val a])])"

lemma opt_frag_ball: "(\<forall>f \<in> set (opt_frag c val x). P f) \<longleftrightarrow> (\<forall>a. x = Some a \<longrightarrow> P ([TAtom c], [val a]))"
  by (cases x) (simp_all add: opt_frag_def)

text \<open>The conditions whose meaning is documented: no empty list of primary keys.\<close>

fun conds_defined :: "cond list \<Rightarrow> bool" where
  "conds_defined [] = True"
| "conds_defined (CQuery q # cs) = True"
| "conds_defined (CVal (VStrs ks) # cs) = (ks \<noteq> [])"
| "conds_defined (CVal v # cs) = True"
| "conds_defined (CPreload q as # cs) = False"

lemma frag_conds_simps [simp]:
  "conds_defined (frag_conds fs)" "applyPreload (frag_conds fs) = (PreloadAssociations, frag_conds fs)"
  by (simp_all add: frag_conds_def BuildConds_def)

fun where_conds :: "(cond \<times> cond list) option \<Rightarrow> cond list" where
  "where_conds None = []"
| "where_conds (Some (c, cs)) = c # cs"

lemma where_applyWhere [simp]: "where_conds (applyWhere cs) = cs"
  by (cases cs rule: applyWhere.cases) auto

text \<open>
  The reading of a database as one table: its rows (with pairwise distinct primary keys),
  their columns, the associations that a preload fills in, the order in which rows are
  listed, and the merge that gorm's \<open>Updates\<close> makes of non-zero fields into a row.
\<close>

record ('r, 'db) table =
  t_rows :: "'db \<Rightarrow> 'r set"
  t_key :: "'r \<Rightarrow> string list"
  t_col :: "'r \<Rightarrow> string \<Rightarrow> sqlval"
  t_env :: "'db \<Rightarrow> sqlenv"
  t_load :: "preload \<Rightarrow> 'db \<Rightarrow> 'r \<Rightarrow> 'r"
  t_ord :: "string \<Rightarrow> 'db \<Rightarrow> 'r list"
  t_merge :: "'r \<Rightarrow> 'r \<Rightarrow> 'r"

fun pk_val :: "string list \<Rightarrow> sqlval" where
  "pk_val [k] = VStr k"
| "pk_val ks = VNull"

definition t_holds :: "('r, 'db) table \<Rightarrow> 'db \<Rightarrow> cond list \<Rightarrow> 'r \<Rightarrow> bool" where
  "t_holds T d cs r = conds_hold (t_env T d) (t_col T r) (pk_val (t_key T r)) cs"

definition t_where :: "('r, 'db) table \<Rightarrow> 'db \<Rightarrow> sql option \<Rightarrow> sqlval list \<Rightarrow> 'r \<Rightarrow> bool" where
  "t_where T d q args r = (case q of None \<Rightarrow> True | Some q \<Rightarrow> sql_holds (t_env T d) (t_col T r) q args)"

text \<open>The conditions select by the primary key \<open>k\<close>.\<close>

definition key_conds :: "('r, 'db) table \<Rightarrow> 'db \<Rightarrow> cond list \<Rightarrow> string list \<Rightarrow> bool" where
  "key_conds T d cs k \<longleftrightarrow> conds_defined cs \<and> (\<forall>r. t_holds T d cs r \<longleftrightarrow> t_key T r = k)"

fun limit_rows :: "int option \<Rightarrow> 'r list \<Rightarrow> 'r list" where
  "limit_rows None xs = xs"
| "limit_rows (Some n) xs = take (nat n) xs"

fun ts_le :: "sqlval \<Rightarrow> sqlval \<Rightarrow> bool" where
  "ts_le (VTime a) (VTime b) = (a \<le> b)"
| "ts_le u v = True"

text \<open>An error that is none of the sentinels of the persistence package.\<close>

definition foreign :: "go_error \<Rightarrow> bool" where
  "foreign e \<longleftrightarrow> \<not> errors_Is e ErrRecordNotFound \<and> \<not> errors_Is e ErrConstraintFailed \<and>
     \<not> errors_Is e ErrUniqueConstraintFailed"

section \<open>The interfaces\<close>

text \<open>What the documentation of gorm and SQL promises of the calls for one table.\<close>

locale gorm_table =
  fixes g :: "('r, 'db) gorm" and T :: "('r, 'db) table"
  assumes key_inj: "inj_on (t_key T) (t_rows T d)"
    and ord_set: "set (t_ord T os d) = t_rows T d"
    and ord_distinct: "distinct (t_ord T os d)"
    and load_key: "t_key T (t_load T p d r) = t_key T r"
    and load_col: "t_col T (t_load T p d r) = t_col T r"
    and create_ok: "gorm_Create g r d = (None, d') \<Longrightarrow>
      t_key T r \<notin> t_key T ` t_rows T d \<and> t_rows T d' = insert r (t_rows T d)"
    and create_err: "gorm_Create g r d = (Some e, d') \<Longrightarrow> foreign e \<and> t_rows T d' = t_rows T d"
    and first_err: "gorm_First g p cs d = Err e \<Longrightarrow> foreign e"
    and first_ok: "gorm_First g p cs d = Ok x \<Longrightarrow> conds_defined cs \<Longrightarrow>
      \<exists>r \<in> t_rows T d. t_holds T d cs r \<and> x = t_load T p d r"
    and first_none: "gorm_First g p cs d = Err e \<Longrightarrow> conds_defined cs \<Longrightarrow>
      errors_Is e GormErrRecordNotFound \<Longrightarrow> \<forall>r \<in> t_rows T d. \<not> t_holds T d cs r"
    and find_ok: "gorm_Find g lim off p os cs d = Ok xs \<Longrightarrow> conds_defined cs \<Longrightarrow>
      0 \<le> off \<Longrightarrow> lim = None \<or> (\<exists>n \<ge> 0. lim = Some n) \<Longrightarrow>
      xs = map (t_load T p d) (limit_rows lim (drop (nat off) (filter (t_holds T d cs) (t_ord T os d))))"
    and raw_sound: "gorm_Raw g q args d = Ok xs \<Longrightarrow> x \<in> set xs \<Longrightarrow>
      x \<in> t_rows T d \<and> t_where T d (rq_where q) args x"
    and raw_latest: "gorm_Raw g q args d = Ok xs \<Longrightarrow> r \<in> t_rows T d \<Longrightarrow> t_where T d (rq_where q) args r \<Longrightarrow>
      \<exists>x \<in> set xs. map (t_col T x) (rq_partition q) = map (t_col T r) (rq_partition q) \<and>
        ts_le (t_col T r ''timestamp'') (t_col T x ''timestamp'')"
    and raw_distinct: "gorm_Raw g q args d = Ok xs \<Longrightarrow>
      distinct (map (\<lambda>x. map (t_col T x) (rq_partition q)) xs)"
    and count_ok: "gorm_Count g w d = Ok n \<Longrightarrow> conds_defined (where_conds w) \<Longrightarrow>
      n = int (card {r \<in> t_rows T d. t_holds T d (where_conds w) r})"
    and save_ok: "gorm_Save g w r d = (None, d') \<Longrightarrow>
      t_rows T d' = insert r {x \<in> t_rows T d. t_key T x \<noteq> t_key T r}"
    and save_err: "gorm_Save g w r d = (Some e, d') \<Longrightarrow> foreign e \<and> t_rows T d' = t_rows T d"
    and updates_ok: "gorm_Updates g w r d = ((n, None), d') \<Longrightarrow> conds_defined (where_conds w) \<Longrightarrow>
      t_rows T d' = (\<lambda>x. if t_holds T d (where_conds w) x then t_merge T r x else x) ` t_rows T d \<and>
      (n = 0 \<longleftrightarrow> (\<forall>x \<in> t_rows T d. \<not> t_holds T d (where_conds w) x))"
    and updates_err: "gorm_Updates g w r d = ((n, Some e), d') \<Longrightarrow> foreign e \<and> t_rows T d' = t_rows T d"
    and delete_ok: "gorm_Delete g r cs d = ((n, None), d') \<Longrightarrow> cs \<noteq> [] \<Longrightarrow> conds_defined cs \<Longrightarrow>
      t_rows T d' = {x \<in> t_rows T d. \<not> t_holds T d cs x} \<and>
      (n = 0 \<longleftrightarrow> (\<forall>x \<in> t_rows T d. \<not> t_holds T d cs x))"
    and delete_key_ok: "gorm_Delete g r [] d = ((n, None), d') \<Longrightarrow>
      t_rows T d' = {x \<in> t_rows T d. t_key T x \<noteq> t_key T r} \<and>
      (n = 0 \<longleftrightarrow> (\<forall>x \<in> t_rows T d. t_key T x \<noteq> t_key T r))"
    and delete_err: "gorm_Delete g r cs d = ((n, Some e), d') \<Longrightarrow> foreign e \<and> t_rows T d' = t_rows T d"
    and find_limit: "gorm_Find g (Some k) off p os cs d = Ok xs \<Longrightarrow> 0 \<le> k \<Longrightarrow> int (length xs) \<le> k"
    and find_sound: "gorm_Find g lim off p os cs d = Ok xs \<Longrightarrow> conds_defined cs \<Longrightarrow> x \<in> set xs \<Longrightarrow>
      \<exists>r \<in> t_rows T d. t_holds T d cs r \<and> x = t_load T p d r"
    and load_none: "t_load T NoPreload d r = r"
    and first_returns: "gorm_First g p cs d \<noteq> Panic"
    and find_returns: "gorm_Find g lim off p os cs d \<noteq> Panic"
    and raw_returns: "gorm_Raw g q args d \<noteq> Panic"
    and count_returns: "gorm_Count g w d \<noteq> Panic"

text \<open>The database can be read: the only error of a lookup is that there is no record.\<close>

definition available :: "('r, 'db) gorm \<Rightarrow> 'db \<Rightarrow> bool" where
  "available g d \<longleftrightarrow>
     (\<forall>p cs e. gorm_First g p cs d = Err e \<longrightarrow> errors_Is e GormErrRecordNotFound) \<and>
     (\<forall>w. is_ok (gorm_Count g w d)) \<and>
     (\<forall>lim off p os cs. is_ok (gorm_Find g lim off p os cs d)) \<and>
     (\<forall>q args. is_ok (gorm_Raw g q args d))"

text \<open>
  The contract of \<open>persistence.Storage\<close> for one type, as the comments of the interface and
  the callers have it.
\<close>

locale storage_contract =
  fixes Create :: "'r \<Rightarrow> 'db \<Rightarrow> unit res \<times> 'db"
    and Get :: "cond list \<Rightarrow> 'db \<Rightarrow> 'r res"
    and List :: "string \<Rightarrow> bool \<Rightarrow> int \<Rightarrow> int \<Rightarrow> cond list \<Rightarrow> 'db \<Rightarrow> 'r list res"
    and Count :: "cond list \<Rightarrow> 'db \<Rightarrow> int res"
    and Save :: "'r \<Rightarrow> cond list \<Rightarrow> 'db \<Rightarrow> unit res \<times> 'db"
    and Update :: "'r \<Rightarrow> cond list \<Rightarrow> 'db \<Rightarrow> unit res \<times> 'db"
    and Delete :: "'r \<Rightarrow> cond list \<Rightarrow> 'db \<Rightarrow> unit res \<times> 'db"
    and T :: "('r, 'db) table"
  assumes rows_inj: "inj_on (t_key T) (t_rows T d)"
    and rows_ord: "set (t_ord T os d) = t_rows T d"
    and rows_distinct: "distinct (t_ord T os d)"
    and loaded_key: "t_key T (t_load T p d r) = t_key T r"
    and loaded_col: "t_col T (t_load T p d r) = t_col T r"
    and Create_Ok: "Create r d = (Ok u, d') \<Longrightarrow>
      t_key T r \<notin> t_key T ` t_rows T d \<and> t_rows T d' = insert r (t_rows T d)"
    and Create_Err: "Create r d = (Err e, d') \<Longrightarrow> t_rows T d' = t_rows T d"
    and Get_Ok: "Get cs d = Ok x \<Longrightarrow> applyPreload cs = (p, cs') \<Longrightarrow> conds_defined cs' \<Longrightarrow>
      \<exists>r \<in> t_rows T d. t_holds T d cs' r \<and> x = t_load T p d r"
    and Get_None: "Get cs d = Err e \<Longrightarrow> errors_Is e ErrRecordNotFound \<Longrightarrow> applyPreload cs = (p, cs') \<Longrightarrow>
      conds_defined cs' \<Longrightarrow> \<forall>r \<in> t_rows T d. \<not> t_holds T d cs' r"
    and List_Ok: "List ob asc off lim cs d = Ok xs \<Longrightarrow> applyPreload cs = (p, cs') \<Longrightarrow> conds_defined cs' \<Longrightarrow>
      0 \<le> off \<Longrightarrow> -1 \<le> lim \<Longrightarrow>
      xs = map (t_load T p d) (limit_rows (if lim = -1 then None else Some lim)
        (drop (nat off) (filter (t_holds T d cs') (t_ord T (order_stmt ob asc) d))))"
    and Count_Ok: "Count cs d = Ok n \<Longrightarrow> conds_defined cs \<Longrightarrow>
      n = int (card {r \<in> t_rows T d. t_holds T d cs r})"
    and Save_Ok: "Save r cs d = (Ok u, d') \<Longrightarrow>
      t_rows T d' = insert r {x \<in> t_rows T d. t_key T x \<noteq> t_key T r}"
    and Save_Err: "Save r cs d = (Err e, d') \<Longrightarrow> t_rows T d' = t_rows T d"
    and Update_Ok: "Update r cs d = (Ok u, d') \<Longrightarrow> conds_defined cs \<Longrightarrow>
      (\<exists>x \<in> t_rows T d. t_holds T d cs x) \<and>
      t_rows T d' = (\<lambda>x. if t_holds T d cs x then t_merge T r x else x) ` t_rows T d"
    and Update_Err: "Update r cs d = (Err e, d') \<Longrightarrow> conds_defined cs \<Longrightarrow> t_rows T d' = t_rows T d"
    and Update_None: "Update r cs d = (Err e, d') \<Longrightarrow> conds_defined cs \<Longrightarrow> errors_Is e ErrRecordNotFound \<Longrightarrow>
      \<forall>x \<in> t_rows T d. \<not> t_holds T d cs x"
    and Delete_Ok: "Delete r cs d = (Ok u, d') \<Longrightarrow> cs \<noteq> [] \<Longrightarrow> conds_defined cs \<Longrightarrow>
      (\<exists>x \<in> t_rows T d. t_holds T d cs x) \<and> t_rows T d' = {x \<in> t_rows T d. \<not> t_holds T d cs x}"
    and Delete_key_Ok: "Delete r [] d = (Ok u, d') \<Longrightarrow>
      t_key T r \<in> t_key T ` t_rows T d \<and> t_rows T d' = {x \<in> t_rows T d. t_key T x \<noteq> t_key T r}"
    and Delete_Err: "Delete r cs d = (Err e, d') \<Longrightarrow> cs = [] \<or> conds_defined cs \<Longrightarrow> t_rows T d' = t_rows T d"
    and Delete_None: "Delete r cs d = (Err e, d') \<Longrightarrow> cs \<noteq> [] \<Longrightarrow> conds_defined cs \<Longrightarrow>
      errors_Is e ErrRecordNotFound \<Longrightarrow> \<forall>x \<in> t_rows T d. \<not> t_holds T d cs x"
    and Delete_key_None: "Delete r [] d = (Err e, d') \<Longrightarrow> errors_Is e ErrRecordNotFound \<Longrightarrow>
      t_key T r \<notin> t_key T ` t_rows T d"
begin

lemma row_unique: "r \<in> t_rows T d \<Longrightarrow> s \<in> t_rows T d \<Longrightarrow> t_key T r = t_key T s \<Longrightarrow> r = s"
  using rows_inj by (auto dest: inj_onD)

lemma Get_key:
  assumes "Get cs d = Ok x" "applyPreload cs = (p, cs')" "key_conds T d cs' k" "r \<in> t_rows T d" "t_key T r = k"
  shows "x = t_load T p d r"
proof -
  from assms(1-3) obtain s where s: "s \<in> t_rows T d" "t_holds T d cs' s" "x = t_load T p d s"
    using Get_Ok unfolding key_conds_def by blast
  with assms(3,5) have "t_key T s = t_key T r" by (simp add: key_conds_def)
  with s assms(4) have "s = r" using row_unique by blast
  with s show ?thesis by simp
qed

lemma Get_key_found:
  assumes "applyPreload cs = (p, cs')" "key_conds T d cs' k" "k \<in> t_key T ` t_rows T d" "Get cs d = Err e"
  shows "\<not> errors_Is e ErrRecordNotFound"
  using assms Get_None unfolding key_conds_def by blast

lemma Get_key_absent:
  assumes "applyPreload cs = (p, cs')" "key_conds T d cs' k" "k \<notin> t_key T ` t_rows T d"
  shows "Get cs d \<noteq> Ok x"
proof
  assume "Get cs d = Ok x"
  from Get_Ok [OF this assms(1)] assms(2,3) show False by (auto simp: key_conds_def)
qed

lemma Create_then_Get:
  assumes "Create r d = (Ok u, d')" "Get cs d' = Ok x" "applyPreload cs = (p, cs')"
    "key_conds T d' cs' (t_key T r)"
  shows "x = t_load T p d' r"
  using assms Create_Ok [OF assms(1)] by (intro Get_key) auto

lemma Save_then_Get:
  assumes "Save r c d = (Ok u, d')" "Get cs d' = Ok x" "applyPreload cs = (p, cs')"
    "key_conds T d' cs' (t_key T r)"
  shows "x = t_load T p d' r"
  using assms Save_Ok [OF assms(1)] by (intro Get_key) auto

lemma Count_zero:
  assumes "Count cs d = Ok 0" "conds_defined cs" "r \<in> t_rows T d"
  shows "\<not> t_holds T d cs r"
proof -
  have "finite (t_rows T d)" using rows_ord [of "[]" d] by (metis List.finite_set)
  with Count_Ok [OF assms(1,2)] have "{r \<in> t_rows T d. t_holds T d cs r} = {}" by simp
  with assms(3) show ?thesis by blast
qed

lemma Count_pos: "Count cs d = Ok n \<Longrightarrow> conds_defined cs \<Longrightarrow> n > 0 \<Longrightarrow> \<exists>r \<in> t_rows T d. t_holds T d cs r"
  using Count_Ok [of cs d n] by (metis (mono_tags, lifting) card.empty empty_Collect_eq
      less_irrefl of_nat_0)

lemma Count_nonneg: "Count cs d = Ok n \<Longrightarrow> conds_defined cs \<Longrightarrow> 0 \<le> n"
  using Count_Ok [of cs d n] by simp

end

text \<open>gorm.go implements the contract over any gorm that behaves as documented.\<close>

sublocale gorm_table \<subseteq> storage_contract
  "storage_Create g" "storage_Get g" "storage_List g" "storage_Count g" "storage_Save g"
  "storage_Update g" "storage_Delete g" T
proof (unfold_locales, goal_cases)
  case 1
  show ?case by (rule key_inj)
next
  case 2
  show ?case by (rule ord_set)
next
  case 3
  show ?case by (rule ord_distinct)
next
  case 4
  show ?case by (rule load_key)
next
  case 5
  show ?case by (rule load_col)
next
  case (6 r d u d')
  then show ?case
    using create_ok by (auto simp: storage_Create_def split: option.splits prod.splits if_splits)
next
  case (7 r d e d')
  then show ?case
    using create_err by (auto simp: storage_Create_def split: option.splits prod.splits if_splits)
next
  case (8 cs d x p cs')
  then show ?case
    using first_ok [of p cs' d x] by (auto simp: storage_Get_def split: res.splits if_splits)
next
  case (9 cs d e p cs')
  then show ?case
    using first_none [of p cs' d] first_err [of p cs' d]
    by (auto simp: storage_Get_def foreign_def split: res.splits if_splits)
next
  case (10 ob asc off lim cs d xs p cs')
  then show ?case
    using find_ok [of "if lim = -1 then None else Some lim" off p "order_stmt ob asc" cs' d xs]
    by (auto simp: storage_List_def split: if_splits)
next
  case (11 cs d n)
  then show ?case using count_ok [of "applyWhere cs" d n] by (simp add: storage_Count_def)
next
  case (12 r cs d u d')
  then show ?case
    using save_ok by (auto simp: storage_Save_def split: option.splits prod.splits if_splits)
next
  case (13 r cs d e d')
  then show ?case
    using save_err by (auto simp: storage_Save_def split: option.splits prod.splits if_splits)
next
  case (14 r cs d u d')
  then show ?case
    using updates_ok [of "applyWhere cs" r d _ d']
    by (auto simp: storage_Update_def split: option.splits prod.splits if_splits)
next
  case (15 r cs d e d')
  then show ?case
    using updates_ok [of "applyWhere cs" r d 0 d'] updates_err [of "applyWhere cs" r d _ _ d']
    by (auto simp: storage_Update_def image_def split: option.splits prod.splits if_splits)
next
  case (16 r cs d e d')
  then show ?case
    using updates_ok [of "applyWhere cs" r d 0 d'] updates_err [of "applyWhere cs" r d _ _ d']
    by (auto simp: storage_Update_def foreign_def split: option.splits prod.splits if_splits)
next
  case (17 r cs d u d')
  then show ?case
    using delete_ok [of r cs d _ d'] by (auto simp: storage_Delete_def split: option.splits prod.splits if_splits)
next
  case (18 r d u d')
  then show ?case
    using delete_key_ok [of r d _ d']
    by (auto simp: storage_Delete_def split: option.splits prod.splits if_splits) (metis imageI)
next
  case (19 r cs d e d')
  then show ?case
    using delete_key_ok [of r d 0 d'] delete_ok [of r cs d 0 d'] delete_err [of r cs d _ _ d']
    by (cases "cs = []") (auto simp: storage_Delete_def split: option.splits prod.splits if_splits)
next
  case (20 r cs d e d')
  then show ?case
    using delete_ok [of r cs d 0 d'] delete_err [of r cs d _ _ d']
    by (auto simp: storage_Delete_def foreign_def split: option.splits prod.splits if_splits)
next
  case (21 r d e d')
  then show ?case
    using delete_key_ok [of r d 0 d'] delete_err [of r "[]" d _ _ d']
    by (auto simp: storage_Delete_def foreign_def split: option.splits prod.splits if_splits)
qed

text \<open>
  Consequences for a database that can be read, and the contract under names that the services
  use outside the locale.
\<close>

context gorm_table begin

lemma Get_returns [simp]: "storage_Get g cs d \<noteq> Panic"
  using first_returns by (auto simp: storage_Get_def split: prod.splits res.splits)

lemma List_returns [simp]: "storage_List g ob asc off lim cs d \<noteq> Panic"
  using find_returns by (auto simp: storage_List_def Let_def split: prod.splits)

lemma Raw_returns [simp]: "storage_Raw g q args d \<noteq> Panic"
  using raw_returns by (auto simp: storage_Raw_def)

lemma Count_returns [simp]: "storage_Count g cs d \<noteq> Panic"
  using count_returns by (auto simp: storage_Count_def)

lemma Get_hit:
  assumes "available g d" "applyPreload cs = (p, cs')" "key_conds T d cs' k" "r \<in> t_rows T d" "t_key T r = k"
  shows "storage_Get g cs d = Ok (t_load T p d r)"
proof (cases "storage_Get g cs d")
  case (Ok x)
  then show ?thesis using Get_key [OF Ok assms(2-5)] by simp
next
  case (Err e)
  then have "errors_Is e ErrRecordNotFound"
    using assms(1) by (auto simp: storage_Get_def available_def split: prod.splits res.splits if_splits)
  then show ?thesis using Get_key_found [OF assms(2,3) _ Err] assms(4,5) by auto
qed simp

lemma Get_miss:
  assumes "available g d" "applyPreload cs = (p, cs')" "key_conds T d cs' k" "k \<notin> t_key T ` t_rows T d"
  shows "storage_Get g cs d = Err ErrRecordNotFound"
proof (cases "storage_Get g cs d")
  case (Ok x)
  then show ?thesis using Get_key_absent [OF assms(2-4)] by simp
next
  case (Err e)
  then show ?thesis
    using assms(1) by (auto simp: storage_Get_def available_def split: prod.splits res.splits if_splits)
qed simp

lemma Get_missing:
  assumes "available g d" "applyPreload cs = (p, cs')" "conds_defined cs'" "\<forall>r \<in> t_rows T d. \<not> t_holds T d cs' r"
  shows "storage_Get g cs d = Err ErrRecordNotFound"
proof (cases "storage_Get g cs d")
  case (Ok x)
  then show ?thesis using Get_Ok [OF Ok assms(2,3)] assms(4) by blast
next
  case (Err e)
  then show ?thesis
    using assms(1) by (auto simp: storage_Get_def available_def split: prod.splits res.splits if_splits)
qed simp

lemma Get_found:
  assumes "available g d" "applyPreload cs = (p, cs')" "conds_defined cs'" "r \<in> t_rows T d" "t_holds T d cs' r"
  shows "\<exists>r \<in> t_rows T d. t_holds T d cs' r \<and> storage_Get g cs d = Ok (t_load T p d r)"
proof (cases "storage_Get g cs d")
  case (Ok x)
  then show ?thesis using Get_Ok [OF Ok assms(2,3)] by auto
next
  case (Err e)
  then have "errors_Is e ErrRecordNotFound"
    using assms(1) by (auto simp: storage_Get_def available_def split: prod.splits res.splits if_splits)
  then show ?thesis using Get_None [OF Err _ assms(2,3)] assms(4,5) by blast
qed simp

lemma Count_available: "available g d \<Longrightarrow> conds_defined cs \<Longrightarrow>
    storage_Count g cs d = Ok (int (card {r \<in> t_rows T d. t_holds T d cs r}))"
  using Count_Ok [of cs d]
  by (cases "gorm_Count g (applyWhere cs) d") (auto simp: available_def storage_Count_def dest!: spec [of _ "applyWhere cs"])

lemma Count_zero_iff:
  assumes "available g d" "conds_defined cs"
  obtains n where "storage_Count g cs d = Ok n" "0 \<le> n" "n = 0 \<longleftrightarrow> (\<forall>r \<in> t_rows T d. \<not> t_holds T d cs r)"
proof -
  have "finite (t_rows T d)" using ord_set [of "[]" d] by (metis List.finite_set)
  then have "int (card {r \<in> t_rows T d. t_holds T d cs r}) = 0 \<longleftrightarrow> (\<forall>r \<in> t_rows T d. \<not> t_holds T d cs r)" by auto
  then show thesis using that Count_available [OF assms] by simp
qed

lemma List_sound:
  "storage_List g ob asc off lim cs d = Ok xs \<Longrightarrow> applyPreload cs = (p, cs') \<Longrightarrow> conds_defined cs' \<Longrightarrow>
   x \<in> set xs \<Longrightarrow> \<exists>r \<in> t_rows T d. t_holds T d cs' r \<and> x = t_load T p d r"
  using find_sound by (auto simp: storage_List_def Let_def)

lemma List_limit: "storage_List g ob asc off lim cs d = Ok xs \<Longrightarrow> 0 \<le> lim \<Longrightarrow> int (length xs) \<le> lim"
  using find_limit by (auto simp: storage_List_def Let_def split: prod.splits if_splits)

lemmas st_row_unique = row_unique
lemmas st_Get_key = Get_key
lemmas st_Get_key_found = Get_key_found
lemmas st_Get_key_absent = Get_key_absent
lemmas st_Create_then_Get = Create_then_Get
lemmas st_Save_then_Get = Save_then_Get
lemmas st_Count_zero = Count_zero
lemmas st_Count_pos = Count_pos
lemmas st_Count_nonneg = Count_nonneg
lemmas st_Create_Ok = Create_Ok
lemmas st_Create_Err = Create_Err
lemmas st_Get_Ok = Get_Ok
lemmas st_Get_None = Get_None
lemmas st_List_Ok = List_Ok
lemmas st_Count_Ok = Count_Ok
lemmas st_Save_Ok = Save_Ok
lemmas st_Save_Err = Save_Err
lemmas st_Update_Ok = Update_Ok
lemmas st_Update_Err = Update_Err
lemmas st_Update_None = Update_None
lemmas st_Delete_Ok = Delete_Ok
lemmas st_Delete_key_Ok = Delete_key_Ok
lemmas st_Delete_Err = Delete_Err
lemmas st_Delete_None = Delete_None
lemmas st_Delete_key_None = Delete_key_None

end

end
