(* ===== verification/Mem_Storage.thy ===== *)
theory Mem_Storage
  imports Storage
begin

text \<open>
  An executable table engine that behaves as \<open>gorm_table\<close> documents: the counterpart of the
  in-memory database of src/persistence/inmemory/inmemory.go. A table is a list of rows
  reached through a lens of the database state; a row whose primary key occurs earlier in
  the list is never seen. The engine has no foreign keys, and it loads no associations
  beyond those stored in the row.
\<close>

record ('r, 'db) mem_table =
  mt_get :: "'db \<Rightarrow> 'r list"
  mt_put :: "'r list \<Rightarrow> 'db \<Rightarrow> 'db"
  mt_key :: "'r \<Rightarrow> string list"
  mt_col :: "'r \<Rightarrow> string \<Rightarrow> sqlval"
  mt_merge :: "'r \<Rightarrow> 'r \<Rightarrow> 'r"
  mt_env :: "'db \<Rightarrow> sqlenv"

section \<open>Lists of rows with distinct keys\<close>

fun dedup :: "('r \<Rightarrow> 'k) \<Rightarrow> 'r list \<Rightarrow> 'r list" where
  "dedup key [] = []"
| "dedup key (x # xs) = x # filter (\<lambda>y. key y \<noteq> key x) (dedup key xs)"

lemma distinct_dedup: "distinct (map key (dedup key xs))"
  by (induction xs) (auto simp: distinct_map inj_on_def)

lemma dedup_id: "distinct (map key xs) \<Longrightarrow> dedup key xs = xs"
proof (induction xs)
  case Nil
  then show ?case by simp
next
  case (Cons x xs)
  then have "filter (\<lambda>y. key y \<noteq> key x) xs = xs" by (auto simp: filter_id_conv image_iff)
  with Cons show ?case by simp
qed

lemma dedup_snoc:
  "distinct (map key xs) \<Longrightarrow> key r \<notin> key ` set xs \<Longrightarrow> dedup key (xs @ [r]) = xs @ [r]"
  by (rule dedup_id) simp

text \<open>
  The rows that \<open>ROW_NUMBER() OVER (PARTITION BY ... ORDER BY timestamp DESC) = 1\<close> keeps.
\<close>

fun time_of :: "sqlval \<Rightarrow> timestamp" where
  "time_of (VTime t) = t"
| "time_of v = 0"

fun ins_latest :: "('r \<Rightarrow> 'p) \<Rightarrow> ('r \<Rightarrow> int) \<Rightarrow> 'r \<Rightarrow> 'r list \<Rightarrow> 'r list" where
  "ins_latest part ts r [] = [r]"
| "ins_latest part ts r (x # xs) =
     (if part x = part r then (if ts x < ts r then r else x) # xs else x # ins_latest part ts r xs)"

definition latest :: "('r \<Rightarrow> 'p) \<Rightarrow> ('r \<Rightarrow> int) \<Rightarrow> 'r list \<Rightarrow> 'r list" where
  "latest part ts rs = fold (ins_latest part ts) rs []"

lemma ins_latest_parts: "part ` set (ins_latest part ts r xs) = insert (part r) (part ` set xs)"
  by (induction xs) auto

lemma ins_latest_subset: "set (ins_latest part ts r xs) \<subseteq> insert r (set xs)"
  by (induction xs) auto

lemma ins_latest_distinct: "distinct (map part xs) \<Longrightarrow> distinct (map part (ins_latest part ts r xs))"
proof (induction xs)
  case Nil
  then show ?case by simp
next
  case (Cons x xs)
  then show ?case using ins_latest_parts [of part ts r xs] by auto
qed

lemma ins_latest_ge:
  "x \<in> insert r (set xs) \<Longrightarrow> \<exists>y \<in> set (ins_latest part ts r xs). part y = part x \<and> ts x \<le> ts y"
  by (induction xs) auto

lemma fold_latest_ge:
  "x \<in> set rs \<union> set acc \<Longrightarrow>
   \<exists>y \<in> set (fold (ins_latest part ts) rs acc). part y = part x \<and> ts x \<le> ts y"
proof (induction rs arbitrary: acc x)
  case Nil
  then show ?case by auto
next
  case (Cons r rs)
  show ?case
  proof (cases "x \<in> set rs")
    case True
    then show ?thesis using Cons.IH [of x "ins_latest part ts r acc"] by simp
  next
    case False
    with Cons.prems have "x \<in> insert r (set acc)" by auto
    then obtain y where y: "y \<in> set (ins_latest part ts r acc)" "part y = part x" "ts x \<le> ts y"
      using ins_latest_ge by metis
    then obtain z where "z \<in> set (fold (ins_latest part ts) rs (ins_latest part ts r acc))"
        "part z = part y" "ts y \<le> ts z"
      using Cons.IH [of y "ins_latest part ts r acc"] by auto
    with y show ?thesis by force
  qed
qed

lemma fold_latest_subset: "set (fold (ins_latest part ts) rs acc) \<subseteq> set rs \<union> set acc"
proof (induction rs arbitrary: acc)
  case Nil
  then show ?case by simp
next
  case (Cons r rs)
  then show ?case using ins_latest_subset [of part ts r acc] by (auto dest!: subsetD)
qed

lemma fold_latest_distinct:
  "distinct (map part acc) \<Longrightarrow> distinct (map part (fold (ins_latest part ts) rs acc))"
  by (induction rs arbitrary: acc) (simp_all add: ins_latest_distinct)

lemma latest_in: "x \<in> set (latest part ts rs) \<Longrightarrow> x \<in> set rs"
  using fold_latest_subset [of part ts rs "[]"] by (auto simp: latest_def)

lemma latest_ge: "x \<in> set rs \<Longrightarrow> \<exists>y \<in> set (latest part ts rs). part y = part x \<and> ts x \<le> ts y"
  using fold_latest_ge [of x rs "[]"] by (simp add: latest_def)

lemma latest_distinct: "distinct (map part (latest part ts rs))"
  using fold_latest_distinct [of part "[]"] by (simp add: latest_def)

section \<open>The engine\<close>

definition mt_list :: "('r, 'db) mem_table \<Rightarrow> 'db \<Rightarrow> 'r list" where
  "mt_list M d = dedup (mt_key M) (mt_get M d)"

definition mt_holds :: "('r, 'db) mem_table \<Rightarrow> 'db \<Rightarrow> cond list \<Rightarrow> 'r \<Rightarrow> bool" where
  "mt_holds M d cs r = conds_hold (mt_env M d) (mt_col M r) (pk_val (mt_key M r)) cs"

definition mem_gorm :: "('r, 'db) mem_table \<Rightarrow> ('r, 'db) gorm" where
  "mem_gorm M = \<lparr>
     gorm_Create = (\<lambda>r d.
       if mt_key M r \<in> mt_key M ` set (mt_list M d)
       then (Some (ErrText ''constraint failed: UNIQUE constraint failed''), d)
       else (None, mt_put M (mt_list M d @ [r]) d)),
     gorm_First = (\<lambda>p cs d.
       case List.find (mt_holds M d cs) (mt_list M d) of
         None \<Rightarrow> Err GormErrRecordNotFound | Some r \<Rightarrow> Ok r),
     gorm_Find = (\<lambda>lim off p os cs d.
       Ok (limit_rows lim (drop (nat off) (filter (mt_holds M d cs) (mt_list M d))))),
     gorm_Raw = (\<lambda>q args d.
       Ok (latest (\<lambda>r. map (mt_col M r) (rq_partition q)) (\<lambda>r. time_of (mt_col M r ''timestamp''))
         (filter (\<lambda>r. case rq_where q of None \<Rightarrow> True
                      | Some w \<Rightarrow> sql_holds (mt_env M d) (mt_col M r) w args) (mt_list M d)))),
     gorm_Count = (\<lambda>w d. Ok (int (length (filter (mt_holds M d (where_conds w)) (mt_list M d))))),
     gorm_Save = (\<lambda>w r d. (None, mt_put M (upsert (mt_key M) r (mt_list M d)) d)),
     gorm_SaveAll = (\<lambda>rs d. (None, mt_put M (fold (upsert (mt_key M)) rs (mt_list M d)) d)),
     gorm_Updates = (\<lambda>w r d.
       ((int (length (filter (mt_holds M d (where_conds w)) (mt_list M d))), None),
        mt_put M (map (\<lambda>x. if mt_holds M d (where_conds w) x then mt_merge M r x else x) (mt_list M d)) d)),
     gorm_Delete = (\<lambda>r cs d.
       let hit = (if cs = [] then (\<lambda>x. mt_key M x = mt_key M r) else mt_holds M d cs)
       in ((int (length (filter hit (mt_list M d))), None), mt_put M (filter (\<lambda>x. \<not> hit x) (mt_list M d)) d))
   \<rparr>"

definition mem_sem :: "('r, 'db) mem_table \<Rightarrow> ('r, 'db) table" where
  "mem_sem M = \<lparr> t_rows = (\<lambda>d. set (mt_list M d)), t_key = mt_key M, t_col = mt_col M, t_env = mt_env M,
     t_load = (\<lambda>p d r. r), t_ord = (\<lambda>os d. mt_list M d), t_merge = mt_merge M \<rparr>"

text \<open>A lens that can be written, and a merge that keeps the primary key.\<close>

definition mem_ok :: "('r, 'db) mem_table \<Rightarrow> bool" where
  "mem_ok M \<longleftrightarrow> (\<forall>xs d. mt_get M (mt_put M xs d) = xs) \<and>
     (\<forall>r x. mt_key M (mt_merge M r x) = mt_key M x)"

lemma mem_holds: "t_holds (mem_sem M) = mt_holds M"
  by (intro ext) (simp add: t_holds_def mem_sem_def mt_holds_def)

lemma mem_sem_simps [simp]:
  "t_rows (mem_sem M) = (\<lambda>d. set (mt_list M d))" "t_key (mem_sem M) = mt_key M"
  "t_col (mem_sem M) = mt_col M" "t_env (mem_sem M) = mt_env M" "t_load (mem_sem M) = (\<lambda>p d r. r)"
  "t_ord (mem_sem M) = (\<lambda>os d. mt_list M d)" "t_merge (mem_sem M) = mt_merge M"
  by (simp_all add: mem_sem_def)

lemma mem_where:
  "t_where (mem_sem M) d q args =
    (\<lambda>r. case q of None \<Rightarrow> True | Some w \<Rightarrow> sql_holds (mt_env M d) (mt_col M r) w args)"
  by (intro ext) (simp add: t_where_def split: option.split)

lemma mt_list_put:
  "mem_ok M \<Longrightarrow> distinct (map (mt_key M) xs) \<Longrightarrow> mt_list M (mt_put M xs d) = xs"
  by (simp add: mt_list_def mem_ok_def dedup_id)

lemma mt_list_distinct: "distinct (map (mt_key M) (mt_list M d))"
  by (simp add: mt_list_def distinct_dedup)

lemma ts_le_time_of: "time_of u \<le> time_of v \<Longrightarrow> ts_le u v"
  by (cases u; cases v) auto

lemma mem_gorm_table: "mem_ok M \<Longrightarrow> gorm_table (mem_gorm M) (mem_sem M)"
proof (unfold_locales, goal_cases)
  case (1 d)
  show ?case using mt_list_distinct [of M d] by (simp add: distinct_map)
next
  case 2
  show ?case by simp
next
  case (3 os d)
  show ?case using mt_list_distinct [of M d] by (simp add: distinct_map)
next
  case 4
  show ?case by simp
next
  case 5
  show ?case by simp
next
  case (6 r d d')
  then show ?case
    using mt_list_put [OF \<open>mem_ok M\<close>, of "mt_list M d @ [r]" d] mt_list_distinct [of M d]
    by (auto simp: mem_gorm_def split: if_splits)
next
  case (7 r d e d')
  then show ?case by (auto simp: mem_gorm_def foreign_def split: if_splits)
next
  case (8 p cs d e)
  then show ?case by (auto simp: mem_gorm_def foreign_def split: option.splits)
next
  case (9 p cs d x)
  then show ?case
    by (auto simp: mem_gorm_def mem_holds split: option.splits dest!: find_SomeD)
next
  case (10 p cs d e)
  then show ?case
    by (auto simp: mem_gorm_def mem_holds find_None_iff split: option.splits)
next
  case (11 lim off p os cs d xs)
  then show ?case by (simp add: mem_gorm_def mem_holds)
next
  case (12 q args d xs x)
  then show ?case by (auto simp: mem_gorm_def mem_where dest!: latest_in)
next
  case (13 q args d xs r)
  let ?p = "\<lambda>r. map (mt_col M r) (rq_partition q)"
  let ?t = "\<lambda>r. time_of (mt_col M r ''timestamp'')"
  from 13 obtain y where "y \<in> set xs" "?p y = ?p r" "?t r \<le> ?t y"
    using latest_ge [of r "filter (t_where (mem_sem M) d (rq_where q) args) (mt_list M d)" ?p ?t]
    by (auto simp: mem_gorm_def mem_where)
  then show ?case by (auto intro!: bexI [of _ y] ts_le_time_of)
next
  case (14 q args d xs)
  then show ?case by (auto simp: mem_gorm_def latest_distinct)
next
  case (15 w d n)
  have "distinct (mt_list M d)" using mt_list_distinct [of M d] by (simp add: distinct_map)
  with 15 show ?case
    by (auto simp: mem_gorm_def mem_holds distinct_card [symmetric] set_filter [symmetric]
        simp del: set_filter)
next
  case (16 w r d d')
  then show ?case
    using mt_list_put [OF \<open>mem_ok M\<close>, of "upsert (mt_key M) r (mt_list M d)" d] mt_list_distinct [of M d]
    by (auto simp: mem_gorm_def distinct_upsert set_upsert)
next
  case (17 w r d e d')
  then show ?case by (simp add: mem_gorm_def)
next
  case (18 w r d n d')
  let ?f = "\<lambda>x. if mt_holds M d (where_conds w) x then mt_merge M r x else x"
  have "map (mt_key M) (map ?f (mt_list M d)) = map (mt_key M) (mt_list M d)"
    using \<open>mem_ok M\<close> by (simp add: mem_ok_def)
  then have "mt_list M (mt_put M (map ?f (mt_list M d)) d) = map ?f (mt_list M d)"
    using mt_list_put [OF \<open>mem_ok M\<close>, of "map ?f (mt_list M d)" d] mt_list_distinct [of M d] by metis
  with 18 show ?case
    by (auto simp: mem_gorm_def mem_holds filter_empty_conv)
next
  case (19 w r d n e d')
  then show ?case by (simp add: mem_gorm_def)
next
  case (20 r cs d n d')
  then show ?case
    using mt_list_put [OF \<open>mem_ok M\<close>, of "filter (\<lambda>x. \<not> mt_holds M d cs x) (mt_list M d)" d]
      mt_list_distinct [of M d]
    by (auto simp: mem_gorm_def Let_def mem_holds filter_empty_conv distinct_map_filter)
next
  case (21 r d n d')
  then show ?case
    using mt_list_put [OF \<open>mem_ok M\<close>, of "filter (\<lambda>x. mt_key M x \<noteq> mt_key M r) (mt_list M d)" d]
      mt_list_distinct [of M d]
    by (auto simp: mem_gorm_def Let_def filter_empty_conv distinct_map_filter)
next
  case (22 r cs d n e d')
  then show ?case by (simp add: mem_gorm_def Let_def)
next
  case (23 k off p os cs d xs)
  then show ?case by (auto simp: mem_gorm_def)
next
  case (24 lim off p os cs d xs x)
  then show ?case by (cases lim) (auto simp: mem_gorm_def mem_holds dest!: in_set_takeD in_set_dropD)
qed (auto simp: mem_gorm_def split: option.split)

lemma mem_available [simp]: "available (mem_gorm M) d"
  by (simp add: available_def mem_gorm_def split: option.split)

text \<open>Strings as rows: the table engine on its smallest instance.\<close>

definition str_table :: "(string, string list) mem_table" where
  "str_table = \<lparr> mt_get = (\<lambda>d. d), mt_put = (\<lambda>xs d. xs), mt_key = (\<lambda>r. [r]),
     mt_col = (\<lambda>r c. if c = ''id'' then VStr r else VNull), mt_merge = (\<lambda>r x. x),
     mt_env = (\<lambda>d. \<lparr> sql_now = 0, sql_like = (=) \<rparr>) \<rparr>"

interpretation mem_str: gorm_table "mem_gorm str_table" "mem_sem str_table"
  by (rule mem_gorm_table) (simp add: mem_ok_def str_table_def)

end
