(* ===== verification/Api_Base.thy ===== *)
theory Api_Base
  imports Mem_Storage
begin

text \<open>
  What every gRPC handler starts with: the validation of the request
  (src/api/validate.go) and the small helpers of src/internal/util.

  The validator (protovalidate) is third-party code: \<open>Validate\<close> takes its verdict on a request
  as an argument. A request or any other message behind a pointer is an option, \<open>None\<close> is nil.
\<close>

section \<open>Validation of requests\<close>

definition ErrEmptyRequest :: string where
  "ErrEmptyRequest = ''empty request''"

definition ErrInvalidRequest :: string where
  "ErrInvalidRequest = ''invalid request''"

text \<open>\<open>util.IsNil\<close>, \<open>util.Deref\<close> and \<open>util.Ref\<close>; \<open>zero\<close> is the zero value of the type.\<close>

definition IsNil :: "'a option \<Rightarrow> bool" where
  "IsNil p \<longleftrightarrow> p = None"

fun Deref :: "'a \<Rightarrow> 'a option \<Rightarrow> 'a" where
  "Deref zero (Some x) = x"
| "Deref zero None = zero"

definition Ref :: "'a \<Rightarrow> 'a option" where
  "Ref x = Some x"

type_synonym 'r validator = "'r \<Rightarrow> go_error option"

definition Validate :: "'req validator \<Rightarrow> 'req option \<Rightarrow> 'req res" where
  "Validate validator req =
     (case req of
        None \<Rightarrow> Err (Status InvalidArgument ErrEmptyRequest)
      | Some r \<Rightarrow>
          (case validator r of
             Some err \<Rightarrow> Err (Status InvalidArgument (ErrInvalidRequest @ '': '' @ error_string err))
           | None \<Rightarrow> Ok r))"

lemma Validate_Ok [simp]: "Validate v req = Ok r \<longleftrightarrow> req = Some r \<and> v r = None"
  by (auto simp: Validate_def split: option.splits)

lemma Validate_Some_Ok [simp]: "v r = None \<Longrightarrow> Validate v (Some r) = Ok r"
  by simp

lemma Validate_not_Panic [simp]: "Validate v req \<noteq> Panic"
  by (auto simp: Validate_def split: option.splits)

lemma Validate_code: "Validate v req = Err e \<Longrightarrow> status_code e = Some InvalidArgument"
  by (auto simp: Validate_def split: option.splits)

text \<open>
  A validator is documented to accept a message with a \<open>required\<close> field only if the field is
  set. \<open>requires v fld\<close> says so for one field.
\<close>

definition requires :: "('req \<Rightarrow> go_error option) \<Rightarrow> ('req \<Rightarrow> 'f option) \<Rightarrow> bool" where
  "requires v fld \<longleftrightarrow> (\<forall>r. v r = None \<longrightarrow> fld r \<noteq> None)"

section \<open>Timestamps and names\<close>

text \<open>
  \<open>util.SafeTimestamp\<close>: \<open>zero_time\<close> is Go's zero time, the first instant of the year 1, in
  seconds since the epoch.
\<close>

definition zero_time :: timestamp where
  "zero_time = -62135596800"

definition SafeTimestamp :: "timestamp option \<Rightarrow> int" where
  "SafeTimestamp t = (case t of None \<Rightarrow> 0 | Some t \<Rightarrow> if t = zero_time then 0 else t)"

text \<open>The character classes of \<open>unicode\<close> on ASCII characters.\<close>

definition IsUpper :: "char \<Rightarrow> bool" where
  "IsUpper c \<longleftrightarrow> 65 \<le> (of_char c :: nat) \<and> (of_char c :: nat) \<le> 90"

definition IsLower :: "char \<Rightarrow> bool" where
  "IsLower c \<longleftrightarrow> 97 \<le> (of_char c :: nat) \<and> (of_char c :: nat) \<le> 122"

definition IsDigit :: "char \<Rightarrow> bool" where
  "IsDigit c \<longleftrightarrow> 48 \<le> (of_char c :: nat) \<and> (of_char c :: nat) \<le> 57"

definition ToLower :: "char \<Rightarrow> char" where
  "ToLower c = (if IsUpper c then char_of ((of_char c :: nat) + 32) else c)"

definition marksNewWord :: "nat \<Rightarrow> string \<Rightarrow> bool" where
  "marksNewWord i input =
     (if i \<ge> length input then False
      else if i + 1 < length input \<and> IsUpper (input ! i) \<and> IsLower (input ! (i + 1)) then True
      else if i > 0 \<and> IsLower (input ! (i - 1)) \<and> IsUpper (input ! i) then True
      else if i + 1 < length input \<and> IsDigit (input ! i) \<and> IsLower (input ! (i + 1)) then True
      else if i > 0 \<and> IsUpper (input ! (i - 1)) \<and> IsDigit (input ! i) then True
      else False)"

definition CamelCaseToSnakeCase :: "string \<Rightarrow> string" where
  "CamelCaseToSnakeCase input =
     (if input = [] then []
      else concat (map (\<lambda>i. if i > 0 \<and> marksNewWord i input then [CHR ''_'', ToLower (input ! i)]
                            else [ToLower (input ! i)]) [0..<length input]))"

lemma ToLower_not_upper: "\<not> IsUpper (ToLower c)"
  by (auto simp: ToLower_def IsUpper_def)

lemma ToLower_id [simp]: "\<not> IsUpper c \<Longrightarrow> ToLower c = c"
  by (simp add: ToLower_def)

lemma ToLower_I [simp]: "ToLower CHR ''I'' = CHR ''i''"
  by code_simp

lemma filter_concat_single:
  "(\<And>i. i \<in> set is \<Longrightarrow> filter P (f i) = filter P [g i]) \<Longrightarrow> filter P (concat (map f is)) = filter P (map g is)"
  by (induction "is") auto

lemma CamelCaseToSnakeCase_letters:
  "filter (\<lambda>c. c \<noteq> CHR ''_'') (CamelCaseToSnakeCase s) = filter (\<lambda>c. c \<noteq> CHR ''_'') (map ToLower s)"
proof (cases "s = []")
  case False
  have "filter (\<lambda>c. c \<noteq> CHR ''_'') (CamelCaseToSnakeCase s)
      = filter (\<lambda>c. c \<noteq> CHR ''_'') (map (\<lambda>i. ToLower (s ! i)) [0..<length s])"
    using False unfolding CamelCaseToSnakeCase_def by (simp only: if_False) (rule filter_concat_single, auto)
  also have "map (\<lambda>i. ToLower (s ! i)) [0..<length s] = map ToLower s"
    by (rule nth_equalityI) auto
  finally show ?thesis .
qed (simp add: CamelCaseToSnakeCase_def)

lemma CamelCaseToSnakeCase_no_upper: "c \<in> set (CamelCaseToSnakeCase s) \<Longrightarrow> \<not> IsUpper c"
  by (auto simp: CamelCaseToSnakeCase_def ToLower_not_upper split: if_splits)
     (auto simp: IsUpper_def)

end
