(* ===== verification/Messages.thy ===== *)
theory Messages
  imports Api_Base "HOL-Library.Word"
begin

text \<open>
  The messages that the services store and exchange, one record or datatype per Go struct of
  the generated protobuf code under src/api, with the fields in the order of the struct (the
  three bookkeeping fields of every message are left out). A pointer field is an option, an
  \<open>optional\<close> protobuf field likewise, a map is an association list. For every stored message
  the text gives its primary key and its columns as the \<open>gorm\<close> tags declare them.
\<close>

section \<open>Metrics\<close>

text \<open>\<open>structpb.Value\<close>; a number is kept as the bits of its \<open>float64\<close>.\<close>

datatype structpb_Value = NullValue | NumberValue "64 word" | StringValue string | BoolValue bool
  | StructValue "(string \<times> structpb_Value) list" | ListValue "structpb_Value list"

datatype Metric_Scale = SCALE_UNSPECIFIED | NOMINAL | ORDINAL | METRIC

record MinMax =
  mm_Min :: int
  mm_Max :: int

text \<open>The oneof of \<open>Range\<close>; each alternative holds a pointer, \<open>NoRange\<close> is the nil interface.\<close>

datatype Range = NoRange | Range_AllowedValues "structpb_Value option list option"
  | Range_Order "structpb_Value option list option" | Range_MinMax "MinMax option"

datatype MetricImplementation_Language = LANGUAGE_UNSPECIFIED | LANGUAGE_REGO

record MetricImplementation =
  mi_MetricId :: string
  mi_Lang :: MetricImplementation_Language
  mi_Code :: string
  mi_UpdatedAt :: "timestamp option"

record Metric =
  m_Id :: string
  m_Name :: string
  m_Description :: string
  m_Category :: string
  m_Scale :: Metric_Scale
  m_Range :: "Range option"
  m_Interval :: int
  m_Implementation :: "MetricImplementation option"
  m_DeprecatedSince :: "timestamp option"

record MetricConfiguration =
  mc_Operator :: string
  mc_TargetValue :: "structpb_Value option"
  mc_IsDefault :: bool
  mc_UpdatedAt :: "timestamp option"
  mc_MetricId :: string
  mc_CloudServiceId :: string

section \<open>Evidences, assessment results and evaluation results\<close>

record Any =
  any_TypeUrl :: string
  any_Value :: string

record Evidence =
  ev_Id :: string
  ev_Timestamp :: "timestamp option"
  ev_CloudServiceId :: string
  ev_ToolId :: string
  ev_Raw :: "string option"
  ev_Resource :: "Any option"

record AssessmentResult =
  ar_Id :: string
  ar_Timestamp :: "timestamp option"
  ar_MetricId :: string
  ar_MetricConfiguration :: "MetricConfiguration option"
  ar_Compliant :: bool
  ar_EvidenceId :: string
  ar_ResourceId :: string
  ar_ResourceTypes :: "string list"
  ar_NonComplianceComments :: string
  ar_CloudServiceId :: string
  ar_ToolId :: "string option"

datatype EvaluationStatus = STATUS_UNSPECIFIED | COMPLIANT | COMPLIANT_MANUALLY
  | NOT_COMPLIANT | NOT_COMPLIANT_MANUALLY | PENDING

text \<open>The numbers of the enum, as the database stores it.\<close>

fun status_number :: "EvaluationStatus \<Rightarrow> int" where
  "status_number STATUS_UNSPECIFIED = 0"
| "status_number COMPLIANT = 1"
| "status_number COMPLIANT_MANUALLY = 2"
| "status_number NOT_COMPLIANT = 3"
| "status_number NOT_COMPLIANT_MANUALLY = 4"
| "status_number PENDING = 10"

record EvaluationResult =
  er_Id :: string
  er_CloudServiceId :: string
  er_ControlId :: string
  er_ControlCategoryName :: string
  er_ControlCatalogId :: string
  er_ParentControlId :: "string option"
  er_Status :: EvaluationStatus
  er_Timestamp :: "timestamp option"
  er_FailingAssessmentResultIds :: "string list"
  er_Comment :: "string option"
  er_ValidUntil :: "timestamp option"

record Resource =
  rs_Id :: string
  rs_CloudServiceId :: string
  rs_ResourceType :: string
  rs_Properties :: "Any option"

section \<open>Catalogs, controls, cloud services and certificates\<close>

datatype Control = Control
  (ctl_Id: string) (ctl_CategoryName: string) (ctl_CategoryCatalogId: string) (ctl_Name: string)
  (ctl_Description: string) (ctl_Controls: "Control list") (ctl_Metrics: "Metric list")
  (ctl_ParentControlId: "string option") (ctl_ParentControlCategoryName: "string option")
  (ctl_ParentControlCategoryCatalogId: "string option") (ctl_AssuranceLevel: "string option")

record Category =
  cat_Name :: string
  cat_CatalogId :: string
  cat_Description :: string
  cat_Controls :: "Control list"

record Catalog =
  ca_Id :: string
  ca_Name :: string
  ca_Description :: string
  ca_Categories :: "Category list"
  ca_AllInScope :: bool
  ca_AssuranceLevels :: "string list"
  ca_ShortName :: string
  ca_Color :: "string option option"

record CloudService_Metadata =
  csm_Labels :: "(string \<times> string) list"
  csm_Icon :: "string option"

record CloudService =
  cs_Id :: string
  cs_Name :: string
  cs_Description :: string
  cs_CatalogsInScope :: "Catalog list"
  cs_ConfiguredMetrics :: "Metric list"
  cs_CreatedAt :: "timestamp option"
  cs_UpdatedAt :: "timestamp option"
  cs_Metadata :: "CloudService_Metadata option"

record TargetOfEvaluation =
  toe_CloudServiceId :: string
  toe_CatalogId :: string
  toe_AssuranceLevel :: "string option"

record State =
  st_Id :: string
  st_State :: string
  st_TreeId :: string
  st_Timestamp :: string
  st_CertificateId :: string

record Certificate =
  cert_Id :: string
  cert_Name :: string
  cert_CloudServiceId :: string
  cert_IssueDate :: string
  cert_ExpirationDate :: string
  cert_Standard :: string
  cert_AssuranceLevel :: string
  cert_Cab :: string
  cert_Description :: string
  cert_States :: "State list"

section \<open>Change events\<close>

datatype MetricChangeEvent_Type = TYPE_UNSPECIFIED | TYPE_CONFIG_CHANGED
  | TYPE_IMPLEMENTATION_CHANGED | TYPE_METADATA_CHANGED

record MetricChangeEvent =
  mce_Type :: MetricChangeEvent_Type
  mce_MetricId :: string
  mce_CloudServiceId :: string

datatype ToeChangeEvent_Type = TOE_UNSPECIFIED | TOE_CREATED | TOE_UPDATED | TOE_REMOVED

record TargetOfEvaluationChangeEvent =
  tce_Type :: ToeChangeEvent_Type
  tce_TargetOfEvaluation :: "TargetOfEvaluation option"

section \<open>Primary keys and columns\<close>

text \<open>
  SQL ignores the case of column names (the conditions write both \<open>id\<close> and \<open>Id\<close>). Columns that
  a serializer fills and that no condition reads are left out.
\<close>

definition column :: "(string \<times> sqlval) list \<Rightarrow> string \<Rightarrow> sqlval" where
  "column kvs c = (case map_of kvs (map ToLower c) of None \<Rightarrow> VNull | Some v \<Rightarrow> v)"

fun opt_str :: "string option \<Rightarrow> sqlval" where
  "opt_str None = VNull" | "opt_str (Some s) = VStr s"

fun opt_time :: "timestamp option \<Rightarrow> sqlval" where
  "opt_time None = VNull" | "opt_time (Some t) = VTime t"

definition metric_col :: "Metric \<Rightarrow> string \<Rightarrow> sqlval" where
  "metric_col m = column [(''id'', VStr (m_Id m)), (''name'', VStr (m_Name m)),
     (''description'', VStr (m_Description m)), (''category'', VStr (m_Category m)),
     (''interval'', VInt (m_Interval m)), (''deprecated_since'', opt_time (m_DeprecatedSince m))]"

definition metric_key :: "Metric \<Rightarrow> string list" where
  "metric_key m = [m_Id m]"

definition metric_config_col :: "MetricConfiguration \<Rightarrow> string \<Rightarrow> sqlval" where
  "metric_config_col c = column [(''operator'', VStr (mc_Operator c)), (''is_default'', VBool (mc_IsDefault c)),
     (''updated_at'', opt_time (mc_UpdatedAt c)), (''metric_id'', VStr (mc_MetricId c)),
     (''cloud_service_id'', VStr (mc_CloudServiceId c))]"

definition metric_config_key :: "MetricConfiguration \<Rightarrow> string list" where
  "metric_config_key c = [mc_MetricId c, mc_CloudServiceId c]"

definition metric_impl_col :: "MetricImplementation \<Rightarrow> string \<Rightarrow> sqlval" where
  "metric_impl_col i = column [(''metric_id'', VStr (mi_MetricId i)), (''code'', VStr (mi_Code i)),
     (''updated_at'', opt_time (mi_UpdatedAt i))]"

definition metric_impl_key :: "MetricImplementation \<Rightarrow> string list" where
  "metric_impl_key i = [mi_MetricId i]"

definition evidence_col :: "Evidence \<Rightarrow> string \<Rightarrow> sqlval" where
  "evidence_col e = column [(''id'', VStr (ev_Id e)), (''timestamp'', opt_time (ev_Timestamp e)),
     (''cloud_service_id'', VStr (ev_CloudServiceId e)), (''tool_id'', VStr (ev_ToolId e)),
     (''raw'', opt_str (ev_Raw e))]"

definition evidence_key :: "Evidence \<Rightarrow> string list" where
  "evidence_key e = [ev_Id e]"

definition result_col :: "AssessmentResult \<Rightarrow> string \<Rightarrow> sqlval" where
  "result_col r = column [(''id'', VStr (ar_Id r)), (''timestamp'', opt_time (ar_Timestamp r)),
     (''metric_id'', VStr (ar_MetricId r)), (''compliant'', VBool (ar_Compliant r)),
     (''evidence_id'', VStr (ar_EvidenceId r)), (''resource_id'', VStr (ar_ResourceId r)),
     (''non_compliance_comments'', VStr (ar_NonComplianceComments r)),
     (''cloud_service_id'', VStr (ar_CloudServiceId r)), (''tool_id'', opt_str (ar_ToolId r))]"

definition result_key :: "AssessmentResult \<Rightarrow> string list" where
  "result_key r = [ar_Id r]"

definition eval_col :: "EvaluationResult \<Rightarrow> string \<Rightarrow> sqlval" where
  "eval_col r = column [(''id'', VStr (er_Id r)), (''cloud_service_id'', VStr (er_CloudServiceId r)),
     (''control_id'', VStr (er_ControlId r)), (''control_category_name'', VStr (er_ControlCategoryName r)),
     (''control_catalog_id'', VStr (er_ControlCatalogId r)), (''parent_control_id'', opt_str (er_ParentControlId r)),
     (''status'', VInt (status_number (er_Status r))), (''timestamp'', opt_time (er_Timestamp r)),
     (''comment'', opt_str (er_Comment r)), (''valid_until'', opt_time (er_ValidUntil r))]"

definition eval_key :: "EvaluationResult \<Rightarrow> string list" where
  "eval_key r = [er_Id r]"

definition resource_col :: "Resource \<Rightarrow> string \<Rightarrow> sqlval" where
  "resource_col r = column [(''id'', VStr (rs_Id r)), (''cloud_service_id'', VStr (rs_CloudServiceId r)),
     (''resource_type'', VStr (rs_ResourceType r))]"

definition resource_key :: "Resource \<Rightarrow> string list" where
  "resource_key r = [rs_Id r]"

definition control_col :: "Control \<Rightarrow> string \<Rightarrow> sqlval" where
  "control_col c = column [(''id'', VStr (ctl_Id c)), (''category_name'', VStr (ctl_CategoryName c)),
     (''category_catalog_id'', VStr (ctl_CategoryCatalogId c)), (''name'', VStr (ctl_Name c)),
     (''description'', VStr (ctl_Description c)), (''parent_control_id'', opt_str (ctl_ParentControlId c)),
     (''parent_control_category_name'', opt_str (ctl_ParentControlCategoryName c)),
     (''parent_control_category_catalog_id'', opt_str (ctl_ParentControlCategoryCatalogId c)),
     (''assurance_level'', opt_str (ctl_AssuranceLevel c))]"

definition control_key :: "Control \<Rightarrow> string list" where
  "control_key c = [ctl_Id c, ctl_CategoryName c, ctl_CategoryCatalogId c]"

definition category_col :: "Category \<Rightarrow> string \<Rightarrow> sqlval" where
  "category_col c = column [(''name'', VStr (cat_Name c)), (''catalog_id'', VStr (cat_CatalogId c)),
     (''description'', VStr (cat_Description c))]"

definition category_key :: "Category \<Rightarrow> string list" where
  "category_key c = [cat_Name c, cat_CatalogId c]"

definition catalog_col :: "Catalog \<Rightarrow> string \<Rightarrow> sqlval" where
  "catalog_col c = column [(''id'', VStr (ca_Id c)), (''name'', VStr (ca_Name c)),
     (''description'', VStr (ca_Description c)), (''all_in_scope'', VBool (ca_AllInScope c)),
     (''short_name'', VStr (ca_ShortName c))]"

definition catalog_key :: "Catalog \<Rightarrow> string list" where
  "catalog_key c = [ca_Id c]"

definition cloud_service_col :: "CloudService \<Rightarrow> string \<Rightarrow> sqlval" where
  "cloud_service_col c = column [(''id'', VStr (cs_Id c)), (''name'', VStr (cs_Name c)),
     (''description'', VStr (cs_Description c)), (''created_at'', opt_time (cs_CreatedAt c)),
     (''updated_at'', opt_time (cs_UpdatedAt c))]"

definition cloud_service_key :: "CloudService \<Rightarrow> string list" where
  "cloud_service_key c = [cs_Id c]"

definition toe_col :: "TargetOfEvaluation \<Rightarrow> string \<Rightarrow> sqlval" where
  "toe_col t = column [(''cloud_service_id'', VStr (toe_CloudServiceId t)), (''catalog_id'', VStr (toe_CatalogId t)),
     (''assurance_level'', opt_str (toe_AssuranceLevel t))]"

definition toe_key :: "TargetOfEvaluation \<Rightarrow> string list" where
  "toe_key t = [toe_CloudServiceId t, toe_CatalogId t]"

definition certificate_col :: "Certificate \<Rightarrow> string \<Rightarrow> sqlval" where
  "certificate_col c = column [(''id'', VStr (cert_Id c)), (''name'', VStr (cert_Name c)),
     (''cloud_service_id'', VStr (cert_CloudServiceId c)), (''issue_date'', VStr (cert_IssueDate c)),
     (''expiration_date'', VStr (cert_ExpirationDate c)), (''standard'', VStr (cert_Standard c)),
     (''assurance_level'', VStr (cert_AssuranceLevel c)), (''cab'', VStr (cert_Cab c)),
     (''description'', VStr (cert_Description c))]"

definition certificate_key :: "Certificate \<Rightarrow> string list" where
  "certificate_key c = [cert_Id c]"

lemmas col_defs = metric_col_def metric_config_col_def metric_impl_col_def evidence_col_def result_col_def
  eval_col_def resource_col_def control_col_def category_col_def catalog_col_def cloud_service_col_def
  toe_col_def certificate_col_def

lemmas key_defs = metric_key_def metric_config_key_def metric_impl_key_def evidence_key_def result_key_def
  eval_key_def resource_key_def control_key_def category_key_def catalog_key_def cloud_service_key_def
  toe_key_def certificate_key_def

text \<open>The two spellings of a column, evaluated once.\<close>

lemma column_lower [simp]:
  "column kvs ''id'' = (case map_of kvs ''id'' of None \<Rightarrow> VNull | Some v \<Rightarrow> v)"
  "column kvs ''Id'' = (case map_of kvs ''id'' of None \<Rightarrow> VNull | Some v \<Rightarrow> v)"
  "column kvs ''metric_id'' = (case map_of kvs ''metric_id'' of None \<Rightarrow> VNull | Some v \<Rightarrow> v)"
  "column kvs ''cloud_service_id'' = (case map_of kvs ''cloud_service_id'' of None \<Rightarrow> VNull | Some v \<Rightarrow> v)"
  "column kvs ''catalog_id'' = (case map_of kvs ''catalog_id'' of None \<Rightarrow> VNull | Some v \<Rightarrow> v)"
  "column kvs ''name'' = (case map_of kvs ''name'' of None \<Rightarrow> VNull | Some v \<Rightarrow> v)"
  "column kvs ''description'' = (case map_of kvs ''description'' of None \<Rightarrow> VNull | Some v \<Rightarrow> v)"
  "column kvs ''tool_id'' = (case map_of kvs ''tool_id'' of None \<Rightarrow> VNull | Some v \<Rightarrow> v)"
  "column kvs ''compliant'' = (case map_of kvs ''compliant'' of None \<Rightarrow> VNull | Some v \<Rightarrow> v)"
  "column kvs ''timestamp'' = (case map_of kvs ''timestamp'' of None \<Rightarrow> VNull | Some v \<Rightarrow> v)"
  "column kvs ''deprecated_since'' = (case map_of kvs ''deprecated_since'' of None \<Rightarrow> VNull | Some v \<Rightarrow> v)"
  "column kvs ''category_name'' = (case map_of kvs ''category_name'' of None \<Rightarrow> VNull | Some v \<Rightarrow> v)"
  "column kvs ''category_catalog_id'' = (case map_of kvs ''category_catalog_id'' of None \<Rightarrow> VNull | Some v \<Rightarrow> v)"
  "column kvs ''assurance_level'' = (case map_of kvs ''assurance_level'' of None \<Rightarrow> VNull | Some v \<Rightarrow> v)"
  "column kvs ''resource_id'' = (case map_of kvs ''resource_id'' of None \<Rightarrow> VNull | Some v \<Rightarrow> v)"
  "column kvs ''resource_type'' = (case map_of kvs ''resource_type'' of None \<Rightarrow> VNull | Some v \<Rightarrow> v)"
  "column kvs ''control_id'' = (case map_of kvs ''control_id'' of None \<Rightarrow> VNull | Some v \<Rightarrow> v)"
  "column kvs ''control_catalog_id'' = (case map_of kvs ''control_catalog_id'' of None \<Rightarrow> VNull | Some v \<Rightarrow> v)"
  "column kvs ''parent_control_id'' = (case map_of kvs ''parent_control_id'' of None \<Rightarrow> VNull | Some v \<Rightarrow> v)"
  "column kvs ''status'' = (case map_of kvs ''status'' of None \<Rightarrow> VNull | Some v \<Rightarrow> v)"
  "column kvs ''valid_until'' = (case map_of kvs ''valid_until'' of None \<Rightarrow> VNull | Some v \<Rightarrow> v)"
  by (simp_all add: column_def IsUpper_def)

text \<open>The reading of a table with the given key and columns.\<close>

definition has_schema :: "('r, 'db) table \<Rightarrow> ('r \<Rightarrow> string list) \<Rightarrow> ('r \<Rightarrow> string \<Rightarrow> sqlval) \<Rightarrow> bool" where
  "has_schema T key col \<longleftrightarrow> t_key T = key \<and> t_col T = col"

text \<open>The condition \<open>c = ?\<close> with its argument, and two of them joined.\<close>

definition cond_eq :: "string \<Rightarrow> string \<Rightarrow> cond list" where
  "cond_eq c v = [CQuery [TAtom (AEq c)], CVal (VStr v)]"

definition cond_eq2 :: "string \<Rightarrow> string \<Rightarrow> string \<Rightarrow> string \<Rightarrow> cond list" where
  "cond_eq2 c v c' v' = [CQuery [TAtom (AEq c), TAnd, TAtom (AEq c')], CVal (VStr v), CVal (VStr v')]"

lemma cond_eq_simps [simp]:
  "conds_hold env col pk (cond_eq c v) \<longleftrightarrow> col c = VStr v"
  "conds_hold env col pk (cond_eq2 c v c' v') \<longleftrightarrow> col c = VStr v \<and> col c' = VStr v'"
  "conds_defined (cond_eq c v)" "conds_defined (cond_eq2 c v c' v')"
  "applyPreload (cond_eq c v) = (PreloadAssociations, cond_eq c v)"
  "applyPreload (cond_eq2 c v c' v') = (PreloadAssociations, cond_eq2 c v c' v')"
  "applyPreload (WithoutPreload # cs) = (NoPreload, cs)"
  by (auto simp: cond_eq_def cond_eq2_def sql_holds_def WithoutPreload_def)

lemma cond_eq_not_Nil [simp]: "cond_eq c v \<noteq> []" "cond_eq2 c v c' v' \<noteq> []"
  by (simp_all add: cond_eq_def cond_eq2_def)

lemma holds_eq:
  "t_holds T d (cond_eq c v) r \<longleftrightarrow> t_col T r c = VStr v"
  "t_holds T d (cond_eq2 c v c' v') r \<longleftrightarrow> t_col T r c = VStr v \<and> t_col T r c' = VStr v'"
  by (simp_all add: t_holds_def)

end
