(* ===== verification/Pagination.thy ===== *)
theory Pagination
  imports Mem_Storage
begin

text \<open>
  Page tokens (src/api/pagination.go), the generic pagination of list calls
  (src/service/paginate.go) and the client loop that fetches every page.

  \<open>int32\<close> and \<open>int64\<close> values are integers; the one addition that can leave the range of
  \<open>int64\<close> wraps around explicitly. Base64 is part of Go's standard library and is modelled; the protobuf
  wire format is third-party code and is the parameter \<open>proto_lib\<close>.
\<close>

section \<open>Base64 with the URL alphabet\<close>

definition b64_alphabet :: string where
  "b64_alphabet = ''ABCDEFGHIJKLMNOPQRSTUVWXYZabcdefghijklmnopqrstuvwxyz0123456789-_''"

definition b64_char :: "nat \<Rightarrow> char" where
  "b64_char n = b64_alphabet ! n"

definition b64_val :: "char \<Rightarrow> nat option" where
  "b64_val c = (let i = slices_Index b64_alphabet c in if i < 0 then None else Some (nat i))"

text \<open>\<open>base64.URLEncoding.EncodeToString\<close> on byte values.\<close>

fun b64_enc :: "nat list \<Rightarrow> string" where
  "b64_enc [] = []"
| "b64_enc [a] = [b64_char (a div 4), b64_char (a mod 4 * 16), CHR ''='', CHR ''='']"
| "b64_enc [a, b] =
     [b64_char (a div 4), b64_char (a mod 4 * 16 + b div 16), b64_char (b mod 16 * 4), CHR ''='']"
| "b64_enc (a # b # c # r) =
     b64_char (a div 4) # b64_char (a mod 4 * 16 + b div 16) #
     b64_char (b mod 16 * 4 + c div 64) # b64_char (c mod 64) # b64_enc r"

text \<open>\<open>base64.URLEncoding.DecodeString\<close>, after carriage returns and newlines are dropped.\<close>

fun b64_dec :: "string \<Rightarrow> nat list option" where
  "b64_dec [] = Some []"
| "b64_dec (w # x # y # z # r) =
     (case (b64_val w, b64_val x) of
        (Some a, Some b) \<Rightarrow>
          if y = CHR ''='' then
            (if z = CHR ''='' \<and> r = [] then Some [a * 4 + b div 16] else None)
          else (case b64_val y of
              None \<Rightarrow> None
            | Some c \<Rightarrow>
                if z = CHR ''='' then
                  (if r = [] then Some [a * 4 + b div 16, b mod 16 * 16 + c div 4] else None)
                else (case b64_val z of
                    None \<Rightarrow> None
                  | Some d \<Rightarrow>
                      (case b64_dec r of
                         None \<Rightarrow> None
                       | Some bs \<Rightarrow> Some ((a * 4 + b div 16) # (b mod 16 * 16 + c div 4) # (c mod 4 * 64 + d) # bs))))
      | _ \<Rightarrow> None)"
| "b64_dec s = None"

definition EncodeToString :: "string \<Rightarrow> string" where
  "EncodeToString s = b64_enc (map of_char s)"

definition DecodeString :: "string \<Rightarrow> string res" where
  "DecodeString s =
     (case b64_dec (filter (\<lambda>c. c \<noteq> CHR 0x0A \<and> c \<noteq> CHR 0x0D) s) of
        None \<Rightarrow> Err (ErrText ''illegal base64 data'')
      | Some bs \<Rightarrow> Ok (map char_of bs))"

lemma b64_table:
  "\<forall>n \<in> set [0..<64]. b64_val (b64_char n) = Some n \<and>
     b64_char n \<noteq> CHR ''='' \<and> b64_char n \<noteq> CHR 0x0A \<and> b64_char n \<noteq> CHR 0x0D"
  by code_simp

lemma b64_val_char [simp]: "n < 64 \<Longrightarrow> b64_val (b64_char n) = Some n"
  and b64_char_pad [simp]: "n < 64 \<Longrightarrow> b64_char n \<noteq> CHR ''=''"
  and b64_char_nl [simp]: "n < 64 \<Longrightarrow> b64_char n \<noteq> CHR 0x0A"
  and b64_char_cr [simp]: "n < 64 \<Longrightarrow> b64_char n \<noteq> CHR 0x0D"
  using b64_table by auto

lemma sextet_bounds [simp]:
  fixes a b c :: nat
  assumes "a < 256" "b < 256" "c < 256"
  shows "a div 4 < 64" "a mod 4 * 16 < 64" "a mod 4 * 16 + b div 16 < 64" "b mod 16 * 4 < 64"
    "b mod 16 * 4 + c div 64 < 64"
  using assms by auto

lemma b64_dec_enc: "\<forall>b \<in> set bs. b < 256 \<Longrightarrow> b64_dec (b64_enc bs) = Some bs"
proof (induction bs rule: b64_enc.induct)
  case 1
  then show ?case by simp
next
  case (2 a)
  then show ?case using sextet_bounds [of a 0 0] by auto
next
  case (3 a b)
  have "(a mod 4 * 16 + b div 16) div 16 = a mod 4" "(a mod 4 * 16 + b div 16) mod 16 = b div 16"
    using 3 by auto
  with 3 show ?case using sextet_bounds [of a b 0] by auto
next
  case (4 a b c r)
  have "(a mod 4 * 16 + b div 16) div 16 = a mod 4" "(a mod 4 * 16 + b div 16) mod 16 = b div 16"
    "(b mod 16 * 4 + c div 64) div 4 = b mod 16" "(b mod 16 * 4 + c div 64) mod 4 = c div 64"
    using "4.prems" by auto
  with 4 show ?case using sextet_bounds [of a b c] by auto
qed

lemma b64_enc_clean:
  "\<forall>b \<in> set bs. b < 256 \<Longrightarrow> filter (\<lambda>c. c \<noteq> CHR 0x0A \<and> c \<noteq> CHR 0x0D) (b64_enc bs) = b64_enc bs"
proof (induction bs rule: b64_enc.induct)
  case 1
  then show ?case by simp
next
  case (2 a)
  then show ?case using sextet_bounds [of a 0 0] by auto
next
  case (3 a b)
  then show ?case using sextet_bounds [of a b 0] by auto
next
  case (4 a b c r)
  then show ?case using sextet_bounds [of a b c] by auto
qed

lemma Decode_Encode: "DecodeString (EncodeToString s) = Ok s"
proof -
  have b: "\<forall>b \<in> set (map of_char s). (b :: nat) < 256" by (auto simp: of_char_def)
  show ?thesis
    by (simp add: DecodeString_def EncodeToString_def b64_enc_clean [OF b] b64_dec_enc [OF b] o_def)
qed

lemma EncodeToString_empty [simp]: "EncodeToString s = [] \<longleftrightarrow> s = []"
  by (cases "map of_char s :: nat list" rule: b64_enc.cases) (auto simp: EncodeToString_def)


section \<open>Page tokens\<close>

record PageToken =
  tok_Start :: int
  tok_Size :: int

text \<open>\<open>proto.Marshal\<close> and \<open>proto.Unmarshal\<close> for page tokens.\<close>

record proto_lib =
  pb_Marshal :: "PageToken \<Rightarrow> string res"
  pb_Unmarshal :: "string \<Rightarrow> PageToken res"

definition token_range :: "PageToken \<Rightarrow> bool" where
  "token_range t \<longleftrightarrow> - (2 ^ 63) \<le> tok_Start t \<and> tok_Start t < 2 ^ 63 \<and>
     - (2 ^ 31) \<le> tok_Size t \<and> tok_Size t < 2 ^ 31"

text \<open>
  What the code relies on of protobuf: marshalling a token succeeds, unmarshalling returns
  the token, and the empty message decodes to the zero token.
\<close>

definition proto_ok :: "proto_lib \<Rightarrow> bool" where
  "proto_ok pb \<longleftrightarrow>
     (\<forall>t. token_range t \<longrightarrow> (\<exists>b. pb_Marshal pb t = Ok b \<and> pb_Unmarshal pb b = Ok t)) \<and>
     pb_Unmarshal pb [] = Ok \<lparr> tok_Start = 0, tok_Size = 0 \<rparr>"

definition Encode :: "proto_lib \<Rightarrow> PageToken \<Rightarrow> string res" where
  "Encode pb t =
     (case pb_Marshal pb t of
        Err err \<Rightarrow> Err (Wrap ''error while marshaling protobuf message: '' err)
      | Panic \<Rightarrow> Panic
      | Ok b \<Rightarrow> Ok (EncodeToString b))"

definition DecodePageToken :: "proto_lib \<Rightarrow> string \<Rightarrow> PageToken res" where
  "DecodePageToken pb b64token =
     (case DecodeString b64token of
        Err err \<Rightarrow> Err (Wrap ''error while decoding base64 token: '' err)
      | Panic \<Rightarrow> Panic
      | Ok b \<Rightarrow>
          (case pb_Unmarshal pb b of
             Err err \<Rightarrow> Err (Wrap ''error while unmarshalling protobuf message: '' err)
           | r \<Rightarrow> r))"

text \<open>An instance of the parameter: tokens written in unary, the zero token as no bytes.\<close>

definition unary :: "int \<Rightarrow> string" where
  "unary i = (if i < 0 then CHR ''-'' # replicate (nat (- i)) CHR ''x'' else replicate (nat i) CHR ''x'')"

definition un_unary :: "string \<Rightarrow> int" where
  "un_unary s = (case s of [] \<Rightarrow> 0 | c # r \<Rightarrow> if c = CHR ''-'' then - int (length r) else int (length s))"

definition unary_proto :: proto_lib where
  "unary_proto = \<lparr>
     pb_Marshal = (\<lambda>t. Ok (if tok_Start t = 0 \<and> tok_Size t = 0 then []
       else unary (tok_Start t) @ CHR '','' # unary (tok_Size t))),
     pb_Unmarshal = (\<lambda>b. Ok (if b = [] then \<lparr> tok_Start = 0, tok_Size = 0 \<rparr>
       else \<lparr> tok_Start = un_unary (takeWhile (\<lambda>c. c \<noteq> CHR '','') b),
              tok_Size = un_unary (tl (dropWhile (\<lambda>c. c \<noteq> CHR '','') b)) \<rparr>)) \<rparr>"

lemma un_unary_unary [simp]: "un_unary (unary i) = i"
  by (cases "nat i") (auto simp: un_unary_def unary_def)

lemma comma_unary: "\<forall>c \<in> set (unary i). c \<noteq> CHR '',''"
  by (auto simp: unary_def)

lemma unary_proto_ok: "proto_ok unary_proto"
proof -
  have "takeWhile (\<lambda>c. c \<noteq> CHR '','') (unary i @ CHR '','' # r) = unary i"
    "dropWhile (\<lambda>c. c \<noteq> CHR '','') (unary i @ CHR '','' # r) = CHR '','' # r" for i r
    using comma_unary by (simp_all add: takeWhile_append dropWhile_append)
  then show ?thesis by (auto simp: proto_ok_def unary_proto_def)
qed

lemma Encode_nonempty:
  assumes "proto_ok pb" "token_range t" "tok_Start t \<noteq> 0" "Encode pb t = Ok s"
  shows "s \<noteq> []"
proof
  assume "s = []"
  with assms(4) have m: "pb_Marshal pb t = Ok []" by (auto simp: Encode_def split: res.splits)
  with assms(1,2) have "pb_Unmarshal pb [] = Ok t" by (auto simp: proto_ok_def)
  with assms(1) have "t = \<lparr> tok_Start = 0, tok_Size = 0 \<rparr>" by (simp add: proto_ok_def)
  with assms(3) show False by simp
qed

lemma Encode_Ok: "proto_ok pb \<Longrightarrow> token_range t \<Longrightarrow> \<exists>s. Encode pb t = Ok s \<and> DecodePageToken pb s = Ok t"
  by (force simp: proto_ok_def Encode_def DecodePageToken_def Decode_Encode)

section \<open>paginate\<close>

text \<open>The interface \<open>PaginatedRequest\<close>; the list requests of the services extend it.\<close>

record PaginatedRequest =
  req_PageToken :: string
  req_PageSize :: int
  req_OrderBy :: string
  req_Asc :: bool

record PaginationOpts =
  DefaultPageSize :: int
  MaxPageSize :: int

definition DefaultPaginationOpts :: PaginationOpts where
  "DefaultPaginationOpts = \<lparr> DefaultPageSize = 50, MaxPageSize = 1500 \<rparr>"

text \<open>Wrap-around of \<open>int64\<close>.\<close>

definition wrap64 :: "int \<Rightarrow> int" where
  "wrap64 i = (i + 2 ^ 63) mod 2 ^ 64 - 2 ^ 63"

lemma wrap64_id [simp]: "- (2 ^ 63) \<le> i \<Longrightarrow> i < 2 ^ 63 \<Longrightarrow> wrap64 i = i"
  by (simp add: wrap64_def)

text \<open>The page size that a request gets.\<close>

definition page_size :: "PaginationOpts \<Rightarrow> int \<Rightarrow> int" where
  "page_size opts n =
     (if n = 0 then DefaultPageSize opts else if n > MaxPageSize opts then MaxPageSize opts else n)"

definition paginate ::
  "proto_lib \<Rightarrow> 'a PaginatedRequest_scheme \<Rightarrow> PaginationOpts \<Rightarrow>
   (int \<Rightarrow> int \<Rightarrow> ('v list \<times> bool) res) \<Rightarrow> ('v list \<times> string) res" where
  "paginate pb req opts pager =
     (let size = page_size opts (req_PageSize req);
          token = (if req_PageToken req = [] then Ok \<lparr> tok_Start = 0, tok_Size = size \<rparr>
                   else (case DecodePageToken pb (req_PageToken req) of
                           Err err \<Rightarrow> Err (Wrap ''could not decode page token: '' err)
                         | r \<Rightarrow> r))
      in case token of
           Err err \<Rightarrow> Err err
         | Panic \<Rightarrow> Panic
         | Ok token \<Rightarrow>
             (case pager (tok_Start token) size of
                Err err \<Rightarrow> Err err
              | Panic \<Rightarrow> Panic
              | Ok (page, done) \<Rightarrow>
                  if \<not> done then
                    (case Encode pb (token\<lparr>tok_Start := wrap64 (tok_Start token + int (length page))\<rparr>) of
                       Err err \<Rightarrow> Err (Wrap ''could not create page token: '' err)
                     | Panic \<Rightarrow> Panic
                     | Ok npt \<Rightarrow> Ok (page, npt))
                  else Ok (page, [])))"

text \<open>
  \<open>sort.Slice\<close> with a \<open>less\<close> function, as an insertion sort: Go leaves the order of equal
  elements open, the model keeps it.
\<close>

fun insert_less :: "('v \<Rightarrow> 'v \<Rightarrow> bool) \<Rightarrow> 'v \<Rightarrow> 'v list \<Rightarrow> 'v list" where
  "insert_less lt x [] = [x]"
| "insert_less lt x (y # ys) = (if lt y x then y # insert_less lt x ys else x # y # ys)"

fun sort_less :: "('v \<Rightarrow> 'v \<Rightarrow> bool) \<Rightarrow> 'v list \<Rightarrow> 'v list" where
  "sort_less lt [] = []"
| "sort_less lt (x # xs) = insert_less lt x (sort_less lt xs)"

definition PaginateSlice ::
  "proto_lib \<Rightarrow> 'a PaginatedRequest_scheme \<Rightarrow> 'v list \<Rightarrow> ('v \<Rightarrow> 'v \<Rightarrow> bool) \<Rightarrow> PaginationOpts \<Rightarrow>
   ('v list \<times> string) res" where
  "PaginateSlice pb req vs lt opts =
     (let values = sort_less lt vs
      in paginate pb req opts (\<lambda>start size.
        let max = int (length values);
            end0 = wrap64 (start + size);
            (end', done) = (if end0 \<ge> max then (max, True) else (end0, False))
        in if 0 \<le> start \<and> start \<le> end' then Ok (take (nat (end' - start)) (drop (nat start) values), done)
           else Panic))"

definition PaginateStorage ::
  "proto_lib \<Rightarrow> 'a PaginatedRequest_scheme \<Rightarrow> ('r, 'db) gorm \<Rightarrow> PaginationOpts \<Rightarrow> cond list \<Rightarrow> 'db \<Rightarrow>
   ('r list \<times> string) res" where
  "PaginateStorage pb req st opts conds d =
     paginate pb req opts (\<lambda>start size.
       case storage_List st (req_OrderBy req) (req_Asc req) start size conds d of
         Err err \<Rightarrow> Err (Wrap ''database error: '' err)
       | Panic \<Rightarrow> Panic
       | Ok page \<Rightarrow> Ok (page, length page = 0 \<or> int (length page) < size))"

section \<open>The client loop over all pages\<close>

text \<open>
  \<open>ListAllPaginated\<close>: \<open>set_token\<close> writes the request's \<open>page_token\<close> field, \<open>list\<close> is the
  call, \<open>next_token\<close> and \<open>getter\<close> read its response. \<open>None\<close> means that the loop never ends.
\<close>

partial_function (option) ListAllPaginated_loop ::
  "(string \<Rightarrow> 'req \<Rightarrow> 'req) \<Rightarrow> ('req \<Rightarrow> 'resp res) \<Rightarrow> ('resp \<Rightarrow> string) \<Rightarrow> ('resp \<Rightarrow> 'v list) \<Rightarrow>
   'req \<Rightarrow> string \<Rightarrow> 'v list \<Rightarrow> 'v list res option" where
  "ListAllPaginated_loop set_token list next_token getter req pageToken results =
     (let req = set_token pageToken req
      in case list req of
           Err err \<Rightarrow> Some (Err err)
         | Panic \<Rightarrow> Some Panic
         | Ok res \<Rightarrow>
             let results = results @ getter res; pageToken = next_token res
             in if pageToken = [] then Some (Ok results)
                else ListAllPaginated_loop set_token list next_token getter req pageToken results)"

definition ListAllPaginated ::
  "(string \<Rightarrow> 'req \<Rightarrow> 'req) \<Rightarrow> ('req \<Rightarrow> 'resp res) \<Rightarrow> ('resp \<Rightarrow> string) \<Rightarrow> ('resp \<Rightarrow> 'v list) \<Rightarrow>
   'req \<Rightarrow> 'v list res option" where
  "ListAllPaginated set_token list next_token getter req =
     ListAllPaginated_loop set_token list next_token getter req [] []"


section \<open>Correctness\<close>

text \<open>The rows that a listing is about, in the order of the request.\<close>

definition all_rows :: "('r, 'db) table \<Rightarrow> string \<Rightarrow> bool \<Rightarrow> cond list \<Rightarrow> 'db \<Rightarrow> 'r list" where
  "all_rows T ob asc conds d =
     (let (p, cs) = applyPreload conds
      in map (t_load T p d) (filter (t_holds T d cs) (t_ord T (order_stmt ob asc) d)))"

lemma page_size_bounds:
  "0 \<le> n \<Longrightarrow> 0 < DefaultPageSize opts \<Longrightarrow> DefaultPageSize opts \<le> MaxPageSize opts \<Longrightarrow>
   0 < page_size opts n \<and> page_size opts n \<le> MaxPageSize opts"
  by (auto simp: page_size_def)

lemma List_page:
  assumes "gorm_table g T" "available g d" "conds_defined (snd (applyPreload conds))" "0 \<le> sz"
  shows "storage_List g ob asc (int k) sz conds d = Ok (take (nat sz) (drop k (all_rows T ob asc conds d)))"
proof -
  obtain p cs where pc: "applyPreload conds = (p, cs)" by fastforce
  from assms(2) have "is_ok (storage_List g ob asc (int k) sz conds d)"
    by (simp add: available_def storage_List_def Let_def split: prod.split)
  then obtain xs where xs: "storage_List g ob asc (int k) sz conds d = Ok xs" by (auto simp: is_ok_iff)
  from gorm_table.st_List_Ok [OF assms(1) xs pc] assms(3,4) pc show ?thesis
    by (simp add: xs all_rows_def take_map drop_map)
qed

text \<open>
  Whatever the token and the size of a request, a page has only rows that match the conditions.
\<close>

lemma PaginateStorage_sound:
  assumes "gorm_table g T" "PaginateStorage pb req g opts conds d = Ok (page, npt)"
    "applyPreload conds = (p, cs)" "conds_defined cs" "x \<in> set page"
  shows "\<exists>r \<in> t_rows T d. t_holds T d cs r \<and> x = t_load T p d r"
proof -
  from assms(2) obtain off lim where "storage_List g (req_OrderBy req) (req_Asc req) off lim conds d = Ok page"
    by (auto simp: PaginateStorage_def paginate_def Let_def split: res.splits if_splits)
  from gorm_table.List_sound [OF assms(1) this assms(3-5)] show ?thesis .
qed

text \<open>Where a page token points: the empty token at the first row.\<close>

definition token_at :: "proto_lib \<Rightarrow> string \<Rightarrow> nat \<Rightarrow> bool" where
  "token_at pb pt k \<longleftrightarrow>
     (if pt = [] then k = 0
      else \<exists>t. DecodePageToken pb pt = Ok t \<and> token_range t \<and> tok_Start t = int k)"

lemma PaginateStorage_page:
  assumes "gorm_table g T" "proto_ok pb" "available g d" "conds_defined (snd (applyPreload conds))"
    and tok: "token_at pb (req_PageToken req) k"
    and size: "sz = page_size opts (req_PageSize req)" "0 < sz" "sz < 2 ^ 31"
    and rows: "rows = all_rows T (req_OrderBy req) (req_Asc req) conds d" "length rows < 2 ^ 63" "k \<le> length rows"
  shows "\<exists>npt. PaginateStorage pb req g opts conds d = Ok (take (nat sz) (drop k rows), npt) \<and>
     (if k + nat sz \<le> length rows then npt \<noteq> [] \<and> token_at pb npt (k + nat sz) else npt = [])"
proof -
  let ?page = "take (nat sz) (drop k rows)"
  obtain t where t: "(if req_PageToken req = [] then Ok \<lparr> tok_Start = 0, tok_Size = sz \<rparr>
      else case DecodePageToken pb (req_PageToken req) of
        Err err \<Rightarrow> Err (Wrap ''could not decode page token: '' err) | r \<Rightarrow> r) = Ok t"
    and tr: "token_range t" "tok_Start t = int k"
    using tok size(2,3) by (auto simp: token_at_def token_range_def split: if_splits)
  have lst: "storage_List g (req_OrderBy req) (req_Asc req) (int k) sz conds d = Ok ?page"
    using List_page [OF assms(1,3,4)] size(2) rows(1) by simp
  show ?thesis
  proof (cases "k + nat sz \<le> length rows")
    case False
    with size(2) have "int (length ?page) < sz" by auto
    then show ?thesis
      using t tr lst False by (simp add: PaginateStorage_def paginate_def Let_def size(1) [symmetric])
  next
    case True
    then have len: "length ?page = nat sz" by simp
    let ?t = "t\<lparr>tok_Start := int (k + nat sz)\<rparr>"
    have w: "wrap64 (int k + int (length ?page)) = int (k + nat sz)"
      using True len rows(2) by (subst wrap64_id) auto
    have r: "token_range ?t" using True rows(2) tr(1) by (auto simp: token_range_def)
    then obtain npt where npt: "Encode pb ?t = Ok npt" "DecodePageToken pb npt = Ok ?t"
      using Encode_Ok [OF assms(2)] by blast
    have ne: "npt \<noteq> []" using Encode_nonempty [OF assms(2) r _ npt(1)] size(2) by simp
    have "PaginateStorage pb req g opts conds d = Ok (?page, npt)"
      using t tr lst w npt(1) len size(2)
      by (simp add: PaginateStorage_def paginate_def Let_def size(1) [symmetric] del: length_take)
    moreover have "token_at pb npt (k + nat sz)" using ne npt(2) r by (simp add: token_at_def)
    ultimately show ?thesis using ne True by auto
  qed
qed

abbreviation set_page_token :: "string \<Rightarrow> 'a PaginatedRequest_scheme \<Rightarrow> 'a PaginatedRequest_scheme" where
  "set_page_token pt req \<equiv> req\<lparr>req_PageToken := pt\<rparr>"

text \<open>
  A list call that returns the pages of \<open>PaginateStorage\<close>, for every page token; what it makes of
  errors is its own.
\<close>

definition serves ::
  "proto_lib \<Rightarrow> ('a PaginatedRequest_scheme \<Rightarrow> ('r list \<times> string) res) \<Rightarrow> 'a PaginatedRequest_scheme \<Rightarrow>
   ('r, 'db) gorm \<Rightarrow> PaginationOpts \<Rightarrow> cond list \<Rightarrow> 'db \<Rightarrow> bool" where
  "serves pb lst req g opts conds d \<longleftrightarrow>
     (\<forall>pt r. PaginateStorage pb (set_page_token pt req) g opts conds d = Ok r \<longrightarrow> lst (set_page_token pt req) = Ok r)"

lemma ListAllPaginated_loop_complete:
  assumes "gorm_table g T" "proto_ok pb" "available g d" "conds_defined (snd (applyPreload conds))"
    and sz: "0 < sz" "sz < 2 ^ 31" and len: "length rows < 2 ^ 63"
    and "sz = page_size opts (req_PageSize req)" "rows = all_rows T (req_OrderBy req) (req_Asc req) conds d"
    "serves pb lst req g opts conds d" "k \<le> length rows" "token_at pb pt k"
  shows "ListAllPaginated_loop set_page_token lst snd fst req pt (take k rows) = Some (Ok rows)"
  using assms(8-12)
proof (induction "length rows - k" arbitrary: k pt req rule: less_induct)
  case less
  let ?req = "req\<lparr>req_PageToken := pt\<rparr>"
  have "\<exists>npt. PaginateStorage pb ?req g opts conds d = Ok (take (nat sz) (drop k rows), npt) \<and>
     (if k + nat sz \<le> length rows then npt \<noteq> [] \<and> token_at pb npt (k + nat sz) else npt = [])"
    using less.prems(1,2,4,5) sz len by (intro PaginateStorage_page [OF assms(1-4)]) simp_all
  then obtain npt where npt: "lst ?req = Ok (take (nat sz) (drop k rows), npt)"
    and nx: "if k + nat sz \<le> length rows then npt \<noteq> [] \<and> token_at pb npt (k + nat sz) else npt = []"
    using less.prems(3) unfolding serves_def by blast
  have tk: "take k rows @ take (nat sz) (drop k rows) = take (k + nat sz) rows"
    by (simp add: take_add)
  show ?case
  proof (cases "k + nat sz \<le> length rows")
    case True
    have "serves pb lst ?req g opts conds d" using less.prems(3) by (simp add: serves_def)
    then have "ListAllPaginated_loop set_page_token lst snd fst ?req npt (take (k + nat sz) rows) = Some (Ok rows)"
      using nx less.prems(1,2) sz(1) True by (intro less.hyps) simp_all
    then show ?thesis
      using npt nx True tk by (subst ListAllPaginated_loop.simps) (simp add: Let_def)
  next
    case False
    then show ?thesis
      using npt nx tk by (subst ListAllPaginated_loop.simps) (simp add: Let_def)
  qed
qed

lemma ListAllPaginated_rows:
  assumes "gorm_table g T" "proto_ok pb" "available g d" "conds_defined (snd (applyPreload conds))"
    "0 \<le> req_PageSize req" "serves pb lst req g DefaultPaginationOpts conds d"
    "length (all_rows T (req_OrderBy req) (req_Asc req) conds d) < 2 ^ 63"
  shows "ListAllPaginated set_page_token lst snd fst req
    = Some (Ok (all_rows T (req_OrderBy req) (req_Asc req) conds d))"
proof -
  let ?sz = "page_size DefaultPaginationOpts (req_PageSize req)"
  have "0 < ?sz \<and> ?sz \<le> 1500"
    using page_size_bounds [OF assms(5), of DefaultPaginationOpts] by (simp add: DefaultPaginationOpts_def)
  then show ?thesis
    unfolding ListAllPaginated_def
    using ListAllPaginated_loop_complete [OF assms(1-4) _ _ assms(7) refl refl assms(6), of 0 "[]"]
    by (simp add: token_at_def)
qed

section \<open>Properties\<close>

text \<open>
  C38: a page token survives the trip to the client and back: \<open>DecodePageToken\<close> of what
  \<open>Encode\<close> returns is the token itself, for every token of \<open>int64\<close> start and \<open>int32\<close> size.
\<close>

theorem DecodePageToken_Encode:
  assumes "proto_ok pb" "token_range t"
  shows "\<exists>s. Encode pb t = Ok s \<and> DecodePageToken pb s = Ok t"
  using Encode_Ok [OF assms] .

theorem DecodePageToken_Encode_witness:
  "\<exists>s. Encode unary_proto \<lparr> tok_Start = 3, tok_Size = 2 \<rparr> = Ok s \<and>
     DecodePageToken unary_proto s = Ok \<lparr> tok_Start = 3, tok_Size = 2 \<rparr>"
  by (rule DecodePageToken_Encode [OF unary_proto_ok]) (simp add: token_range_def)





end
