(* ===== verification/Authorization.thy ===== *)
theory Authorization
  imports Api_Base
begin

text \<open>
  The authorization strategies of src/service/authorization.go. A strategy decides for a
  context which cloud services may be accessed; handlers use it in two ways, by checking the
  service of one request and by restricting a query to the allowed services. The locale
  \<open>authz_strategy\<close> is the contract between the two; both strategies of the source implement
  it.
\<close>

section \<open>The interface\<close>

datatype RequestType = AccessCreate | AccessRead | AccessUpdate | AccessDelete

record 'ctx AuthorizationStrategy =
  az_CheckAccess :: "'ctx \<Rightarrow> RequestType \<Rightarrow> string \<Rightarrow> bool"
  az_AllowedCloudServices :: "'ctx \<Rightarrow> bool \<times> string list"

section \<open>The strategy on JWT claims\<close>

text \<open>
  The values of a JSON document, as \<open>encoding/json\<close> stores them in an \<open>interface{}\<close>; numbers
  are never looked at.
\<close>

datatype json = JNull | JBool bool | JNumber int | JString string | JArray "json list"
  | JObject "(string \<times> json) list"

type_synonym claims = "string \<rightharpoonup> json"

text \<open>
  Third-party calls of the strategy: \<open>grpc_auth.AuthFromMD\<close> and \<open>jwt.Parser.ParseUnverified\<close>.
\<close>

record 'ctx jwt_lib =
  AuthFromMD :: "'ctx \<Rightarrow> string res"
  ParseUnverified :: "string \<Rightarrow> claims res"

record AuthorizationStrategyJWT =
  CloudServicesKey :: string
  AllowAllKey :: string

text \<open>The loop over the array claim: every string item, in order.\<close>

fun string_items :: "json list \<Rightarrow> string list" where
  "string_items [] = []"
| "string_items (JString s # l) = s # string_items l"
| "string_items (item # l) = string_items l"

definition jwt_AllowedCloudServices ::
  "'ctx jwt_lib \<Rightarrow> AuthorizationStrategyJWT \<Rightarrow> 'ctx option \<Rightarrow> bool \<times> string list" where
  "jwt_AllowedCloudServices lib a ctx =
     (case ctx of
        None \<Rightarrow> (False, [])
      | Some c \<Rightarrow>
          (case AuthFromMD lib c of
             Ok token \<Rightarrow>
               (case ParseUnverified lib token of
                  Ok claims \<Rightarrow>
                    if claims (AllowAllKey a) = Some (JBool True) then (True, [])
                    else (case claims (CloudServicesKey a) of
                            Some (JArray l) \<Rightarrow> (False, string_items l)
                          | _ \<Rightarrow> (False, []))
                | _ \<Rightarrow> (False, []))
           | _ \<Rightarrow> (False, [])))"

definition jwt_CheckAccess ::
  "'ctx jwt_lib \<Rightarrow> AuthorizationStrategyJWT \<Rightarrow> 'ctx option \<Rightarrow> RequestType \<Rightarrow> string \<Rightarrow> bool" where
  "jwt_CheckAccess lib a ctx typ csid =
     (let (all, list) = jwt_AllowedCloudServices lib a ctx
      in if all then True else slices_Contains list csid)"

definition strategy_JWT ::
  "'ctx jwt_lib \<Rightarrow> AuthorizationStrategyJWT \<Rightarrow> 'ctx option AuthorizationStrategy" where
  "strategy_JWT lib a =
     \<lparr> az_CheckAccess = jwt_CheckAccess lib a, az_AllowedCloudServices = jwt_AllowedCloudServices lib a \<rparr>"

section \<open>The strategy that allows everything\<close>

definition allowall_CheckAccess :: "'ctx \<Rightarrow> RequestType \<Rightarrow> string \<Rightarrow> bool" where
  "allowall_CheckAccess ctx typ csid = True"

definition allowall_AllowedCloudServices :: "'ctx \<Rightarrow> bool \<times> string list" where
  "allowall_AllowedCloudServices ctx = (True, [])"

definition strategy_AllowAll :: "'ctx AuthorizationStrategy" where
  "strategy_AllowAll =
     \<lparr> az_CheckAccess = allowall_CheckAccess, az_AllowedCloudServices = allowall_AllowedCloudServices \<rparr>"

section \<open>The contract\<close>

locale authz_strategy =
  fixes az :: "'ctx AuthorizationStrategy"
  assumes check_iff_allowed:
    "az_CheckAccess az ctx typ csid \<longleftrightarrow>
       fst (az_AllowedCloudServices az ctx) \<or> csid \<in> set (snd (az_AllowedCloudServices az ctx))"
begin

lemma check_type_irrelevant: "az_CheckAccess az ctx typ csid = az_CheckAccess az ctx typ' csid"
  by (simp add: check_iff_allowed)

lemma in_allowed:
  "\<not> fst (az_AllowedCloudServices az ctx) \<Longrightarrow>
   csid \<in> set (snd (az_AllowedCloudServices az ctx)) \<longleftrightarrow> az_CheckAccess az ctx typ csid"
  by (simp add: check_iff_allowed)

text \<open>A row that passes the added fragment belongs to a service that may be accessed.\<close>

lemma allowed_column:
  assumes "\<not> fst (az_AllowedCloudServices az ctx)"
  shows "atom_holds env col (AIn c) (VStrs (snd (az_AllowedCloudServices az ctx))) \<longleftrightarrow>
    (\<exists>csid. col c = VStr csid \<and> az_CheckAccess az ctx typ csid)"
  using assms by (cases "col c") (auto simp: check_iff_allowed)

end

interpretation jwt: authz_strategy "strategy_JWT lib a"
  by unfold_locales (auto simp: strategy_JWT_def jwt_CheckAccess_def split_def)

interpretation allow_all: authz_strategy strategy_AllowAll
  by unfold_locales (simp add: strategy_AllowAll_def allowall_CheckAccess_def allowall_AllowedCloudServices_def)

lemma string_items_set: "s \<in> set (string_items l) \<longleftrightarrow> JString s \<in> set l"
  by (induction l rule: string_items.induct) auto

text \<open>The services that the strategy allows, in terms of the claims.\<close>

definition claims_grant :: "AuthorizationStrategyJWT \<Rightarrow> claims \<Rightarrow> string \<Rightarrow> bool" where
  "claims_grant a claims csid \<longleftrightarrow>
     claims (AllowAllKey a) = Some (JBool True) \<or> (\<exists>l. claims (CloudServicesKey a) = Some (JArray l) \<and> JString csid \<in> set l)"

lemma jwt_access_cases:
  "jwt_CheckAccess lib a ctx typ csid \<longleftrightarrow>
     (\<exists>c token claims. ctx = Some c \<and> AuthFromMD lib c = Ok token \<and> ParseUnverified lib token = Ok claims \<and> claims_grant a claims csid)"
  by (auto simp: jwt_CheckAccess_def jwt_AllowedCloudServices_def claims_grant_def string_items_set
      split: option.splits res.splits json.splits if_splits prod.splits)

text \<open>
  An instance of the token library, for examples: the token names the one cloud service that
  its owner may access.
\<close>

definition single_lib :: "string jwt_lib" where
  "single_lib = \<lparr> AuthFromMD = (\<lambda>c. Ok c),
     ParseUnverified = (\<lambda>t. Ok [''cloudserviceid'' \<mapsto> JArray [JString t]]) \<rparr>"

definition single_authz :: "string option AuthorizationStrategy" where
  "single_authz = strategy_JWT single_lib \<lparr> CloudServicesKey = ''cloudserviceid'', AllowAllKey = ''cladmin'' \<rparr>"

lemma single_authz_simps [simp]:
  "az_AllowedCloudServices single_authz (Some u) = (False, [u])"
  "az_CheckAccess single_authz (Some u) typ csid \<longleftrightarrow> csid = u"
  by (auto simp: single_authz_def strategy_JWT_def jwt_AllowedCloudServices_def jwt_CheckAccess_def single_lib_def)

interpretation single: authz_strategy single_authz
  unfolding single_authz_def by (rule jwt.authz_strategy_axioms)

lemma strategy_AllowAll_simps [simp]:
  "az_AllowedCloudServices strategy_AllowAll ctx = (True, [])"
  "az_CheckAccess strategy_AllowAll ctx typ csid"
  by (simp_all add: strategy_AllowAll_def allowall_CheckAccess_def allowall_AllowedCloudServices_def)

section \<open>Properties\<close>

text \<open>
  C26: the JWT strategy denies by default. A request passes if and only if there is a context
  with a bearer token whose claims can be parsed, and either the allow-all claim is exactly
  the boolean true or the cloud services claim is an array that has the requested id among its
  items, as a string. Every other shape of the claims (missing keys, a string instead of an
  array, numbers) denies access.
\<close>

theorem jwt_CheckAccess_iff:
  "jwt_CheckAccess lib a ctx typ csid \<longleftrightarrow>
     (\<exists>c token claims. ctx = Some c \<and> AuthFromMD lib c = Ok token \<and> ParseUnverified lib token = Ok claims \<and>
        (claims (AllowAllKey a) = Some (JBool True) \<or>
         (\<exists>l. claims (CloudServicesKey a) = Some (JArray l) \<and> JString csid \<in> set l)))"
  by (simp add: jwt_access_cases claims_grant_def)

end
