(* ===== verification/Orchestrator.thy ===== *)
theory Orchestrator
  imports Messages Pagination Authorization
begin

text \<open>
  The state of the orchestrator service (\<open>Service\<close> of src/service/orchestrator/orchestrator.go),
  its hooks, its background tasks and its event channel.

  The storage field is a record with one gorm handle per table over a shared database state.
  A \<open>go\<close> statement of a handler adds a task to \<open>o_tasks\<close>; \<open>orch_step\<close> runs any pending task
  or delivers an event to a subscriber, so the interleaving of the goroutines is arbitrary.
  Hook functions are outside the program: a hook is a number, and the model records the calls.
\<close>

section \<open>Tables\<close>

record 'db tables =
  tb_CloudService :: "(CloudService, 'db) gorm"
  tb_Metric :: "(Metric, 'db) gorm"
  tb_MetricConfiguration :: "(MetricConfiguration, 'db) gorm"
  tb_MetricImplementation :: "(MetricImplementation, 'db) gorm"
  tb_AssessmentResult :: "(AssessmentResult, 'db) gorm"
  tb_Catalog :: "(Catalog, 'db) gorm"
  tb_Category :: "(Category, 'db) gorm"
  tb_Control :: "(Control, 'db) gorm"
  tb_TargetOfEvaluation :: "(TargetOfEvaluation, 'db) gorm"
  tb_Certificate :: "(Certificate, 'db) gorm"
  tb_Resource :: "(Resource, 'db) gorm"
  tb_Evidence :: "(Evidence, 'db) gorm"
  tb_EvaluationResult :: "(EvaluationResult, 'db) gorm"

section \<open>The service\<close>

datatype 'ctx orch_task =
    InformHooks 'ctx "CloudService option" "go_error option"
  | InformToeHooks 'ctx TargetOfEvaluationChangeEvent "go_error option"
  | InformResultHook 'ctx "AssessmentResult option" "go_error option"
  | SendEvent MetricChangeEvent

datatype 'ctx hook_call =
    CloudServiceHook nat 'ctx "CloudService option" "go_error option"
  | ToeHook nat 'ctx TargetOfEvaluationChangeEvent "go_error option"
  | ResultHook nat 'ctx "AssessmentResult option" "go_error option"

record ('ctx, 'db) orch =
  o_cloudServiceHooks :: "nat list"
  o_toeHooks :: "nat list"
  o_AssessmentResultHooks :: "nat list"
  o_tables :: "'db tables"
  o_db :: 'db
  o_events :: "MetricChangeEvent list"
  o_authz :: "'ctx AuthorizationStrategy"
  o_defaultMetricConfigurations :: "string \<rightharpoonup> MetricConfiguration"
  o_tasks :: "'ctx orch_task list"
  o_calls :: "'ctx hook_call list"
  o_delivered :: "(nat \<times> MetricChangeEvent) list"

definition go_stmt :: "'ctx orch_task \<Rightarrow> ('ctx, 'db) orch \<Rightarrow> ('ctx, 'db) orch" where
  "go_stmt t s = s\<lparr>o_tasks := o_tasks s @ [t]\<rparr>"

text \<open>Capacity of the channel: \<open>make(chan *orchestrator.MetricChangeEvent, 1000)\<close>.\<close>

definition events_cap :: nat where
  "events_cap = 1000"

definition informHooks ::
  "'ctx \<Rightarrow> CloudService option \<Rightarrow> go_error option \<Rightarrow> ('ctx, 'db) orch \<Rightarrow> ('ctx, 'db) orch" where
  "informHooks ctx cld err s =
     s\<lparr>o_calls := o_calls s @ map (\<lambda>h. CloudServiceHook h ctx cld err) (o_cloudServiceHooks s)\<rparr>"

definition RegisterCloudServiceHook :: "nat \<Rightarrow> ('ctx, 'db) orch \<Rightarrow> ('ctx, 'db) orch" where
  "RegisterCloudServiceHook hook s = s\<lparr>o_cloudServiceHooks := o_cloudServiceHooks s @ [hook]\<rparr>"

definition informToeHooks ::
  "'ctx \<Rightarrow> TargetOfEvaluationChangeEvent \<Rightarrow> go_error option \<Rightarrow> ('ctx, 'db) orch \<Rightarrow> ('ctx, 'db) orch" where
  "informToeHooks ctx event err s =
     s\<lparr>o_calls := o_calls s @ map (\<lambda>h. ToeHook h ctx event err) (o_toeHooks s)\<rparr>"

definition RegisterToeHook :: "nat \<Rightarrow> ('ctx, 'db) orch \<Rightarrow> ('ctx, 'db) orch" where
  "RegisterToeHook hook s = s\<lparr>o_toeHooks := o_toeHooks s @ [hook]\<rparr>"

definition informHook ::
  "'ctx \<Rightarrow> AssessmentResult option \<Rightarrow> go_error option \<Rightarrow> ('ctx, 'db) orch \<Rightarrow> ('ctx, 'db) orch" where
  "informHook ctx result err s =
     s\<lparr>o_calls := o_calls s @ map (\<lambda>h. ResultHook h ctx result err) (o_AssessmentResultHooks s)\<rparr>"

definition RegisterAssessmentResultHook :: "nat \<Rightarrow> ('ctx, 'db) orch \<Rightarrow> ('ctx, 'db) orch" where
  "RegisterAssessmentResultHook hook s = s\<lparr>o_AssessmentResultHooks := o_AssessmentResultHooks s @ [hook]\<rparr>"

text \<open>\<open>svc.events <- e\<close>: blocks when the buffer is full.\<close>

definition send_event :: "MetricChangeEvent \<Rightarrow> ('ctx, 'db) orch \<Rightarrow> ('ctx, 'db) orch option" where
  "send_event e s =
     (if length (o_events s) < events_cap then Some (s\<lparr>o_events := o_events s @ [e]\<rparr>) else None)"

fun run_task :: "'ctx orch_task \<Rightarrow> ('ctx, 'db) orch \<Rightarrow> ('ctx, 'db) orch option" where
  "run_task (InformHooks ctx cld err) s = Some (informHooks ctx cld err s)"
| "run_task (InformToeHooks ctx event err) s = Some (informToeHooks ctx event err s)"
| "run_task (InformResultHook ctx result err) s = Some (informHook ctx result err s)"
| "run_task (SendEvent e) s = send_event e s"

text \<open>
  One round of the loop of \<open>SubscribeMetricChangeEvents\<close> for subscriber \<open>n\<close>: \<open>None\<close> blocks on
  the empty channel; otherwise the state and, if the loop ends, what the handler returns.
\<close>

definition subscribe_round ::
  "(nat \<Rightarrow> MetricChangeEvent \<Rightarrow> go_error option) \<Rightarrow> nat \<Rightarrow> ('ctx, 'db) orch \<Rightarrow>
   (('ctx, 'db) orch \<times> unit res option) option" where
  "subscribe_round send n s =
     (case o_events s of
        [] \<Rightarrow> None
      | event # rest \<Rightarrow>
          (let s' = s\<lparr>o_events := rest\<rparr>
           in case send n event of
                None \<Rightarrow> Some (s'\<lparr>o_delivered := o_delivered s' @ [(n, event)]\<rparr>, None)
              | Some err \<Rightarrow>
                  if errors_Is err EOF then Some (s', Some (Ok ()))
                  else Some (s', Some (Err (Status Unknown (''cannot stream response to the client: '' @ error_string err))))))"

section \<open>Interleaving of the background tasks\<close>

inductive orch_step ::
  "(nat \<Rightarrow> MetricChangeEvent \<Rightarrow> go_error option) \<Rightarrow> ('ctx, 'db) orch \<Rightarrow> ('ctx, 'db) orch \<Rightarrow> bool"
  for send where
  task: "o_tasks s = xs @ t # ys \<Longrightarrow> run_task t (s\<lparr>o_tasks := xs @ ys\<rparr>) = Some s' \<Longrightarrow> orch_step send s s'"
| deliver: "subscribe_round send n s = Some (s', r) \<Longrightarrow> orch_step send s s'"

inductive_cases orch_stepE: "orch_step send s s'"

inductive orch_run ::
  "(nat \<Rightarrow> MetricChangeEvent \<Rightarrow> go_error option) \<Rightarrow> ('ctx, 'db) orch \<Rightarrow> ('ctx, 'db) orch \<Rightarrow> bool"
  for send where
  run_refl: "orch_run send s s"
| run_step: "orch_run send s s' \<Longrightarrow> orch_step send s' s'' \<Longrightarrow> orch_run send s s''"

text \<open>The events that the service still has to deliver or has delivered.\<close>

fun task_event :: "'ctx orch_task \<Rightarrow> MetricChangeEvent list" where
  "task_event (SendEvent e) = [e]"
| "task_event t = []"

definition all_events :: "('ctx, 'db) orch \<Rightarrow> MetricChangeEvent multiset" where
  "all_events s = mset (concat (map task_event (o_tasks s))) + mset (o_events s) + mset (map snd (o_delivered s))"

lemma run_task_events:
  "run_task t s = Some s' \<Longrightarrow>
   o_tasks s' = o_tasks s \<and> o_delivered s' = o_delivered s \<and> o_db s' = o_db s \<and>
   o_events s' = o_events s @ task_event t"
  by (cases t) (auto simp: informHooks_def informToeHooks_def informHook_def send_event_def split: if_splits)

lemma run_task_cap:
  "run_task t s = Some s' \<Longrightarrow> length (o_events s) \<le> events_cap \<Longrightarrow> length (o_events s') \<le> events_cap"
  by (cases t) (auto simp: informHooks_def informToeHooks_def informHook_def send_event_def split: if_splits)

lemma step_events:
  assumes "orch_step send s s'" "\<forall>n e. send n e = None"
  shows "all_events s' = all_events s"
  using assms(1)
proof (rule orch_stepE)
  fix xs t ys
  assume "o_tasks s = xs @ t # ys" "run_task t (s\<lparr>o_tasks := xs @ ys\<rparr>) = Some s'"
  then show ?thesis
    using run_task_events [of t "s\<lparr>o_tasks := xs @ ys\<rparr>" s'] by (simp add: all_events_def)
next
  fix n r
  assume "subscribe_round send n s = Some (s', r)"
  then show ?thesis
    using assms(2) by (auto simp: subscribe_round_def all_events_def Let_def split: list.splits)
qed

lemma step_cap:
  "orch_step send s s' \<Longrightarrow> length (o_events s) \<le> events_cap \<Longrightarrow> length (o_events s') \<le> events_cap"
proof (erule orch_stepE)
  fix xs t ys
  assume "length (o_events s) \<le> events_cap" "run_task t (s\<lparr>o_tasks := xs @ ys\<rparr>) = Some s'"
  then show ?thesis using run_task_cap [of t "s\<lparr>o_tasks := xs @ ys\<rparr>" s'] by simp
next
  fix n r
  assume "length (o_events s) \<le> events_cap" "subscribe_round send n s = Some (s', r)"
  then show ?thesis by (auto simp: subscribe_round_def Let_def split: list.splits option.splits if_splits)
qed

text \<open>
  Progress: unless everything is done, some step is possible. A pending task can run or, when
  the channel is full, a subscriber can take an event.
\<close>

lemma step_possible:
  assumes "o_tasks s \<noteq> [] \<or> o_events s \<noteq> []"
  shows "\<exists>s'. orch_step send s s'"
proof (cases "o_events s")
  case (Cons e es)
  then have "\<exists>r. subscribe_round send 0 s = Some r"
    by (auto simp: subscribe_round_def Let_def split: option.split)
  then show ?thesis by (metis orch_step.deliver surj_pair)
next
  case Nil
  with assms obtain t ts where t: "o_tasks s = t # ts" by (cases "o_tasks s") auto
  have "\<exists>s'. run_task t (s\<lparr>o_tasks := ts\<rparr>) = Some s'"
    using Nil by (cases t) (simp_all add: send_event_def events_cap_def)
  then show ?thesis using orch_step.task [of s "[]" t ts] t by auto
qed

text \<open>Every run is finite: the measure drops with each step.\<close>

definition work_left :: "('ctx, 'db) orch \<Rightarrow> nat" where
  "work_left s = 2 * length (o_tasks s) + length (o_events s)"

lemma task_event_length: "length (task_event t) \<le> 1"
  by (cases t) auto

lemma step_work: "orch_step send s s' \<Longrightarrow> work_left s' < work_left s"
proof (erule orch_stepE)
  fix xs t ys
  assume "o_tasks s = xs @ t # ys" "run_task t (s\<lparr>o_tasks := xs @ ys\<rparr>) = Some s'"
  then show ?thesis
    using run_task_events [of t "s\<lparr>o_tasks := xs @ ys\<rparr>" s'] task_event_length [of t] by (simp add: work_left_def)
next
  fix n r
  assume "subscribe_round send n s = Some (s', r)"
  then show ?thesis
    by (auto simp: subscribe_round_def work_left_def Let_def split: list.splits option.splits if_splits)
qed

lemma run_trans: "orch_run send s' s'' \<Longrightarrow> orch_run send s s' \<Longrightarrow> orch_run send s s''"
  by (induction rule: orch_run.induct) (auto intro: orch_run.run_step)

lemma run_completes: "\<exists>s'. orch_run send s s' \<and> o_tasks s' = [] \<and> o_events s' = []"
proof (induction "work_left s" arbitrary: s rule: less_induct)
  case less
  show ?case
  proof (cases "o_tasks s = [] \<and> o_events s = []")
    case True
    then show ?thesis using orch_run.run_refl by blast
  next
    case False
    then obtain s1 where s1: "orch_step send s s1" using step_possible by blast
    with less obtain s' where "orch_run send s1 s'" "o_tasks s' = []" "o_events s' = []"
      using step_work by blast
    then show ?thesis using run_trans orch_run.run_step [OF orch_run.run_refl s1] by blast
  qed
qed

section \<open>An in-memory database\<close>

text \<open>
  One list per table, and the clock. \<open>like_match\<close> is SQL's \<open>LIKE\<close> with \<open>%\<close> and \<open>_\<close>.
\<close>

fun like_match :: "string \<Rightarrow> string \<Rightarrow> bool" where
  "like_match s [] = (s = [])"
| "like_match [] (p # ps) = (p = CHR ''%'' \<and> like_match [] ps)"
| "like_match (c # s) (p # ps) =
     (if p = CHR ''%'' then like_match (c # s) ps \<or> like_match s (p # ps)
      else (p = CHR ''_'' \<or> p = c) \<and> like_match s ps)"

record mem_db =
  md_CloudService :: "CloudService list"
  md_Metric :: "Metric list"
  md_MetricConfiguration :: "MetricConfiguration list"
  md_MetricImplementation :: "MetricImplementation list"
  md_AssessmentResult :: "AssessmentResult list"
  md_Catalog :: "Catalog list"
  md_Category :: "Category list"
  md_Control :: "Control list"
  md_TargetOfEvaluation :: "TargetOfEvaluation list"
  md_Certificate :: "Certificate list"
  md_Resource :: "Resource list"
  md_Evidence :: "Evidence list"
  md_EvaluationResult :: "EvaluationResult list"
  md_now :: timestamp

definition empty_db :: mem_db where
  "empty_db = \<lparr> md_CloudService = [], md_Metric = [], md_MetricConfiguration = [], md_MetricImplementation = [],
     md_AssessmentResult = [], md_Catalog = [], md_Category = [], md_Control = [], md_TargetOfEvaluation = [],
     md_Certificate = [], md_Resource = [], md_Evidence = [], md_EvaluationResult = [], md_now = 0 \<rparr>"

definition md_env :: "mem_db \<Rightarrow> sqlenv" where
  "md_env d = \<lparr> sql_now = md_now d, sql_like = like_match \<rparr>"

text \<open>Non-zero fields of an update overwrite the row (gorm's \<open>Updates\<close> with a struct).\<close>

definition ovr :: "'a \<Rightarrow> 'a \<Rightarrow> 'a \<Rightarrow> 'a" where
  "ovr zero new old = (if new = zero then old else new)"

definition metric_merge :: "Metric \<Rightarrow> Metric \<Rightarrow> Metric" where
  "metric_merge r x = \<lparr> m_Id = m_Id x, m_Name = ovr [] (m_Name r) (m_Name x),
     m_Description = ovr [] (m_Description r) (m_Description x), m_Category = ovr [] (m_Category r) (m_Category x),
     m_Scale = ovr SCALE_UNSPECIFIED (m_Scale r) (m_Scale x), m_Range = ovr None (m_Range r) (m_Range x),
     m_Interval = ovr 0 (m_Interval r) (m_Interval x),
     m_Implementation = ovr None (m_Implementation r) (m_Implementation x),
     m_DeprecatedSince = ovr None (m_DeprecatedSince r) (m_DeprecatedSince x) \<rparr>"

definition toe_merge :: "TargetOfEvaluation \<Rightarrow> TargetOfEvaluation \<Rightarrow> TargetOfEvaluation" where
  "toe_merge r x = x\<lparr>toe_AssuranceLevel := ovr None (toe_AssuranceLevel r) (toe_AssuranceLevel x)\<rparr>"

definition catalog_merge :: "Catalog \<Rightarrow> Catalog \<Rightarrow> Catalog" where
  "catalog_merge r x = \<lparr> ca_Id = ca_Id x, ca_Name = ovr [] (ca_Name r) (ca_Name x),
     ca_Description = ovr [] (ca_Description r) (ca_Description x),
     ca_Categories = ovr [] (ca_Categories r) (ca_Categories x), ca_AllInScope = ovr False (ca_AllInScope r) (ca_AllInScope x),
     ca_AssuranceLevels = ovr [] (ca_AssuranceLevels r) (ca_AssuranceLevels x),
     ca_ShortName = ovr [] (ca_ShortName r) (ca_ShortName x), ca_Color = ovr None (ca_Color r) (ca_Color x) \<rparr>"

definition mt_CloudService :: "(CloudService, mem_db) mem_table" where
  "mt_CloudService = \<lparr> mt_get = md_CloudService, mt_put = (\<lambda>xs d. d\<lparr>md_CloudService := xs\<rparr>),
     mt_key = cloud_service_key, mt_col = cloud_service_col, mt_merge = (\<lambda>r x. x), mt_env = md_env \<rparr>"

definition mt_Metric :: "(Metric, mem_db) mem_table" where
  "mt_Metric = \<lparr> mt_get = md_Metric, mt_put = (\<lambda>xs d. d\<lparr>md_Metric := xs\<rparr>),
     mt_key = metric_key, mt_col = metric_col, mt_merge = metric_merge, mt_env = md_env \<rparr>"

definition mt_MetricConfiguration :: "(MetricConfiguration, mem_db) mem_table" where
  "mt_MetricConfiguration = \<lparr> mt_get = md_MetricConfiguration, mt_put = (\<lambda>xs d. d\<lparr>md_MetricConfiguration := xs\<rparr>),
     mt_key = metric_config_key, mt_col = metric_config_col, mt_merge = (\<lambda>r x. x), mt_env = md_env \<rparr>"

definition mt_MetricImplementation :: "(MetricImplementation, mem_db) mem_table" where
  "mt_MetricImplementation = \<lparr> mt_get = md_MetricImplementation, mt_put = (\<lambda>xs d. d\<lparr>md_MetricImplementation := xs\<rparr>),
     mt_key = metric_impl_key, mt_col = metric_impl_col, mt_merge = (\<lambda>r x. x), mt_env = md_env \<rparr>"

definition mt_AssessmentResult :: "(AssessmentResult, mem_db) mem_table" where
  "mt_AssessmentResult = \<lparr> mt_get = md_AssessmentResult, mt_put = (\<lambda>xs d. d\<lparr>md_AssessmentResult := xs\<rparr>),
     mt_key = result_key, mt_col = result_col, mt_merge = (\<lambda>r x. x), mt_env = md_env \<rparr>"

definition mt_Catalog :: "(Catalog, mem_db) mem_table" where
  "mt_Catalog = \<lparr> mt_get = md_Catalog, mt_put = (\<lambda>xs d. d\<lparr>md_Catalog := xs\<rparr>),
     mt_key = catalog_key, mt_col = catalog_col, mt_merge = catalog_merge, mt_env = md_env \<rparr>"

definition mt_Category :: "(Category, mem_db) mem_table" where
  "mt_Category = \<lparr> mt_get = md_Category, mt_put = (\<lambda>xs d. d\<lparr>md_Category := xs\<rparr>),
     mt_key = category_key, mt_col = category_col, mt_merge = (\<lambda>r x. x), mt_env = md_env \<rparr>"

definition mt_Control :: "(Control, mem_db) mem_table" where
  "mt_Control = \<lparr> mt_get = md_Control, mt_put = (\<lambda>xs d. d\<lparr>md_Control := xs\<rparr>),
     mt_key = control_key, mt_col = control_col, mt_merge = (\<lambda>r x. x), mt_env = md_env \<rparr>"

definition mt_TargetOfEvaluation :: "(TargetOfEvaluation, mem_db) mem_table" where
  "mt_TargetOfEvaluation = \<lparr> mt_get = md_TargetOfEvaluation, mt_put = (\<lambda>xs d. d\<lparr>md_TargetOfEvaluation := xs\<rparr>),
     mt_key = toe_key, mt_col = toe_col, mt_merge = toe_merge, mt_env = md_env \<rparr>"

definition mt_Certificate :: "(Certificate, mem_db) mem_table" where
  "mt_Certificate = \<lparr> mt_get = md_Certificate, mt_put = (\<lambda>xs d. d\<lparr>md_Certificate := xs\<rparr>),
     mt_key = certificate_key, mt_col = certificate_col, mt_merge = (\<lambda>r x. x), mt_env = md_env \<rparr>"

definition mt_Resource :: "(Resource, mem_db) mem_table" where
  "mt_Resource = \<lparr> mt_get = md_Resource, mt_put = (\<lambda>xs d. d\<lparr>md_Resource := xs\<rparr>),
     mt_key = resource_key, mt_col = resource_col, mt_merge = (\<lambda>r x. x), mt_env = md_env \<rparr>"

definition mt_Evidence :: "(Evidence, mem_db) mem_table" where
  "mt_Evidence = \<lparr> mt_get = md_Evidence, mt_put = (\<lambda>xs d. d\<lparr>md_Evidence := xs\<rparr>),
     mt_key = evidence_key, mt_col = evidence_col, mt_merge = (\<lambda>r x. x), mt_env = md_env \<rparr>"

definition mt_EvaluationResult :: "(EvaluationResult, mem_db) mem_table" where
  "mt_EvaluationResult = \<lparr> mt_get = md_EvaluationResult, mt_put = (\<lambda>xs d. d\<lparr>md_EvaluationResult := xs\<rparr>),
     mt_key = eval_key, mt_col = eval_col, mt_merge = (\<lambda>r x. x), mt_env = md_env \<rparr>"

definition mem_tables :: "mem_db tables" where
  "mem_tables = \<lparr> tb_CloudService = mem_gorm mt_CloudService, tb_Metric = mem_gorm mt_Metric,
     tb_MetricConfiguration = mem_gorm mt_MetricConfiguration, tb_MetricImplementation = mem_gorm mt_MetricImplementation,
     tb_AssessmentResult = mem_gorm mt_AssessmentResult, tb_Catalog = mem_gorm mt_Catalog,
     tb_Category = mem_gorm mt_Category, tb_Control = mem_gorm mt_Control,
     tb_TargetOfEvaluation = mem_gorm mt_TargetOfEvaluation, tb_Certificate = mem_gorm mt_Certificate,
     tb_Resource = mem_gorm mt_Resource, tb_Evidence = mem_gorm mt_Evidence,
     tb_EvaluationResult = mem_gorm mt_EvaluationResult \<rparr>"

lemmas mt_defs = mt_CloudService_def mt_Metric_def mt_MetricConfiguration_def mt_MetricImplementation_def
  mt_AssessmentResult_def mt_Catalog_def mt_Category_def mt_Control_def mt_TargetOfEvaluation_def
  mt_Certificate_def mt_Resource_def mt_Evidence_def mt_EvaluationResult_def

lemma mem_ok_tables:
  "mem_ok mt_CloudService" "mem_ok mt_Metric" "mem_ok mt_MetricConfiguration" "mem_ok mt_MetricImplementation"
  "mem_ok mt_AssessmentResult" "mem_ok mt_Catalog" "mem_ok mt_Category" "mem_ok mt_Control"
  "mem_ok mt_TargetOfEvaluation" "mem_ok mt_Certificate" "mem_ok mt_Resource" "mem_ok mt_Evidence"
  "mem_ok mt_EvaluationResult"
  by (simp_all add: mem_ok_def mt_defs key_defs metric_merge_def toe_merge_def catalog_merge_def)

interpretation mem_cloud_service: gorm_table "mem_gorm mt_CloudService" "mem_sem mt_CloudService"
  by (rule mem_gorm_table) (rule mem_ok_tables)

interpretation mem_metric: gorm_table "mem_gorm mt_Metric" "mem_sem mt_Metric"
  by (rule mem_gorm_table) (rule mem_ok_tables)

interpretation mem_metric_config: gorm_table "mem_gorm mt_MetricConfiguration" "mem_sem mt_MetricConfiguration"
  by (rule mem_gorm_table) (rule mem_ok_tables)

interpretation mem_metric_impl: gorm_table "mem_gorm mt_MetricImplementation" "mem_sem mt_MetricImplementation"
  by (rule mem_gorm_table) (rule mem_ok_tables)

interpretation mem_result: gorm_table "mem_gorm mt_AssessmentResult" "mem_sem mt_AssessmentResult"
  by (rule mem_gorm_table) (rule mem_ok_tables)

interpretation mem_catalog: gorm_table "mem_gorm mt_Catalog" "mem_sem mt_Catalog"
  by (rule mem_gorm_table) (rule mem_ok_tables)

interpretation mem_category: gorm_table "mem_gorm mt_Category" "mem_sem mt_Category"
  by (rule mem_gorm_table) (rule mem_ok_tables)

interpretation mem_control: gorm_table "mem_gorm mt_Control" "mem_sem mt_Control"
  by (rule mem_gorm_table) (rule mem_ok_tables)

interpretation mem_toe: gorm_table "mem_gorm mt_TargetOfEvaluation" "mem_sem mt_TargetOfEvaluation"
  by (rule mem_gorm_table) (rule mem_ok_tables)

interpretation mem_certificate: gorm_table "mem_gorm mt_Certificate" "mem_sem mt_Certificate"
  by (rule mem_gorm_table) (rule mem_ok_tables)

interpretation mem_resource: gorm_table "mem_gorm mt_Resource" "mem_sem mt_Resource"
  by (rule mem_gorm_table) (rule mem_ok_tables)

interpretation mem_evidence: gorm_table "mem_gorm mt_Evidence" "mem_sem mt_Evidence"
  by (rule mem_gorm_table) (rule mem_ok_tables)

interpretation mem_eval: gorm_table "mem_gorm mt_EvaluationResult" "mem_sem mt_EvaluationResult"
  by (rule mem_gorm_table) (rule mem_ok_tables)

lemma mem_schema [simp]:
  "has_schema (mem_sem mt_CloudService) cloud_service_key cloud_service_col"
  "has_schema (mem_sem mt_Metric) metric_key metric_col"
  "has_schema (mem_sem mt_MetricConfiguration) metric_config_key metric_config_col"
  "has_schema (mem_sem mt_MetricImplementation) metric_impl_key metric_impl_col"
  "has_schema (mem_sem mt_AssessmentResult) result_key result_col"
  "has_schema (mem_sem mt_Catalog) catalog_key catalog_col"
  "has_schema (mem_sem mt_Category) category_key category_col"
  "has_schema (mem_sem mt_Control) control_key control_col"
  "has_schema (mem_sem mt_TargetOfEvaluation) toe_key toe_col"
  "has_schema (mem_sem mt_Certificate) certificate_key certificate_col"
  "has_schema (mem_sem mt_Resource) resource_key resource_col"
  "has_schema (mem_sem mt_Evidence) evidence_key evidence_col"
  "has_schema (mem_sem mt_EvaluationResult) eval_key eval_col"
  by (simp_all add: has_schema_def mt_defs)

lemma mt_list_tables [simp]:
  "mt_list mt_CloudService d = dedup cloud_service_key (md_CloudService d)"
  "mt_list mt_Metric d = dedup metric_key (md_Metric d)"
  "mt_list mt_MetricConfiguration d = dedup metric_config_key (md_MetricConfiguration d)"
  "mt_list mt_MetricImplementation d = dedup metric_impl_key (md_MetricImplementation d)"
  "mt_list mt_AssessmentResult d = dedup result_key (md_AssessmentResult d)"
  "mt_list mt_Catalog d = dedup catalog_key (md_Catalog d)"
  "mt_list mt_Category d = dedup category_key (md_Category d)"
  "mt_list mt_Control d = dedup control_key (md_Control d)"
  "mt_list mt_TargetOfEvaluation d = dedup toe_key (md_TargetOfEvaluation d)"
  "mt_list mt_Certificate d = dedup certificate_key (md_Certificate d)"
  "mt_list mt_Resource d = dedup resource_key (md_Resource d)"
  "mt_list mt_Evidence d = dedup evidence_key (md_Evidence d)"
  "mt_list mt_EvaluationResult d = dedup eval_key (md_EvaluationResult d)"
  by (simp_all add: mt_list_def mt_defs)

lemma mt_holds_tables [simp]:
  "mt_holds mt_CloudService d cs r1 = conds_hold (md_env d) (cloud_service_col r1) (pk_val (cloud_service_key r1)) cs"
  "mt_holds mt_Metric d cs r2 = conds_hold (md_env d) (metric_col r2) (pk_val (metric_key r2)) cs"
  "mt_holds mt_MetricConfiguration d cs r3 = conds_hold (md_env d) (metric_config_col r3) (pk_val (metric_config_key r3)) cs"
  "mt_holds mt_MetricImplementation d cs r4 = conds_hold (md_env d) (metric_impl_col r4) (pk_val (metric_impl_key r4)) cs"
  "mt_holds mt_AssessmentResult d cs r5 = conds_hold (md_env d) (result_col r5) (pk_val (result_key r5)) cs"
  "mt_holds mt_Catalog d cs r6 = conds_hold (md_env d) (catalog_col r6) (pk_val (catalog_key r6)) cs"
  "mt_holds mt_Category d cs r7 = conds_hold (md_env d) (category_col r7) (pk_val (category_key r7)) cs"
  "mt_holds mt_Control d cs r8 = conds_hold (md_env d) (control_col r8) (pk_val (control_key r8)) cs"
  "mt_holds mt_TargetOfEvaluation d cs r9 = conds_hold (md_env d) (toe_col r9) (pk_val (toe_key r9)) cs"
  "mt_holds mt_Certificate d cs r10 = conds_hold (md_env d) (certificate_col r10) (pk_val (certificate_key r10)) cs"
  "mt_holds mt_Resource d cs r11 = conds_hold (md_env d) (resource_col r11) (pk_val (resource_key r11)) cs"
  "mt_holds mt_Evidence d cs r12 = conds_hold (md_env d) (evidence_col r12) (pk_val (evidence_key r12)) cs"
  "mt_holds mt_EvaluationResult d cs r13 = conds_hold (md_env d) (eval_col r13) (pk_val (eval_key r13)) cs"
  by (simp_all add: mt_holds_def mt_defs)

lemma empty_db_simps [simp]:
  "md_CloudService empty_db = []"
  "md_Metric empty_db = []"
  "md_MetricConfiguration empty_db = []"
  "md_MetricImplementation empty_db = []"
  "md_AssessmentResult empty_db = []"
  "md_Catalog empty_db = []"
  "md_Category empty_db = []"
  "md_Control empty_db = []"
  "md_TargetOfEvaluation empty_db = []"
  "md_Certificate empty_db = []"
  "md_Resource empty_db = []"
  "md_Evidence empty_db = []"
  "md_EvaluationResult empty_db = []"
  by (simp_all add: empty_db_def)

text \<open>A fresh service on the in-memory database.\<close>

definition new_orch :: "'ctx AuthorizationStrategy \<Rightarrow> mem_db \<Rightarrow> ('ctx, mem_db) orch" where
  "new_orch az d = \<lparr> o_cloudServiceHooks = [], o_toeHooks = [], o_AssessmentResultHooks = [], o_tables = mem_tables,
     o_db = d, o_events = [], o_authz = az, o_defaultMetricConfigurations = Map.empty, o_tasks = [], o_calls = [],
     o_delivered = [] \<rparr>"

lemma new_orch_simps [simp]:
  "o_tables (new_orch az d) = mem_tables" "o_db (new_orch az d) = d" "o_authz (new_orch az d) = az"
  "o_tasks (new_orch az d) = []" "o_events (new_orch az d) = []"
  "o_defaultMetricConfigurations (new_orch az d) = Map.empty"
  by (simp_all add: new_orch_def)

lemma mem_tables_simps [simp]:
  "tb_CloudService mem_tables = mem_gorm mt_CloudService" "tb_Metric mem_tables = mem_gorm mt_Metric"
  "tb_MetricConfiguration mem_tables = mem_gorm mt_MetricConfiguration"
  "tb_MetricImplementation mem_tables = mem_gorm mt_MetricImplementation"
  "tb_AssessmentResult mem_tables = mem_gorm mt_AssessmentResult" "tb_Catalog mem_tables = mem_gorm mt_Catalog"
  "tb_Category mem_tables = mem_gorm mt_Category" "tb_Control mem_tables = mem_gorm mt_Control"
  "tb_TargetOfEvaluation mem_tables = mem_gorm mt_TargetOfEvaluation"
  "tb_Certificate mem_tables = mem_gorm mt_Certificate" "tb_Resource mem_tables = mem_gorm mt_Resource"
  "tb_Evidence mem_tables = mem_gorm mt_Evidence" "tb_EvaluationResult mem_tables = mem_gorm mt_EvaluationResult"
  by (simp_all add: mem_tables_def)

lemma go_stmt_simps [simp]:
  "o_db (go_stmt t s) = o_db s" "o_tables (go_stmt t s) = o_tables s" "o_authz (go_stmt t s) = o_authz s"
  "o_tasks (go_stmt t s) = o_tasks s @ [t]" "o_events (go_stmt t s) = o_events s"
  "o_defaultMetricConfigurations (go_stmt t s) = o_defaultMetricConfigurations s"
  by (simp_all add: go_stmt_def)

end
