(* ===== verification/Orch_CloudService.thy ===== *)
theory Orch_CloudService
  imports Orchestrator
begin

text \<open>
  The cloud service handlers of the orchestrator
  (src/service/orchestrator/cloud_service.go): registration, lookup, listing, update, removal,
  statistics and the creation of the default service. The current time and the fresh
  identifier (\<open>timestamppb.Now\<close>, \<open>uuid.NewString\<close>) are arguments.
\<close>

section \<open>Requests\<close>

record RegisterCloudServiceRequest =
  rcs_CloudService :: "CloudService option"

record GetCloudServiceRequest =
  gcs_CloudServiceId :: string

record UpdateCloudServiceRequest =
  ucs_CloudService :: "CloudService option"

record RemoveCloudServiceRequest =
  dcs_CloudServiceId :: string

record GetCloudServiceStatisticsRequest =
  gst_CloudServiceId :: string

record GetCloudServiceStatisticsResponse =
  gst_NumberOfDiscoveredResources :: int
  gst_NumberOfAssessmentResults :: int
  gst_NumberOfEvidences :: int
  gst_NumberOfSelectedCatalogs :: int

text \<open>\<open>GetCloudServiceId\<close> of the update request; the getter of a nil message returns the empty string.\<close>

definition ucs_GetCloudServiceId :: "UpdateCloudServiceRequest \<Rightarrow> string" where
  "ucs_GetCloudServiceId req = (case ucs_CloudService req of None \<Rightarrow> [] | Some c \<Rightarrow> cs_Id c)"

definition empty_CloudService :: CloudService where
  "empty_CloudService = \<lparr> cs_Id = [], cs_Name = [], cs_Description = [], cs_CatalogsInScope = [],
     cs_ConfiguredMetrics = [], cs_CreatedAt = None, cs_UpdatedAt = None, cs_Metadata = None \<rparr>"

section \<open>Handlers\<close>

definition new_cloud_service :: "string \<Rightarrow> timestamp \<Rightarrow> CloudService \<Rightarrow> CloudService" where
  "new_cloud_service uuid now c = empty_CloudService
     \<lparr> cs_Id := uuid, cs_Name := cs_Name c, cs_Description := cs_Description c,
       cs_CreatedAt := Some now, cs_UpdatedAt := Some now,
       cs_Metadata := Some (case cs_Metadata c of
           None \<Rightarrow> \<lparr> csm_Labels = [], csm_Icon = None \<rparr>
         | Some m \<Rightarrow> \<lparr> csm_Labels = csm_Labels m, csm_Icon = csm_Icon m \<rparr>) \<rparr>"

definition RegisterCloudService ::
  "RegisterCloudServiceRequest validator \<Rightarrow> string \<Rightarrow> timestamp \<Rightarrow> 'ctx \<Rightarrow> RegisterCloudServiceRequest option \<Rightarrow>
   ('ctx, 'db) orch \<Rightarrow> CloudService res \<times> ('ctx, 'db) orch" where
  "RegisterCloudService v uuid now ctx req s =
     (case Validate v req of
        Err err \<Rightarrow> (Err err, s)
      | Panic \<Rightarrow> (Panic, s)
      | Ok req \<Rightarrow>
          (case rcs_CloudService req of
             None \<Rightarrow> (Panic, s)
           | Some c \<Rightarrow>
               (let res = new_cloud_service uuid now c
                in case storage_Create (tb_CloudService (o_tables s)) res (o_db s) of
                     (Ok _, d) \<Rightarrow> (Ok res, go_stmt (InformHooks ctx (Some res) None) (s\<lparr>o_db := d\<rparr>))
                   | (Err err, d) \<Rightarrow>
                       (Err (Status Internal (''could not add cloud service to the database: '' @ error_string err)),
                        s\<lparr>o_db := d\<rparr>)
                   | (Panic, d) \<Rightarrow> (Panic, s\<lparr>o_db := d\<rparr>))))"

definition ListCloudServices ::
  "proto_lib \<Rightarrow> PaginatedRequest validator \<Rightarrow> 'ctx \<Rightarrow> PaginatedRequest option \<Rightarrow> ('ctx, 'db) orch \<Rightarrow>
   (CloudService list \<times> string) res" where
  "ListCloudServices pb v ctx req s =
     (case Validate v req of
        Err err \<Rightarrow> Err err
      | Panic \<Rightarrow> Panic
      | Ok req \<Rightarrow>
          (let (all, allowed) = az_AllowedCloudServices (o_authz s) ctx;
               conds = (if \<not> all then [CVal (VStrs allowed)] else [])
           in case PaginateStorage pb req (tb_CloudService (o_tables s)) DefaultPaginationOpts conds (o_db s) of
                Err err \<Rightarrow> Err (Status Internal (''could not paginate results: '' @ error_string err))
              | r \<Rightarrow> r))"

definition GetCloudService ::
  "GetCloudServiceRequest validator \<Rightarrow> 'ctx \<Rightarrow> GetCloudServiceRequest option \<Rightarrow> ('ctx, 'db) orch \<Rightarrow> CloudService res" where
  "GetCloudService v ctx req s =
     (case Validate v req of
        Err err \<Rightarrow> Err err
      | Panic \<Rightarrow> Panic
      | Ok req \<Rightarrow>
          if \<not> az_CheckAccess (o_authz s) ctx AccessRead (gcs_CloudServiceId req) then Err ErrPermissionDenied
          else (case storage_Get (tb_CloudService (o_tables s)) (cond_eq ''Id'' (gcs_CloudServiceId req)) (o_db s) of
                  Err err \<Rightarrow>
                    if errors_Is err ErrRecordNotFound then Err (Status NotFound ''service not found'')
                    else Err (database_error err)
                | r \<Rightarrow> r))"

definition UpdateCloudService ::
  "UpdateCloudServiceRequest validator \<Rightarrow> timestamp \<Rightarrow> 'ctx \<Rightarrow> UpdateCloudServiceRequest option \<Rightarrow>
   ('ctx, 'db) orch \<Rightarrow> CloudService res \<times> ('ctx, 'db) orch" where
  "UpdateCloudService v now ctx req s =
     (case Validate v req of
        Err err \<Rightarrow> (Err err, s)
      | Panic \<Rightarrow> (Panic, s)
      | Ok req \<Rightarrow>
          if \<not> az_CheckAccess (o_authz s) ctx AccessUpdate (ucs_GetCloudServiceId req) then (Err ErrPermissionDenied, s)
          else (case ucs_CloudService req of
             None \<Rightarrow> (Panic, s)
           | Some c \<Rightarrow>
               (case storage_Count (tb_CloudService (o_tables s)) (cond_eq ''id'' (cs_Id c)) (o_db s) of
                  Err err \<Rightarrow> (Err (database_error err), s)
                | Panic \<Rightarrow> (Panic, s)
                | Ok n \<Rightarrow>
                    if n = 0 then (Err (Status NotFound ''service not found''), s)
                    else
                      (let res = c\<lparr>cs_UpdatedAt := Some now\<rparr>
                       in case storage_Save (tb_CloudService (o_tables s)) res (cond_eq ''Id'' (cs_Id c)) (o_db s) of
                            (Ok _, d) \<Rightarrow> (Ok res, go_stmt (InformHooks ctx (Some res) None) (s\<lparr>o_db := d\<rparr>))
                          | (Err err, d) \<Rightarrow> (Err (database_error err), s\<lparr>o_db := d\<rparr>)
                          | (Panic, d) \<Rightarrow> (Panic, s\<lparr>o_db := d\<rparr>)))))"

definition RemoveCloudService ::
  "RemoveCloudServiceRequest validator \<Rightarrow> 'ctx \<Rightarrow> RemoveCloudServiceRequest option \<Rightarrow> ('ctx, 'db) orch \<Rightarrow>
   unit res \<times> ('ctx, 'db) orch" where
  "RemoveCloudService v ctx req s =
     (case Validate v req of
        Err err \<Rightarrow> (Err err, s)
      | Panic \<Rightarrow> (Panic, s)
      | Ok req \<Rightarrow>
          if \<not> az_CheckAccess (o_authz s) ctx AccessDelete (dcs_CloudServiceId req) then (Err ErrPermissionDenied, s)
          else (case storage_Delete (tb_CloudService (o_tables s))
                       (empty_CloudService\<lparr>cs_Id := dcs_CloudServiceId req\<rparr>) [] (o_db s) of
                  (Ok _, d) \<Rightarrow> (Ok (), go_stmt (InformHooks ctx None None) (s\<lparr>o_db := d\<rparr>))
                | (Err err, d) \<Rightarrow>
                    if errors_Is err ErrRecordNotFound then (Err (Status NotFound ''service not found''), s\<lparr>o_db := d\<rparr>)
                    else (Err (database_error err), s\<lparr>o_db := d\<rparr>)
                | (Panic, d) \<Rightarrow> (Panic, s\<lparr>o_db := d\<rparr>)))"

definition GetCloudServiceStatistics ::
  "GetCloudServiceStatisticsRequest validator \<Rightarrow> 'ctx \<Rightarrow> GetCloudServiceStatisticsRequest option \<Rightarrow>
   ('ctx, 'db) orch \<Rightarrow> GetCloudServiceStatisticsResponse res" where
  "GetCloudServiceStatistics v ctx req s =
     (case Validate v req of
        Err err \<Rightarrow> Err err
      | Panic \<Rightarrow> Panic
      | Ok req \<Rightarrow>
          (let csid = gst_CloudServiceId req; tb = o_tables s; d = o_db s
           in if \<not> az_CheckAccess (o_authz s) ctx AccessRead csid then Err ErrPermissionDenied
              else (case storage_Get (tb_CloudService tb) (cond_eq ''Id'' csid) d of
                Err err \<Rightarrow>
                  if errors_Is err ErrRecordNotFound then Err (Status NotFound ''service not found'')
                  else Err (Status Internal (''database error getting cloud service: '' @ error_string err))
              | Panic \<Rightarrow> Panic
              | Ok cloudService \<Rightarrow>
                (case storage_Count (tb_Resource tb) (cond_eq ''cloud_service_id'' csid) d of
                  Err err \<Rightarrow> Err (Status Internal (''database error counting resources: '' @ error_string err))
                | Panic \<Rightarrow> Panic
                | Ok resources \<Rightarrow>
                  (case storage_Count (tb_Evidence tb) (cond_eq ''cloud_service_id'' csid) d of
                    Err err \<Rightarrow> Err (Status Internal (''database error counting evidences: '' @ error_string err))
                  | Panic \<Rightarrow> Panic
                  | Ok evidences \<Rightarrow>
                    (case storage_Count (tb_AssessmentResult tb) (cond_eq ''cloud_service_id'' csid) d of
                      Err err \<Rightarrow>
                        Err (Status Internal (''database error counting assessment results: '' @ error_string err))
                    | Panic \<Rightarrow> Panic
                    | Ok results \<Rightarrow>
                        Ok \<lparr> gst_NumberOfDiscoveredResources = resources, gst_NumberOfAssessmentResults = results,
                             gst_NumberOfEvidences = evidences,
                             gst_NumberOfSelectedCatalogs = int (length (cs_CatalogsInScope cloudService)) \<rparr>))))))"

definition DefaultTargetCloudServiceId :: string where
  "DefaultTargetCloudServiceId = ''00000000-0000-0000-0000-000000000000''"

definition CreateDefaultTargetCloudService ::
  "timestamp \<Rightarrow> ('ctx, 'db) orch \<Rightarrow> CloudService option res \<times> ('ctx, 'db) orch" where
  "CreateDefaultTargetCloudService now s =
     (case storage_Count (tb_CloudService (o_tables s)) [] (o_db s) of
        Err err \<Rightarrow> (Err (Wrap ''storage error: '' err), s)
      | Panic \<Rightarrow> (Panic, s)
      | Ok n \<Rightarrow>
          if n = 0 then
            (let service = empty_CloudService\<lparr> cs_Id := DefaultTargetCloudServiceId, cs_Name := ''default'',
                   cs_Description := ''The default target cloud service'', cs_CreatedAt := Some now, cs_UpdatedAt := Some now \<rparr>
             in case storage_Create (tb_CloudService (o_tables s)) service (o_db s) of
                  (Ok _, d) \<Rightarrow> (Ok (Some service), s\<lparr>o_db := d\<rparr>)
                | (Err err, d) \<Rightarrow> (Err (Wrap ''storage error: '' err), s\<lparr>o_db := d\<rparr>)
                | (Panic, d) \<Rightarrow> (Panic, s\<lparr>o_db := d\<rparr>))
          else (Ok None, s))"

section \<open>Lookup\<close>

lemma cs_key_conds:
  "has_schema T cloud_service_key cloud_service_col \<Longrightarrow> key_conds T d (cond_eq ''Id'' k) [k]"
  "has_schema T cloud_service_key cloud_service_col \<Longrightarrow> key_conds T d (cond_eq ''id'' k) [k]"
  by (auto simp: key_conds_def holds_eq has_schema_def cloud_service_key_def cloud_service_col_def)

text \<open>\<open>GetCloudService\<close> on a database that can be read, with access granted.\<close>

lemma GetCloudService_result:
  assumes "gorm_table (tb_CloudService (o_tables s)) T" "has_schema T cloud_service_key cloud_service_col"
    "available (tb_CloudService (o_tables s)) (o_db s)" "v req = None"
    "az_CheckAccess (o_authz s) ctx AccessRead (gcs_CloudServiceId req)"
  shows "r \<in> t_rows T (o_db s) \<Longrightarrow> cs_Id r = gcs_CloudServiceId req \<Longrightarrow>
      GetCloudService v ctx (Some req) s = Ok (t_load T PreloadAssociations (o_db s) r)"
    and "gcs_CloudServiceId req \<notin> cs_Id ` t_rows T (o_db s) \<Longrightarrow>
      GetCloudService v ctx (Some req) s = Err (Status NotFound ''service not found'')"
proof -
  note key = cs_key_conds(1) [OF assms(2), of "o_db s" "gcs_CloudServiceId req"]
  have k: "t_key T = (\<lambda>r. [cs_Id r])"
    using assms(2) by (auto simp: has_schema_def cloud_service_key_def)
  show "r \<in> t_rows T (o_db s) \<Longrightarrow> cs_Id r = gcs_CloudServiceId req \<Longrightarrow>
      GetCloudService v ctx (Some req) s = Ok (t_load T PreloadAssociations (o_db s) r)"
    using gorm_table.Get_hit [OF assms(1,3) _ key] assms(4,5) by (simp add: GetCloudService_def k)
  show "gcs_CloudServiceId req \<notin> cs_Id ` t_rows T (o_db s) \<Longrightarrow>
      GetCloudService v ctx (Some req) s = Err (Status NotFound ''service not found'')"
    using gorm_table.Get_miss [OF assms(1,3) _ key, of "cond_eq ''Id'' (gcs_CloudServiceId req)"] assms(4,5)
    by (auto simp: GetCloudService_def k)
qed

text \<open>What a registration leaves behind.\<close>

lemma RegisterCloudService_Ok:
  assumes "gorm_table (tb_CloudService (o_tables s)) T" "rcs_CloudService req = Some c0"
    "RegisterCloudService v uuid now ctx (Some req) s = (Ok c, s')"
  shows "c = new_cloud_service uuid now c0" "t_rows T (o_db s') = insert c (t_rows T (o_db s))"
    "o_tables s' = o_tables s" "o_authz s' = o_authz s" "o_tasks s' = o_tasks s @ [InformHooks ctx (Some c) None]"
proof -
  from assms(2,3) obtain d where c: "c = new_cloud_service uuid now c0"
    and cr: "storage_Create (tb_CloudService (o_tables s)) c (o_db s) = (Ok (), d)"
    and s': "s' = go_stmt (InformHooks ctx (Some c) None) (s\<lparr>o_db := d\<rparr>)"
    by (auto simp: RegisterCloudService_def Let_def split: res.splits prod.splits)
  show "c = new_cloud_service uuid now c0" by (fact c)
  show "t_rows T (o_db s') = insert c (t_rows T (o_db s))"
    using gorm_table.st_Create_Ok [OF assms(1) cr] by (simp add: s')
  show "o_tables s' = o_tables s" "o_authz s' = o_authz s" "o_tasks s' = o_tasks s @ [InformHooks ctx (Some c) None]"
    by (simp_all add: s')
qed

lemma load_fields:
  assumes "gorm_table g T" "has_schema T cloud_service_key cloud_service_col"
  shows "cs_Id (t_load T p d r) = cs_Id r" "cs_Name (t_load T p d r) = cs_Name r"
    "cs_Description (t_load T p d r) = cs_Description r"
proof -
  have col: "cloud_service_col (t_load T p d r) = cloud_service_col r"
    using gorm_table.load_col [OF assms(1)] assms(2) by (simp add: has_schema_def)
  show "cs_Id (t_load T p d r) = cs_Id r" using fun_cong [OF col, of "''id''"] by (simp add: cloud_service_col_def)
  show "cs_Name (t_load T p d r) = cs_Name r" using fun_cong [OF col, of "''name''"] by (simp add: cloud_service_col_def)
  show "cs_Description (t_load T p d r) = cs_Description r"
    using fun_cong [OF col, of "''description''"] by (simp add: cloud_service_col_def)
qed

section \<open>Properties\<close>

text \<open>
  A registered cloud service can be looked up. After \<open>RegisterCloudService\<close> succeeds,
  \<open>GetCloudService\<close> with the new identifier returns, for every context with access, a service with
  that identifier and the registered name and description; exactly one new row exists and the
  registration hooks are scheduled.
\<close>

lemma Register_then_Get:
  assumes "gorm_table (tb_CloudService (o_tables s)) T" "has_schema T cloud_service_key cloud_service_col"
    "rcs_CloudService req = Some c0"
    "RegisterCloudService v uuid now ctx (Some req) s = (Ok c, s')"
    "available (tb_CloudService (o_tables s)) (o_db s')"
    "v' \<lparr> gcs_CloudServiceId = uuid \<rparr> = None" "az_CheckAccess (o_authz s) ctx' AccessRead uuid"
  shows "(\<exists>c'. GetCloudService v' ctx' (Some \<lparr> gcs_CloudServiceId = uuid \<rparr>) s' = Ok c' \<and>
      cs_Id c' = uuid \<and> cs_Name c' = cs_Name c0 \<and> cs_Description c' = cs_Description c0) \<and>
    t_rows T (o_db s') = insert c (t_rows T (o_db s)) \<and> o_tasks s' = o_tasks s @ [InformHooks ctx (Some c) None]"
proof -
  note reg = RegisterCloudService_Ok [OF assms(1,3,4)]
  have "GetCloudService v' ctx' (Some \<lparr> gcs_CloudServiceId = uuid \<rparr>) s'
      = Ok (t_load T PreloadAssociations (o_db s') c)"
    using assms(1,2,5-7) reg
    by (intro GetCloudService_result(1)) (simp_all add: new_cloud_service_def)
  then show ?thesis
    using load_fields [OF assms(1,2)] reg(2,5) by (simp add: reg(1) new_cloud_service_def empty_CloudService_def)
qed

text \<open>
  After \<open>RemoveCloudService\<close> succeeds, the service was there before and is gone: a lookup
  answers \<open>NotFound\<close>, and every other service is untouched.
\<close>

lemma Remove_then_Get:
  assumes "gorm_table (tb_CloudService (o_tables s)) T" "has_schema T cloud_service_key cloud_service_col"
    "RemoveCloudService v ctx (Some req) s = (Ok u, s')"
    "available (tb_CloudService (o_tables s)) (o_db s')"
    "v' \<lparr> gcs_CloudServiceId = dcs_CloudServiceId req \<rparr> = None"
    "az_CheckAccess (o_authz s) ctx' AccessRead (dcs_CloudServiceId req)"
  shows "GetCloudService v' ctx' (Some \<lparr> gcs_CloudServiceId = dcs_CloudServiceId req \<rparr>) s'
      = Err (Status NotFound ''service not found'') \<and>
    dcs_CloudServiceId req \<in> cs_Id ` t_rows T (o_db s) \<and>
    t_rows T (o_db s') = {c \<in> t_rows T (o_db s). cs_Id c \<noteq> dcs_CloudServiceId req}"
proof -
  let ?r = "empty_CloudService\<lparr>cs_Id := dcs_CloudServiceId req\<rparr>"
  have k: "t_key T = (\<lambda>r. [cs_Id r])"
    using assms(2) by (auto simp: has_schema_def cloud_service_key_def)
  obtain d where del: "storage_Delete (tb_CloudService (o_tables s)) ?r [] (o_db s) = (Ok (), d)"
    and s': "s' = go_stmt (InformHooks ctx None None) (s\<lparr>o_db := d\<rparr>)"
    using assms(3) by (auto simp: RemoveCloudService_def split: res.splits prod.splits if_splits)
  from gorm_table.st_Delete_key_Ok [OF assms(1) del]
  have rows: "dcs_CloudServiceId req \<in> cs_Id ` t_rows T (o_db s)"
    "t_rows T (o_db s') = {c \<in> t_rows T (o_db s). cs_Id c \<noteq> dcs_CloudServiceId req}"
    by (auto simp: k s')
  have "GetCloudService v' ctx' (Some \<lparr> gcs_CloudServiceId = dcs_CloudServiceId req \<rparr>) s'
      = Err (Status NotFound ''service not found'')"
    using assms rows s' by (intro GetCloudService_result(2) [where T = T]) auto
  with rows show ?thesis by simp
qed

definition shop :: CloudService where
  "shop = empty_CloudService\<lparr>cs_Id := ''u1'', cs_Name := ''shop''\<rparr>"

text \<open>
  \<open>ListCloudServices\<close> never shows a service outside the scope of the caller: for every
  request, page token and page size, each listed service passes the access check of the
  authorization strategy. (A caller with an empty list of services is excluded: the handler
  then hands an empty key list to the mapper, for which the mapper documents no meaning.)
\<close>

lemma ListCloudServices_allowed:
  assumes "gorm_table (tb_CloudService (o_tables s)) T" "has_schema T cloud_service_key cloud_service_col"
    "authz_strategy (o_authz s)" "snd (az_AllowedCloudServices (o_authz s) ctx) \<noteq> [] \<or> fst (az_AllowedCloudServices (o_authz s) ctx)"
    "ListCloudServices pb v ctx req s = Ok (page, npt)" "c \<in> set page"
  shows "az_CheckAccess (o_authz s) ctx typ (cs_Id c)"
proof (cases "fst (az_AllowedCloudServices (o_authz s) ctx)")
  case True
  then show ?thesis using authz_strategy.check_iff_allowed [OF assms(3)] by simp
next
  case False
  let ?al = "snd (az_AllowedCloudServices (o_authz s) ctx)"
  obtain rq :: PaginatedRequest where pg: "PaginateStorage pb rq (tb_CloudService (o_tables s)) DefaultPaginationOpts [CVal (VStrs ?al)] (o_db s)
      = Ok (page, npt)"
    using assms(5) False by (auto simp: ListCloudServices_def Let_def split: res.splits prod.splits if_splits)
  have "\<exists>r \<in> t_rows T (o_db s). t_holds T (o_db s) [CVal (VStrs ?al)] r \<and> c = t_load T PreloadAssociations (o_db s) r"
    using assms(4) False by (intro PaginateStorage_sound [OF assms(1) pg _ _ assms(6)]) auto
  then have "cs_Id c \<in> set ?al"
    using load_fields(1) [OF assms(1,2)] assms(2)
    by (auto simp: t_holds_def has_schema_def cloud_service_key_def)
  then show ?thesis using authz_strategy.check_iff_allowed [OF assms(3)] by simp
qed

text \<open>
  Access control of the handlers for a single cloud service. Whenever lookup, update,
  removal or statistics of a service succeeds, the authorization strategy granted access to
  the service named in the request; without access they answer \<open>PermissionDenied\<close> and change
  nothing (no row, no scheduled hook).
\<close>

lemma cloud_service_access:
  assumes "authz_strategy (o_authz s)" "\<not> az_CheckAccess (o_authz s) ctx typ csid"
    "v1 \<lparr> gcs_CloudServiceId = csid \<rparr> = None" "v2 u = None" "ucs_GetCloudServiceId u = csid"
    "v3 \<lparr> dcs_CloudServiceId = csid \<rparr> = None" "v4 \<lparr> gst_CloudServiceId = csid \<rparr> = None"
  shows "GetCloudService v1 ctx (Some \<lparr> gcs_CloudServiceId = csid \<rparr>) s = Err ErrPermissionDenied \<and>
    UpdateCloudService v2 now ctx (Some u) s = (Err ErrPermissionDenied, s) \<and>
    RemoveCloudService v3 ctx (Some \<lparr> dcs_CloudServiceId = csid \<rparr>) s = (Err ErrPermissionDenied, s) \<and>
    GetCloudServiceStatistics v4 ctx (Some \<lparr> gst_CloudServiceId = csid \<rparr>) s = Err ErrPermissionDenied"
  using assms(2-) authz_strategy.check_type_irrelevant [OF assms(1), of ctx _ csid "typ"]
  by (simp add: GetCloudService_def UpdateCloudService_def RemoveCloudService_def GetCloudServiceStatistics_def)

end
