(* ===== verification/Orch_Metrics.thy ===== *)
theory Orch_Metrics
  imports Orch_CloudService
begin

text \<open>
  The metric handlers of the orchestrator (src/service/orchestrator/metrics.go): loading of the
  metric definitions at start, creation, update, soft removal and listing of metrics, metric
  configurations with their defaults, and metric implementations. Files and the decoding of
  JSON documents are parameters.
\<close>

section \<open>Requests\<close>

record CreateMetricRequest =
  crm_Metric :: "Metric option"

record UpdateMetricRequest =
  upm_Metric :: "Metric option"

record UpdateMetricImplementationRequest =
  umi_Implementation :: "MetricImplementation option"

record GetMetricRequest =
  gm_MetricId :: string

record RemoveMetricRequest =
  rm_MetricId :: string

record ListMetricsRequest_Filter =
  lmf_IncludeDeprecated :: "bool option"

record ListMetricsRequest = PaginatedRequest +
  lm_Filter :: "ListMetricsRequest_Filter option"

record GetMetricConfigurationRequest =
  gmc_CloudServiceId :: string
  gmc_MetricId :: string

record UpdateMetricConfigurationRequest =
  umc_CloudServiceId :: string
  umc_MetricId :: string
  umc_Configuration :: "MetricConfiguration option"

record ListMetricConfigurationRequest =
  lmc_CloudServiceId :: string

record GetMetricImplementationRequest =
  gmi_MetricId :: string

definition ErrMetricNotFound :: go_error where
  "ErrMetricNotFound = Status NotFound ''metric not found''"

section \<open>Loading the metric definitions\<close>

text \<open>
  The files and decoders: \<open>os.ReadFile\<close>, the embedded file system, and \<open>json.Unmarshal\<close> into a
  configuration (the document \<open>null\<close> gives a nil pointer) and into a list of metrics.
\<close>

record metric_files =
  mf_ReadFile :: "string \<Rightarrow> string res"
  mf_Embedded :: "string \<Rightarrow> string res"
  mf_Config :: "string \<Rightarrow> MetricConfiguration option res"
  mf_Metrics :: "string \<Rightarrow> Metric list res"

definition loadEmbeddedMetrics :: "metric_files \<Rightarrow> string \<Rightarrow> Metric list res" where
  "loadEmbeddedMetrics fs metricsFile =
     (case mf_Embedded fs metricsFile of
        Err err \<Rightarrow> Err (Wrap (''error while loading '' @ metricsFile @ '': '') err)
      | Panic \<Rightarrow> Panic
      | Ok b \<Rightarrow>
          (case mf_Metrics fs b of
             Err err \<Rightarrow> Err (Wrap ''error in JSON marshal: '' err)
           | r \<Rightarrow> r))"

definition loadMetricImplementation ::
  "metric_files \<Rightarrow> timestamp \<Rightarrow> string \<Rightarrow> string \<Rightarrow> MetricImplementation res" where
  "loadMetricImplementation fs now metricID file =
     (case mf_ReadFile fs file of
        Err err \<Rightarrow> Err (Wrap ''could not read file: '' err)
      | Panic \<Rightarrow> Panic
      | Ok b \<Rightarrow> Ok \<lparr> mi_MetricId = metricID, mi_Lang = LANGUAGE_REGO, mi_Code = b, mi_UpdatedAt = Some now \<rparr>)"

text \<open>The result is the metric with its implementation and the new map of default configurations.\<close>

definition prepareMetric ::
  "metric_files \<Rightarrow> timestamp \<Rightarrow> Metric \<Rightarrow> (string \<rightharpoonup> MetricConfiguration) \<Rightarrow>
   (Metric \<times> MetricImplementation \<times> (string \<rightharpoonup> MetricConfiguration)) res" where
  "prepareMetric fs now m defaults =
     (case loadMetricImplementation fs now (m_Id m) (''policies/bundles/'' @ m_Id m @ ''/metric.rego'') of
        Err err \<Rightarrow> Err (Wrap ''could not load metric implementation: '' err)
      | Panic \<Rightarrow> Panic
      | Ok impl \<Rightarrow>
          (case mf_ReadFile fs (''policies/bundles/'' @ m_Id m @ ''/data.json'') of
             Err err \<Rightarrow> Err (Wrap (''could not retrieve default configuration for metric '' @ m_Id m @ '': '') err)
           | Panic \<Rightarrow> Panic
           | Ok b \<Rightarrow>
               (case mf_Config fs b of
                  Err err \<Rightarrow> Err (Wrap (''error in reading default configuration for metric '' @ m_Id m @ '': '') err)
                | Panic \<Rightarrow> Panic
                | Ok None \<Rightarrow> Panic
                | Ok (Some config) \<Rightarrow>
                    Ok (m\<lparr>m_Implementation := Some impl\<rparr>, impl,
                        defaults(m_Id m \<mapsto> config\<lparr>mc_IsDefault := True, mc_MetricId := m_Id m\<rparr>)))))"

text \<open>The loop over the loaded metrics; an error of one metric does not stop it.\<close>

fun loadMetrics_loop ::
  "metric_files \<Rightarrow> timestamp \<Rightarrow> Metric list \<Rightarrow> ('ctx, 'db) orch \<Rightarrow> unit res \<times> ('ctx, 'db) orch" where
  "loadMetrics_loop fs now [] s = (Ok (), s)"
| "loadMetrics_loop fs now (m # ms) s =
     (case storage_Save (tb_Metric (o_tables s)) m (cond_eq ''id'' (m_Id m)) (o_db s) of
        (Err err, d) \<Rightarrow> loadMetrics_loop fs now ms (s\<lparr>o_db := d\<rparr>)
      | (Panic, d) \<Rightarrow> (Panic, s\<lparr>o_db := d\<rparr>)
      | (Ok _, d) \<Rightarrow>
          (case prepareMetric fs now m (o_defaultMetricConfigurations s) of
             Err err \<Rightarrow> loadMetrics_loop fs now ms (s\<lparr>o_db := d\<rparr>)
           | Panic \<Rightarrow> (Panic, s\<lparr>o_db := d\<rparr>)
           | Ok (m', impl, defaults) \<Rightarrow>
               (case storage_Save (tb_MetricImplementation (o_tables s)) impl (cond_eq ''metric_id'' (m_Id m)) d of
                  (Panic, d') \<Rightarrow> (Panic, s\<lparr>o_db := d', o_defaultMetricConfigurations := defaults\<rparr>)
                | (_, d') \<Rightarrow> loadMetrics_loop fs now ms (s\<lparr>o_db := d', o_defaultMetricConfigurations := defaults\<rparr>))))"

text \<open>\<open>loadMetricsFunc\<close> is the external loader if one is set, otherwise the embedded file is read.\<close>

definition loadMetrics ::
  "metric_files \<Rightarrow> timestamp \<Rightarrow> Metric list res option \<Rightarrow> string \<Rightarrow> ('ctx, 'db) orch \<Rightarrow> unit res \<times> ('ctx, 'db) orch" where
  "loadMetrics fs now loadMetricsFunc metricsFile s =
     (case (case loadMetricsFunc of None \<Rightarrow> loadEmbeddedMetrics fs metricsFile | Some r \<Rightarrow> r) of
        Err err \<Rightarrow> (Err (Wrap ''could not load metrics: '' err), s)
      | Panic \<Rightarrow> (Panic, s)
      | Ok metrics \<Rightarrow> loadMetrics_loop fs now metrics (s\<lparr>o_defaultMetricConfigurations := Map.empty\<rparr>))"

section \<open>Metrics\<close>

definition metric_event :: "MetricChangeEvent_Type \<Rightarrow> string \<Rightarrow> MetricChangeEvent" where
  "metric_event t mid = \<lparr> mce_Type = t, mce_MetricId = mid, mce_CloudServiceId = [] \<rparr>"

definition CreateMetric ::
  "CreateMetricRequest validator \<Rightarrow> CreateMetricRequest option \<Rightarrow> ('ctx, 'db) orch \<Rightarrow> Metric res \<times> ('ctx, 'db) orch" where
  "CreateMetric v req s =
     (case Validate v req of
        Err err \<Rightarrow> (Err err, s)
      | Panic \<Rightarrow> (Panic, s)
      | Ok req \<Rightarrow>
          (case crm_Metric req of
             None \<Rightarrow> (Panic, s)
           | Some metric \<Rightarrow>
               (case storage_Count (tb_Metric (o_tables s)) (cond_eq ''id'' (m_Id metric)) (o_db s) of
                  Err err \<Rightarrow> (Err (database_error err), s)
                | Panic \<Rightarrow> (Panic, s)
                | Ok n \<Rightarrow>
                    if n > 0 then (Err (Status AlreadyExists ''metric already exists''), s)
                    else if m_DeprecatedSince metric \<noteq> None then
                      (Err (Status FailedPrecondition ''the metric shouldn't be set to deprecated at creation time''), s)
                    else (case storage_Create (tb_Metric (o_tables s)) metric (o_db s) of
                            (Err err, d) \<Rightarrow> (Err (database_error err), s\<lparr>o_db := d\<rparr>)
                          | (Panic, d) \<Rightarrow> (Panic, s\<lparr>o_db := d\<rparr>)
                          | (Ok _, d) \<Rightarrow>
                              (Ok metric, go_stmt (SendEvent (metric_event TYPE_METADATA_CHANGED (m_Id metric)))
                                (s\<lparr>o_db := d\<rparr>))))))"

text \<open>\<open>storage.Get\<close> of a metric by its identifier, with the errors that the handlers return.\<close>

definition get_metric :: "string \<Rightarrow> ('ctx, 'db) orch \<Rightarrow> Metric res" where
  "get_metric mid s =
     (case storage_Get (tb_Metric (o_tables s)) (cond_eq ''id'' mid) (o_db s) of
        Err err \<Rightarrow> if errors_Is err ErrRecordNotFound then Err ErrMetricNotFound else Err (database_error err)
      | r \<Rightarrow> r)"

definition UpdateMetric ::
  "UpdateMetricRequest validator \<Rightarrow> UpdateMetricRequest option \<Rightarrow> ('ctx, 'db) orch \<Rightarrow> Metric res \<times> ('ctx, 'db) orch" where
  "UpdateMetric v req s =
     (case Validate v req of
        Err err \<Rightarrow> (Err err, s)
      | Panic \<Rightarrow> (Panic, s)
      | Ok req \<Rightarrow>
          (case upm_Metric req of
             None \<Rightarrow> (Panic, s)
           | Some new \<Rightarrow>
               (case get_metric (m_Id new) s of
                  Err err \<Rightarrow> (Err err, s)
                | Panic \<Rightarrow> (Panic, s)
                | Ok metric0 \<Rightarrow>
                    (let metric = metric0\<lparr> m_Name := m_Name new, m_Description := m_Description new,
                           m_Category := m_Category new, m_Range := m_Range new, m_Scale := m_Scale new,
                           m_DeprecatedSince := m_DeprecatedSince new \<rparr>
                     in case storage_Save (tb_Metric (o_tables s)) metric (cond_eq ''id'' (m_Id metric)) (o_db s) of
                          (Err err, d) \<Rightarrow> (Err (database_error err), s\<lparr>o_db := d\<rparr>)
                        | (Panic, d) \<Rightarrow> (Panic, s\<lparr>o_db := d\<rparr>)
                        | (Ok _, d) \<Rightarrow>
                            (Ok metric, go_stmt (SendEvent (metric_event TYPE_METADATA_CHANGED (m_Id metric)))
                              (s\<lparr>o_db := d\<rparr>))))))"

definition UpdateMetricImplementation ::
  "UpdateMetricImplementationRequest validator \<Rightarrow> timestamp \<Rightarrow> UpdateMetricImplementationRequest option \<Rightarrow>
   ('ctx, 'db) orch \<Rightarrow> MetricImplementation res \<times> ('ctx, 'db) orch" where
  "UpdateMetricImplementation v now req s =
     (case Validate v req of
        Err err \<Rightarrow> (Err err, s)
      | Panic \<Rightarrow> (Panic, s)
      | Ok req \<Rightarrow>
          (case umi_Implementation req of
             None \<Rightarrow> (Panic, s)
           | Some impl0 \<Rightarrow>
               (case get_metric (mi_MetricId impl0) s of
                  Err err \<Rightarrow> (Err err, s)
                | Panic \<Rightarrow> (Panic, s)
                | Ok metric \<Rightarrow>
                    (let impl = impl0\<lparr>mi_UpdatedAt := Some now\<rparr>
                     in case storage_Save (tb_MetricImplementation (o_tables s)) impl
                               (cond_eq ''metric_id'' (mi_MetricId impl)) (o_db s) of
                          (Err err, d) \<Rightarrow> (Err (Wrap ''could not save metric implementation: '' err), s\<lparr>o_db := d\<rparr>)
                        | (Panic, d) \<Rightarrow> (Panic, s\<lparr>o_db := d\<rparr>)
                        | (Ok _, d) \<Rightarrow>
                            (Ok impl, go_stmt (SendEvent (metric_event TYPE_IMPLEMENTATION_CHANGED (m_Id metric)))
                              (s\<lparr>o_db := d\<rparr>))))))"

definition GetIncludeDeprecated :: "ListMetricsRequest_Filter option \<Rightarrow> bool" where
  "GetIncludeDeprecated f = (case f of None \<Rightarrow> False | Some f \<Rightarrow> Deref False (lmf_IncludeDeprecated f))"

definition ListMetrics ::
  "proto_lib \<Rightarrow> ListMetricsRequest validator \<Rightarrow> ListMetricsRequest option \<Rightarrow> ('ctx, 'db) orch \<Rightarrow>
   (Metric list \<times> string) res" where
  "ListMetrics pb v req s =
     (case Validate v req of
        Err err \<Rightarrow> Err err
      | Panic \<Rightarrow> Panic
      | Ok req \<Rightarrow>
          (let conds = (if \<not> GetIncludeDeprecated (lm_Filter req)
                        then [CQuery [TAtom (AIsNull ''deprecated_since'')]] else [])
           in case PaginateStorage pb req (tb_Metric (o_tables s)) DefaultPaginationOpts conds (o_db s) of
                Err err \<Rightarrow> Err (Status Internal (''could not paginate metrics: '' @ error_string err))
              | r \<Rightarrow> r))"

definition RemoveMetric ::
  "RemoveMetricRequest validator \<Rightarrow> timestamp \<Rightarrow> RemoveMetricRequest option \<Rightarrow> ('ctx, 'db) orch \<Rightarrow>
   unit res \<times> ('ctx, 'db) orch" where
  "RemoveMetric v now req s =
     (case Validate v req of
        Err err \<Rightarrow> (Err err, s)
      | Panic \<Rightarrow> (Panic, s)
      | Ok req \<Rightarrow>
          (case get_metric (rm_MetricId req) s of
             Err err \<Rightarrow> (Err err, s)
           | Panic \<Rightarrow> (Panic, s)
           | Ok metric0 \<Rightarrow>
               (let metric = (if m_DeprecatedSince metric0 = None then metric0\<lparr>m_DeprecatedSince := Some now\<rparr> else metric0)
                in case storage_Update (tb_Metric (o_tables s)) metric (cond_eq ''Id'' (rm_MetricId req)) (o_db s) of
                     (Err err, d) \<Rightarrow> (Err (database_error err), s\<lparr>o_db := d\<rparr>)
                   | (Panic, d) \<Rightarrow> (Panic, s\<lparr>o_db := d\<rparr>)
                   | (Ok _, d) \<Rightarrow> (Ok (), s\<lparr>o_db := d\<rparr>))))"

definition GetMetric ::
  "GetMetricRequest validator \<Rightarrow> GetMetricRequest option \<Rightarrow> ('ctx, 'db) orch \<Rightarrow> Metric res" where
  "GetMetric v req s =
     (case Validate v req of
        Err err \<Rightarrow> Err err
      | Panic \<Rightarrow> Panic
      | Ok req \<Rightarrow> get_metric (gm_MetricId req) s)"

section \<open>Configurations and implementations\<close>

definition config_conds :: "string \<Rightarrow> string \<Rightarrow> cond list" where
  "config_conds csid mid = WithoutPreload # cond_eq2 ''cloud_service_id'' csid ''metric_id'' mid"

definition GetMetricConfiguration ::
  "GetMetricConfigurationRequest validator \<Rightarrow> 'ctx \<Rightarrow> GetMetricConfigurationRequest option \<Rightarrow> ('ctx, 'db) orch \<Rightarrow>
   MetricConfiguration res" where
  "GetMetricConfiguration v ctx req s =
     (case Validate v req of
        Err err \<Rightarrow> Err err
      | Panic \<Rightarrow> Panic
      | Ok req \<Rightarrow>
          if \<not> az_CheckAccess (o_authz s) ctx AccessRead (gmc_CloudServiceId req) then Err ErrPermissionDenied
          else (case storage_Get (tb_MetricConfiguration (o_tables s))
                       (config_conds (gmc_CloudServiceId req) (gmc_MetricId req)) (o_db s) of
                  Err err \<Rightarrow>
                    if errors_Is err ErrRecordNotFound then
                      (case o_defaultMetricConfigurations s (gmc_MetricId req) of
                         Some config \<Rightarrow> Ok (config\<lparr>mc_CloudServiceId := gmc_CloudServiceId req\<rparr>)
                       | None \<Rightarrow> Err (Status NotFound (''metric configuration not found for metric with id '' @
                             quoted (gmc_MetricId req))))
                    else Err (database_error err)
                | r \<Rightarrow> r))"

definition UpdateMetricConfiguration ::
  "UpdateMetricConfigurationRequest validator \<Rightarrow> timestamp \<Rightarrow> 'ctx \<Rightarrow> UpdateMetricConfigurationRequest option \<Rightarrow>
   ('ctx, 'db) orch \<Rightarrow> MetricConfiguration res \<times> ('ctx, 'db) orch" where
  "UpdateMetricConfiguration v now ctx req s =
     (case Validate v req of
        Err err \<Rightarrow> (Err err, s)
      | Panic \<Rightarrow> (Panic, s)
      | Ok req \<Rightarrow>
          if \<not> az_CheckAccess (o_authz s) ctx AccessRead (umc_CloudServiceId req) then (Err ErrPermissionDenied, s)
          else (case umc_Configuration req of
             None \<Rightarrow> (Panic, s)
           | Some config0 \<Rightarrow>
               (let config = config0\<lparr>mc_UpdatedAt := Some now, mc_IsDefault := False\<rparr>
                in case storage_Save (tb_MetricConfiguration (o_tables s)) config
                          (cond_eq2 ''metric_id'' (umc_MetricId req) ''cloud_service_id'' (umc_CloudServiceId req)) (o_db s) of
                     (Err err, d) \<Rightarrow>
                       if errors_Is err ErrConstraintFailed
                       then (Err (Status NotFound ''metric or service does not exist''), s\<lparr>o_db := d\<rparr>)
                       else (Err (database_error err), s\<lparr>o_db := d\<rparr>)
                   | (Panic, d) \<Rightarrow> (Panic, s\<lparr>o_db := d\<rparr>)
                   | (Ok _, d) \<Rightarrow>
                       (Ok config, go_stmt (SendEvent \<lparr> mce_Type = TYPE_CONFIG_CHANGED, mce_MetricId = umc_MetricId req,
                            mce_CloudServiceId = umc_CloudServiceId req \<rparr>) (s\<lparr>o_db := d\<rparr>)))))"

fun collect_configs ::
  "(string \<Rightarrow> MetricConfiguration res) \<Rightarrow> Metric list \<Rightarrow> (string \<rightharpoonup> MetricConfiguration) \<Rightarrow>
   (string \<rightharpoonup> MetricConfiguration) res" where
  "collect_configs get [] configs = Ok configs"
| "collect_configs get (m # ms) configs =
     (case get (m_Id m) of
        Ok config \<Rightarrow> collect_configs get ms (configs(m_Id m \<mapsto> config))
      | Err err \<Rightarrow> collect_configs get ms configs
      | Panic \<Rightarrow> Panic)"

definition ListMetricConfigurations ::
  "ListMetricConfigurationRequest validator \<Rightarrow> GetMetricConfigurationRequest validator \<Rightarrow> 'ctx \<Rightarrow>
   ListMetricConfigurationRequest option \<Rightarrow> ('ctx, 'db) orch \<Rightarrow> (string \<rightharpoonup> MetricConfiguration) res" where
  "ListMetricConfigurations v vg ctx req s =
     (case Validate v req of
        Err err \<Rightarrow> Err err
      | Panic \<Rightarrow> Panic
      | Ok req \<Rightarrow>
          if \<not> az_CheckAccess (o_authz s) ctx AccessRead (lmc_CloudServiceId req) then Err ErrPermissionDenied
          else (case storage_List (tb_Metric (o_tables s)) [] True 0 (-1) [] (o_db s) of
                  Err err \<Rightarrow> Err (database_error err)
                | Panic \<Rightarrow> Panic
                | Ok metrics \<Rightarrow>
                    collect_configs (\<lambda>mid. GetMetricConfiguration vg ctx
                      (Some \<lparr> gmc_CloudServiceId = lmc_CloudServiceId req, gmc_MetricId = mid \<rparr>) s) metrics Map.empty))"

definition GetMetricImplementation ::
  "GetMetricImplementationRequest validator \<Rightarrow> GetMetricImplementationRequest option \<Rightarrow> ('ctx, 'db) orch \<Rightarrow>
   MetricImplementation res" where
  "GetMetricImplementation v req s =
     (case Validate v req of
        Err err \<Rightarrow> Err err
      | Panic \<Rightarrow> Panic
      | Ok req \<Rightarrow>
          (case storage_Get (tb_MetricImplementation (o_tables s)) (cond_eq ''metric_id'' (gmi_MetricId req)) (o_db s) of
             Err err \<Rightarrow>
               if err = ErrRecordNotFound then Err (Status NotFound ''implementation for metric not found'')
               else Err (Status Internal (''could not retrieve metric implementation: '' @ error_string err))
           | r \<Rightarrow> r))"

section \<open>Lemmas\<close>

text \<open>The metric table: a preload fills in the implementation and nothing else.\<close>

definition metric_table :: "(Metric, 'db) table \<Rightarrow> bool" where
  "metric_table T \<longleftrightarrow> has_schema T metric_key metric_col \<and> t_merge T = metric_merge \<and>
     (\<forall>p d r. \<exists>i. t_load T p d r = r\<lparr>m_Implementation := i\<rparr>)"

lemma mem_metric_table [simp]: "metric_table (mem_sem mt_Metric)"
proof -
  have "\<exists>i. r = r\<lparr>m_Implementation := i\<rparr>" for r :: Metric
    by (rule exI [of _ "m_Implementation r"]) simp
  then show ?thesis by (simp add: metric_table_def mt_Metric_def [THEN arg_cong [of _ _ mt_merge]])
qed

lemma metric_table_load: "metric_table T \<Longrightarrow> \<exists>i. t_load T p d r = r\<lparr>m_Implementation := i\<rparr>"
  by (simp add: metric_table_def)

lemma metric_key_conds:
  "metric_table T \<Longrightarrow> key_conds T d (cond_eq ''id'' k) [k]"
  "metric_table T \<Longrightarrow> key_conds T d (cond_eq ''Id'' k) [k]"
  by (auto simp: key_conds_def holds_eq metric_table_def has_schema_def metric_key_def metric_col_def)

lemma metric_table_key: "metric_table T \<Longrightarrow> t_key T = (\<lambda>m. [m_Id m])"
  by (auto simp: metric_table_def has_schema_def metric_key_def)

lemma get_metric_found:
  assumes "gorm_table (tb_Metric (o_tables s)) T" "metric_table T" "available (tb_Metric (o_tables s)) (o_db s)"
    "m \<in> t_rows T (o_db s)"
  shows "get_metric (m_Id m) s = Ok (t_load T PreloadAssociations (o_db s) m)"
  using gorm_table.Get_hit [OF assms(1,3) _ metric_key_conds(1) [OF assms(2)] assms(4), of "cond_eq ''id'' (m_Id m)"]
  by (simp add: get_metric_def metric_table_key [OF assms(2)])

lemma get_metric_Ok:
  assumes "gorm_table (tb_Metric (o_tables s)) T" "metric_table T" "get_metric mid s = Ok m"
  obtains r i where "r \<in> t_rows T (o_db s)" "m_Id r = mid" "m = r\<lparr>m_Implementation := i\<rparr>"
proof -
  from assms(3) have "storage_Get (tb_Metric (o_tables s)) (cond_eq ''id'' mid) (o_db s) = Ok m"
    by (auto simp: get_metric_def split: res.splits if_splits)
  from gorm_table.st_Get_Ok [OF assms(1) this] obtain r
    where r: "r \<in> t_rows T (o_db s)" "t_holds T (o_db s) (cond_eq ''id'' mid) r" "m = t_load T PreloadAssociations (o_db s) r"
    by auto
  from r(2) have "m_Id r = mid"
    using metric_key_conds(1) [OF assms(2), of "o_db s" mid] by (simp add: key_conds_def metric_table_key [OF assms(2)])
  moreover obtain i where "m = r\<lparr>m_Implementation := i\<rparr>" using r(3) metric_table_load [OF assms(2)] by metis
  ultimately show thesis using that r(1) by blast
qed

lemma get_metric_returns: "gorm_table (tb_Metric (o_tables s)) T \<Longrightarrow> get_metric mid s \<noteq> Panic"
  using gorm_table.Get_returns [of "tb_Metric (o_tables s)" T]
  by (auto simp: get_metric_def split: res.splits if_splits)

section \<open>Properties of metrics\<close>

text \<open>
  \<open>CreateMetric\<close> never overwrites. If the identifier is taken the answer is \<open>AlreadyExists\<close> and
  nothing changes; if it succeeds, the identifier was free, the metric is not deprecated, exactly
  this row is new and one \<open>METADATA_CHANGED\<close> event is scheduled.
\<close>

lemma CreateMetric_unique:
  assumes "gorm_table (tb_Metric (o_tables s)) T" "metric_table T" "available (tb_Metric (o_tables s)) (o_db s)"
    "v req = None" "crm_Metric req = Some m"
  shows "if m_Id m \<in> m_Id ` t_rows T (o_db s)
    then CreateMetric v (Some req) s = (Err (Status AlreadyExists ''metric already exists''), s)
    else (\<forall>m' s'. CreateMetric v (Some req) s = (Ok m', s') \<longrightarrow>
      m' = m \<and> m_DeprecatedSince m = None \<and> t_rows T (o_db s') = insert m (t_rows T (o_db s)) \<and>
      o_tasks s' = o_tasks s @ [SendEvent (metric_event TYPE_METADATA_CHANGED (m_Id m))])"
proof -
  let ?g = "tb_Metric (o_tables s)" and ?d = "o_db s"
  have cnt: "storage_Count ?g (cond_eq ''id'' (m_Id m)) ?d = Ok (int (card {r \<in> t_rows T ?d. m_Id r = m_Id m}))"
    using gorm_table.Count_available [OF assms(1,3), of "cond_eq ''id'' (m_Id m)"] assms(2)
    by (simp add: holds_eq metric_table_def has_schema_def metric_col_def)
  have fin: "finite (t_rows T ?d)" using gorm_table.ord_set [OF assms(1), of "[]" ?d] by (metis List.finite_set)
  show ?thesis
  proof (cases "m_Id m \<in> m_Id ` t_rows T ?d")
    case True
    then have "{r \<in> t_rows T ?d. m_Id r = m_Id m} \<noteq> {}" by auto
    with fin have "0 < card {r \<in> t_rows T ?d. m_Id r = m_Id m}" by (simp add: card_gt_0_iff)
    then have "CreateMetric v (Some req) s = (Err (Status AlreadyExists ''metric already exists''), s)"
      using cnt assms(4,5) by (simp add: CreateMetric_def)
    with True show ?thesis by (simp only: if_True)
  next
    case False
    then have "{r \<in> t_rows T ?d. m_Id r = m_Id m} = {}" by (auto simp: image_iff)
    with cnt have cnt: "storage_Count ?g (cond_eq ''id'' (m_Id m)) ?d = Ok 0" by simp
    have "m' = m \<and> m_DeprecatedSince m = None \<and> t_rows T (o_db s') = insert m (t_rows T ?d) \<and>
      o_tasks s' = o_tasks s @ [SendEvent (metric_event TYPE_METADATA_CHANGED (m_Id m))]"
      if ok: "CreateMetric v (Some req) s = (Ok m', s')" for m' s'
    proof -
      from ok assms(4,5) cnt obtain d where "storage_Create ?g m ?d = (Ok (), d)" "m' = m" "m_DeprecatedSince m = None"
        "s' = go_stmt (SendEvent (metric_event TYPE_METADATA_CHANGED (m_Id m))) (s\<lparr>o_db := d\<rparr>)"
        by (auto simp: CreateMetric_def split: res.splits prod.splits if_splits)
      then show ?thesis using gorm_table.st_Create_Ok [OF assms(1), of m ?d "()" d] by simp
    qed
    with False show ?thesis by (simp only: if_False) blast
  qed
qed

definition sample_metric :: Metric where
  "sample_metric = \<lparr> m_Id = ''TLS'', m_Name = ''TLS version'', m_Description = [], m_Category = ''Transport'',
     m_Scale = ORDINAL, m_Range = None, m_Interval = 5, m_Implementation = None, m_DeprecatedSince = None \<rparr>"

text \<open>
  \<open>UpdateMetric\<close> changes what the request may change and keeps the rest. After it succeeds,
  \<open>GetMetric\<close> returns the old metric with the name, description, category, range, scale and
  deprecation of the request; the interval and the identifier are those from before, and no other
  metric is touched.
\<close>

lemma UpdateMetric_then_Get:
  assumes "gorm_table (tb_Metric (o_tables s)) T" "metric_table T" "upm_Metric req = Some new"
    "UpdateMetric v (Some req) s = (Ok m, s')" "available (tb_Metric (o_tables s)) (o_db s')"
    "v' \<lparr> gm_MetricId = m_Id new \<rparr> = None"
  shows "\<exists>old i. old \<in> t_rows T (o_db s) \<and> m_Id old = m_Id new \<and>
    GetMetric v' (Some \<lparr> gm_MetricId = m_Id new \<rparr>) s' =
      Ok (old\<lparr> m_Name := m_Name new, m_Description := m_Description new, m_Category := m_Category new,
        m_Range := m_Range new, m_Scale := m_Scale new, m_DeprecatedSince := m_DeprecatedSince new,
        m_Implementation := i \<rparr>) \<and>
    {x \<in> t_rows T (o_db s'). m_Id x \<noteq> m_Id new} = {x \<in> t_rows T (o_db s). m_Id x \<noteq> m_Id new}"
proof -
  obtain m0 d where m0: "get_metric (m_Id new) s = Ok m0"
    and m: "m = m0\<lparr> m_Name := m_Name new, m_Description := m_Description new, m_Category := m_Category new,
        m_Range := m_Range new, m_Scale := m_Scale new, m_DeprecatedSince := m_DeprecatedSince new \<rparr>"
    and sv: "storage_Save (tb_Metric (o_tables s)) m (cond_eq ''id'' (m_Id m)) (o_db s) = (Ok (), d)"
    and s': "s' = go_stmt (SendEvent (metric_event TYPE_METADATA_CHANGED (m_Id m))) (s\<lparr>o_db := d\<rparr>)"
    using assms(3,4) by (auto simp: UpdateMetric_def Let_def split: res.splits prod.splits)
  from get_metric_Ok [OF assms(1,2) m0] obtain old j
    where old: "old \<in> t_rows T (o_db s)" "m_Id old = m_Id new" "m0 = old\<lparr>m_Implementation := j\<rparr>" .
  have rows: "t_rows T d = insert m {x \<in> t_rows T (o_db s). m_Id x \<noteq> m_Id m}"
    using gorm_table.st_Save_Ok [OF assms(1) sv] by (simp add: metric_table_key [OF assms(2)])
  have "get_metric (m_Id m) s' = Ok (t_load T PreloadAssociations d m)"
    using get_metric_found [of s' T m] assms(1,2,5) rows s' by simp
  moreover obtain i where "t_load T PreloadAssociations d m = m\<lparr>m_Implementation := i\<rparr>"
    using metric_table_load [OF assms(2)] by metis
  moreover have "m_Id m = m_Id new" using m old by simp
  ultimately have "GetMetric v' (Some \<lparr> gm_MetricId = m_Id new \<rparr>) s' = Ok (m\<lparr>m_Implementation := i\<rparr>)"
    using assms(6) by (simp add: GetMetric_def)
  then show ?thesis
    using old m rows s' by (intro exI [of _ old] exI [of _ i]) auto
qed

text \<open>What \<open>RemoveMetric\<close> does to the table.\<close>

definition deprecate :: "timestamp \<Rightarrow> Metric \<Rightarrow> Metric" where
  "deprecate now m = m\<lparr>m_DeprecatedSince := Some (Deref now (m_DeprecatedSince m))\<rparr>"

lemma metric_merge_deprecate:
  "\<exists>j. metric_merge (r\<lparr>m_Implementation := i, m_DeprecatedSince := Some t\<rparr>) r = r\<lparr>m_DeprecatedSince := Some t, m_Implementation := j\<rparr>"
  by (rule exI [of _ "ovr None i (m_Implementation r)"]) (simp add: metric_merge_def ovr_def)

lemma RemoveMetric_rows:
  assumes "gorm_table (tb_Metric (o_tables s)) T" "metric_table T" "RemoveMetric v now (Some req) s = (Ok u, s')"
  shows "\<exists>old i. old \<in> t_rows T (o_db s) \<and> m_Id old = rm_MetricId req \<and>
    t_rows T (o_db s') = insert ((deprecate now old)\<lparr>m_Implementation := i\<rparr>) {x \<in> t_rows T (o_db s). m_Id x \<noteq> rm_MetricId req}"
proof -
  let ?mid = "rm_MetricId req" and ?cs = "cond_eq ''Id'' (rm_MetricId req)"
  obtain m0 m d where m0: "get_metric ?mid s = Ok m0"
    and m: "m = (if m_DeprecatedSince m0 = None then m0\<lparr>m_DeprecatedSince := Some now\<rparr> else m0)"
    and up: "storage_Update (tb_Metric (o_tables s)) m ?cs (o_db s) = (Ok (), d)" and s': "s' = s\<lparr>o_db := d\<rparr>"
    using assms(3) by (auto simp: RemoveMetric_def Let_def split: res.splits prod.splits)
  from get_metric_Ok [OF assms(1,2) m0] obtain old i
    where old: "old \<in> t_rows T (o_db s)" "m_Id old = ?mid" "m0 = old\<lparr>m_Implementation := i\<rparr>" .
  have m': "m = old\<lparr>m_Implementation := i, m_DeprecatedSince := m_DeprecatedSince (deprecate now old)\<rparr>"
    using m old(3) by (cases old; cases "m_DeprecatedSince old") (simp_all add: deprecate_def)
  then obtain j where j: "metric_merge m old = (deprecate now old)\<lparr>m_Implementation := j\<rparr>"
    using metric_merge_deprecate [where r = old and i = i] by (auto simp: deprecate_def)
  have hit: "t_holds T (o_db s) ?cs x \<longleftrightarrow> m_Id x = ?mid" for x
    using metric_key_conds(2) [OF assms(2), of "o_db s" ?mid] by (simp add: key_conds_def metric_table_key [OF assms(2)])
  have uniq: "x = old" if "x \<in> t_rows T (o_db s)" "m_Id x = ?mid" for x
    using gorm_table.st_row_unique [OF assms(1) that(1) old(1)] that(2) old(2) by (simp add: metric_table_key [OF assms(2)])
  have mg: "t_merge T = metric_merge" using assms(2) by (simp add: metric_table_def)
  have "t_rows T d = (\<lambda>x. if m_Id x = ?mid then metric_merge m x else x) ` t_rows T (o_db s)"
    using gorm_table.st_Update_Ok [OF assms(1) up] by (simp add: hit mg)
  also have "\<dots> = insert (metric_merge m old) {x \<in> t_rows T (o_db s). m_Id x \<noteq> ?mid}"
    using old(1,2) uniq by (rule image_if_unique)
  finally show ?thesis using old s' j by (intro exI [of _ old] exI [of _ j]) simp
qed

text \<open>
  \<open>RemoveMetric\<close> is a soft removal. When it succeeds the metric existed, its row is still
  there with every field kept except the deprecation time, which is the time of the first removal
  (a second removal keeps it), and all other metrics are untouched.
\<close>

lemma RemoveMetric_soft:
  assumes "gorm_table (tb_Metric (o_tables s)) T" "metric_table T" "RemoveMetric v now (Some req) s = (Ok u, s')"
    "available (tb_Metric (o_tables s)) (o_db s')" "v' \<lparr> gm_MetricId = rm_MetricId req \<rparr> = None"
  shows "\<exists>old i. old \<in> t_rows T (o_db s) \<and> m_Id old = rm_MetricId req \<and>
    GetMetric v' (Some \<lparr> gm_MetricId = rm_MetricId req \<rparr>) s' =
      Ok (old\<lparr>m_DeprecatedSince := Some (case m_DeprecatedSince old of None \<Rightarrow> now | Some t \<Rightarrow> t), m_Implementation := i\<rparr>) \<and>
    {x \<in> t_rows T (o_db s'). m_Id x \<noteq> rm_MetricId req} = {x \<in> t_rows T (o_db s). m_Id x \<noteq> rm_MetricId req}"
proof -
  from RemoveMetric_rows [OF assms(1-3)] obtain old i
    where old: "old \<in> t_rows T (o_db s)" "m_Id old = rm_MetricId req"
    and rows: "t_rows T (o_db s') = insert ((deprecate now old)\<lparr>m_Implementation := i\<rparr>) {x \<in> t_rows T (o_db s). m_Id x \<noteq> rm_MetricId req}"
    by blast
  have tb: "o_tables s' = o_tables s"
    using assms(3) by (auto simp: RemoveMetric_def Let_def split: res.splits prod.splits)
  let ?m = "(deprecate now old)\<lparr>m_Implementation := i\<rparr>"
  have "get_metric (m_Id ?m) s' = Ok (t_load T PreloadAssociations (o_db s') ?m)"
    using get_metric_found [of s' T ?m] assms(1,2,4) rows tb by simp
  moreover obtain j where "t_load T PreloadAssociations (o_db s') ?m = ?m\<lparr>m_Implementation := j\<rparr>"
    using metric_table_load [OF assms(2)] by metis
  moreover have id: "m_Id ?m = rm_MetricId req" using old by (simp add: deprecate_def)
  ultimately have "GetMetric v' (Some \<lparr> gm_MetricId = rm_MetricId req \<rparr>) s' = Ok (?m\<lparr>m_Implementation := j\<rparr>)"
    using assms(5) by (simp add: GetMetric_def)
  then show ?thesis
    using old rows id by (intro exI [of _ old] exI [of _ j]) (auto simp: deprecate_def split: option.split)
qed

text \<open>
  \<open>ListMetrics\<close> hides deprecated metrics unless the filter asks for them, for every page
  token and page size.
\<close>

lemma ListMetrics_hides_deprecated:
  assumes "gorm_table (tb_Metric (o_tables s)) T" "metric_table T" "\<not> GetIncludeDeprecated (lm_Filter req)"
    "ListMetrics pb v (Some req) s = Ok (page, npt)" "m \<in> set page"
  shows "m_DeprecatedSince m = None \<and> m_Id m \<in> m_Id ` t_rows T (o_db s)"
proof -
  let ?cs = "[CQuery [TAtom (AIsNull ''deprecated_since'')]]"
  have pg: "PaginateStorage pb req (tb_Metric (o_tables s)) DefaultPaginationOpts ?cs (o_db s) = Ok (page, npt)"
    using assms(3,4) by (auto simp: ListMetrics_def split: res.splits if_splits)
  from PaginateStorage_sound [OF assms(1) pg _ _ assms(5), of PreloadAssociations ?cs]
  obtain r where r: "r \<in> t_rows T (o_db s)" "t_holds T (o_db s) ?cs r" "m = t_load T PreloadAssociations (o_db s) r"
    by auto
  from r(2) assms(2) have "opt_time (m_DeprecatedSince r) = VNull"
    by (simp add: t_holds_def metric_table_def has_schema_def metric_col_def sql_holds_def)
  then have "m_DeprecatedSince r = None" by (cases "m_DeprecatedSince r") simp_all
  moreover obtain i where "m = r\<lparr>m_Implementation := i\<rparr>" using r(3) metric_table_load [OF assms(2)] by metis
  ultimately show ?thesis using r(1) by (auto simp: image_iff intro!: bexI [of _ r])
qed

section \<open>Properties of configurations\<close>

lemma config_key_conds:
  "has_schema T metric_config_key metric_config_col \<Longrightarrow>
   key_conds T d (cond_eq2 ''cloud_service_id'' csid ''metric_id'' mid) [mid, csid]"
  by (auto simp: key_conds_def holds_eq has_schema_def metric_config_key_def metric_config_col_def)

text \<open>
  \<open>GetMetricConfiguration\<close> returns the stored configuration of exactly this metric and service
  if there is one; otherwise the default configuration of the metric, issued for the requested
  service; otherwise \<open>NotFound\<close>.
\<close>

lemma GetMetricConfiguration_result:
  assumes "gorm_table (tb_MetricConfiguration (o_tables s)) T" "has_schema T metric_config_key metric_config_col"
    "available (tb_MetricConfiguration (o_tables s)) (o_db s)" "v req = None"
    "az_CheckAccess (o_authz s) ctx AccessRead (gmc_CloudServiceId req)"
    "stored = {c \<in> t_rows T (o_db s). mc_CloudServiceId c = gmc_CloudServiceId req \<and> mc_MetricId c = gmc_MetricId req}"
  shows "if stored = {} then
      GetMetricConfiguration v ctx (Some req) s =
        (case o_defaultMetricConfigurations s (gmc_MetricId req) of
           Some c \<Rightarrow> Ok (c\<lparr>mc_CloudServiceId := gmc_CloudServiceId req\<rparr>)
         | None \<Rightarrow> Err (Status NotFound (''metric configuration not found for metric with id '' @ quoted (gmc_MetricId req))))
    else \<exists>c. stored = {c} \<and> GetMetricConfiguration v ctx (Some req) s = Ok c"
proof -
  let ?g = "tb_MetricConfiguration (o_tables s)" and ?d = "o_db s"
  let ?cs = "config_conds (gmc_CloudServiceId req) (gmc_MetricId req)"
  note key = config_key_conds [OF assms(2), of ?d "gmc_CloudServiceId req" "gmc_MetricId req"]
  have k: "t_key T = (\<lambda>c. [mc_MetricId c, mc_CloudServiceId c])"
    using assms(2) by (auto simp: has_schema_def metric_config_key_def)
  have pre: "applyPreload ?cs = (NoPreload, cond_eq2 ''cloud_service_id'' (gmc_CloudServiceId req) ''metric_id'' (gmc_MetricId req))"
    by (simp add: config_conds_def)
  show ?thesis
  proof (cases "stored = {}")
    case True
    then have "[gmc_MetricId req, gmc_CloudServiceId req] \<notin> t_key T ` t_rows T ?d"
      unfolding assms(6) by (auto simp: k)
    from gorm_table.Get_miss [OF assms(1,3) pre key this] True assms(4,5) show ?thesis
      by (cases "o_defaultMetricConfigurations s (gmc_MetricId req)") (simp_all add: GetMetricConfiguration_def)
  next
    case False
    then obtain c where c: "c \<in> t_rows T ?d" "mc_CloudServiceId c = gmc_CloudServiceId req" "mc_MetricId c = gmc_MetricId req"
      using assms(6) by auto
    have "x = c" if "x \<in> t_rows T ?d" "mc_CloudServiceId x = gmc_CloudServiceId req" "mc_MetricId x = gmc_MetricId req" for x
      using gorm_table.st_row_unique [OF assms(1) that(1) c(1)] that(2,3) c(2,3) by (simp add: k)
    with c have "stored = {c}" unfolding assms(6) by blast
    moreover have "storage_Get ?g ?cs ?d = Ok c"
      using gorm_table.Get_hit [OF assms(1,3) pre key c(1)] c(2,3) gorm_table.load_none [OF assms(1)] by (simp add: k)
    ultimately show ?thesis using False assms(4,5) by (simp add: GetMetricConfiguration_def)
  qed
qed

definition sample_config :: MetricConfiguration where
  "sample_config = \<lparr> mc_Operator = ''=='', mc_TargetValue = Some (BoolValue True), mc_IsDefault = True,
     mc_UpdatedAt = None, mc_MetricId = ''TLS'', mc_CloudServiceId = [] \<rparr>"

lemma collect_configs_result:
  assumes "\<And>mid. get mid \<noteq> Panic"
  shows "collect_configs get ms cs = Ok (\<lambda>mid.
    if mid \<in> m_Id ` set ms then (case get mid of Ok c \<Rightarrow> Some c | _ \<Rightarrow> cs mid) else cs mid)"
proof (induction ms arbitrary: cs)
  case Nil
  then show ?case by simp
next
  case (Cons m ms)
  then show ?case
    using assms [of "m_Id m"]
    by (cases "get (m_Id m)") (auto simp: fun_eq_iff split: res.split)
qed





section \<open>Properties of the loading of metrics\<close>

definition default_ok :: "(string \<rightharpoonup> MetricConfiguration) \<Rightarrow> bool" where
  "default_ok D \<longleftrightarrow> (\<forall>mid c. D mid = Some c \<longrightarrow> mc_IsDefault c \<and> mc_MetricId c = mid)"

lemma prepareMetric_Ok:
  "prepareMetric fs now m D = Ok (m', impl, D') \<Longrightarrow>
   \<exists>c. D' = D(m_Id m \<mapsto> c) \<and> mc_IsDefault c \<and> mc_MetricId c = m_Id m"
  by (auto simp: prepareMetric_def split: res.splits option.splits)

lemma prepareMetric_ok_iff: "is_ok (prepareMetric fs now m D) = is_ok (prepareMetric fs now m D')"
  by (simp add: prepareMetric_def split: res.split option.split)

text \<open>One round of the loop: it goes on, with the defaults kept or extended by this metric.\<close>

lemma loadMetrics_round:
  assumes "loadMetrics_loop fs now (m # ms) s = (Ok u, s')"
  obtains s1 where "loadMetrics_loop fs now ms s1 = (Ok u, s')" "o_tables s1 = o_tables s"
    "o_defaultMetricConfigurations s1 = o_defaultMetricConfigurations s \<or>
     (\<exists>c. o_defaultMetricConfigurations s1 = (o_defaultMetricConfigurations s)(m_Id m \<mapsto> c) \<and>
        mc_IsDefault c \<and> mc_MetricId c = m_Id m)"
    "is_ok (prepareMetric fs now m Map.empty) \<Longrightarrow>
     is_ok (fst (storage_Save (tb_Metric (o_tables s)) m (cond_eq ''id'' (m_Id m)) (o_db s))) \<Longrightarrow>
     m_Id m \<in> dom (o_defaultMetricConfigurations s1)"
proof -
  let ?D = "o_defaultMetricConfigurations s"
  obtain r d where sv: "storage_Save (tb_Metric (o_tables s)) m (cond_eq ''id'' (m_Id m)) (o_db s) = (r, d)" by fastforce
  note np = prepareMetric_ok_iff [of fs now m Map.empty ?D]
  show thesis
  proof (cases r)
    case (Err e)
    then show thesis using assms sv by (intro that [of "s\<lparr>o_db := d\<rparr>"]) simp_all
  next
    case ok: (Ok x)
    show thesis
    proof (cases "prepareMetric fs now m ?D")
      case (Err e)
      then show thesis using assms sv ok np by (intro that [of "s\<lparr>o_db := d\<rparr>"]) simp_all
    next
      case (Ok p)
      obtain m' impl D where p: "p = (m', impl, D)" by (cases p)
      obtain r2 d2 where sv2: "storage_Save (tb_MetricImplementation (o_tables s)) impl (cond_eq ''metric_id'' (m_Id m)) d = (r2, d2)"
        by fastforce
      have "loadMetrics_loop fs now ms (s\<lparr>o_db := d2, o_defaultMetricConfigurations := D\<rparr>) = (Ok u, s')"
        using assms sv ok Ok p sv2 by (cases r2) simp_all
      moreover obtain c where "D = ?D(m_Id m \<mapsto> c)" "mc_IsDefault c" "mc_MetricId c = m_Id m"
        using prepareMetric_Ok [of fs now m ?D m' impl D] Ok p by blast
      ultimately show thesis by (intro that [of "s\<lparr>o_db := d2, o_defaultMetricConfigurations := D\<rparr>"]) auto
    next
      case Panic
      then show thesis using assms sv ok by simp
    qed
  next
    case Panic
    then show thesis using assms sv by simp
  qed
qed

lemma loadMetrics_loop_defaults:
  "loadMetrics_loop fs now ms s = (Ok u, s') \<Longrightarrow> default_ok (o_defaultMetricConfigurations s) \<Longrightarrow>
   default_ok (o_defaultMetricConfigurations s') \<and>
   dom (o_defaultMetricConfigurations s) \<subseteq> dom (o_defaultMetricConfigurations s') \<and>
   ((\<forall>m d. is_ok (fst (storage_Save (tb_Metric (o_tables s)) m (cond_eq ''id'' (m_Id m)) d))) \<longrightarrow>
     (\<forall>m \<in> set ms. is_ok (prepareMetric fs now m Map.empty) \<longrightarrow> m_Id m \<in> dom (o_defaultMetricConfigurations s')))"
proof (induction ms arbitrary: s)
  case Nil
  then show ?case by simp
next
  case (Cons m ms)
  from Cons.prems(1) obtain s1 where s1: "loadMetrics_loop fs now ms s1 = (Ok u, s')" "o_tables s1 = o_tables s"
    and D: "o_defaultMetricConfigurations s1 = o_defaultMetricConfigurations s \<or>
     (\<exists>c. o_defaultMetricConfigurations s1 = (o_defaultMetricConfigurations s)(m_Id m \<mapsto> c) \<and>
        mc_IsDefault c \<and> mc_MetricId c = m_Id m)"
    and P: "is_ok (prepareMetric fs now m Map.empty) \<Longrightarrow>
     is_ok (fst (storage_Save (tb_Metric (o_tables s)) m (cond_eq ''id'' (m_Id m)) (o_db s))) \<Longrightarrow>
     m_Id m \<in> dom (o_defaultMetricConfigurations s1)"
    by (rule loadMetrics_round) blast
  have d1: "default_ok (o_defaultMetricConfigurations s1)"
    "dom (o_defaultMetricConfigurations s) \<subseteq> dom (o_defaultMetricConfigurations s1)"
    using D Cons.prems(2) by (auto simp: default_ok_def split: if_splits)
  note IH = Cons.IH [OF s1(1) d1(1), unfolded s1(2)]
  show ?case
  proof (intro conjI impI ballI)
    show "default_ok (o_defaultMetricConfigurations s')" using IH by blast
    show "dom (o_defaultMetricConfigurations s) \<subseteq> dom (o_defaultMetricConfigurations s')" using IH d1(2) by blast
    fix x
    assume sv: "\<forall>m d. is_ok (fst (storage_Save (tb_Metric (o_tables s)) m (cond_eq ''id'' (m_Id m)) d))"
      and x: "x \<in> set (m # ms)" and ok: "is_ok (prepareMetric fs now x Map.empty)"
    show "m_Id x \<in> dom (o_defaultMetricConfigurations s')"
    proof (cases "x = m")
      case True
      with P ok sv have "m_Id x \<in> dom (o_defaultMetricConfigurations s1)" by blast
      with IH show ?thesis by blast
    next
      case False
      with x have "x \<in> set ms" by simp
      with IH sv ok show ?thesis by blast
    qed
  qed
qed

text \<open>
  Loading the metrics establishes the default configurations. Every default is marked as a
  default and names the metric it is filed under; and if the metric rows can be saved, every metric
  whose policy files can be read gets its default, no matter which of the other metrics fail.
\<close>

lemma loadMetrics_defaults:
  assumes "loadMetrics fs now (Some (Ok metrics)) file s = (Ok u, s')"
  shows "default_ok (o_defaultMetricConfigurations s') \<and>
    ((\<forall>m d. is_ok (fst (storage_Save (tb_Metric (o_tables s)) m (cond_eq ''id'' (m_Id m)) d))) \<longrightarrow>
     (\<forall>m \<in> set metrics. is_ok (prepareMetric fs now m Map.empty) \<longrightarrow> m_Id m \<in> dom (o_defaultMetricConfigurations s')))"
proof -
  have "loadMetrics_loop fs now metrics (s\<lparr>o_defaultMetricConfigurations := Map.empty\<rparr>) = (Ok u, s')"
    using assms by (simp add: loadMetrics_def)
  from loadMetrics_loop_defaults [OF this] show ?thesis by (simp add: default_ok_def)
qed

end
