(* ===== verification/Orch_Catalogs.thy ===== *)
theory Orch_Catalogs
  imports Orch_CloudService
begin

text \<open>
  Catalogs, categories and controls (src/service/orchestrator/catalogs.go): the handlers, and the
  loading of catalog files at start (with \<open>GetJSONFilenames\<close> of src/internal/util/filesystem.go).
  The directory, the files and the decoding of JSON are parameters.
\<close>

section \<open>Requests\<close>

record CreateCatalogRequest =
  cca_Catalog :: "Catalog option"

record UpdateCatalogRequest =
  uca_Catalog :: "Catalog option"

record GetCatalogRequest =
  gca_CatalogId :: string

record RemoveCatalogRequest =
  rca_CatalogId :: string

record GetCategoryRequest =
  gcy_CatalogId :: string
  gcy_CategoryName :: string

record GetControlRequest =
  gco_CatalogId :: string
  gco_CategoryName :: string
  gco_ControlId :: string

record ListControlsRequest_Filter =
  lcf_AssuranceLevels :: "string list"

record ListControlsRequest = PaginatedRequest +
  lco_CatalogId :: string
  lco_CategoryName :: string
  lco_Filter :: "ListControlsRequest_Filter option"

definition empty_Catalog :: Catalog where
  "empty_Catalog = \<lparr> ca_Id = [], ca_Name = [], ca_Description = [], ca_Categories = [], ca_AllInScope = False,
     ca_AssuranceLevels = [], ca_ShortName = [], ca_Color = None \<rparr>"

section \<open>Handlers\<close>

definition CreateCatalog ::
  "CreateCatalogRequest validator \<Rightarrow> CreateCatalogRequest option \<Rightarrow> ('ctx, 'db) orch \<Rightarrow> Catalog res \<times> ('ctx, 'db) orch" where
  "CreateCatalog v req s =
     (case Validate v req of
        Err err \<Rightarrow> (Err err, s)
      | Panic \<Rightarrow> (Panic, s)
      | Ok req \<Rightarrow>
          (case cca_Catalog req of
             None \<Rightarrow> (Panic, s)
           | Some c \<Rightarrow>
               (case storage_Create (tb_Catalog (o_tables s)) c (o_db s) of
                  (Err err, d) \<Rightarrow> (Err (database_error err), s\<lparr>o_db := d\<rparr>)
                | (Panic, d) \<Rightarrow> (Panic, s\<lparr>o_db := d\<rparr>)
                | (Ok _, d) \<Rightarrow> (Ok c, s\<lparr>o_db := d\<rparr>))))"

definition GetCatalog ::
  "GetCatalogRequest validator \<Rightarrow> GetCatalogRequest option \<Rightarrow> ('ctx, 'db) orch \<Rightarrow> Catalog res" where
  "GetCatalog v req s =
     (case Validate v req of
        Err err \<Rightarrow> Err err
      | Panic \<Rightarrow> Panic
      | Ok req \<Rightarrow>
          (case storage_Get (tb_Catalog (o_tables s))
                  (WithPreload ''Categories.Controls'' [''parent_control_id IS NULL''] # cond_eq ''Id'' (gca_CatalogId req)) (o_db s) of
             Err err \<Rightarrow>
               if errors_Is err ErrRecordNotFound then Err (Status NotFound ''catalog not found'')
               else Err (database_error err)
           | r \<Rightarrow> r))"

definition ListCatalogs ::
  "proto_lib \<Rightarrow> PaginatedRequest validator \<Rightarrow> PaginatedRequest option \<Rightarrow> ('ctx, 'db) orch \<Rightarrow> (Catalog list \<times> string) res" where
  "ListCatalogs pb v req s =
     (case Validate v req of
        Err err \<Rightarrow> Err err
      | Panic \<Rightarrow> Panic
      | Ok req \<Rightarrow>
          (case PaginateStorage pb req (tb_Catalog (o_tables s)) DefaultPaginationOpts [] (o_db s) of
             Err err \<Rightarrow> Err (Status Internal (''could not paginate results: '' @ error_string err))
           | r \<Rightarrow> r))"

definition UpdateCatalog ::
  "UpdateCatalogRequest validator \<Rightarrow> UpdateCatalogRequest option \<Rightarrow> ('ctx, 'db) orch \<Rightarrow> Catalog res \<times> ('ctx, 'db) orch" where
  "UpdateCatalog v req s =
     (case Validate v req of
        Err err \<Rightarrow> (Err err, s)
      | Panic \<Rightarrow> (Panic, s)
      | Ok req \<Rightarrow>
          (case uca_Catalog req of
             None \<Rightarrow> (Panic, s)
           | Some res \<Rightarrow>
               (case storage_Update (tb_Catalog (o_tables s)) res (cond_eq ''id'' (ca_Id res)) (o_db s) of
                  (Err err, d) \<Rightarrow>
                    if errors_Is err ErrRecordNotFound then (Err (Status NotFound ''catalog not found''), s\<lparr>o_db := d\<rparr>)
                    else (Err (database_error err), s\<lparr>o_db := d\<rparr>)
                | (Panic, d) \<Rightarrow> (Panic, s\<lparr>o_db := d\<rparr>)
                | (Ok _, d) \<Rightarrow> (Ok res, s\<lparr>o_db := d\<rparr>))))"

definition RemoveCatalog ::
  "RemoveCatalogRequest validator \<Rightarrow> RemoveCatalogRequest option \<Rightarrow> ('ctx, 'db) orch \<Rightarrow> unit res \<times> ('ctx, 'db) orch" where
  "RemoveCatalog v req s =
     (case Validate v req of
        Err err \<Rightarrow> (Err err, s)
      | Panic \<Rightarrow> (Panic, s)
      | Ok req \<Rightarrow>
          (case storage_Delete (tb_Catalog (o_tables s)) empty_Catalog (cond_eq ''Id'' (rca_CatalogId req)) (o_db s) of
             (Err err, d) \<Rightarrow>
               if errors_Is err ErrRecordNotFound then (Err (Status NotFound ''catalog not found''), s\<lparr>o_db := d\<rparr>)
               else (Err (database_error err), s\<lparr>o_db := d\<rparr>)
           | (Panic, d) \<Rightarrow> (Panic, s\<lparr>o_db := d\<rparr>)
           | (Ok _, d) \<Rightarrow> (Ok (), s\<lparr>o_db := d\<rparr>)))"

definition GetCategory ::
  "GetCategoryRequest validator \<Rightarrow> GetCategoryRequest option \<Rightarrow> ('ctx, 'db) orch \<Rightarrow> Category res" where
  "GetCategory v req s =
     (case Validate v req of
        Err err \<Rightarrow> Err err
      | Panic \<Rightarrow> Panic
      | Ok req \<Rightarrow>
          (case storage_Get (tb_Category (o_tables s))
                  (WithPreload ''Controls'' [''parent_control_id IS NULL''] #
                   cond_eq2 ''name'' (gcy_CategoryName req) ''catalog_id'' (gcy_CatalogId req)) (o_db s) of
             Err err \<Rightarrow>
               if errors_Is err ErrRecordNotFound then Err (Status NotFound ''category not found'')
               else Err (database_error err)
           | r \<Rightarrow> r))"

definition control_conds :: "GetControlRequest \<Rightarrow> cond list" where
  "control_conds req = [CQuery [TAtom (AEq ''Id''), TAnd, TAtom (AEq ''category_name''), TAnd, TAtom (AEq ''category_catalog_id'')],
     CVal (VStr (gco_ControlId req)), CVal (VStr (gco_CategoryName req)), CVal (VStr (gco_CatalogId req))]"

definition GetControl ::
  "GetControlRequest validator \<Rightarrow> GetControlRequest option \<Rightarrow> ('ctx, 'db) orch \<Rightarrow> Control res" where
  "GetControl v req s =
     (case Validate v req of
        Err err \<Rightarrow> Err err
      | Panic \<Rightarrow> Panic
      | Ok req \<Rightarrow>
          (case storage_Get (tb_Control (o_tables s)) (control_conds req) (o_db s) of
             Err err \<Rightarrow>
               if errors_Is err ErrRecordNotFound then Err (Status NotFound ''control not found'')
               else Err (database_error err)
           | r \<Rightarrow> r))"

text \<open>The query of \<open>ListControls\<close>, fragment by fragment with its argument.\<close>

definition control_frags :: "'a ListControlsRequest_scheme \<Rightarrow> (sql \<times> sqlval list) list" where
  "control_frags req =
     (if lco_CategoryName req \<noteq> [] \<and> lco_CatalogId req \<noteq> []
      then [([TAtom (AEq ''category_name'')], [VStr (lco_CategoryName req)])] else []) @
     (if lco_CatalogId req \<noteq> [] then [([TAtom (AEq ''category_catalog_id'')], [VStr (lco_CatalogId req)])] else []) @
     (case lco_Filter req of
        None \<Rightarrow> []
      | Some f \<Rightarrow>
          if length (lcf_AssuranceLevels f) > 0
          then [([TParen [TAtom (AIn ''assurance_level''), TOr, TAtom (AIsNull ''assurance_level'')]],
                 [VStrs (lcf_AssuranceLevels f)])]
          else [])"

definition ListControls ::
  "proto_lib \<Rightarrow> ListControlsRequest validator \<Rightarrow> ListControlsRequest option \<Rightarrow> ('ctx, 'db) orch \<Rightarrow>
   (Control list \<times> string) res" where
  "ListControls pb v req s =
     (case Validate v req of
        Err err \<Rightarrow> Err err
      | Panic \<Rightarrow> Panic
      | Ok req \<Rightarrow>
          (case PaginateStorage pb req (tb_Control (o_tables s)) DefaultPaginationOpts
                  (frag_conds (control_frags req)) (o_db s) of
             Err err \<Rightarrow> Err (Status Internal (''could not paginate results: '' @ error_string err))
           | r \<Rightarrow> r))"

section \<open>Loading catalogs\<close>

record catalog_files =
  cf_ReadDir :: "string \<Rightarrow> string list res"
  cf_ReadFile :: "string \<Rightarrow> string res"
  cf_Catalogs :: "string \<Rightarrow> Catalog list res"

definition GetJSONFilenames :: "catalog_files \<Rightarrow> string \<Rightarrow> string list res" where
  "GetJSONFilenames fs folder =
     (case cf_ReadDir fs folder of
        Ok files \<Rightarrow> Ok (map (\<lambda>n. folder @ ''/'' @ n) (filter (\<lambda>n. HasSuffix n ''.json'') files))
      | r \<Rightarrow> r)"

text \<open>
  The loop over the files with its two variables: the catalogs so far and the variable \<open>err\<close>, which
  every successful read and decode of a later file sets back to nil.
\<close>

fun load_files :: "catalog_files \<Rightarrow> string list \<Rightarrow> Catalog list \<times> go_error option \<Rightarrow> (Catalog list \<times> go_error option) res" where
  "load_files fs [] st = Ok st"
| "load_files fs (f # rest) (catalogs, err) =
     (case cf_ReadFile fs f of
        Err e \<Rightarrow> load_files fs rest (catalogs, Some e)
      | Panic \<Rightarrow> Panic
      | Ok b \<Rightarrow>
          (case cf_Catalogs fs b of
             Err e \<Rightarrow> load_files fs rest (catalogs, Some e)
           | Panic \<Rightarrow> Panic
           | Ok cs \<Rightarrow> load_files fs rest (catalogs @ cs, None)))"

text \<open>
  The four nested loops that give sub-controls the data of their parents. The three pointers are
  addresses of fields of the parent control; the model has their values at this point.
\<close>

definition adopt :: "string \<Rightarrow> string \<Rightarrow> Control \<Rightarrow> Control \<Rightarrow> Control" where
  "adopt catid catname parent sub =
     Control (ctl_Id sub) catname catid (ctl_Name sub) (ctl_Description sub) (ctl_Controls sub) (ctl_Metrics sub)
       (Some (ctl_Id parent)) (Some (ctl_CategoryName parent)) (Some (ctl_CategoryCatalogId parent)) (ctl_AssuranceLevel sub)"

definition adopt_control :: "string \<Rightarrow> string \<Rightarrow> Control \<Rightarrow> Control" where
  "adopt_control catid catname c =
     Control (ctl_Id c) (ctl_CategoryName c) (ctl_CategoryCatalogId c) (ctl_Name c) (ctl_Description c)
       (map (adopt catid catname c) (ctl_Controls c)) (ctl_Metrics c) (ctl_ParentControlId c)
       (ctl_ParentControlCategoryName c) (ctl_ParentControlCategoryCatalogId c) (ctl_AssuranceLevel c)"

definition set_parents :: "Catalog \<Rightarrow> Catalog" where
  "set_parents ca = ca\<lparr>ca_Categories :=
     map (\<lambda>cat. cat\<lparr>cat_Controls := map (adopt_control (ca_Id ca) (cat_Name cat)) (cat_Controls cat)\<rparr>) (ca_Categories ca)\<rparr>"

definition loadEmbeddedCatalogs :: "catalog_files \<Rightarrow> string \<Rightarrow> Catalog list res" where
  "loadEmbeddedCatalogs fs folder =
     (case (case GetJSONFilenames fs folder of
              Ok fileList \<Rightarrow> load_files fs fileList ([], None)
            | Err e \<Rightarrow> load_files fs [] ([], Some e)
            | Panic \<Rightarrow> Panic) of
        Ok (catalogs, None) \<Rightarrow> Ok (map set_parents catalogs)
      | Ok (catalogs, Some err) \<Rightarrow> Err err
      | Err e \<Rightarrow> Err e
      | Panic \<Rightarrow> Panic)"

definition loadCatalogs ::
  "catalog_files \<Rightarrow> Catalog list res option \<Rightarrow> string \<Rightarrow> ('ctx, 'db) orch \<Rightarrow> unit res \<times> ('ctx, 'db) orch" where
  "loadCatalogs fs loadCatalogsFunc folder s =
     (case (case loadCatalogsFunc of None \<Rightarrow> loadEmbeddedCatalogs fs folder | Some r \<Rightarrow> r) of
        Err err \<Rightarrow> (Err (Wrap ''could not load catalogs: '' err), s)
      | Panic \<Rightarrow> (Panic, s)
      | Ok catalogs \<Rightarrow>
          (let (r, d) = storage_SaveAll (tb_Catalog (o_tables s)) catalogs (o_db s) in (r, s\<lparr>o_db := d\<rparr>)))"

section \<open>Lemmas\<close>

text \<open>What the conditions of \<open>ListControls\<close> mean for a control.\<close>

definition control_matches :: "'a ListControlsRequest_scheme \<Rightarrow> Control \<Rightarrow> bool" where
  "control_matches req c \<longleftrightarrow>
     (lco_CatalogId req \<noteq> [] \<longrightarrow> ctl_CategoryCatalogId c = lco_CatalogId req) \<and>
     (lco_CatalogId req \<noteq> [] \<and> lco_CategoryName req \<noteq> [] \<longrightarrow> ctl_CategoryName c = lco_CategoryName req) \<and>
     (\<forall>f l. lco_Filter req = Some f \<and> lcf_AssuranceLevels f \<noteq> [] \<and> ctl_AssuranceLevel c = Some l \<longrightarrow> l \<in> set (lcf_AssuranceLevels f))"

lemma assurance_frag:
  "frag_ok env col ([TParen [TAtom (AIn c), TOr, TAtom (AIsNull c)]], [VStrs ls])"
  "sql_holds env col [TParen [TAtom (AIn c), TOr, TAtom (AIsNull c)]] [VStrs ls] \<longleftrightarrow> val_in (col c) (VStrs ls) \<or> col c = VNull"
  by (simp_all add: frag_ok_def sql_holds_def)

lemma control_frags_hold:
  "conds_hold env (control_col c) pk (frag_conds (control_frags req)) \<longleftrightarrow> control_matches req c"
proof -
  have ok: "\<forall>f \<in> set (control_frags req). frag_ok env (control_col c) f"
    by (auto simp: control_frags_def assurance_frag(1) split: option.splits if_splits)
  have al: "val_in (opt_str (ctl_AssuranceLevel c)) (VStrs ls) \<or> opt_str (ctl_AssuranceLevel c) = VNull \<longleftrightarrow>
      (\<forall>l. ctl_AssuranceLevel c = Some l \<longrightarrow> l \<in> set ls)" for ls
    by (cases "ctl_AssuranceLevel c") auto
  show ?thesis
    unfolding frag_conds_holds [OF ok]
    by (cases "lco_Filter req")
       (simp_all add: control_frags_def control_matches_def ball_Un assurance_frag(2) control_col_def al, blast+)
qed

lemma control_frags_token [simp]: "control_frags (set_page_token pt req) = control_frags req"
  by (simp add: control_frags_def)

section \<open>Properties\<close>

text \<open>
  Walking through all pages of \<open>ListControls\<close> ends and yields exactly the controls that match the
  request, in the order of the database: those of the catalog (and of the category, if both are
  given) whose assurance level is one of the requested ones or is not set.
\<close>

lemma ListControls_all:
  assumes "gorm_table (tb_Control (o_tables s)) T" "has_schema T control_key control_col" "proto_ok pb"
    "available (tb_Control (o_tables s)) (o_db s)" "\<forall>pt. v (set_page_token pt req) = None" "0 \<le> req_PageSize req"
    "length (t_ord T (order_stmt (req_OrderBy req) (req_Asc req)) (o_db s)) < 2 ^ 63"
  shows "ListAllPaginated set_page_token (\<lambda>r. ListControls pb v (Some r) s) snd fst req
    = Some (Ok (map (t_load T PreloadAssociations (o_db s))
        (filter (control_matches req) (t_ord T (order_stmt (req_OrderBy req) (req_Asc req)) (o_db s)))))"
proof -
  let ?g = "tb_Control (o_tables s)" and ?d = "o_db s" and ?cs = "frag_conds (control_frags req)"
  let ?ord = "t_ord T (order_stmt (req_OrderBy req) (req_Asc req)) ?d"
  have "t_holds T ?d ?cs = control_matches req"
    using assms(2) by (intro ext) (simp add: t_holds_def has_schema_def control_frags_hold)
  then have rows: "all_rows T (req_OrderBy req) (req_Asc req) ?cs ?d
      = map (t_load T PreloadAssociations ?d) (filter (control_matches req) ?ord)"
    by (simp add: all_rows_def)
  have len: "length (all_rows T (req_OrderBy req) (req_Asc req) ?cs ?d) < 2 ^ 63"
    using le_less_trans [OF length_filter_le assms(7)] by (simp only: rows length_map)
  have "serves pb (\<lambda>r. ListControls pb v (Some r) s) req ?g DefaultPaginationOpts ?cs ?d"
    using assms(5) by (simp add: serves_def ListControls_def)
  from ListAllPaginated_rows [OF assms(1,3,4) _ assms(6) this len] show ?thesis by (simp add: rows)
qed

text \<open>The outcome of reading one catalog file.\<close>

definition file_result :: "catalog_files \<Rightarrow> string \<Rightarrow> Catalog list res" where
  "file_result fs f = (case cf_ReadFile fs f of Ok b \<Rightarrow> cf_Catalogs fs b | Err e \<Rightarrow> Err e | Panic \<Rightarrow> Panic)"

lemma load_files_result:
  "\<forall>f \<in> set files. file_result fs f \<noteq> Panic \<Longrightarrow>
   load_files fs files (cs, e) =
     Ok (cs @ concat (map (\<lambda>f. case file_result fs f of Ok c \<Rightarrow> c | _ \<Rightarrow> []) files),
         if files = [] then e else (case file_result fs (last files) of Err x \<Rightarrow> Some x | _ \<Rightarrow> None))"
  by (induction files arbitrary: cs e) (auto simp: file_result_def split: res.splits)

text \<open>Every sub-control carries the data of the category, the catalog and the control above it.\<close>

definition parents_set :: "Catalog \<Rightarrow> bool" where
  "parents_set ca \<longleftrightarrow> (\<forall>cat \<in> set (ca_Categories ca). \<forall>c \<in> set (cat_Controls cat). \<forall>sub \<in> set (ctl_Controls c).
     ctl_CategoryName sub = cat_Name cat \<and> ctl_CategoryCatalogId sub = ca_Id ca \<and>
     ctl_ParentControlId sub = Some (ctl_Id c) \<and> ctl_ParentControlCategoryName sub = Some (ctl_CategoryName c) \<and>
     ctl_ParentControlCategoryCatalogId sub = Some (ctl_CategoryCatalogId c))"

lemma parents_set_set_parents: "parents_set (set_parents ca)"
  by (auto simp: parents_set_def set_parents_def adopt_control_def adopt_def)

text \<open>
  C32: what loading the catalogs from a folder yields. If the last JSON file of the folder can be read
  and decoded, the result has the catalogs of every file that can, in order, with the parent data of
  all sub-controls filled in; files before the last that fail are skipped. If the last file fails,
  the whole load fails with its error, whatever the other files held.
\<close>

theorem loadEmbeddedCatalogs_result:
  assumes "GetJSONFilenames fs folder = Ok files" "files \<noteq> []" "\<forall>f \<in> set files. file_result fs f \<noteq> Panic"
  shows "loadEmbeddedCatalogs fs folder =
      (case file_result fs (last files) of
         Err e \<Rightarrow> Err e
       | _ \<Rightarrow> Ok (map set_parents (concat (map (\<lambda>f. case file_result fs f of Ok c \<Rightarrow> c | _ \<Rightarrow> []) files)))) \<and>
    (\<forall>cas ca. loadEmbeddedCatalogs fs folder = Ok cas \<and> ca \<in> set cas \<longrightarrow> parents_set ca)"
proof -
  have eq: "loadEmbeddedCatalogs fs folder =
      (case file_result fs (last files) of
         Err e \<Rightarrow> Err e
       | _ \<Rightarrow> Ok (map set_parents (concat (map (\<lambda>f. case file_result fs f of Ok c \<Rightarrow> c | _ \<Rightarrow> []) files))))"
    using assms(2) by (simp add: loadEmbeddedCatalogs_def assms(1) load_files_result [OF assms(3)] split: res.split)
  moreover have "parents_set ca" if "loadEmbeddedCatalogs fs folder = Ok cas" "ca \<in> set cas" for cas ca
    using that unfolding eq by (auto simp: parents_set_set_parents split: res.splits)
  ultimately show ?thesis by blast
qed

definition two_files :: "string list \<Rightarrow> catalog_files" where
  "two_files names = \<lparr> cf_ReadDir = (\<lambda>_. Ok names), cf_ReadFile = (\<lambda>f. Ok f),
     cf_Catalogs = (\<lambda>b. if str_Contains b ''bad'' then Err (ErrText ''invalid'') else Ok [empty_Catalog\<lparr>ca_Id := b\<rparr>]) \<rparr>"

theorem loadEmbeddedCatalogs_result_witness:
  "loadEmbeddedCatalogs (two_files [''bad.json'', ''ok.json'']) ''d'' = Ok [set_parents (empty_Catalog\<lparr>ca_Id := ''d/ok.json''\<rparr>)] \<and>
   loadEmbeddedCatalogs (two_files [''ok.json'', ''bad.json'']) ''d'' = Err (ErrText ''invalid'')"
proof -
  have n: "GetJSONFilenames (two_files [''bad.json'', ''ok.json'']) ''d'' = Ok [''d/bad.json'', ''d/ok.json'']"
    "GetJSONFilenames (two_files [''ok.json'', ''bad.json'']) ''d'' = Ok [''d/ok.json'', ''d/bad.json'']"
    by (simp_all add: GetJSONFilenames_def two_files_def HasSuffix_def HasPrefix_def)
  have f: "file_result (two_files ns) ''d/bad.json'' = Err (ErrText ''invalid'')"
    "file_result (two_files ns) ''d/ok.json'' = Ok [empty_Catalog\<lparr>ca_Id := ''d/ok.json''\<rparr>]" for ns
    by (simp_all add: file_result_def two_files_def HasPrefix_def)
  show ?thesis
    using loadEmbeddedCatalogs_result [OF n(1)] loadEmbeddedCatalogs_result [OF n(2)] by (simp add: f)
qed

end
