(* ===== verification/Orch_Service.thy ===== *)
theory Orch_Service
  imports Orch_Metrics Orch_Catalogs
begin

text \<open>
  The constructor of the orchestrator with its functional options (src/service/orchestrator/orchestrator.go),
  and the delivery of metric change events by the running service.

  The in-memory storage that the constructor falls back to is opened by gorm and is an argument.
\<close>

section \<open>Options and constructor\<close>

text \<open>The fields of the service that the options set; \<open>None\<close> is Go's nil.\<close>

record ('ctx, 'db) orch_config =
  c_metricsFile :: string
  c_loadMetricsFunc :: "Metric list res option"
  c_catalogsFolder :: string
  c_loadCatalogsFunc :: "Catalog list res option"
  c_storage :: "('db tables \<times> 'db) option"
  c_authz :: "'ctx AuthorizationStrategy option"

definition DefaultMetricsFile :: string where
  "DefaultMetricsFile = ''metrics.json''"

definition DefaultCatalogsFolder :: string where
  "DefaultCatalogsFolder = ''catalogs''"

definition WithMetricsFile :: "string \<Rightarrow> ('ctx, 'db) orch_config \<Rightarrow> ('ctx, 'db) orch_config" where
  "WithMetricsFile file s = s\<lparr>c_metricsFile := file\<rparr>"

definition WithExternalMetrics :: "Metric list res \<Rightarrow> ('ctx, 'db) orch_config \<Rightarrow> ('ctx, 'db) orch_config" where
  "WithExternalMetrics f s = s\<lparr>c_loadMetricsFunc := Some f\<rparr>"

definition WithCatalogsFolder :: "string \<Rightarrow> ('ctx, 'db) orch_config \<Rightarrow> ('ctx, 'db) orch_config" where
  "WithCatalogsFolder folder s = s\<lparr>c_catalogsFolder := folder\<rparr>"

definition WithExternalCatalogs :: "Catalog list res \<Rightarrow> ('ctx, 'db) orch_config \<Rightarrow> ('ctx, 'db) orch_config" where
  "WithExternalCatalogs f s = s\<lparr>c_loadCatalogsFunc := Some f\<rparr>"

definition WithStorage :: "'db tables \<times> 'db \<Rightarrow> ('ctx, 'db) orch_config \<Rightarrow> ('ctx, 'db) orch_config" where
  "WithStorage storage s = s\<lparr>c_storage := Some storage\<rparr>"

definition WithAuthorizationStrategyJWT ::
  "'ctx jwt_lib \<Rightarrow> string \<Rightarrow> string \<Rightarrow> ('ctx option, 'db) orch_config \<Rightarrow> ('ctx option, 'db) orch_config" where
  "WithAuthorizationStrategyJWT lib key allowAllKey s =
     s\<lparr>c_authz := Some (strategy_JWT lib \<lparr> CloudServicesKey = key, AllowAllKey = allowAllKey \<rparr>)\<rparr>"

definition WithAuthorizationStrategy :: "'ctx AuthorizationStrategy \<Rightarrow> ('ctx, 'db) orch_config \<Rightarrow> ('ctx, 'db) orch_config" where
  "WithAuthorizationStrategy authz s = s\<lparr>c_authz := Some authz\<rparr>"

text \<open>Errors of the two loaders are logged and the service starts anyway.\<close>

definition NewService_orch ::
  "metric_files \<Rightarrow> catalog_files \<Rightarrow> timestamp \<Rightarrow> 'db tables \<times> 'db \<Rightarrow>
   (('ctx, 'db) orch_config \<Rightarrow> ('ctx, 'db) orch_config) list \<Rightarrow> ('ctx, 'db) orch res" where
  "NewService_orch mfs cfs now inmem opts =
     (let c = fold (\<lambda>opt c. opt c) opts
                \<lparr> c_metricsFile = DefaultMetricsFile, c_loadMetricsFunc = None, c_catalogsFolder = DefaultCatalogsFolder,
                  c_loadCatalogsFunc = None, c_storage = None, c_authz = None \<rparr>;
          (tables, db) = Deref inmem (c_storage c);
          s = \<lparr> o_cloudServiceHooks = [], o_toeHooks = [], o_AssessmentResultHooks = [], o_tables = tables, o_db = db,
                o_events = [], o_authz = Deref strategy_AllowAll (c_authz c), o_defaultMetricConfigurations = Map.empty,
                o_tasks = [], o_calls = [], o_delivered = [] \<rparr>
      in case loadMetrics mfs now (c_loadMetricsFunc c) (c_metricsFile c) s of
           (Panic, _) \<Rightarrow> Panic
         | (_, s1) \<Rightarrow>
             (case loadCatalogs cfs (c_loadCatalogsFunc c) (c_catalogsFolder c) s1 of
                (Panic, _) \<Rightarrow> Panic
              | (_, s2) \<Rightarrow> Ok s2))"

section \<open>Delivery of the change events\<close>

lemma run_invariant:
  assumes "orch_run send s s'" "\<forall>n e. send n e = None" "length (o_events s) \<le> events_cap"
  shows "all_events s' = all_events s \<and> length (o_events s') \<le> events_cap"
  using assms(1,3)
proof (induction rule: orch_run.induct)
  case (run_step s s' s'')
  then show ?case using step_events [OF _ assms(2)] step_cap by metis
qed simp


definition created_metric :: "(unit, mem_db) orch" where
  "created_metric = snd (CreateMetric (\<lambda>_. None) (Some \<lparr> crm_Metric = Some sample_metric \<rparr>) (new_orch strategy_AllowAll empty_db))"

lemma created_metric_events:
  "o_tasks created_metric = [SendEvent (metric_event TYPE_METADATA_CHANGED ''TLS'')]"
  "o_events created_metric = []" "o_delivered created_metric = []"
  by (simp_all add: created_metric_def CreateMetric_def storage_Count_def storage_Create_def mem_gorm_def metric_key_def
      metric_col_def sample_metric_def go_stmt_def new_orch_def)


end
