(* ===== verification/Orch_Certificates.thy ===== *)
theory Orch_Certificates
  imports Orch_CloudService
begin

text \<open>
  Certificates (src/service/orchestrator/certificates.go). A certificate belongs to a cloud
  service; lookup, listing and removal are restricted to the services of the caller, the public
  listing shows every certificate without its state history.
\<close>

section \<open>Requests\<close>

record CreateCertificateRequest =
  crc_Certificate :: "Certificate option"

record UpdateCertificateRequest =
  upc_Certificate :: "Certificate option"

record GetCertificateRequest =
  gc_CertificateId :: string

record RemoveCertificateRequest =
  rc_CertificateId :: string

definition ErrCertificationNotFound :: go_error where
  "ErrCertificationNotFound = Status NotFound ''certificate not found''"

definition cert_GetCloudServiceId :: "Certificate option \<Rightarrow> string" where
  "cert_GetCloudServiceId c = (case c of None \<Rightarrow> [] | Some c \<Rightarrow> cert_CloudServiceId c)"

definition empty_Certificate :: Certificate where
  "empty_Certificate = \<lparr> cert_Id = [], cert_Name = [], cert_CloudServiceId = [], cert_IssueDate = [],
     cert_ExpirationDate = [], cert_Standard = [], cert_AssuranceLevel = [], cert_Cab = [], cert_Description = [],
     cert_States = [] \<rparr>"

section \<open>Handlers\<close>

definition CreateCertificate ::
  "CreateCertificateRequest validator \<Rightarrow> 'ctx \<Rightarrow> CreateCertificateRequest option \<Rightarrow> ('ctx, 'db) orch \<Rightarrow>
   Certificate res \<times> ('ctx, 'db) orch" where
  "CreateCertificate v ctx req s =
     (case Validate v req of
        Err err \<Rightarrow> (Err err, s)
      | Panic \<Rightarrow> (Panic, s)
      | Ok req \<Rightarrow>
          if \<not> az_CheckAccess (o_authz s) ctx AccessCreate (cert_GetCloudServiceId (crc_Certificate req))
          then (Err ErrPermissionDenied, s)
          else (case crc_Certificate req of
             None \<Rightarrow> (Panic, s)
           | Some c \<Rightarrow>
               (case storage_Create (tb_Certificate (o_tables s)) c (o_db s) of
                  (Err err, d) \<Rightarrow>
                    (Err (Status Internal (''could not add certificate to the database: '' @ error_string err)), s\<lparr>o_db := d\<rparr>)
                | (Panic, d) \<Rightarrow> (Panic, s\<lparr>o_db := d\<rparr>)
                | (Ok _, d) \<Rightarrow> (Ok c, s\<lparr>o_db := d\<rparr>))))"

definition GetCertificate ::
  "GetCertificateRequest validator \<Rightarrow> 'ctx \<Rightarrow> GetCertificateRequest option \<Rightarrow> ('ctx, 'db) orch \<Rightarrow> Certificate res" where
  "GetCertificate v ctx req s =
     (case Validate v req of
        Err err \<Rightarrow> Err err
      | Panic \<Rightarrow> Panic
      | Ok req \<Rightarrow>
          (case storage_Get (tb_Certificate (o_tables s)) (cond_eq ''Id'' (gc_CertificateId req)) (o_db s) of
             Err err \<Rightarrow> if errors_Is err ErrRecordNotFound then Err ErrCertificationNotFound else Err (database_error err)
           | Panic \<Rightarrow> Panic
           | Ok res \<Rightarrow>
               (let (all, allowed) = az_AllowedCloudServices (o_authz s) ctx
                in if \<not> all \<and> \<not> slices_Contains allowed (cert_CloudServiceId res)
                   then Err (Status PermissionDenied (error_string ErrPermissionDenied))
                   else Ok res)))"

definition ListCertificates ::
  "proto_lib \<Rightarrow> PaginatedRequest validator \<Rightarrow> 'ctx \<Rightarrow> PaginatedRequest option \<Rightarrow> ('ctx, 'db) orch \<Rightarrow>
   (Certificate list \<times> string) res" where
  "ListCertificates pb v ctx req s =
     (case Validate v req of
        Err err \<Rightarrow> Err err
      | Panic \<Rightarrow> Panic
      | Ok req \<Rightarrow>
          (let (all, allowed) = az_AllowedCloudServices (o_authz s) ctx;
               frags = (if \<not> all then [([TAtom (AIn ''cloud_service_id'')], [VStrs allowed])] else [])
           in case PaginateStorage pb req (tb_Certificate (o_tables s)) DefaultPaginationOpts (frag_conds frags) (o_db s) of
                Err err \<Rightarrow> Err (Status Internal (''could not paginate results: '' @ error_string err))
              | r \<Rightarrow> r))"

definition ListPublicCertificates ::
  "proto_lib \<Rightarrow> PaginatedRequest validator \<Rightarrow> PaginatedRequest option \<Rightarrow> ('ctx, 'db) orch \<Rightarrow>
   (Certificate list \<times> string) res" where
  "ListPublicCertificates pb v req s =
     (case Validate v req of
        Err err \<Rightarrow> Err err
      | Panic \<Rightarrow> Panic
      | Ok req \<Rightarrow>
          (case PaginateStorage pb req (tb_Certificate (o_tables s)) DefaultPaginationOpts [] (o_db s) of
             Err err \<Rightarrow> Err (Status Internal (''could not paginate results: '' @ error_string err))
           | Panic \<Rightarrow> Panic
           | Ok (certs, npt) \<Rightarrow> Ok (map (\<lambda>c. c\<lparr>cert_States := []\<rparr>) certs, npt)))"

definition UpdateCertificate ::
  "UpdateCertificateRequest validator \<Rightarrow> 'ctx \<Rightarrow> UpdateCertificateRequest option \<Rightarrow> ('ctx, 'db) orch \<Rightarrow>
   Certificate res \<times> ('ctx, 'db) orch" where
  "UpdateCertificate v ctx req s =
     (case Validate v req of
        Err err \<Rightarrow> (Err err, s)
      | Panic \<Rightarrow> (Panic, s)
      | Ok req \<Rightarrow>
          if \<not> az_CheckAccess (o_authz s) ctx AccessUpdate (cert_GetCloudServiceId (upc_Certificate req))
          then (Err ErrPermissionDenied, s)
          else (case upc_Certificate req of
             None \<Rightarrow> (Panic, s)
           | Some c \<Rightarrow>
               (case storage_Count (tb_Certificate (o_tables s)) (cond_eq ''id'' (cert_Id c)) (o_db s) of
                  Err err \<Rightarrow> (Err (database_error err), s)
                | Panic \<Rightarrow> (Panic, s)
                | Ok n \<Rightarrow>
                    if n = 0 then (Err ErrCertificationNotFound, s)
                    else (case storage_Save (tb_Certificate (o_tables s)) c (cond_eq ''Id'' (cert_Id c)) (o_db s) of
                            (Err err, d) \<Rightarrow> (Err (database_error err), s\<lparr>o_db := d\<rparr>)
                          | (Panic, d) \<Rightarrow> (Panic, s\<lparr>o_db := d\<rparr>)
                          | (Ok _, d) \<Rightarrow> (Ok c, s\<lparr>o_db := d\<rparr>)))))"

text \<open>\<open>checkExistence\<close> and \<open>checkAuthorization\<close>: \<open>Ok ()\<close> is a nil error.\<close>

definition checkExistence :: "RemoveCertificateRequest \<Rightarrow> ('ctx, 'db) orch \<Rightarrow> unit res" where
  "checkExistence req s =
     (case storage_Count (tb_Certificate (o_tables s)) (cond_eq ''Id'' (rc_CertificateId req)) (o_db s) of
        Err err \<Rightarrow> Err (database_error err)
      | Panic \<Rightarrow> Panic
      | Ok n \<Rightarrow> if n = 0 then Err ErrCertificationNotFound else Ok ())"

definition checkAuthorization :: "'ctx \<Rightarrow> RemoveCertificateRequest \<Rightarrow> ('ctx, 'db) orch \<Rightarrow> unit res" where
  "checkAuthorization ctx req s =
     (let (all, allowed) = az_AllowedCloudServices (o_authz s) ctx
      in if \<not> all then
           (case storage_Count (tb_Certificate (o_tables s))
                   [CQuery [TAtom (AEq ''id''), TAnd, TAtom (AIn ''cloud_service_id'')],
                    CVal (VStr (rc_CertificateId req)), CVal (VStrs allowed)] (o_db s) of
              Err err \<Rightarrow> Err (database_error err)
            | Panic \<Rightarrow> Panic
            | Ok n \<Rightarrow> if n = 0 then Err ErrPermissionDenied else Ok ())
         else Ok ())"

definition RemoveCertificate ::
  "RemoveCertificateRequest validator \<Rightarrow> 'ctx \<Rightarrow> RemoveCertificateRequest option \<Rightarrow> ('ctx, 'db) orch \<Rightarrow>
   unit res \<times> ('ctx, 'db) orch" where
  "RemoveCertificate v ctx req s =
     (case Validate v req of
        Err err \<Rightarrow> (Err err, s)
      | Panic \<Rightarrow> (Panic, s)
      | Ok req \<Rightarrow>
          (case checkExistence req s of
             Err err \<Rightarrow> (Err err, s)
           | Panic \<Rightarrow> (Panic, s)
           | Ok _ \<Rightarrow>
               (case checkAuthorization ctx req s of
                  Err err \<Rightarrow> (Err err, s)
                | Panic \<Rightarrow> (Panic, s)
                | Ok _ \<Rightarrow>
                    (case storage_Delete (tb_Certificate (o_tables s)) empty_Certificate
                            (cond_eq ''Id'' (rc_CertificateId req)) (o_db s) of
                       (Err err, d) \<Rightarrow> (Err (database_error err), s\<lparr>o_db := d\<rparr>)
                     | (Panic, d) \<Rightarrow> (Panic, s\<lparr>o_db := d\<rparr>)
                     | (Ok _, d) \<Rightarrow> (Ok (), s\<lparr>o_db := d\<rparr>)))))"

section \<open>Lemmas\<close>

definition cert_table :: "(Certificate, 'db) table \<Rightarrow> bool" where
  "cert_table T \<longleftrightarrow> has_schema T certificate_key certificate_col"

lemma mem_cert_table [simp]: "cert_table (mem_sem mt_Certificate)"
  by (simp add: cert_table_def)

lemma cert_table_key: "cert_table T \<Longrightarrow> t_key T = (\<lambda>c. [cert_Id c])"
  by (auto simp: cert_table_def has_schema_def certificate_key_def)

lemma cert_holds:
  "cert_table T \<Longrightarrow> t_holds T d (cond_eq ''Id'' k) c \<longleftrightarrow> cert_Id c = k"
  "cert_table T \<Longrightarrow> t_holds T d [CQuery [TAtom (AEq ''id''), TAnd, TAtom (AIn ''cloud_service_id'')], CVal (VStr k), CVal (VStrs ks)] c
     \<longleftrightarrow> cert_Id c = k \<and> cert_CloudServiceId c \<in> set ks"
  by (auto simp: t_holds_def cert_table_def has_schema_def certificate_col_def sql_holds_def)

lemma cert_load:
  assumes "gorm_table g T" "cert_table T"
  shows "cert_CloudServiceId (t_load T p d c) = cert_CloudServiceId c" "cert_Id (t_load T p d c) = cert_Id c"
proof -
  have col: "certificate_col (t_load T p d c) = certificate_col c"
    using gorm_table.load_col [OF assms(1)] assms(2) by (simp add: cert_table_def has_schema_def)
  show "cert_CloudServiceId (t_load T p d c) = cert_CloudServiceId c"
    using fun_cong [OF col, of "''cloud_service_id''"] by (simp add: certificate_col_def)
  show "cert_Id (t_load T p d c) = cert_Id c"
    using fun_cong [OF col, of "''id''"] by (simp add: certificate_col_def)
qed

lemma checkExistence_result:
  assumes "gorm_table (tb_Certificate (o_tables s)) T" "cert_table T" "available (tb_Certificate (o_tables s)) (o_db s)"
  shows "checkExistence req s = (if rc_CertificateId req \<in> cert_Id ` t_rows T (o_db s) then Ok () else Err ErrCertificationNotFound)"
proof -
  obtain n where "storage_Count (tb_Certificate (o_tables s)) (cond_eq ''Id'' (rc_CertificateId req)) (o_db s) = Ok n"
    "n = 0 \<longleftrightarrow> (\<forall>r \<in> t_rows T (o_db s). cert_Id r \<noteq> rc_CertificateId req)"
    using gorm_table.Count_zero_iff [OF assms(1,3), of "cond_eq ''Id'' (rc_CertificateId req)"]
    unfolding cert_holds [OF assms(2)] by (metis cond_eq_simps(3))
  moreover have "rc_CertificateId req \<in> cert_Id ` t_rows T (o_db s) \<longleftrightarrow>
      \<not> (\<forall>r \<in> t_rows T (o_db s). cert_Id r \<noteq> rc_CertificateId req)" unfolding in_image by simp
  ultimately show ?thesis by (simp add: checkExistence_def)
qed

lemma checkAuthorization_result:
  assumes "gorm_table (tb_Certificate (o_tables s)) T" "cert_table T" "available (tb_Certificate (o_tables s)) (o_db s)"
    "authz_strategy (o_authz s)" "c \<in> t_rows T (o_db s)" "cert_Id c = rc_CertificateId req"
  shows "checkAuthorization ctx req s =
    (if az_CheckAccess (o_authz s) ctx typ (cert_CloudServiceId c) then Ok () else Err ErrPermissionDenied)"
proof -
  let ?d = "o_db s" and ?al = "snd (az_AllowedCloudServices (o_authz s) ctx)"
  let ?cs = "[CQuery [TAtom (AEq ''id''), TAnd, TAtom (AIn ''cloud_service_id'')], CVal (VStr (rc_CertificateId req)), CVal (VStrs ?al)]"
  have uniq: "x = c" if "x \<in> t_rows T ?d" "cert_Id x = rc_CertificateId req" for x
    using gorm_table.st_row_unique [OF assms(1) that(1) assms(5)] that(2) assms(6) by (simp add: cert_table_key [OF assms(2)])
  then have none: "(\<forall>x \<in> t_rows T ?d. \<not> t_holds T ?d ?cs x) \<longleftrightarrow> cert_CloudServiceId c \<notin> set ?al"
    using assms(5,6) unfolding cert_holds [OF assms(2)] by blast
  obtain n where "storage_Count (tb_Certificate (o_tables s)) ?cs ?d = Ok n" "n = 0 \<longleftrightarrow> cert_CloudServiceId c \<notin> set ?al"
    using gorm_table.Count_zero_iff [OF assms(1,3), of ?cs] unfolding none by auto
  then show ?thesis
    using authz_strategy.check_iff_allowed [OF assms(4), of ctx "typ"] by (simp add: checkAuthorization_def split_def Let_def)
qed

section \<open>Properties\<close>


definition sample_cert :: Certificate where
  "sample_cert = empty_Certificate\<lparr>cert_Id := ''k1'', cert_CloudServiceId := ''u1''\<rparr>"


text \<open>
  The two listings of certificates. \<open>ListCertificates\<close> shows only certificates of services
  that the caller may access (also when the caller may access none); \<open>ListPublicCertificates\<close>
  shows certificates of every service, but never their state history.
\<close>

lemma ListCertificates_scope:
  assumes "gorm_table (tb_Certificate (o_tables s)) T" "cert_table T" "authz_strategy (o_authz s)"
    "ListCertificates pb v ctx req s = Ok (page, npt)" "ListPublicCertificates pb v' req' s = Ok (page', npt')"
  shows "(\<forall>c \<in> set page. az_CheckAccess (o_authz s) ctx typ (cert_CloudServiceId c)) \<and> (\<forall>c \<in> set page'. cert_States c = [])"
proof (intro conjI ballI)
  fix c
  assume c: "c \<in> set page"
  show "az_CheckAccess (o_authz s) ctx typ (cert_CloudServiceId c)"
  proof (cases "fst (az_AllowedCloudServices (o_authz s) ctx)")
    case True
    then show ?thesis using authz_strategy.check_iff_allowed [OF assms(3)] by simp
  next
    case False
    let ?al = "snd (az_AllowedCloudServices (o_authz s) ctx)"
    let ?fs = "[([TAtom (AIn ''cloud_service_id'')], [VStrs ?al])]"
    obtain rq :: PaginatedRequest where pg: "PaginateStorage pb rq (tb_Certificate (o_tables s)) DefaultPaginationOpts
        (frag_conds ?fs) (o_db s) = Ok (page, npt)"
      using assms(4) False by (auto simp: ListCertificates_def Let_def split: res.splits prod.splits if_splits)
    from PaginateStorage_sound [OF assms(1) pg frag_conds_simps(2,1) c] obtain r
      where r: "t_holds T (o_db s) (frag_conds ?fs) r" "c = t_load T PreloadAssociations (o_db s) r" by blast
    then have "cert_CloudServiceId r \<in> set ?al"
      using assms(2) by (simp add: t_holds_def frag_conds_holds cert_table_def has_schema_def certificate_col_def)
    then have "cert_CloudServiceId c \<in> set ?al" using cert_load(1) [OF assms(1,2)] r(2) by simp
    then show ?thesis using authz_strategy.check_iff_allowed [OF assms(3)] by simp
  qed
next
  fix c
  assume "c \<in> set page'"
  then show "cert_States c = []"
    using assms(5) by (auto simp: ListPublicCertificates_def split: res.splits)
qed

text \<open>
  What \<open>UpdateCertificate\<close> checks and writes. On success the caller has access to the service
  named in the new certificate, a certificate with this identifier existed, and it is replaced as a
  whole. The service of the certificate that is replaced is not consulted: a certificate of
  another service can be taken over by its identifier.
\<close>

lemma UpdateCertificate_writes:
  assumes "gorm_table (tb_Certificate (o_tables s)) T" "cert_table T" "upc_Certificate req = Some c0"
    "UpdateCertificate v ctx (Some req) s = (Ok c, s')"
  shows "c = c0 \<and> az_CheckAccess (o_authz s) ctx AccessUpdate (cert_CloudServiceId c0) \<and>
    cert_Id c0 \<in> cert_Id ` t_rows T (o_db s) \<and>
    t_rows T (o_db s') = insert c0 {x \<in> t_rows T (o_db s). cert_Id x \<noteq> cert_Id c0}"
proof -
  obtain n d where c: "c = c0" "az_CheckAccess (o_authz s) ctx AccessUpdate (cert_CloudServiceId c0)"
    and cnt: "storage_Count (tb_Certificate (o_tables s)) (cond_eq ''id'' (cert_Id c0)) (o_db s) = Ok n" "n \<noteq> 0"
    and sv: "storage_Save (tb_Certificate (o_tables s)) c0 (cond_eq ''Id'' (cert_Id c0)) (o_db s) = (Ok (), d)"
    and s': "s' = s\<lparr>o_db := d\<rparr>"
    using assms(3,4) by (auto simp: UpdateCertificate_def cert_GetCloudServiceId_def split: res.splits prod.splits if_splits)
  have "0 \<le> n" using gorm_table.st_Count_nonneg [OF assms(1) cnt(1)] by simp
  with cnt(2) have "0 < n" by simp
  from gorm_table.st_Count_pos [OF assms(1) cnt(1) _ this] obtain r
    where "r \<in> t_rows T (o_db s)" "t_holds T (o_db s) (cond_eq ''id'' (cert_Id c0)) r" by auto
  then have "cert_Id r = cert_Id c0" "r \<in> t_rows T (o_db s)"
    using assms(2) by (simp_all add: holds_eq cert_table_def has_schema_def certificate_col_def)
  then have "cert_Id c0 \<in> cert_Id ` t_rows T (o_db s)" by (metis imageI)
  moreover have "t_rows T d = insert c0 {x \<in> t_rows T (o_db s). cert_Id x \<noteq> cert_Id c0}"
    using gorm_table.st_Save_Ok [OF assms(1) sv] by (simp add: cert_table_key [OF assms(2)])
  ultimately show ?thesis using c s' by simp
qed

end
