(* ===== verification/Ontology.thy ===== *)
theory Ontology
  imports Authorization
begin

text \<open>
  Resources of the ontology (src/api/ontology/ontology.go): their types, their relationships and their properties as a map.
  A resource is a protobuf message. What the sources read of it by reflection is the record \<open>resource\<close>: the
  identifier, the raw data, the names of its types, its JSON object, and its fields by name with the Go values that
  protobuf reflection gives for them.
\<close>

datatype field_value = FString string | FStrings "string list" | FOther

record resource =
  or_Id :: string
  or_TypeNames :: "string list"
  or_JSON :: "(string \<rightharpoonup> json) res"
  or_Raw :: string
  or_Fields :: "(string \<times> field_value) list"

definition ResourceTypes :: "resource \<Rightarrow> string list" where
  "ResourceTypes r = or_TypeNames r"

definition HasType :: "resource \<Rightarrow> string \<Rightarrow> bool" where
  "HasType r typ = slices_Contains (ResourceTypes r) typ"

definition ResourceMap :: "resource \<Rightarrow> (string \<rightharpoonup> json) res" where
  "ResourceMap r =
     (case or_JSON r of
        Err err \<Rightarrow> Err err
      | Panic \<Rightarrow> Panic
      | Ok props \<Rightarrow> Ok (props(''type'' \<mapsto> JArray (map JString (ResourceTypes r)))))"

record Relationship =
  rel_Property :: string
  rel_Value :: string

fun field_relations :: "string \<Rightarrow> field_value \<Rightarrow> Relationship list" where
  "field_relations property (FString v) = (if v \<noteq> [] then [\<lparr> rel_Property = property, rel_Value = v \<rparr>] else [])"
| "field_relations property (FStrings vs) = map (\<lambda>v. \<lparr> rel_Property = property, rel_Value = v \<rparr>) vs"
| "field_relations property FOther = []"

fun related_fields :: "(string \<times> field_value) list \<Rightarrow> Relationship list" where
  "related_fields [] = []"
| "related_fields ((name, v) # fs) =
     (case CutSuffix name ''_id'' of
        (property, found) \<Rightarrow> (if found then field_relations property v else []) @ related_fields fs)"

definition Related :: "resource \<Rightarrow> Relationship list" where
  "Related r = related_fields (or_Fields r)"

text \<open>A set string field \<open>p_id\<close> gives the relationship \<open>p\<close>, and there are no relationships but those of fields with that ending.\<close>

lemma HasSuffix_append [simp]: "HasSuffix (s @ t) t"
  by (simp add: HasSuffix_def HasPrefix_def)

lemma CutSuffix_append: "CutSuffix (p @ t) t = (p, True)"
  by (simp add: CutSuffix_def)

lemma Related_string: "(p @ ''_id'', FString v) \<in> set fs \<Longrightarrow> v \<noteq> [] \<Longrightarrow> \<lparr> rel_Property = p, rel_Value = v \<rparr> \<in> set (related_fields fs)"
proof (induction fs)
  case (Cons f fs)
  obtain name w where f: "f = (name, w)" by fastforce
  obtain q found where c: "CutSuffix name ''_id'' = (q, found)" by fastforce
  show ?case
  proof (cases "f = (p @ ''_id'', FString v)")
    case True
    then show ?thesis using Cons.prems(2) CutSuffix_append [of p "''_id''"] by simp
  next
    case False
    then have "\<lparr> rel_Property = p, rel_Value = v \<rparr> \<in> set (related_fields fs)" using Cons by simp
    then show ?thesis using f c by simp
  qed
qed simp

lemma Related_field:
  "rel \<in> set (related_fields fs) \<Longrightarrow> \<exists>name v. (name, v) \<in> set fs \<and> HasSuffix name ''_id'' \<and> v \<noteq> FOther"
proof (induction fs)
  case (Cons f fs)
  obtain name v where f: "f = (name, v)" by fastforce
  show ?case
  proof (cases "rel \<in> set (related_fields fs)")
    case True
    with Cons.IH show ?thesis by auto
  next
    case False
    with Cons.prems f have "HasSuffix name ''_id''" "v \<noteq> FOther" by (auto simp: CutSuffix_def split: if_splits)
    with f show ?thesis by auto
  qed
qed simp

end
