(* ===== verification/Policies.thy ===== *)
theory Policies
  imports Messages Pagination Ontology
begin

text \<open>
  The policy evaluation with its two caches (src/policies/policies.go, src/policies/rego.go) and the parts of
  src/api/assessment/metric.go that it uses.

  The Rego engine, its store, the JSON and protobuf encoders and \<open>status.FromError\<close> of gRPC are fields of the
  record \<open>rego_lib\<close>. The source of metrics is stateful, since the assessment service caches
  configurations in it. The locks make \<open>Eval\<close> of concurrent evidences take turns on the caches.
\<close>

section \<open>Interfaces\<close>

record ('tx, 'q) rego_lib =
  rl_NewTransaction :: "structpb_Value option \<Rightarrow> string \<Rightarrow> MetricConfiguration \<Rightarrow> 'tx res"
  rl_UpsertPolicy :: "'tx \<Rightarrow> string \<Rightarrow> string \<Rightarrow> 'tx res"
  rl_PrepareForEval :: "'tx \<Rightarrow> string \<Rightarrow> string \<Rightarrow> string \<Rightarrow> 'q res"
  rl_Commit :: "'tx \<Rightarrow> go_error option"
  rl_Eval :: "'q \<Rightarrow> (string \<rightharpoonup> json) \<Rightarrow> (string \<rightharpoonup> json) list res"
  rl_Marshal :: "json \<Rightarrow> string res"
  rl_UnmarshalConfig :: "string \<Rightarrow> MetricConfiguration res"
  rl_FromError :: "go_error \<Rightarrow> (code \<times> string) option"
  rl_fmtValue :: "structpb_Value option \<Rightarrow> string"

record 's MetricsSource =
  ms_Metrics :: "'s \<Rightarrow> Metric list res \<times> 's"
  ms_MetricConfiguration :: "string \<Rightarrow> string \<Rightarrow> 's \<Rightarrow> MetricConfiguration res \<times> 's"
  ms_MetricImplementation :: "MetricImplementation_Language \<Rightarrow> string \<Rightarrow> 's \<Rightarrow> MetricImplementation res \<times> 's"

record Result =
  r_Applicable :: bool
  r_Compliant :: bool
  r_TargetValue :: json
  r_Operator :: string
  r_MetricID :: string
  r_Config :: "MetricConfiguration option"

record 'q regoEval =
  re_qc :: "string \<rightharpoonup> 'q"
  re_mrtc :: "string \<rightharpoonup> string list option"
  re_pkg :: string

definition DefaultRegoPackage :: string where
  "DefaultRegoPackage = ''clouditor.metrics''"

definition WithPackageName :: "string \<Rightarrow> 'q regoEval \<Rightarrow> 'q regoEval" where
  "WithPackageName pkg re = re\<lparr>re_pkg := pkg\<rparr>"

definition NewRegoEval :: "('q regoEval \<Rightarrow> 'q regoEval) list \<Rightarrow> 'q regoEval" where
  "NewRegoEval opts = fold (\<lambda>opt re. opt re) opts \<lparr> re_qc = Map.empty, re_mrtc = Map.empty, re_pkg = DefaultRegoPackage \<rparr>"

section \<open>Keys\<close>

definition createKey :: "Evidence \<Rightarrow> string list \<Rightarrow> string" where
  "createKey evidence types = filter (\<lambda>c. c \<noteq> CHR '' '') (Join (types @ [ev_ToolId evidence]) ''-'')"

text \<open>\<open>base64.RawURLEncoding\<close> is the URL encoding without the padding.\<close>

definition Hash :: "('tx, 'q) rego_lib \<Rightarrow> MetricConfiguration \<Rightarrow> string" where
  "Hash lib x =
     filter (\<lambda>c. c \<noteq> CHR ''='') (b64_enc (map of_char (mc_Operator x @ ''-'' @ rl_fmtValue lib (mc_TargetValue x))))"

definition query_key :: "('tx, 'q) rego_lib \<Rightarrow> string \<Rightarrow> string \<Rightarrow> MetricConfiguration \<Rightarrow> string" where
  "query_key lib metricID serviceID config = metricID @ ''-'' @ serviceID @ ''-'' @ Hash lib config"

section \<open>The cache of prepared queries\<close>

definition qc_Get :: "string \<Rightarrow> ('s \<Rightarrow> 'q res \<times> 's) \<Rightarrow> (string \<rightharpoonup> 'q) \<times> 's \<Rightarrow> 'q res \<times> (string \<rightharpoonup> 'q) \<times> 's" where
  "qc_Get key orElse qcs =
     (case qcs of (qc, s) \<Rightarrow>
        (case qc key of
           Some query \<Rightarrow> (Ok query, qc, s)
         | None \<Rightarrow>
             (case orElse s of
                (Ok query, s') \<Rightarrow> (Ok query, qc(key \<mapsto> query), s')
              | (r, s') \<Rightarrow> (r, qc, s'))))"

definition qc_Empty :: "(string \<rightharpoonup> 'q) \<Rightarrow> (string \<rightharpoonup> 'q)" where
  "qc_Empty qc = Map.empty"

definition qc_Evict :: "string \<Rightarrow> (string \<rightharpoonup> 'q) \<Rightarrow> (string \<rightharpoonup> 'q)" where
  "qc_Evict metric qc = (\<lambda>k. if HasPrefix k metric then None else qc k)"

definition HandleMetricEvent :: "MetricChangeEvent \<Rightarrow> 'q regoEval \<Rightarrow> 'q regoEval" where
  "HandleMetricEvent event re = re\<lparr>re_qc := qc_Evict (mce_MetricId event) (re_qc re)\<rparr>"

section \<open>Evaluation of one metric\<close>

definition newline :: string where
  "newline = [CHR 0x0A, CHR 0x09, CHR 0x09, CHR 0x09]"

definition rego_query :: "string \<Rightarrow> string \<Rightarrow> string" where
  "rego_query prefix pkg =
     newline @ ''applicable = data.'' @ prefix @ ''.'' @ pkg @ ''.applicable;'' @
     newline @ ''compliant = data.'' @ prefix @ ''.'' @ pkg @ ''.compliant;'' @
     newline @ ''operator = data.clouditor.operator;'' @
     newline @ ''target_value = data.clouditor.target_value;'' @
     newline @ ''config = data.clouditor.config''"

text \<open>The part of the preparation after the implementation has been fetched.\<close>

definition prepare_code ::
  "('tx, 'q) rego_lib \<Rightarrow> string \<Rightarrow> string \<Rightarrow> string \<Rightarrow> 'tx \<Rightarrow> MetricImplementation \<Rightarrow> 'q res" where
  "prepare_code lib baseDir prefix metricID tx impl =
     (case rl_UpsertPolicy lib tx (baseDir @ ''/policies/bundles/'' @ metricID @ ''/metric.rego'') (mi_Code impl) of
        Err err \<Rightarrow> Err (Wrap ''could not upsert policy: '' err)
      | Panic \<Rightarrow> Panic
      | Ok tx' \<Rightarrow>
          (case rl_PrepareForEval lib tx' (rego_query prefix (CamelCaseToSnakeCase metricID)) prefix (baseDir @ ''/policies/operators.rego'') of
             Err err \<Rightarrow> Err (Wrap (''could not prepare rego evaluation for metric '' @ metricID @ '': '') err)
           | Panic \<Rightarrow> Panic
           | Ok query \<Rightarrow>
               (case rl_Commit lib tx' of
                  Some err \<Rightarrow> Err (Wrap ''could not commit transaction: '' err)
                | None \<Rightarrow> Ok query)))"

text \<open>The function that prepares a query which is not in the cache.\<close>

definition prepare ::
  "('tx, 'q) rego_lib \<Rightarrow> string \<Rightarrow> string \<Rightarrow> string \<Rightarrow> MetricConfiguration \<Rightarrow> 's MetricsSource \<Rightarrow> 's \<Rightarrow> 'q res \<times> 's" where
  "prepare lib baseDir prefix metricID config src s =
     (case rl_NewTransaction lib (mc_TargetValue config) (mc_Operator config) config of
        Err err \<Rightarrow> (Err (Wrap ''could not create transaction: '' err), s)
      | Panic \<Rightarrow> (Panic, s)
      | Ok tx \<Rightarrow>
          (case ms_MetricImplementation src LANGUAGE_REGO metricID s of
             (Err err, s') \<Rightarrow> (Err (Wrap (''could not fetch policy for metric '' @ metricID @ '': '') err), s')
           | (Panic, s') \<Rightarrow> (Panic, s')
           | (Ok impl, s') \<Rightarrow> (prepare_code lib baseDir prefix metricID tx impl, s')))"

text \<open>Type assertions on a binding; a missing binding is Go's nil.\<close>

fun as_bool :: "json option \<Rightarrow> bool res" where
  "as_bool (Some (JBool b)) = Ok b"
| "as_bool v = Panic"

fun as_string :: "json option \<Rightarrow> string res" where
  "as_string (Some (JString b)) = Ok b"
| "as_string v = Panic"

definition run_query ::
  "('tx, 'q) rego_lib \<Rightarrow> string \<Rightarrow> (string \<rightharpoonup> json) \<Rightarrow> 'q \<Rightarrow> Result option res" where
  "run_query lib metricID m query =
     (case rl_Eval lib query m of
        Err err \<Rightarrow> Err (Wrap ''could not evaluate rego policy: '' err)
      | Panic \<Rightarrow> Panic
      | Ok [] \<Rightarrow> Err (ErrText (''no results. probably the package name of metric '' @ metricID @ '' is wrong''))
      | Ok (b # _) \<Rightarrow>
          (case (as_bool (b ''applicable''), as_bool (b ''compliant''), as_string (b ''operator'')) of
             (Ok applicable, Ok compliant, Ok operator) \<Rightarrow>
               (case rl_Marshal lib (Deref JNull (b ''config'')) of
                  Err err \<Rightarrow> Err (Wrap ''JSON marshal failed: '' err)
                | Panic \<Rightarrow> Panic
                | Ok bytes \<Rightarrow>
                    (case rl_UnmarshalConfig lib bytes of
                       Err err \<Rightarrow> Err (Wrap ''JSON unmarshal failed: '' err)
                     | Panic \<Rightarrow> Panic
                     | Ok config \<Rightarrow>
                         if \<not> applicable then Ok None
                         else Ok (Some \<lparr> r_Applicable = applicable, r_Compliant = compliant,
                           r_TargetValue = Deref JNull (b ''target_value''), r_Operator = operator, r_MetricID = metricID,
                           r_Config = Some config \<rparr>)))
           | _ \<Rightarrow> Panic))"

definition evalMap ::
  "('tx, 'q) rego_lib \<Rightarrow> string \<Rightarrow> string \<Rightarrow> string \<Rightarrow> (string \<rightharpoonup> json) \<Rightarrow> 's MetricsSource \<Rightarrow> 'q regoEval \<times> 's \<Rightarrow>
   Result option res \<times> 'q regoEval \<times> 's" where
  "evalMap lib baseDir serviceID metricID m src rs =
     (case rs of (re, s) \<Rightarrow>
        (case ms_MetricConfiguration src serviceID metricID s of
           (Err err, s') \<Rightarrow> (Err (Wrap (''could not fetch metric configuration for metric '' @ metricID @ '': '') err), re, s')
         | (Panic, s') \<Rightarrow> (Panic, re, s')
         | (Ok config, s') \<Rightarrow>
             (case qc_Get (query_key lib metricID serviceID config)
                     (prepare lib baseDir (re_pkg re) metricID config src) (re_qc re, s') of
                (Err err, qc, s'') \<Rightarrow> (Err (Wrap (''could not fetch cached query for metric '' @ metricID @ '': '') err), re\<lparr>re_qc := qc\<rparr>, s'')
              | (Panic, qc, s'') \<Rightarrow> (Panic, re\<lparr>re_qc := qc\<rparr>, s'')
              | (Ok query, qc, s'') \<Rightarrow> (run_query lib metricID m query, re\<lparr>re_qc := qc\<rparr>, s''))))"

section \<open>Evaluation of an evidence\<close>

text \<open>A metric that has no implementation or configuration is skipped.\<close>

definition is_missing :: "('tx, 'q) rego_lib \<Rightarrow> go_error \<Rightarrow> bool" where
  "is_missing lib err =
     (case rl_FromError lib err of
        Some (c, msg) \<Rightarrow> c = NotFound \<and> (str_Contains msg ''implementation for metric not found'' \<or>
            str_Contains msg ''metric configuration not found for metric'')
      | None \<Rightarrow> False)"

text \<open>The two loops: over all metrics, with the list of applicable metrics; and over a cached list.\<close>

fun eval_metrics ::
  "('tx, 'q) rego_lib \<Rightarrow> string \<Rightarrow> string \<Rightarrow> (string \<rightharpoonup> json) \<Rightarrow> 's MetricsSource \<Rightarrow> string list \<Rightarrow> 'q regoEval \<times> 's \<Rightarrow>
   (string list \<times> Result list) res \<times> 'q regoEval \<times> 's" where
  "eval_metrics lib baseDir serviceID m src [] rs = (Ok ([], []), rs)"
| "eval_metrics lib baseDir serviceID m src (metric # metrics) rs =
     (case evalMap lib baseDir serviceID metric m src rs of
        (Err err, rs') \<Rightarrow>
          if is_missing lib err then eval_metrics lib baseDir serviceID m src metrics rs' else (Err err, rs')
      | (Panic, rs') \<Rightarrow> (Panic, rs')
      | (Ok runMap, rs') \<Rightarrow>
          (case eval_metrics lib baseDir serviceID m src metrics rs' of
             (Ok (cached, data), rs'') \<Rightarrow>
               (case runMap of
                  None \<Rightarrow> (Ok (cached, data), rs'')
                | Some r \<Rightarrow> (Ok (metric # cached, r # data), rs''))
           | r \<Rightarrow> r))"

fun eval_cached ::
  "('tx, 'q) rego_lib \<Rightarrow> string \<Rightarrow> string \<Rightarrow> (string \<rightharpoonup> json) \<Rightarrow> 's MetricsSource \<Rightarrow> string list \<Rightarrow> 'q regoEval \<times> 's \<Rightarrow>
   Result list res \<times> 'q regoEval \<times> 's" where
  "eval_cached lib baseDir serviceID m src [] rs = (Ok [], rs)"
| "eval_cached lib baseDir serviceID m src (metric # metrics) rs =
     (case evalMap lib baseDir serviceID metric m src rs of
        (Err err, rs') \<Rightarrow> (Err err, rs')
      | (Panic, rs') \<Rightarrow> (Panic, rs')
      | (Ok runMap, rs') \<Rightarrow>
          (case eval_cached lib baseDir serviceID m src metrics rs' of
             (Ok data, rs'') \<Rightarrow> (Ok ((case runMap of None \<Rightarrow> [] | Some r \<Rightarrow> [r]) @ data), rs'')
           | r \<Rightarrow> r))"

definition Eval ::
  "('tx, 'q) rego_lib \<Rightarrow> Evidence \<Rightarrow> resource \<Rightarrow> 's MetricsSource \<Rightarrow> 'q regoEval \<times> 's \<Rightarrow> Result list res \<times> 'q regoEval \<times> 's" where
  "Eval lib evidence r src rs =
     (case ResourceMap r of
        Err err \<Rightarrow> (Err err, rs)
      | Panic \<Rightarrow> (Panic, rs)
      | Ok m \<Rightarrow>
          (let key = createKey evidence (ResourceTypes r); (re, s) = rs
           in case re_mrtc re key of
                Some (Some cached) \<Rightarrow> eval_cached lib ''.'' (ev_CloudServiceId evidence) m src cached rs
              | _ \<Rightarrow>
                  (case ms_Metrics src s of
                     (Err err, s') \<Rightarrow> (Err (Wrap ''could not retrieve metric definitions: '' err), re, s')
                   | (Panic, s') \<Rightarrow> (Panic, re, s')
                   | (Ok metrics, s') \<Rightarrow>
                       (case eval_metrics lib ''.'' (ev_CloudServiceId evidence) m src (map m_Id metrics) (re, s') of
                          (Err err, re', s'') \<Rightarrow> (Err err, re'\<lparr>re_mrtc := (re_mrtc re')(key \<mapsto> None)\<rparr>, s'')
                        | (Panic, re', s'') \<Rightarrow> (Panic, re', s'')
                        | (Ok (cached, data), re', s'') \<Rightarrow>
                            (Ok data, re'\<lparr>re_mrtc := (re_mrtc re')(key \<mapsto> Some cached)\<rparr>, s'')))))"

section \<open>Evaluation without caches\<close>

text \<open>
  What the evaluation computes when the source answers with fixed configurations \<open>cfg\<close> and
  implementations \<open>impl\<close> and nothing is cached.
\<close>

definition prepare_ref ::
  "('tx, 'q) rego_lib \<Rightarrow> string \<Rightarrow> string \<Rightarrow> (string \<Rightarrow> MetricImplementation res) \<Rightarrow> string \<Rightarrow> MetricConfiguration \<Rightarrow> 'q res" where
  "prepare_ref lib baseDir prefix impl mid config =
     (case rl_NewTransaction lib (mc_TargetValue config) (mc_Operator config) config of
        Err err \<Rightarrow> Err (Wrap ''could not create transaction: '' err)
      | Panic \<Rightarrow> Panic
      | Ok tx \<Rightarrow>
          (case impl mid of
             Err err \<Rightarrow> Err (Wrap (''could not fetch policy for metric '' @ mid @ '': '') err)
           | Panic \<Rightarrow> Panic
           | Ok i \<Rightarrow> prepare_code lib baseDir prefix mid tx i))"

definition evalMap_ref ::
  "('tx, 'q) rego_lib \<Rightarrow> string \<Rightarrow> string \<Rightarrow> (string \<Rightarrow> string \<Rightarrow> MetricConfiguration res) \<Rightarrow> (string \<Rightarrow> MetricImplementation res) \<Rightarrow>
   string \<Rightarrow> (string \<rightharpoonup> json) \<Rightarrow> string \<Rightarrow> Result option res" where
  "evalMap_ref lib baseDir prefix cfg impl sid m mid =
     (case cfg sid mid of
        Err err \<Rightarrow> Err (Wrap (''could not fetch metric configuration for metric '' @ mid @ '': '') err)
      | Panic \<Rightarrow> Panic
      | Ok config \<Rightarrow>
          (case prepare_ref lib baseDir prefix impl mid config of
             Err err \<Rightarrow> Err (Wrap (''could not fetch cached query for metric '' @ mid @ '': '') err)
           | Panic \<Rightarrow> Panic
           | Ok query \<Rightarrow> run_query lib mid m query))"

fun ref_metrics :: "(string \<Rightarrow> Result option res) \<Rightarrow> (go_error \<Rightarrow> bool) \<Rightarrow> string list \<Rightarrow> (string list \<times> Result list) res" where
  "ref_metrics f missing [] = Ok ([], [])"
| "ref_metrics f missing (mid # mids) =
     (case f mid of
        Err err \<Rightarrow> if missing err then ref_metrics f missing mids else Err err
      | Panic \<Rightarrow> Panic
      | Ok runMap \<Rightarrow>
          (case ref_metrics f missing mids of
             Ok (ids, data) \<Rightarrow> Ok (case runMap of None \<Rightarrow> (ids, data) | Some r \<Rightarrow> (mid # ids, r # data))
           | r \<Rightarrow> r))"

fun ref_cached :: "(string \<Rightarrow> Result option res) \<Rightarrow> string list \<Rightarrow> Result list res" where
  "ref_cached f [] = Ok []"
| "ref_cached f (mid # mids) =
     (case f mid of
        Err err \<Rightarrow> Err err
      | Panic \<Rightarrow> Panic
      | Ok runMap \<Rightarrow>
          (case ref_cached f mids of
             Ok data \<Rightarrow> Ok ((case runMap of None \<Rightarrow> [] | Some r \<Rightarrow> [r]) @ data)
           | r \<Rightarrow> r))"

text \<open>The results of the applicable metrics, in order.\<close>

definition applicable_results :: "(string \<Rightarrow> Result option res) \<Rightarrow> string list \<Rightarrow> Result list" where
  "applicable_results f mids = concat (map (\<lambda>mid. case f mid of Ok (Some r) \<Rightarrow> [r] | _ \<Rightarrow> []) mids)"

lemma ref_metrics_results:
  "ref_metrics f missing mids = Ok (ids, data) \<Longrightarrow> data = applicable_results f mids \<and> ref_cached f ids = Ok data"
proof (induction mids arbitrary: ids data)
  case Nil
  then show ?case by (simp add: applicable_results_def)
next
  case (Cons mid mids)
  show ?case
  proof (cases "f mid")
    case (Ok o1)
    with Cons.prems obtain ids' data' where rest: "ref_metrics f missing mids = Ok (ids', data')"
      and d: "(ids, data) = (case o1 of None \<Rightarrow> (ids', data') | Some r \<Rightarrow> (mid # ids', r # data'))"
      by (auto split: res.splits)
    from Cons.IH [OF rest] d Ok show ?thesis by (cases o1) (simp_all add: applicable_results_def)
  qed (use Cons in \<open>simp_all add: applicable_results_def split: if_splits\<close>)
qed

section \<open>Identifiers and keys\<close>

text \<open>
  Identifiers of metrics have no hyphen, and identifiers of cloud services are UUIDs with 36
  characters. For such identifiers the key determines both.
\<close>

definition plain_ids :: "string \<Rightarrow> string \<Rightarrow> bool" where
  "plain_ids mid sid \<longleftrightarrow> CHR ''-'' \<notin> set mid \<and> length sid = 36"

lemma query_key_inj:
  assumes "plain_ids mid sid" "plain_ids mid' sid'" "query_key lib mid sid c = query_key lib mid' sid' c'"
  shows "mid = mid' \<and> sid = sid'"
proof -
  have tw: "takeWhile (\<lambda>c. c \<noteq> CHR ''-'') (query_key lib x y z) = x" if "plain_ids x w" for x y z w
    unfolding query_key_def using that by (subst takeWhile_append2) (auto simp: plain_ids_def)
  from tw [OF assms(1)] tw [OF assms(2)] assms(3) have mid: "mid = mid'" by metis
  with assms(3) have "sid @ ''-'' @ Hash lib c = sid' @ ''-'' @ Hash lib c'" by (simp add: query_key_def)
  then have "sid = sid'" using assms(1,2) by (simp add: plain_ids_def)
  with mid show ?thesis by simp
qed

section \<open>Coherence of the query cache\<close>

text \<open>Every cached query is the one that a fresh preparation gives.\<close>

definition coherent ::
  "('tx, 'q) rego_lib \<Rightarrow> string \<Rightarrow> (string \<Rightarrow> string \<Rightarrow> MetricConfiguration res) \<Rightarrow> (string \<Rightarrow> MetricImplementation res) \<Rightarrow>
   (string \<rightharpoonup> 'q) \<Rightarrow> bool" where
  "coherent lib prefix cfg impl qc \<longleftrightarrow>
     (\<forall>mid sid c q. plain_ids mid sid \<and> cfg sid mid = Ok c \<and> qc (query_key lib mid sid c) = Some q \<longrightarrow>
        prepare_ref lib ''.'' prefix impl mid c = Ok q)"

lemma coherent_empty: "coherent lib prefix cfg impl Map.empty"
  by (simp add: coherent_def)

lemma coherent_insert:
  assumes "coherent lib prefix cfg impl qc" "plain_ids mid sid" "cfg sid mid = Ok c" "prepare_ref lib ''.'' prefix impl mid c = Ok q"
  shows "coherent lib prefix cfg impl (qc(query_key lib mid sid c \<mapsto> q))"
  unfolding coherent_def
proof (intro allI impI; elim conjE)
  fix mid' sid' c' q'
  assume a: "plain_ids mid' sid'" "cfg sid' mid' = Ok c'" "(qc(query_key lib mid sid c \<mapsto> q)) (query_key lib mid' sid' c') = Some q'"
  show "prepare_ref lib ''.'' prefix impl mid' c' = Ok q'"
  proof (cases "query_key lib mid' sid' c' = query_key lib mid sid c")
    case True
    then have same: "mid' = mid" "sid' = sid" using query_key_inj [OF a(1) assms(2)] by blast+
    then have "c' = c" using a(2) assms(3) by simp
    moreover have "q' = q" using True a(3) by simp
    ultimately show ?thesis using same assms(4) by simp
  next
    case False
    with a assms(1) show ?thesis by (simp add: coherent_def)
  qed
qed

lemma prepare_ref_cong: "impl' mid = impl mid \<Longrightarrow> prepare_ref lib dir prefix impl' mid c = prepare_ref lib dir prefix impl mid c"
  by (simp add: prepare_ref_def cong: res.case_cong)

text \<open>An event for a metric removes every query that its change may have made stale.\<close>

lemma HandleMetricEvent_coherent:
  assumes "coherent lib prefix cfg impl (re_qc re)"
    "\<And>mid. mid \<noteq> mce_MetricId e \<Longrightarrow> impl' mid = impl mid \<and> (\<forall>sid. cfg' sid mid = cfg sid mid)"
  shows "coherent lib prefix cfg' impl' (re_qc (HandleMetricEvent e re))"
  unfolding coherent_def
proof (intro allI impI; elim conjE)
  fix mid sid c q
  assume a: "plain_ids mid sid" "cfg' sid mid = Ok c" "re_qc (HandleMetricEvent e re) (query_key lib mid sid c) = Some q"
  then have qc: "\<not> HasPrefix (query_key lib mid sid c) (mce_MetricId e)" "re_qc re (query_key lib mid sid c) = Some q"
    by (auto simp: HandleMetricEvent_def qc_Evict_def split: if_splits)
  then have "mid \<noteq> mce_MetricId e" by (auto simp: query_key_def)
  with assms(2) a(2) have eq: "cfg sid mid = Ok c" "impl' mid = impl mid" by auto
  then have "prepare_ref lib ''.'' prefix impl mid c = Ok q" using assms(1) a(1) qc(2) by (simp add: coherent_def)
  then show "prepare_ref lib ''.'' prefix impl' mid c = Ok q" by (simp add: prepare_ref_cong [of impl' mid impl, OF eq(2)])
qed

section \<open>Sources that do not change\<close>

text \<open>The contract of a source whose answers are fixed, whatever it caches in its state.\<close>

locale stable_source =
  fixes src :: "'s MetricsSource" and inv :: "'s \<Rightarrow> bool" and metrics :: "Metric list res"
    and cfg :: "string \<Rightarrow> string \<Rightarrow> MetricConfiguration res" and impl :: "string \<Rightarrow> MetricImplementation res"
  assumes metrics_stable: "inv s \<Longrightarrow> \<exists>s'. ms_Metrics src s = (metrics, s') \<and> inv s'"
    and config_stable: "inv s \<Longrightarrow> plain_ids mid sid \<Longrightarrow> \<exists>s'. ms_MetricConfiguration src sid mid s = (cfg sid mid, s') \<and> inv s'"
    and impl_stable: "inv s \<Longrightarrow> \<exists>s'. ms_MetricImplementation src LANGUAGE_REGO mid s = (impl mid, s') \<and> inv s'"
begin

lemma prepare_stable:
  assumes "inv s"
  shows "\<exists>s'. prepare lib baseDir prefix mid c src s = (prepare_ref lib baseDir prefix impl mid c, s') \<and> inv s'"
proof -
  from impl_stable [OF assms] obtain s' where s': "ms_MetricImplementation src LANGUAGE_REGO mid s = (impl mid, s')" "inv s'" by blast
  show ?thesis
  proof (cases "rl_NewTransaction lib (mc_TargetValue c) (mc_Operator c) c")
    case (Ok tx)
    then show ?thesis using s' by (cases "impl mid") (simp_all add: prepare_def prepare_ref_def)
  qed (use assms in \<open>simp_all add: prepare_def prepare_ref_def\<close>)
qed

lemma qc_Get_stable:
  assumes "inv s" "coherent lib prefix cfg impl qc" "plain_ids mid sid" "cfg sid mid = Ok c"
  shows "\<exists>qc' s'. qc_Get (query_key lib mid sid c) (prepare lib ''.'' prefix mid c src) (qc, s) =
      (prepare_ref lib ''.'' prefix impl mid c, qc', s') \<and> inv s' \<and> coherent lib prefix cfg impl qc'"
proof (cases "qc (query_key lib mid sid c)")
  case None
  from prepare_stable [OF assms(1)] obtain s' where
    s': "prepare lib ''.'' prefix mid c src s = (prepare_ref lib ''.'' prefix impl mid c, s')" "inv s'" by blast
  show ?thesis
    using None s' assms(2) coherent_insert [OF assms(2-4)]
    by (cases "prepare_ref lib ''.'' prefix impl mid c") (simp_all add: qc_Get_def)
next
  case (Some q)
  with assms have "prepare_ref lib ''.'' prefix impl mid c = Ok q" by (simp add: coherent_def)
  with Some assms(1,2) show ?thesis by (simp add: qc_Get_def)
qed

lemma evalMap_stable:
  assumes "inv s" "coherent lib (re_pkg re) cfg impl (re_qc re)" "plain_ids mid sid"
  shows "\<exists>re' s'. evalMap lib ''.'' sid mid m src (re, s) = (evalMap_ref lib ''.'' (re_pkg re) cfg impl sid m mid, re', s') \<and> inv s' \<and>
    coherent lib (re_pkg re') cfg impl (re_qc re') \<and> re_mrtc re' = re_mrtc re \<and> re_pkg re' = re_pkg re"
proof -
  from config_stable [OF assms(1,3)] obtain s1 where s1: "ms_MetricConfiguration src sid mid s = (cfg sid mid, s1)" "inv s1" by blast
  show ?thesis
  proof (cases "cfg sid mid")
    case (Ok c)
    from qc_Get_stable [OF s1(2) assms(2,3) Ok] obtain qc' s' where
      "qc_Get (query_key lib mid sid c) (prepare lib ''.'' (re_pkg re) mid c src) (re_qc re, s1) =
        (prepare_ref lib ''.'' (re_pkg re) impl mid c, qc', s')" "inv s'" "coherent lib (re_pkg re) cfg impl qc'" by blast
    then show ?thesis using s1(1) Ok
      by (cases "prepare_ref lib ''.'' (re_pkg re) impl mid c") (simp_all add: evalMap_def evalMap_ref_def)
  qed (use s1 assms(2) in \<open>simp_all add: evalMap_def evalMap_ref_def\<close>)
qed

lemma eval_metrics_stable:
  assumes "inv s" "coherent lib (re_pkg re) cfg impl (re_qc re)" "\<forall>mid \<in> set mids. plain_ids mid sid"
  shows "\<exists>re' s'. eval_metrics lib ''.'' sid m src mids (re, s) =
      (ref_metrics (evalMap_ref lib ''.'' (re_pkg re) cfg impl sid m) (is_missing lib) mids, re', s') \<and> inv s' \<and>
    coherent lib (re_pkg re') cfg impl (re_qc re') \<and> re_mrtc re' = re_mrtc re \<and> re_pkg re' = re_pkg re"
  using assms
proof (induction mids arbitrary: re s)
  case Nil
  then show ?case by simp
next
  case (Cons mid mids)
  let ?f = "evalMap_ref lib ''.'' (re_pkg re) cfg impl sid m"
  from evalMap_stable [OF Cons.prems(1,2)] Cons.prems(3) obtain re1 s1 where
    1: "evalMap lib ''.'' sid mid m src (re, s) = (?f mid, re1, s1)" "inv s1" "coherent lib (re_pkg re1) cfg impl (re_qc re1)"
      "re_mrtc re1 = re_mrtc re" "re_pkg re1 = re_pkg re" by fastforce
  from Cons.IH [OF 1(2,3)] Cons.prems(3) 1(5) obtain re2 s2 where
    2: "eval_metrics lib ''.'' sid m src mids (re1, s1) = (ref_metrics ?f (is_missing lib) mids, re2, s2)" "inv s2"
      "coherent lib (re_pkg re2) cfg impl (re_qc re2)" "re_mrtc re2 = re_mrtc re1" "re_pkg re2 = re_pkg re1" by auto
  show ?case
  proof (cases "?f mid")
    case (Ok o1)
    show ?thesis using 1 2 Ok
      by (cases "ref_metrics ?f (is_missing lib) mids") (auto split: option.split)
  qed (use 1 2 in simp_all)
qed

lemma eval_cached_stable:
  assumes "inv s" "coherent lib (re_pkg re) cfg impl (re_qc re)" "\<forall>mid \<in> set mids. plain_ids mid sid"
  shows "\<exists>re' s'. eval_cached lib ''.'' sid m src mids (re, s) =
      (ref_cached (evalMap_ref lib ''.'' (re_pkg re) cfg impl sid m) mids, re', s') \<and> inv s' \<and>
    coherent lib (re_pkg re') cfg impl (re_qc re') \<and> re_mrtc re' = re_mrtc re \<and> re_pkg re' = re_pkg re"
  using assms
proof (induction mids arbitrary: re s)
  case Nil
  then show ?case by simp
next
  case (Cons mid mids)
  let ?f = "evalMap_ref lib ''.'' (re_pkg re) cfg impl sid m"
  from evalMap_stable [OF Cons.prems(1,2)] Cons.prems(3) obtain re1 s1 where
    1: "evalMap lib ''.'' sid mid m src (re, s) = (?f mid, re1, s1)" "inv s1" "coherent lib (re_pkg re1) cfg impl (re_qc re1)"
      "re_mrtc re1 = re_mrtc re" "re_pkg re1 = re_pkg re" by fastforce
  from Cons.IH [OF 1(2,3)] Cons.prems(3) 1(5) obtain re2 s2 where
    2: "eval_cached lib ''.'' sid m src mids (re1, s1) = (ref_cached ?f mids, re2, s2)" "inv s2"
      "coherent lib (re_pkg re2) cfg impl (re_qc re2)" "re_mrtc re2 = re_mrtc re1" "re_pkg re2 = re_pkg re1" by auto
  show ?case
  proof (cases "?f mid")
    case (Ok o1)
    show ?thesis using 1 2 Ok by (cases "ref_cached ?f mids") auto
  qed (use 1 2 in simp_all)
qed

end

section \<open>Properties\<close>

lemma HandleMetricEvent_simps [simp]:
  "re_mrtc (HandleMetricEvent e re) = re_mrtc re" "re_pkg (HandleMetricEvent e re) = re_pkg re"
  by (simp_all add: HandleMetricEvent_def)

lemma ref_metrics_ids: "ref_metrics f missing mids = Ok (ids, data) \<Longrightarrow> set ids \<subseteq> set mids"
proof (induction mids arbitrary: ids data)
  case (Cons mid mids)
  then show ?case by (cases "f mid") (fastforce split: res.splits if_splits option.splits)+
qed simp

text \<open>An evaluation without a cached list computes what the reference does.\<close>

lemma Eval_uncached:
  assumes "stable_source src I (Ok ms) cfg impl" "I s" "coherent lib (re_pkg re) cfg impl (re_qc re)"
    "\<forall>m \<in> set ms. plain_ids (m_Id m) (ev_CloudServiceId ev)" "ResourceMap r = Ok props"
    "re_mrtc re (createKey ev (ResourceTypes r)) = None \<or> re_mrtc re (createKey ev (ResourceTypes r)) = Some None"
  shows "fst (Eval lib ev r src (re, s)) = map_res snd
    (ref_metrics (evalMap_ref lib ''.'' (re_pkg re) cfg impl (ev_CloudServiceId ev) props) (is_missing lib) (map m_Id ms))"
proof -
  let ?f = "evalMap_ref lib ''.'' (re_pkg re) cfg impl (ev_CloudServiceId ev) props"
  from stable_source.metrics_stable [OF assms(1,2)] obtain s1 where s1: "ms_Metrics src s = (Ok ms, s1)" "I s1" by blast
  have "\<forall>mid \<in> set (map m_Id ms). plain_ids mid (ev_CloudServiceId ev)" using assms(4) by simp
  from stable_source.eval_metrics_stable [OF assms(1) s1(2) assms(3) this] obtain re2 s2 where
    "eval_metrics lib ''.'' (ev_CloudServiceId ev) props src (map m_Id ms) (re, s1) = (ref_metrics ?f (is_missing lib) (map m_Id ms), re2, s2)"
    by blast
  then show ?thesis
    using assms(5,6) s1(1) by (cases "ref_metrics ?f (is_missing lib) (map m_Id ms)") (auto simp: Eval_def Let_def)
qed

text \<open>What a first evaluation of an evidence computes and leaves behind.\<close>

lemma Eval_first:
  assumes "stable_source src I (Ok ms) cfg impl" "I s" "coherent lib (re_pkg re) cfg impl (re_qc re)"
    "\<forall>m \<in> set ms. plain_ids (m_Id m) (ev_CloudServiceId ev)" "ResourceMap r = Ok props"
    "re_mrtc re (createKey ev (ResourceTypes r)) = None \<or> re_mrtc re (createKey ev (ResourceTypes r)) = Some None"
    "Eval lib ev r src (re, s) = (Ok data, re', s')"
  shows "\<exists>ids. ref_metrics (evalMap_ref lib ''.'' (re_pkg re) cfg impl (ev_CloudServiceId ev) props) (is_missing lib) (map m_Id ms) = Ok (ids, data) \<and>
    re_mrtc re' (createKey ev (ResourceTypes r)) = Some (Some ids) \<and> re_pkg re' = re_pkg re \<and> I s' \<and>
    coherent lib (re_pkg re') cfg impl (re_qc re')"
proof -
  let ?f = "evalMap_ref lib ''.'' (re_pkg re) cfg impl (ev_CloudServiceId ev) props"
  from stable_source.metrics_stable [OF assms(1,2)] obtain s1 where s1: "ms_Metrics src s = (Ok ms, s1)" "I s1" by blast
  have "\<forall>mid \<in> set (map m_Id ms). plain_ids mid (ev_CloudServiceId ev)" using assms(4) by simp
  from stable_source.eval_metrics_stable [OF assms(1) s1(2) assms(3) this] obtain re2 s2 where
    2: "eval_metrics lib ''.'' (ev_CloudServiceId ev) props src (map m_Id ms) (re, s1) = (ref_metrics ?f (is_missing lib) (map m_Id ms), re2, s2)"
      "I s2" "coherent lib (re_pkg re2) cfg impl (re_qc re2)" "re_pkg re2 = re_pkg re" by blast
  show ?thesis
    using assms(5-7) s1(1) 2
    by (cases "ref_metrics ?f (is_missing lib) (map m_Id ms)") (auto simp: Eval_def Let_def)
qed


text \<open>An engine whose query is the code, applicable and compliant when the code occurs as a value of the resource.\<close>

definition echo_lib :: "(string, string) rego_lib" where
  "echo_lib = \<lparr> rl_NewTransaction = (\<lambda>v op c. Ok op), rl_UpsertPolicy = (\<lambda>tx path code. Ok code),
     rl_PrepareForEval = (\<lambda>tx q pkg ops. Ok tx), rl_Commit = (\<lambda>_. None),
     rl_Eval = (\<lambda>q m. Ok [[''applicable'' \<mapsto> JBool (m q \<noteq> None), ''compliant'' \<mapsto> JBool (m q = Some (JBool True)), ''operator'' \<mapsto> JString ''='']]),
     rl_Marshal = (\<lambda>_. Ok []), rl_UnmarshalConfig = (\<lambda>_. Ok \<lparr> mc_Operator = ''='', mc_TargetValue = None, mc_IsDefault = True,
       mc_UpdatedAt = None, mc_MetricId = [], mc_CloudServiceId = [] \<rparr>),
     rl_FromError = (\<lambda>e. map_option (\<lambda>c. (c, error_string e)) (status_code e)), rl_fmtValue = (\<lambda>_. []) \<rparr>"

definition echo_metric :: Metric where
  "echo_metric = \<lparr> m_Id = ''Echo'', m_Name = [], m_Description = [], m_Category = [], m_Scale = NOMINAL, m_Range = None, m_Interval = 0,
     m_Implementation = None, m_DeprecatedSince = None \<rparr>"

definition echo_cfg :: "string \<Rightarrow> string \<Rightarrow> MetricConfiguration res" where
  "echo_cfg sid mid = Ok \<lparr> mc_Operator = ''='', mc_TargetValue = None, mc_IsDefault = True, mc_UpdatedAt = None, mc_MetricId = mid,
     mc_CloudServiceId = sid \<rparr>"

definition echo_impl :: "string \<Rightarrow> string \<Rightarrow> MetricImplementation res" where
  "echo_impl code mid = Ok \<lparr> mi_MetricId = mid, mi_Lang = LANGUAGE_REGO, mi_Code = code, mi_UpdatedAt = None \<rparr>"

definition echo_source :: "string \<Rightarrow> unit MetricsSource" where
  "echo_source code = \<lparr> ms_Metrics = (\<lambda>s. (Ok [echo_metric], s)), ms_MetricConfiguration = (\<lambda>sid mid s. (echo_cfg sid mid, s)),
     ms_MetricImplementation = (\<lambda>lang mid s. (echo_impl code mid, s)) \<rparr>"

lemma echo_stable: "stable_source (echo_source code) (\<lambda>_. True) (Ok [echo_metric]) echo_cfg (echo_impl code)"
  by unfold_locales (simp_all add: echo_source_def)

definition echo_evidence :: Evidence where
  "echo_evidence = \<lparr> ev_Id = ''e'', ev_Timestamp = None, ev_CloudServiceId = replicate 36 (CHR ''0''), ev_ToolId = ''tool'', ev_Raw = None,
     ev_Resource = None \<rparr>"

definition echo_resource :: resource where
  "echo_resource = \<lparr> or_Id = ''vm'', or_TypeNames = [''VirtualMachine''], or_JSON = Ok [''enabled'' \<mapsto> JBool True], or_Raw = [], or_Fields = [] \<rparr>"

lemmas echo_defs = echo_lib_def echo_source_def echo_cfg_def echo_impl_def echo_metric_def echo_evidence_def echo_resource_def

definition echo_result :: "string \<Rightarrow> Result" where
  "echo_result mid = \<lparr> r_Applicable = True, r_Compliant = True, r_TargetValue = JNull, r_Operator = ''='', r_MetricID = mid,
     r_Config = Some \<lparr> mc_Operator = ''='', mc_TargetValue = None, mc_IsDefault = True, mc_UpdatedAt = None, mc_MetricId = [], mc_CloudServiceId = [] \<rparr> \<rparr>"

lemma echo_evalMap:
  "evalMap_ref echo_lib ''.'' pkg echo_cfg (echo_impl ''enabled'') sid [''enabled'' \<mapsto> JBool True, ''type'' \<mapsto> t] mid = Ok (Some (echo_result mid))"
  by (simp add: evalMap_ref_def prepare_ref_def prepare_code_def run_query_def echo_defs echo_result_def)

lemma echo_props: "ResourceMap echo_resource = Ok [''enabled'' \<mapsto> JBool True, ''type'' \<mapsto> JArray [JString ''VirtualMachine'']]"
  by (simp add: ResourceMap_def ResourceTypes_def echo_resource_def)

lemma echo_Eval:
  assumes "stable_source src I (Ok [echo_metric]) echo_cfg (echo_impl ''enabled'')" "I s"
  shows "fst (Eval echo_lib echo_evidence echo_resource src (NewRegoEval [], s)) = Ok [echo_result ''Echo'']"
  using Eval_uncached [OF assms _ _ echo_props, of echo_lib "NewRegoEval []" echo_evidence] echo_evalMap
  by (simp add: NewRegoEval_def coherent_empty plain_ids_def echo_evidence_def echo_metric_def)


text \<open>
  C25: an event makes the evaluation use what has changed. If the cached queries match the old answers of
  the source, and only the configuration or the implementation of one metric changes, then after the
  event for that metric the evaluation of every metric gives what the new answers give.
\<close>

theorem evaluation_after_event:
  assumes "coherent lib (re_pkg re) cfg impl (re_qc re)" "stable_source src I ms cfg' impl'" "I s" "plain_ids mid sid"
    "\<forall>mid'. mid' \<noteq> mce_MetricId e \<longrightarrow> impl' mid' = impl mid' \<and> (\<forall>sid'. cfg' sid' mid' = cfg sid' mid')"
  shows "fst (evalMap lib ''.'' sid mid m src (HandleMetricEvent e re, s)) = evalMap_ref lib ''.'' (re_pkg re) cfg' impl' sid m mid"
proof -
  from HandleMetricEvent_coherent [OF assms(1), of e impl' cfg'] assms(5)
  have "coherent lib (re_pkg (HandleMetricEvent e re)) cfg' impl' (re_qc (HandleMetricEvent e re))" by simp
  from stable_source.evalMap_stable [OF assms(2,3) this assms(4), of m] show ?thesis by auto
qed

theorem evaluation_after_event_witness:
  "fst (evalMap echo_lib ''.'' (ev_CloudServiceId echo_evidence) ''Echo'' [''disabled'' \<mapsto> JBool True] (echo_source ''enabled'')
     (HandleMetricEvent \<lparr> mce_Type = TYPE_IMPLEMENTATION_CHANGED, mce_MetricId = ''Echo'', mce_CloudServiceId = [] \<rparr>
       (NewRegoEval [] \<lparr>re_qc := [query_key echo_lib ''Echo'' (ev_CloudServiceId echo_evidence)
          (case echo_cfg (ev_CloudServiceId echo_evidence) ''Echo'' of Ok c \<Rightarrow> c) \<mapsto> ''disabled'']\<rparr>), ())) = Ok None"
proof -
  let ?sid = "ev_CloudServiceId echo_evidence"
  let ?impl = "\<lambda>mid. if mid = ''Echo'' then echo_impl ''disabled'' mid else echo_impl ''enabled'' mid"
  let ?key = "query_key echo_lib ''Echo'' ?sid (case echo_cfg ?sid ''Echo'' of Ok c \<Rightarrow> c)"
  let ?re = "NewRegoEval [] \<lparr>re_qc := [?key \<mapsto> ''disabled'']\<rparr>"
  have p: "plain_ids ''Echo'' ?sid" by (simp add: plain_ids_def echo_evidence_def)
  have "prepare_ref echo_lib ''.'' (re_pkg ?re) ?impl ''Echo'' (case echo_cfg ?sid ''Echo'' of Ok c \<Rightarrow> c) = Ok ''disabled''"
    by (simp add: prepare_ref_def prepare_code_def echo_defs)
  then have "coherent echo_lib (re_pkg ?re) echo_cfg ?impl (re_qc ?re)"
    using coherent_insert [OF coherent_empty p, of echo_cfg "case echo_cfg ?sid ''Echo'' of Ok c \<Rightarrow> c"] by (simp add: echo_cfg_def)
  from evaluation_after_event [OF this echo_stable [of "''enabled''"] _ p,
      where s = "()" and e = "\<lparr> mce_Type = TYPE_IMPLEMENTATION_CHANGED, mce_MetricId = ''Echo'', mce_CloudServiceId = [] \<rparr>"
        and m = "[''disabled'' \<mapsto> JBool True]"]
  show ?thesis by (simp add: evalMap_ref_def prepare_ref_def prepare_code_def run_query_def echo_defs)
qed

end
