(* ===== verification/Streams.thy ===== *)
theory Streams
  imports Api_Base "HOL-Library.Multiset"
begin

text \<open>
  Client streams with their channels and goroutines (src/api/streams.go).

  A \<open>StreamChannelOf\<close> is shared by pointer between the map of the \<open>StreamsOf\<close>, the callers and the two
  goroutines; pointers are positions in \<open>so_heap\<close>. A goroutine is counted in the state while it
  runs: \<open>ch_sendLoops\<close> send loops, of which \<open>ch_inflight\<close> have fetched a message and are in \<open>SendMsg\<close>, and
  one goroutine for each message of \<open>ch_requeue\<close> that puts it back on the channel. \<open>ch_accepted\<close> and \<open>ch_sent\<close>
  record the messages given to \<open>Send\<close> and the messages that \<open>SendMsg\<close> accepted. The streams and the
  outcome of \<open>SendMsg\<close> are those of gRPC and arbitrary.
\<close>

section \<open>State\<close>

record ('st, 'm) stream_channel =
  ch_channel :: "'m list"
  ch_stream :: "'st option"
  ch_target :: string
  ch_component :: string
  ch_dead :: bool
  ch_sendLoops :: nat
  ch_recvLoops :: nat
  ch_inflight :: "'m list"
  ch_requeue :: "'m list"
  ch_accepted :: "'m list"
  ch_sent :: "'m list"

record ('st, 'm) streams =
  so_channels :: "string \<rightharpoonup> nat"
  so_heap :: "('st, 'm) stream_channel list"

text \<open>An initializer returns a stream and an error; the function itself may be nil.\<close>

type_synonym 'st init_func = "(string \<Rightarrow> 'st option \<times> go_error option) option"

definition ErrMissingInitFunc :: go_error where
  "ErrMissingInitFunc = ErrText ''missing stream initializer function''"

text \<open>Capacity of the channel: \<open>make(chan MsgType, 1000)\<close>.\<close>

definition channel_cap :: nat where
  "channel_cap = 1000"

definition NewStreamsOf :: "('st, 'm) streams" where
  "NewStreamsOf = \<lparr> so_channels = Map.empty, so_heap = [] \<rparr>"

abbreviation update_channel ::
  "nat \<Rightarrow> (('st, 'm) stream_channel \<Rightarrow> ('st, 'm) stream_channel) \<Rightarrow> ('st, 'm) streams \<Rightarrow> ('st, 'm) streams" where
  "update_channel p f s \<equiv> s\<lparr>so_heap := (so_heap s)[p := f (so_heap s ! p)]\<rparr>"

section \<open>Opening streams\<close>

definition addStream ::
  "string \<Rightarrow> string \<Rightarrow> 'st init_func \<Rightarrow> ('st, 'm) streams \<Rightarrow> nat res \<times> ('st, 'm) streams" where
  "addStream target component init s =
     (case init of
        None \<Rightarrow> (Err ErrMissingInitFunc, s)
      | Some f \<Rightarrow>
          (case f target of
             (_, Some err) \<Rightarrow> (Err (Wrap ''could not init stream: '' err), s)
           | (stream, None) \<Rightarrow>
               (Ok (length (so_heap s)),
                \<lparr> so_channels = (so_channels s)(target \<mapsto> length (so_heap s)),
                  so_heap = so_heap s @
                    [\<lparr> ch_channel = [], ch_stream = stream, ch_target = target, ch_component = component, ch_dead = False,
                       ch_sendLoops = 1, ch_recvLoops = 1, ch_inflight = [], ch_requeue = [], ch_accepted = [], ch_sent = [] \<rparr>] \<rparr>)))"

definition restartStream ::
  "nat \<Rightarrow> 'st init_func \<Rightarrow> ('st, 'm) streams \<Rightarrow> nat res \<times> ('st, 'm) streams" where
  "restartStream p init s =
     (case init of
        None \<Rightarrow> (Err ErrMissingInitFunc, s)
      | Some f \<Rightarrow>
          (case f (ch_target (so_heap s ! p)) of
             (stream, Some err) \<Rightarrow> (Err (Wrap ''could not init stream: '' err), update_channel p (\<lambda>c. c\<lparr>ch_stream := stream\<rparr>) s)
           | (stream, None) \<Rightarrow>
               (Ok p, update_channel p (\<lambda>c. c\<lparr>ch_stream := stream, ch_dead := False,
                  ch_recvLoops := ch_recvLoops c + 1, ch_sendLoops := ch_sendLoops c + 1\<rparr>) s)))"

text \<open>
  After a failed restart \<open>c\<close> is the nil pointer that \<open>restartStream\<close> returned, and the error message reads its
  fields.
\<close>

definition GetStream ::
  "string \<Rightarrow> string \<Rightarrow> 'st init_func \<Rightarrow> ('st, 'm) streams \<Rightarrow> nat res \<times> ('st, 'm) streams" where
  "GetStream target component init s =
     (case so_channels s target of
        None \<Rightarrow>
          (case addStream target component init s of
             (Err err, s') \<Rightarrow>
               (Err (Wrap (''could not add stream for '' @ component @ '' with target '' @ quoted target @ '': '') err), s')
           | r \<Rightarrow> r)
      | Some p \<Rightarrow>
          if ch_dead (so_heap s ! p) then
            (case restartStream p init s of
               (Err err, s') \<Rightarrow> (Panic, s')
             | r \<Rightarrow> r)
          else (Ok p, s))"

text \<open>\<open>CloseAll\<close>: the streams that are closed, in any order; calling a method of a nil stream panics.\<close>

definition CloseAll :: "('st, 'm) streams \<Rightarrow> 'st set res" where
  "CloseAll s =
     (let sts = (\<lambda>p. ch_stream (so_heap s ! p)) ` ran (so_channels s)
      in if None \<in> sts then Panic else Ok (the ` sts))"

section \<open>Sending\<close>

text \<open>\<open>Send\<close> blocks on a full channel.\<close>

definition Send :: "nat \<Rightarrow> 'm \<Rightarrow> ('st, 'm) streams \<Rightarrow> ('st, 'm) streams option" where
  "Send p msg s =
     (if length (ch_channel (so_heap s ! p)) < channel_cap
      then Some (update_channel p (\<lambda>c. c\<lparr>ch_channel := ch_channel c @ [msg], ch_accepted := ch_accepted c @ [msg]\<rparr>) s)
      else None)"

text \<open>
  One round of \<open>sendLoop\<close> in two parts: a loop that is not in \<open>SendMsg\<close> fetches the next message; \<open>SendMsg\<close> of
  a message in flight returns. On an error the stream is dead, the loop ends and a goroutine
  holds the message.
\<close>

definition sendLoop_fetch :: "nat \<Rightarrow> ('st, 'm) streams \<Rightarrow> ('st, 'm) streams option" where
  "sendLoop_fetch p s =
     (let c = so_heap s ! p
      in if length (ch_inflight c) < ch_sendLoops c then
           (case ch_channel c of
              [] \<Rightarrow> None
            | m # rest \<Rightarrow> Some (update_channel p (\<lambda>c. c\<lparr>ch_channel := rest, ch_inflight := ch_inflight c @ [m]\<rparr>) s))
         else None)"

definition sendLoop_sent :: "nat \<Rightarrow> nat \<Rightarrow> go_error option \<Rightarrow> ('st, 'm) streams \<Rightarrow> ('st, 'm) streams option" where
  "sendLoop_sent p i err s =
     (let c = so_heap s ! p
      in if i < length (ch_inflight c) then
           (let m = ch_inflight c ! i; others = take i (ch_inflight c) @ drop (Suc i) (ch_inflight c)
            in case err of
                 None \<Rightarrow> Some (update_channel p (\<lambda>c. c\<lparr>ch_inflight := others, ch_sent := ch_sent c @ [m]\<rparr>) s)
               | Some e \<Rightarrow> Some (update_channel p (\<lambda>c. c\<lparr>ch_inflight := others, ch_dead := True,
                   ch_sendLoops := ch_sendLoops c - 1, ch_requeue := ch_requeue c @ [m]\<rparr>) s))
         else None)"

text \<open>The goroutine \<open>c.channel <- m\<close> for the i-th message to put back.\<close>

definition sendLoop_requeue :: "nat \<Rightarrow> nat \<Rightarrow> ('st, 'm) streams \<Rightarrow> ('st, 'm) streams option" where
  "sendLoop_requeue p i s =
     (let c = so_heap s ! p
      in if i < length (ch_requeue c) \<and> length (ch_channel c) < channel_cap then
           Some (update_channel p (\<lambda>c. c\<lparr>ch_requeue := take i (ch_requeue c) @ drop (Suc i) (ch_requeue c),
             ch_channel := ch_channel c @ [ch_requeue c ! i]\<rparr>) s)
         else None)"

text \<open>\<open>recvLoop\<close> ends at the first error of \<open>RecvMsg\<close>; the result is the number of discarded messages.\<close>

fun recvLoop :: "go_error option list \<Rightarrow> nat" where
  "recvLoop [] = 0"
| "recvLoop (Some err # outs) = 0"
| "recvLoop (None # outs) = Suc (recvLoop outs)"

section \<open>Interleaving\<close>

text \<open>
  The work of the goroutines on one channel, with arbitrary outcomes of \<open>SendMsg\<close>, and the calls of
  clients. A client that saw a dead stream may restart it after another one did.
\<close>

inductive loop_step :: "(go_error option \<Rightarrow> bool) \<Rightarrow> nat \<Rightarrow> ('st, 'm) streams \<Rightarrow> ('st, 'm) streams \<Rightarrow> bool"
  for outcome p where
  fetch: "p < length (so_heap s) \<Longrightarrow> sendLoop_fetch p s = Some s' \<Longrightarrow> loop_step outcome p s s'"
| sent: "p < length (so_heap s) \<Longrightarrow> outcome err \<Longrightarrow> sendLoop_sent p i err s = Some s' \<Longrightarrow> loop_step outcome p s s'"
| requeue: "p < length (so_heap s) \<Longrightarrow> sendLoop_requeue p i s = Some s' \<Longrightarrow> loop_step outcome p s s'"

inductive_cases loop_stepE: "loop_step outcome p s s'"

inductive stream_step :: "('st, 'm) streams \<Rightarrow> ('st, 'm) streams \<Rightarrow> bool" where
  get: "GetStream target component init s = (Ok p, s') \<Longrightarrow> stream_step s s'"
| add: "addStream target component init s = (r, s') \<Longrightarrow> stream_step s s'"
| restart: "p < length (so_heap s) \<Longrightarrow> restartStream p init s = (r, s') \<Longrightarrow> stream_step s s'"
| send: "p < length (so_heap s) \<Longrightarrow> Send p m s = Some s' \<Longrightarrow> stream_step s s'"
| loop: "loop_step (\<lambda>_. True) p s s' \<Longrightarrow> stream_step s s'"

inductive stream_reach :: "('st, 'm) streams \<Rightarrow> bool" where
  initial: "stream_reach NewStreamsOf"
| step: "stream_reach s \<Longrightarrow> stream_step s s' \<Longrightarrow> stream_reach s'"

section \<open>Invariant\<close>

definition chan_ok :: "('st, 'm) stream_channel \<Rightarrow> bool" where
  "chan_ok c \<longleftrightarrow>
     mset (ch_accepted c) = mset (ch_sent c) + mset (ch_inflight c) + mset (ch_channel c) + mset (ch_requeue c) \<and>
     length (ch_channel c) \<le> channel_cap \<and> length (ch_inflight c) \<le> ch_sendLoops c \<and> (ch_dead c \<or> 0 < ch_sendLoops c)"

definition streams_ok :: "('st, 'm) streams \<Rightarrow> bool" where
  "streams_ok s \<longleftrightarrow> (\<forall>c \<in> set (so_heap s). chan_ok c) \<and>
     (\<forall>t p. so_channels s t = Some p \<longrightarrow> p < length (so_heap s) \<and> ch_target (so_heap s ! p) = t)"

lemma update_channel_ok:
  assumes "streams_ok s" "p < length (so_heap s)" "chan_ok c" "ch_target c = ch_target (so_heap s ! p)"
  shows "streams_ok (s\<lparr>so_heap := (so_heap s)[p := c]\<rparr>)"
  using assms set_update_subset_insert [of "so_heap s" p c] by (auto simp: streams_ok_def nth_list_update)

lemma streams_okD: "streams_ok s \<Longrightarrow> p < length (so_heap s) \<Longrightarrow> chan_ok (so_heap s ! p)"
  by (simp add: streams_ok_def)

lemma take_drop_mset: "i < length xs \<Longrightarrow> mset xs = add_mset (xs ! i) (mset (take i xs) + mset (drop (Suc i) xs))"
  using id_take_nth_drop [of i xs] by (metis mset.simps(2) mset_append union_mset_add_mset_right)

lemma addStream_ok: "streams_ok s \<Longrightarrow> addStream target component init s = (r, s') \<Longrightarrow> streams_ok s'"
  by (auto simp: addStream_def streams_ok_def chan_ok_def nth_append split: option.splits prod.splits if_splits)
    (metis less_SucI)

lemma restartStream_ok:
  assumes "streams_ok s" "p < length (so_heap s)" "restartStream p init s = (r, s')"
  shows "streams_ok s'"
  using assms streams_okD [OF assms(1,2)]
  by (auto simp: restartStream_def chan_ok_def intro!: update_channel_ok split: option.splits prod.splits)

lemma GetStream_ok:
  assumes "streams_ok s" "GetStream target component init s = (Ok p, s')"
  shows "streams_ok s'"
proof (cases "so_channels s target")
  case None
  with assms show ?thesis using addStream_ok by (auto simp: GetStream_def split: prod.splits res.splits)
next
  case (Some q)
  with assms(1) have "q < length (so_heap s)" by (simp add: streams_ok_def)
  with Some assms show ?thesis using restartStream_ok [OF assms(1), of q init]
    by (auto simp: GetStream_def split: prod.splits res.splits if_splits)
qed

lemma Send_ok:
  assumes "streams_ok s" "p < length (so_heap s)" "Send p m s = Some s'"
  shows "streams_ok s'"
  using assms streams_okD [OF assms(1,2)] by (auto simp: Send_def chan_ok_def intro!: update_channel_ok split: if_splits)

lemma loop_step_ok:
  assumes "streams_ok s" "loop_step outcome p s s'"
  shows "streams_ok s'"
  using assms(2)
proof (rule loop_stepE)
  assume "p < length (so_heap s)" "sendLoop_fetch p s = Some s'"
  then show ?thesis using assms(1) streams_okD [OF assms(1), of p]
    by (auto simp: sendLoop_fetch_def Let_def chan_ok_def intro!: update_channel_ok split: if_splits list.splits)
next
  fix err i
  assume "p < length (so_heap s)" "sendLoop_sent p i err s = Some s'"
  then show ?thesis using assms(1) streams_okD [OF assms(1), of p] take_drop_mset [of i "ch_inflight (so_heap s ! p)"]
    by (auto simp: sendLoop_sent_def Let_def chan_ok_def intro!: update_channel_ok split: if_splits option.splits)
next
  fix i
  assume "p < length (so_heap s)" "sendLoop_requeue p i s = Some s'"
  then show ?thesis using assms(1) streams_okD [OF assms(1), of p] take_drop_mset [of i "ch_requeue (so_heap s ! p)"]
    by (auto simp: sendLoop_requeue_def Let_def chan_ok_def intro!: update_channel_ok split: if_splits)
qed

lemma reach_ok: "stream_reach s \<Longrightarrow> streams_ok s"
proof (induction rule: stream_reach.induct)
  case initial
  show ?case by (simp add: streams_ok_def NewStreamsOf_def)
next
  case (step s s')
  from step(2,3) show ?case
    by (induction rule: stream_step.induct)
      (auto intro: GetStream_ok addStream_ok restartStream_ok Send_ok loop_step_ok)
qed

section \<open>Draining a channel\<close>

text \<open>The runs of the goroutines of channel \<open>p\<close> while its stream accepts what it is given.\<close>

inductive drain :: "nat \<Rightarrow> ('st, 'm) streams \<Rightarrow> ('st, 'm) streams \<Rightarrow> bool" for p where
  drain_refl: "drain p s s"
| drain_step: "loop_step (\<lambda>err. err = None) p s s' \<Longrightarrow> drain p s' s'' \<Longrightarrow> drain p s s''"

definition channel_work :: "('st, 'm) stream_channel \<Rightarrow> nat" where
  "channel_work c = length (ch_inflight c) + 2 * length (ch_channel c) + 3 * length (ch_requeue c)"

text \<open>What a step of the goroutines keeps of its channel when nothing fails.\<close>

lemma drain_step_keeps:
  assumes "loop_step (\<lambda>err. err = None) p s s'"
  shows "length (so_heap s') = length (so_heap s) \<and> p < length (so_heap s) \<and>
    ch_accepted (so_heap s' ! p) = ch_accepted (so_heap s ! p) \<and> ch_sendLoops (so_heap s' ! p) = ch_sendLoops (so_heap s ! p) \<and>
    channel_work (so_heap s' ! p) < channel_work (so_heap s ! p)"
  using assms
  by (rule loop_stepE)
    (auto simp: sendLoop_fetch_def sendLoop_sent_def sendLoop_requeue_def Let_def channel_work_def
      split: if_splits list.splits option.splits)

lemma drain_step_possible:
  assumes "p < length (so_heap s)" "0 < ch_sendLoops (so_heap s ! p)" "channel_work (so_heap s ! p) \<noteq> 0"
  shows "\<exists>s'. loop_step (\<lambda>err. err = None) p s s'"
proof (cases "ch_inflight (so_heap s ! p)")
  case (Cons m ms)
  then have "\<exists>s'. sendLoop_sent p 0 None s = Some s'" by (simp add: sendLoop_sent_def Let_def)
  then show ?thesis using loop_step.sent [OF assms(1), where outcome = "\<lambda>err. err = None" and err = None and i = 0] by blast
next
  case Nil
  note inflight = this
  show ?thesis
  proof (cases "ch_channel (so_heap s ! p)")
    case (Cons m ms)
    then have "\<exists>s'. sendLoop_fetch p s = Some s'" using inflight assms(2) by (simp add: sendLoop_fetch_def Let_def)
    then show ?thesis using loop_step.fetch [OF assms(1), where outcome = "\<lambda>err. err = None"] by blast
  next
    case Nil
    then have "\<exists>s'. sendLoop_requeue p 0 s = Some s'"
      using inflight assms(3) by (simp add: sendLoop_requeue_def Let_def channel_work_def channel_cap_def)
    then show ?thesis using loop_step.requeue [OF assms(1), where outcome = "\<lambda>err. err = None" and i = 0] by blast
  qed
qed

lemma drain_completes:
  assumes "p < length (so_heap s)" "0 < ch_sendLoops (so_heap s ! p)" "streams_ok s"
  shows "\<exists>s'. drain p s s' \<and> streams_ok s' \<and> channel_work (so_heap s' ! p) = 0 \<and> p < length (so_heap s') \<and>
    ch_accepted (so_heap s' ! p) = ch_accepted (so_heap s ! p)"
  using assms
proof (induction "channel_work (so_heap s ! p)" arbitrary: s rule: less_induct)
  case less
  show ?case
  proof (cases "channel_work (so_heap s ! p) = 0")
    case True
    then show ?thesis using less.prems drain.drain_refl by blast
  next
    case False
    then obtain s1 where s1: "loop_step (\<lambda>err. err = None) p s s1" using drain_step_possible less.prems(1,2) by blast
    note k = drain_step_keeps [OF s1]
    then obtain s' where "drain p s1 s'" "streams_ok s'" "channel_work (so_heap s' ! p) = 0" "p < length (so_heap s')"
        "ch_accepted (so_heap s' ! p) = ch_accepted (so_heap s1 ! p)"
      using less.hyps [of s1] less.prems loop_step_ok [OF less.prems(3) s1] by auto
    then show ?thesis using k drain.drain_step [OF s1] by auto
  qed
qed

section \<open>Properties\<close>

text \<open>
  C5: no message is lost or duplicated, whatever fails. In every reachable state, for every channel,
  the messages accepted by \<open>Send\<close> are exactly those sent, those in flight, those on the channel and those
  waiting to be put back; the buffer is within its capacity; a stream that is not dead has a send loop;
  and the map of the streams leads to the channel of its target.
\<close>

theorem streams_invariant:
  assumes "stream_reach s"
  shows "(\<forall>c \<in> set (so_heap s). mset (ch_accepted c) =
        mset (ch_sent c) + mset (ch_inflight c) + mset (ch_channel c) + mset (ch_requeue c) \<and>
      length (ch_channel c) \<le> 1000 \<and> (\<not> ch_dead c \<longrightarrow> 0 < ch_sendLoops c)) \<and>
    (\<forall>t p. so_channels s t = Some p \<longrightarrow> p < length (so_heap s) \<and> ch_target (so_heap s ! p) = t)"
  using reach_ok [OF assms] by (auto simp: streams_ok_def chan_ok_def channel_cap_def)

text \<open>A stream whose first message fails.\<close>

definition failed_once :: "(unit, nat) streams" where
  "failed_once =
     (let (_, s1) = GetStream ''localhost:9090'' ''Orchestrator'' (Some (\<lambda>_. (Some (), None))) NewStreamsOf
      in the (sendLoop_sent 0 0 (Some EOF) (the (sendLoop_fetch 0 (the (Send 0 7 s1))))))"

lemma failed_once_eq:
  "failed_once = \<lparr> so_channels = [''localhost:9090'' \<mapsto> 0],
     so_heap = [\<lparr> ch_channel = [], ch_stream = Some (), ch_target = ''localhost:9090'', ch_component = ''Orchestrator'',
       ch_dead = True, ch_sendLoops = 0, ch_recvLoops = 1, ch_inflight = [], ch_requeue = [7], ch_accepted = [7], ch_sent = [] \<rparr>] \<rparr>"
  by (simp add: failed_once_def GetStream_def addStream_def NewStreamsOf_def Send_def sendLoop_fetch_def sendLoop_sent_def
      channel_cap_def Let_def)

lemma failed_once_reach: "stream_reach failed_once"
proof -
  let ?s1 = "snd (GetStream ''localhost:9090'' ''Orchestrator'' (Some (\<lambda>_. (Some (), None))) NewStreamsOf) :: (unit, nat) streams"
  let ?s2 = "the (Send 0 7 ?s1)"
  let ?s3 = "the (sendLoop_fetch 0 ?s2)"
  note defs = GetStream_def addStream_def NewStreamsOf_def Send_def sendLoop_fetch_def sendLoop_sent_def channel_cap_def Let_def
  have "stream_step NewStreamsOf ?s1"
    by (rule stream_step.get [of "''localhost:9090''" "''Orchestrator''" "Some (\<lambda>_. (Some (), None))" _ 0]) (simp add: defs)
  then have 1: "stream_reach ?s1" using stream_reach.step stream_reach.initial by blast
  have "stream_step ?s1 ?s2" by (rule stream_step.send [of 0 _ 7]) (simp_all add: defs)
  then have 2: "stream_reach ?s2" using stream_reach.step 1 by blast
  have "loop_step (\<lambda>_. True) 0 ?s2 ?s3" by (rule loop_step.fetch) (simp_all add: defs)
  then have 3: "stream_reach ?s3" using stream_reach.step stream_step.loop 2 by blast
  have "loop_step (\<lambda>_. True) 0 ?s3 failed_once"
    by (rule loop_step.sent [where err = "Some EOF" and i = 0]) (simp_all add: failed_once_def defs)
  then show ?thesis using stream_reach.step stream_step.loop 3 by blast
qed

theorem streams_invariant_witness:
  "{#7#} = mset (ch_sent (so_heap failed_once ! 0)) + mset (ch_inflight (so_heap failed_once ! 0)) +
     mset (ch_channel (so_heap failed_once ! 0)) + mset (ch_requeue (so_heap failed_once ! 0))"
  using streams_invariant [OF failed_once_reach] by (simp add: failed_once_eq)

text \<open>
  C23: once a stream is up, everything arrives. In every reachable state whose channel \<open>p\<close> is not dead,
  the goroutines of the channel can run until no message is left, and, while \<open>SendMsg\<close> succeeds, each of
  their steps brings that end nearer; then exactly the messages accepted so far have been sent,
  including those that failed earlier and were put back.
\<close>

theorem streams_deliver:
  assumes "stream_reach s" "p < length (so_heap s)" "\<not> ch_dead (so_heap s ! p)"
  shows "(\<exists>s'. drain p s s' \<and> channel_work (so_heap s' ! p) = 0 \<and>
      mset (ch_sent (so_heap s' ! p)) = mset (ch_accepted (so_heap s ! p))) \<and>
    (\<forall>s'. loop_step (\<lambda>err. err = None) p s s' \<longrightarrow> channel_work (so_heap s' ! p) < channel_work (so_heap s ! p))"
proof -
  have ok: "streams_ok s" by (rule reach_ok [OF assms(1)])
  then have "0 < ch_sendLoops (so_heap s ! p)" using streams_okD [OF ok assms(2)] assms(3) by (simp add: chan_ok_def)
  from drain_completes [OF assms(2) this ok] obtain s' where
    s': "drain p s s'" "streams_ok s'" "channel_work (so_heap s' ! p) = 0" "p < length (so_heap s')"
      "ch_accepted (so_heap s' ! p) = ch_accepted (so_heap s ! p)" by blast
  moreover have "mset (ch_sent (so_heap s' ! p)) = mset (ch_accepted (so_heap s' ! p))"
    using streams_okD [OF s'(2,4)] s'(3) by (simp add: chan_ok_def channel_work_def)
  ultimately show ?thesis using drain_step_keeps by metis
qed

theorem streams_deliver_witness:
  "\<exists>s'. drain 0 (snd (GetStream ''localhost:9090'' ''Orchestrator'' (Some (\<lambda>_. (Some (), None))) failed_once)) s' \<and>
     mset (ch_sent (so_heap s' ! 0)) = {#7#}"
proof -
  let ?s = "snd (GetStream ''localhost:9090'' ''Orchestrator'' (Some (\<lambda>_. (Some (), None))) failed_once)"
  have "stream_step failed_once ?s"
    by (rule stream_step.get [of "''localhost:9090''" "''Orchestrator''" "Some (\<lambda>_. (Some (), None))" _ 0])
      (simp add: GetStream_def restartStream_def failed_once_eq)
  then have "stream_reach ?s" using stream_reach.step failed_once_reach by blast
  from streams_deliver [OF this, of 0] show ?thesis
    by (auto simp: GetStream_def restartStream_def failed_once_eq)
qed

text \<open>
  A restart that fails does not give the caller an error. When the stream of the target is dead and the
  initializer fails, \<open>GetStream\<close> dereferences the nil pointer that \<open>restartStream\<close> returned; a first
  connection that fails is reported as an error.
\<close>

lemma GetStream_failures:
  assumes "init = None \<or> (\<exists>f st err. init = Some f \<and> f target = (st, Some err))"
  shows "(so_channels s target = None \<longrightarrow> (\<exists>err. fst (GetStream target component init s) = Err err)) \<and>
    (\<forall>p. so_channels s target = Some p \<and> ch_dead (so_heap s ! p) \<and> ch_target (so_heap s ! p) = target \<longrightarrow>
      fst (GetStream target component init s) = Panic)"
  using assms by (auto simp: GetStream_def addStream_def restartStream_def)

end
