(* ===== verification/Connection.thy ===== *)
theory Connection
  imports Api_Base
begin

text \<open>
  Client connections: the lazily dialled gRPC connection (src/api/connection.go) and the dial options with
  the authorizer (src/api/authorizer.go).

  \<open>grpc.Dial\<close>, the state of a client connection and the calls on it are arguments; a token source is the
  outcome of its \<open>Token\<close> call.
\<close>

section \<open>Authorizer and dial options\<close>

record token =
  tok_Type :: string
  tok_AccessToken :: string

datatype ('auth, 'opt) dial_option = WithTLS string | WithInsecure | WithPerRPCCredentials 'auth | AdditionalOpt 'opt

definition RequireTransportSecurity :: bool where
  "RequireTransportSecurity = False"

text \<open>The map of \<open>GetRequestMetadata\<close> is a list of pairs; \<open>secure\<close> is the outcome of \<open>credentials.CheckSecurityLevel\<close>.\<close>

definition GetRequestMetadata :: "token res \<Rightarrow> go_error option \<Rightarrow> (string \<times> string) list res" where
  "GetRequestMetadata Token secure =
     (case Token of
        Err err \<Rightarrow> Err err
      | Panic \<Rightarrow> Panic
      | Ok token \<Rightarrow>
          (case (if RequireTransportSecurity then secure else None) of
             Some err \<Rightarrow> Err (ErrText (''unable to transfer OAuthAuthorizer PerRPCCredentials: '' @ error_string err))
           | None \<Rightarrow> Ok [(''authorization'', tok_Type token @ '' '' @ tok_AccessToken token)]))"

text \<open>\<open>net.SplitHostPort\<close>: the host and the port, or \<open>None\<close> for its errors.\<close>

definition SplitHostPort :: "string \<Rightarrow> (string \<times> string) option" where
  "SplitHostPort hostport =
     (if CHR '':'' \<notin> set hostport then None
      else
        (let port = rev (takeWhile (\<lambda>c. c \<noteq> CHR '':'') (rev hostport));
             i = length hostport - length port - 1
         in if hd hostport = CHR ''['' then
              (let close = length (takeWhile (\<lambda>c. c \<noteq> CHR '']'') hostport)
               in if CHR '']'' \<notin> set hostport \<or> close + 1 \<noteq> i \<or> CHR ''['' \<in> set (drop 1 hostport) \<or>
                     CHR '']'' \<in> set (drop (close + 1) hostport) then None
                  else Some (take (close - 1) (drop 1 hostport), port))
            else if CHR '':'' \<in> set (take i hostport) \<or> CHR ''['' \<in> set hostport \<or> CHR '']'' \<in> set hostport then None
            else Some (take i hostport, port)))"

text \<open>The authorizer argument is \<open>None\<close> when there is no configuration or no authorizer in it.\<close>

definition DefaultGrpcDialOptions :: "string \<Rightarrow> 'auth option \<Rightarrow> 'opt list \<Rightarrow> ('auth, 'opt) dial_option list" where
  "DefaultGrpcDialOptions hostport authorizer additionalOpts =
     (case SplitHostPort hostport of
        Some (host, port) \<Rightarrow> if port = ''443'' then [WithTLS host] else [WithInsecure]
      | None \<Rightarrow> [WithInsecure]) @
     (case authorizer of Some a \<Rightarrow> [WithPerRPCCredentials a] | None \<Rightarrow> []) @
     map AdditionalOpt additionalOpts"

section \<open>Connection\<close>

record ('cc, 'auth, 'opt) RPCConnection =
  rc_Target :: string
  rc_Opts :: "'opt list"
  rc_authorizer :: "'auth option"
  rc_cc :: "'cc option"

definition SetAuthorizer :: "'auth \<Rightarrow> ('cc, 'auth, 'opt) RPCConnection \<Rightarrow> ('cc, 'auth, 'opt) RPCConnection" where
  "SetAuthorizer auth conn = conn\<lparr>rc_authorizer := Some auth\<rparr>"

definition NewRPCConnection :: "string \<Rightarrow> 'opt list \<Rightarrow> ('cc, 'auth, 'opt) RPCConnection" where
  "NewRPCConnection target opts = \<lparr> rc_Target = target, rc_Opts = opts, rc_authorizer = None, rc_cc = None \<rparr>"

definition ForceReconnect :: "('cc, 'auth, 'opt) RPCConnection \<Rightarrow> ('cc, 'auth, 'opt) RPCConnection" where
  "ForceReconnect conn = conn\<lparr>rc_cc := None\<rparr>"

text \<open>\<open>grpc.Dial\<close> and whether a client connection is shut down.\<close>

record ('cc, 'auth, 'opt) grpc_lib =
  Dial :: "string \<Rightarrow> ('auth, 'opt) dial_option list \<Rightarrow> 'cc option \<times> go_error option"
  IsShutdown :: "'cc \<Rightarrow> bool"

definition conn_init ::
  "('cc, 'auth, 'opt) grpc_lib \<Rightarrow> ('cc, 'auth, 'opt) RPCConnection option \<Rightarrow> unit res \<times> ('cc, 'auth, 'opt) RPCConnection option" where
  "conn_init lib conn =
     (case conn of
        None \<Rightarrow> (Err (ErrText ''RPC connection not configured''), None)
      | Some c \<Rightarrow>
          if (case rc_cc c of Some cc \<Rightarrow> \<not> IsShutdown lib cc | None \<Rightarrow> False) then (Ok (), conn)
          else
            (let (cc, err) = Dial lib (rc_Target c) (DefaultGrpcDialOptions (rc_Target c) (rc_authorizer c) (rc_Opts c));
                 c' = c\<lparr>rc_cc := cc\<rparr>
             in case err of
                  Some e \<Rightarrow> (Err (Wrap (''could not connect to gPRC target '' @ CHR 0x22 # rc_Target c @ CHR 0x22 # '': '') e), Some c')
                | None \<Rightarrow> (Ok (), Some c')))"

text \<open>
  The call on the client connection, once \<open>init\<close> has returned: it reads the field again. \<open>call\<close> is \<open>Invoke\<close> or
  \<open>NewStream\<close> of the client connection, with the arguments applied.
\<close>

definition conn_forward ::
  "('cc \<Rightarrow> 'r res) \<Rightarrow> ('cc, 'auth, 'opt) RPCConnection \<Rightarrow> 'r res \<times> ('cc, 'auth, 'opt) RPCConnection" where
  "conn_forward call c =
     (case rc_cc c of
        None \<Rightarrow> (Panic, c)
      | Some cc \<Rightarrow>
          (case call cc of
             Err err \<Rightarrow> if errors_Is err EOF \<or> errors_Is err ErrUnexpectedEOF then (Err err, ForceReconnect c) else (Err err, c)
           | r \<Rightarrow> (r, c)))"

definition Invoke ::
  "('cc, 'auth, 'opt) grpc_lib \<Rightarrow> ('cc \<Rightarrow> 'r res) \<Rightarrow> ('cc, 'auth, 'opt) RPCConnection option \<Rightarrow>
   'r res \<times> ('cc, 'auth, 'opt) RPCConnection option" where
  "Invoke lib call conn =
     (case conn_init lib conn of
        (Err err, conn') \<Rightarrow> (Err err, conn')
      | (Panic, conn') \<Rightarrow> (Panic, conn')
      | (Ok _, None) \<Rightarrow> (Panic, None)
      | (Ok _, Some c) \<Rightarrow> (let (r, c') = conn_forward call c in (r, Some c')))"

definition NewStream ::
  "('cc, 'auth, 'opt) grpc_lib \<Rightarrow> ('cc \<Rightarrow> 'st res) \<Rightarrow> ('cc, 'auth, 'opt) RPCConnection option \<Rightarrow>
   'st res \<times> ('cc, 'auth, 'opt) RPCConnection option" where
  "NewStream lib call conn =
     (case conn_init lib conn of
        (Err err, conn') \<Rightarrow> (Err err, conn')
      | (Panic, conn') \<Rightarrow> (Panic, conn')
      | (Ok _, None) \<Rightarrow> (Panic, None)
      | (Ok _, Some c) \<Rightarrow> (let (r, c') = conn_forward call c in (r, Some c')))"

section \<open>Properties\<close>

text \<open>The connection can be used as it is.\<close>

definition connected :: "('cc, 'auth, 'opt) grpc_lib \<Rightarrow> ('cc, 'auth, 'opt) RPCConnection \<Rightarrow> bool" where
  "connected lib c \<longleftrightarrow> (\<exists>cc. rc_cc c = Some cc \<and> \<not> IsShutdown lib cc)"

lemma Invoke_connected:
  assumes "connected lib c"
  shows "Invoke lib call (Some c) = (fst (conn_forward call c), Some (snd (conn_forward call c)))"
  using assms by (auto simp: Invoke_def conn_init_def connected_def case_prod_beta)

lemma Invoke_dials:
  assumes "\<not> connected lib c" "Dial lib (rc_Target c) (DefaultGrpcDialOptions (rc_Target c) (rc_authorizer c) (rc_Opts c)) = (Some cc, None)"
  shows "Invoke lib call (Some c) = (fst (conn_forward call (c\<lparr>rc_cc := Some cc\<rparr>)), Some (snd (conn_forward call (c\<lparr>rc_cc := Some cc\<rparr>))))"
proof -
  have "\<not> (case rc_cc c of Some cc \<Rightarrow> \<not> IsShutdown lib cc | None \<Rightarrow> False)"
    using assms(1) by (auto simp: connected_def split: option.splits)
  with assms(2) show ?thesis by (simp add: Invoke_def conn_init_def case_prod_beta Let_def)
qed

text \<open>
  C40: a connection is dialled once and again only after it broke. A call on an established connection
  goes to it without dialling; the connection is kept unless the call ends in an end-of-file error, and the
  call after such an error dials the target with its transport and per-call credentials.
\<close>

theorem Invoke_reconnects:
  assumes "connected lib c" "rc_cc c = Some cc"
    "Dial lib (rc_Target c) (DefaultGrpcDialOptions (rc_Target c) (rc_authorizer c) (rc_Opts c)) = (Some cc', None)"
  shows "fst (Invoke lib call (Some c)) = call cc \<and>
    ((\<forall>err. call cc = Err err \<longrightarrow> \<not> errors_Is err EOF \<and> \<not> errors_Is err ErrUnexpectedEOF) \<longrightarrow>
      snd (Invoke lib call (Some c)) = Some c) \<and>
    (call cc = Err EOF \<longrightarrow> fst (Invoke lib call' (snd (Invoke lib call (Some c)))) = call' cc')"
proof (intro conjI impI)
  show "fst (Invoke lib call (Some c)) = call cc"
    using assms(2) by (simp add: Invoke_connected [OF assms(1)] conn_forward_def split: res.splits)
  show "snd (Invoke lib call (Some c)) = Some c"
    if "\<forall>err. call cc = Err err \<longrightarrow> \<not> errors_Is err EOF \<and> \<not> errors_Is err ErrUnexpectedEOF"
    using assms(2) that by (simp add: Invoke_connected [OF assms(1)] conn_forward_def split: res.splits)
  assume "call cc = Err EOF"
  then have "snd (Invoke lib call (Some c)) = Some (ForceReconnect c)"
    using assms(2) by (simp add: Invoke_connected [OF assms(1)] conn_forward_def)
  moreover have "\<not> connected lib (ForceReconnect c)" by (simp add: connected_def ForceReconnect_def)
  moreover have "fst (Invoke lib call' (Some (ForceReconnect c))) = fst (conn_forward call' ((ForceReconnect c)\<lparr>rc_cc := Some cc'\<rparr>))"
    using Invoke_dials [OF \<open>\<not> connected lib (ForceReconnect c)\<close>, of cc' call'] assms(3) by (simp add: ForceReconnect_def)
  ultimately show "fst (Invoke lib call' (snd (Invoke lib call (Some c)))) = call' cc'"
    by (simp add: conn_forward_def split: res.splits)
qed

definition counting_lib :: "(nat, unit, unit) grpc_lib" where
  "counting_lib = \<lparr> Dial = (\<lambda>target opts. (Some (length target + length opts), None)), IsShutdown = (\<lambda>_. False) \<rparr>"

theorem Invoke_reconnects_witness:
  "fst (Invoke counting_lib (\<lambda>cc. Ok cc) (snd (Invoke counting_lib (\<lambda>_. Err EOF :: nat res)
     (Some ((NewRPCConnection ''localhost:9090'' [])\<lparr>rc_cc := Some 0\<rparr>))))) = Ok 15"
  using Invoke_reconnects [of counting_lib "(NewRPCConnection ''localhost:9090'' [])\<lparr>rc_cc := Some 0\<rparr>" 0 15 "\<lambda>_. Err EOF :: nat res" "\<lambda>cc. Ok cc"]
  by (simp add: counting_lib_def connected_def NewRPCConnection_def DefaultGrpcDialOptions_def SplitHostPort_def)

text \<open>
  The pair of \<open>init\<close> and call is not atomic. A \<open>ForceReconnect\<close> of another goroutine between the two
  parts of a call leaves a nil client connection, and the call panics.
\<close>

lemma forward_after_ForceReconnect: "fst (conn_forward call (ForceReconnect c)) = Panic"
  by (simp add: conn_forward_def ForceReconnect_def)

end
