(* ===== verification/Stream_Loop.thy ===== *)
theory Stream_Loop
  imports Api_Base
begin

text \<open>
  The server loop of the bidirectional streams \<open>StoreAssessmentResults\<close>, \<open>StoreEvidences\<close> and
  \<open>AssessEvidences\<close>: receive a request, handle it, send the response. The three loops of the source
  differ in the handler and in the text of the send error and are instances of \<open>serve_stream\<close>.

  The input is the list of what \<open>Recv\<close> returns; after its last element \<open>Recv\<close> returns \<open>io.EOF\<close>, as gRPC
  documents for a stream that the client closes. \<open>send n\<close> is the outcome of the n-th \<open>Send\<close>. A handler that
  answers \<open>None\<close> has panicked.
\<close>

fun serve_stream ::
  "('req \<Rightarrow> 's \<Rightarrow> 'resp option \<times> 's) \<Rightarrow> string \<Rightarrow> (nat \<Rightarrow> go_error option) \<Rightarrow> 'req res list \<Rightarrow> 's \<Rightarrow> 'resp list \<Rightarrow>
   unit res \<times> 's \<times> 'resp list" where
  "serve_stream handle msg send [] s sent = (Ok (), s, sent)"
| "serve_stream handle msg send (Err err # ins) s sent =
     (if errors_Is err EOF then (Ok (), s, sent)
      else (Err (Status Unknown (''cannot receive stream request: '' @ error_string err)), s, sent))"
| "serve_stream handle msg send (Panic # ins) s sent = (Panic, s, sent)"
| "serve_stream handle msg send (Ok req # ins) s sent =
     (case handle req s of
        (None, s') \<Rightarrow> (Panic, s', sent)
      | (Some res, s') \<Rightarrow>
          (case send (length sent) of
             None \<Rightarrow> serve_stream handle msg send ins s' (sent @ [res])
           | Some err \<Rightarrow>
               if errors_Is err EOF then (Ok (), s', sent)
               else (Err (Status Unknown (msg @ error_string err)), s', sent)))"

text \<open>The response that carries the outcome of the handler for one request.\<close>

fun stream_response :: "unit res \<Rightarrow> (bool \<times> string) option" where
  "stream_response (Ok _) = Some (True, [])"
| "stream_response (Err err) = Some (False, error_string err)"
| "stream_response Panic = None"

section \<open>Streams that store what they acknowledge\<close>

text \<open>The items whose response has a true status.\<close>

definition acknowledged :: "'r list \<Rightarrow> (bool \<times> string) list \<Rightarrow> 'r set" where
  "acknowledged rs responses = {r. \<exists>msg. (r, True, msg) \<in> set (zip rs responses)}"

lemma acknowledged_simps [simp]:
  "acknowledged [] ress = {}"
  "acknowledged (r # rs) ((ok, m) # ress) = (if ok then insert r (acknowledged rs ress) else acknowledged rs ress)"
  by (auto simp: acknowledged_def)

text \<open>
  The contract of a handler that stores the item of a request: it answers with a true status exactly
  when the item is stored, and keeps the invariant of the state.
\<close>

locale storing_handler =
  fixes handle :: "'req \<Rightarrow> 's \<Rightarrow> (bool \<times> string) option \<times> 's" and request :: "'r \<Rightarrow> 'req" and rows :: "'s \<Rightarrow> 'r set" and inv :: "'s \<Rightarrow> bool"
  assumes handles: "inv s \<Longrightarrow> \<exists>ok m s'. handle (request r) s = (Some (ok, m), s') \<and> inv s' \<and>
    rows s' = (if ok then insert r (rows s) else rows s)"
begin

lemma serve_all:
  assumes "inv s"
  shows "\<exists>s' out. serve_stream handle msg (\<lambda>_. None) (map (\<lambda>r. Ok (request r)) rs) s sent = (Ok (), s', sent @ out) \<and>
    length out = length rs \<and> inv s' \<and> rows s' = rows s \<union> acknowledged rs out"
  using assms
proof (induction rs arbitrary: s sent)
  case Nil
  then show ?case by simp
next
  case (Cons r rs)
  from handles [OF Cons.prems] obtain ok m s1 where
    h: "handle (request r) s = (Some (ok, m), s1)" "inv s1" "rows s1 = (if ok then insert r (rows s) else rows s)" by blast
  from Cons.IH [OF h(2), of "sent @ [(ok, m)]"] obtain s' out where
    "serve_stream handle msg (\<lambda>_. None) (map (\<lambda>r. Ok (request r)) rs) s1 (sent @ [(ok, m)]) = (Ok (), s', sent @ (ok, m) # out)"
    "length out = length rs" "inv s'" "rows s' = rows s1 \<union> acknowledged rs out" by auto
  with h show ?case by (intro exI [of _ s'] exI [of _ "(ok, m) # out"]) simp
qed

end

end
