(* ===== verification/Assessment.thy ===== *)
theory Assessment
  imports Orch_Metrics Policies Streams Connection Stream_Loop
begin

text \<open>
  The assessment service (src/service/assessment/assessment.go): assessing evidences, one by one and as a
  stream, the streams to the evidence store and the orchestrator, the cache of metric configurations and
  the handling of metric change events.

  The generated client of the orchestrator is the record \<open>orch_client\<close>, the opening of streams
  \<open>stream_client\<close> (\<open>Inl\<close> an error), and unpacking a resource out of an evidence \<open>assess_lib\<close>. An evaluation takes place
  at one time \<open>now\<close> (in nanoseconds), and \<open>uuid n\<close> is the n-th new identifier. A \<open>Send\<close> that finds its channel
  full blocks; the model then stops with \<open>Panic\<close>, so what is shown of results is about runs in which
  there was room.
\<close>

section \<open>State\<close>

record orch_client =
  oc_ListMetrics :: "ListMetricsRequest \<Rightarrow> (Metric list \<times> string) res"
  oc_GetMetricConfiguration :: "GetMetricConfigurationRequest \<Rightarrow> MetricConfiguration res"
  oc_GetMetricImplementation :: "GetMetricImplementationRequest \<Rightarrow> MetricImplementation res"

record 'st stream_client =
  sc_StoreEvidences :: "go_error + 'st"
  sc_StoreAssessmentResults :: "go_error + 'st"
  sc_SubscribeMetricChangeEvents :: "go_error + 'st"

record 'm assess_lib =
  al_UnmarshalNew :: "Any option \<Rightarrow> 'm res"
  al_Validate :: "'m validator"
  al_IsResource :: "'m \<Rightarrow> resource option"

text \<open>A cached configuration with the time at which it was cached.\<close>

type_synonym config_cache = "string \<rightharpoonup> timestamp \<times> MetricConfiguration"

type_synonym 'ctx result_call = "'ctx \<times> AssessmentResult option \<times> go_error option"

record ('ctx, 'q, 'st, 'cc, 'auth, 'opt) assessment =
  as_isEvidenceStoreDisabled :: bool
  as_evidenceStoreStreams :: "('st, Evidence) streams"
  as_evidenceStore :: "('cc, 'auth, 'opt) RPCConnection"
  as_orchestratorStreams :: "('st, AssessmentResult) streams"
  as_orchestrator :: "('cc, 'auth, 'opt) RPCConnection"
  as_metricEventStream :: "'st option"
  as_resultHooks :: "nat list"
  as_cachedConfigurations :: config_cache
  as_authz :: "'ctx AuthorizationStrategy"
  as_pe :: "'q regoEval"
  as_evalPkg :: string
  as_tasks :: "'ctx result_call list"
  as_calls :: "(nat \<times> 'ctx result_call) list"
  as_eventLoops :: nat

definition EvictionTime :: timestamp where
  "EvictionTime = 3600 * 10 ^ 9"

definition DefaultEvidenceStoreAddress :: string where
  "DefaultEvidenceStoreAddress = ''localhost:9090''"

definition DefaultOrchestratorAddress :: string where
  "DefaultOrchestratorAddress = ''localhost:9090''"

definition AssessmentToolId :: string where
  "AssessmentToolId = ''Clouditor Assessment''"

record AssessEvidenceRequest =
  aer_Evidence :: "Evidence option"

definition aer_GetCloudServiceId :: "AssessEvidenceRequest \<Rightarrow> string" where
  "aer_GetCloudServiceId req = (case aer_Evidence req of None \<Rightarrow> [] | Some e \<Rightarrow> ev_CloudServiceId e)"

section \<open>Options and constructor\<close>

text \<open>The options work on the service itself; \<open>as_authz\<close> is set by its option or defaults to allow-all.\<close>

type_synonym ('ctx, 'q, 'st, 'cc, 'auth, 'opt) assessment_config =
  "('ctx, 'q, 'st, 'cc, 'auth, 'opt) assessment \<times> 'ctx AuthorizationStrategy option"

definition WithoutEvidenceStore ::
  "('ctx, 'q, 'st, 'cc, 'auth, 'opt) assessment_config \<Rightarrow> ('ctx, 'q, 'st, 'cc, 'auth, 'opt) assessment_config" where
  "WithoutEvidenceStore c = (case c of (svc, az) \<Rightarrow> (svc\<lparr>as_isEvidenceStoreDisabled := True\<rparr>, az))"

definition WithEvidenceStoreAddress ::
  "string \<Rightarrow> 'opt list \<Rightarrow> ('ctx, 'q, 'st, 'cc, 'auth, 'opt) assessment_config \<Rightarrow> ('ctx, 'q, 'st, 'cc, 'auth, 'opt) assessment_config" where
  "WithEvidenceStoreAddress address opts c =
     (case c of (svc, az) \<Rightarrow> (svc\<lparr>as_evidenceStore := (as_evidenceStore svc)\<lparr>rc_Target := address, rc_Opts := opts\<rparr>\<rparr>, az))"

definition WithOrchestratorAddress_as ::
  "string \<Rightarrow> 'opt list \<Rightarrow> ('ctx, 'q, 'st, 'cc, 'auth, 'opt) assessment_config \<Rightarrow> ('ctx, 'q, 'st, 'cc, 'auth, 'opt) assessment_config" where
  "WithOrchestratorAddress_as target opts c =
     (case c of (svc, az) \<Rightarrow> (svc\<lparr>as_orchestrator := (as_orchestrator svc)\<lparr>rc_Target := target, rc_Opts := opts\<rparr>\<rparr>, az))"

definition WithAuthorizer_as ::
  "'auth \<Rightarrow> ('ctx, 'q, 'st, 'cc, 'auth, 'opt) assessment_config \<Rightarrow> ('ctx, 'q, 'st, 'cc, 'auth, 'opt) assessment_config" where
  "WithAuthorizer_as auth c =
     (case c of (svc, az) \<Rightarrow> (svc\<lparr>as_evidenceStore := SetAuthorizer auth (as_evidenceStore svc),
        as_orchestrator := SetAuthorizer auth (as_orchestrator svc)\<rparr>, az))"

definition WithRegoPackageName ::
  "string \<Rightarrow> ('ctx, 'q, 'st, 'cc, 'auth, 'opt) assessment_config \<Rightarrow> ('ctx, 'q, 'st, 'cc, 'auth, 'opt) assessment_config" where
  "WithRegoPackageName pkg c = (case c of (svc, az) \<Rightarrow> (svc\<lparr>as_evalPkg := pkg\<rparr>, az))"

definition WithAuthorizationStrategy_as ::
  "'ctx AuthorizationStrategy \<Rightarrow> ('ctx, 'q, 'st, 'cc, 'auth, 'opt) assessment_config \<Rightarrow> ('ctx, 'q, 'st, 'cc, 'auth, 'opt) assessment_config" where
  "WithAuthorizationStrategy_as authz c = (case c of (svc, _) \<Rightarrow> (svc, Some authz))"

definition NewService_as ::
  "(('ctx, 'q, 'st, 'cc, 'auth, 'opt) assessment_config \<Rightarrow> ('ctx, 'q, 'st, 'cc, 'auth, 'opt) assessment_config) list \<Rightarrow>
   ('ctx, 'q, 'st, 'cc, 'auth, 'opt) assessment" where
  "NewService_as opts =
     (let (svc, az) = fold (\<lambda>opt c. opt c) opts
        (\<lparr> as_isEvidenceStoreDisabled = False, as_evidenceStoreStreams = NewStreamsOf,
           as_evidenceStore = NewRPCConnection DefaultEvidenceStoreAddress [], as_orchestratorStreams = NewStreamsOf,
           as_orchestrator = NewRPCConnection DefaultOrchestratorAddress [], as_metricEventStream = None, as_resultHooks = [],
           as_cachedConfigurations = Map.empty, as_authz = strategy_AllowAll, as_pe = NewRegoEval [], as_evalPkg = [],
           as_tasks = [], as_calls = [], as_eventLoops = 0 \<rparr>, None);
          pkg = (if as_evalPkg svc = [] then DefaultRegoPackage else as_evalPkg svc)
      in svc\<lparr>as_evalPkg := pkg, as_pe := NewRegoEval [WithPackageName pkg], as_authz := Deref strategy_AllowAll az\<rparr>)"

section \<open>Hooks and events\<close>

definition informHooks_as ::
  "'ctx result_call \<Rightarrow> ('ctx, 'q, 'st, 'cc, 'auth, 'opt) assessment \<Rightarrow> ('ctx, 'q, 'st, 'cc, 'auth, 'opt) assessment" where
  "informHooks_as c svc = svc\<lparr>as_calls := as_calls svc @ map (\<lambda>hook. (hook, c)) (as_resultHooks svc)\<rparr>"

definition RegisterAssessmentResultHook_as ::
  "nat \<Rightarrow> ('ctx, 'q, 'st, 'cc, 'auth, 'opt) assessment \<Rightarrow> ('ctx, 'q, 'st, 'cc, 'auth, 'opt) assessment" where
  "RegisterAssessmentResultHook_as hook svc = svc\<lparr>as_resultHooks := as_resultHooks svc @ [hook]\<rparr>"

abbreviation go_inform ::
  "'ctx result_call \<Rightarrow> ('ctx, 'q, 'st, 'cc, 'auth, 'opt) assessment \<Rightarrow> ('ctx, 'q, 'st, 'cc, 'auth, 'opt) assessment" where
  "go_inform c svc \<equiv> svc\<lparr>as_tasks := as_tasks svc @ [c]\<rparr>"

definition config_key :: "string \<Rightarrow> string \<Rightarrow> string" where
  "config_key cloudServiceID metricID = cloudServiceID @ ''-'' @ metricID"

definition handleMetricEvent ::
  "MetricChangeEvent \<Rightarrow> ('ctx, 'q, 'st, 'cc, 'auth, 'opt) assessment \<Rightarrow> ('ctx, 'q, 'st, 'cc, 'auth, 'opt) assessment" where
  "handleMetricEvent event svc =
     (let svc = (if mce_Type event = TYPE_CONFIG_CHANGED
                 then svc\<lparr>as_cachedConfigurations := (as_cachedConfigurations svc)(config_key (mce_CloudServiceId event) (mce_MetricId event) := None)\<rparr>
                 else svc)
      in svc\<lparr>as_pe := HandleMetricEvent event (as_pe svc)\<rparr>)"

text \<open>The loop ends at the first error of \<open>Recv\<close>, end-of-file included.\<close>

fun recvEventsLoop ::
  "MetricChangeEvent res list \<Rightarrow> ('ctx, 'q, 'st, 'cc, 'auth, 'opt) assessment \<Rightarrow> ('ctx, 'q, 'st, 'cc, 'auth, 'opt) assessment" where
  "recvEventsLoop [] svc = svc"
| "recvEventsLoop (Ok event # ins) svc = recvEventsLoop ins (handleMetricEvent event svc)"
| "recvEventsLoop (_ # ins) svc = svc"

section \<open>The source of metrics\<close>

text \<open>A listing whose pages never end has no result.\<close>

definition Metrics :: "orch_client \<Rightarrow> Metric list res" where
  "Metrics client =
     (case ListAllPaginated set_page_token (oc_ListMetrics client) snd fst
             \<lparr> req_PageToken = [], req_PageSize = 0, req_OrderBy = [], req_Asc = False, lm_Filter = None \<rparr> of
        Some (Err err) \<Rightarrow> Err (Wrap ''could not retrieve metric list from orchestrator: '' err)
      | Some r \<Rightarrow> r
      | None \<Rightarrow> Panic)"

definition MetricImplementation_as :: "orch_client \<Rightarrow> MetricImplementation_Language \<Rightarrow> string \<Rightarrow> MetricImplementation res" where
  "MetricImplementation_as client lang metric =
     (if lang \<noteq> LANGUAGE_REGO then Err (ErrText ''unsupported language'')
      else (case oc_GetMetricImplementation client \<lparr> gmi_MetricId = metric \<rparr> of
              Err err \<Rightarrow> Err (Wrap (''could not retrieve metric implementation for '' @ metric @ '' from orchestrator: '') err)
            | r \<Rightarrow> r))"

definition MetricConfiguration_as ::
  "orch_client \<Rightarrow> timestamp \<Rightarrow> string \<Rightarrow> string \<Rightarrow> config_cache \<Rightarrow> MetricConfiguration res \<times> config_cache" where
  "MetricConfiguration_as client now cloudServiceID metricID cache =
     (let key = config_key cloudServiceID metricID
      in case (case cache key of Some (cachedAt, config) \<Rightarrow> if now + EvictionTime < cachedAt then None else Some config | None \<Rightarrow> None) of
           Some config \<Rightarrow> (Ok config, cache)
         | None \<Rightarrow>
             (case oc_GetMetricConfiguration client \<lparr> gmc_CloudServiceId = cloudServiceID, gmc_MetricId = metricID \<rparr> of
                Err err \<Rightarrow> (Err (Wrap (''could not retrieve metric configuration for '' @ metricID @ '': '') err), cache)
              | Panic \<Rightarrow> (Panic, cache)
              | Ok config \<Rightarrow> (Ok config, cache(key \<mapsto> (now, config)))))"

definition metrics_source :: "orch_client \<Rightarrow> timestamp \<Rightarrow> config_cache MetricsSource" where
  "metrics_source client now =
     \<lparr> ms_Metrics = (\<lambda>cache. (Metrics client, cache)),
       ms_MetricConfiguration = MetricConfiguration_as client now,
       ms_MetricImplementation = (\<lambda>lang metric cache. (MetricImplementation_as client lang metric, cache)) \<rparr>"

section \<open>Streams\<close>

definition initEvidenceStoreStream ::
  "'st stream_client \<Rightarrow> ('ctx, 'q, 'st, 'cc, 'auth, 'opt) assessment \<Rightarrow>
   ('st option \<times> go_error option) \<times> ('ctx, 'q, 'st, 'cc, 'auth, 'opt) assessment" where
  "initEvidenceStoreStream sc svc =
     (let svc = svc\<lparr>as_evidenceStore := ForceReconnect (as_evidenceStore svc)\<rparr>
      in case sc_StoreEvidences sc of
           Inl err \<Rightarrow> ((None, Some (Wrap ''could not set up stream to evidence store for storing evidences: '' err)), svc)
         | Inr stream \<Rightarrow> ((Some stream, None), svc))"

definition initOrchestratorStream ::
  "'st stream_client \<Rightarrow> ('ctx, 'q, 'st, 'cc, 'auth, 'opt) assessment \<Rightarrow>
   ('st option \<times> go_error option) \<times> ('ctx, 'q, 'st, 'cc, 'auth, 'opt) assessment" where
  "initOrchestratorStream sc svc =
     (let svc = svc\<lparr>as_orchestrator := ForceReconnect (as_orchestrator svc)\<rparr>
      in case sc_StoreAssessmentResults sc of
           Inl err \<Rightarrow> ((None, Some (Wrap ''could not set up stream to orchestrator for storing assessment results: '' err)), svc)
         | Inr stream \<Rightarrow>
             (case sc_SubscribeMetricChangeEvents sc of
                Inl err \<Rightarrow> ((None, Some (Wrap ''could not set up stream for listening to metric change events: '' err)),
                            svc\<lparr>as_metricEventStream := None\<rparr>)
              | Inr events \<Rightarrow>
                  ((Some stream, None), svc\<lparr>as_metricEventStream := Some events, as_eventLoops := as_eventLoops svc + 1\<rparr>)))"

text \<open>\<open>GetStream\<close> calls the initializer when it has no stream for the target or a dead one.\<close>

definition opens :: "string \<Rightarrow> ('st, 'm) streams \<Rightarrow> bool" where
  "opens target s = (case so_channels s target of None \<Rightarrow> True | Some p \<Rightarrow> ch_dead (so_heap s ! p))"

definition get_evidence_stream ::
  "'st stream_client \<Rightarrow> ('ctx, 'q, 'st, 'cc, 'auth, 'opt) assessment \<Rightarrow> nat res \<times> ('ctx, 'q, 'st, 'cc, 'auth, 'opt) assessment" where
  "get_evidence_stream sc svc =
     (let target = rc_Target (as_evidenceStore svc); (out, svc1) = initEvidenceStoreStream sc svc;
          (r, streams) = GetStream target ''Evidence Store'' (Some (\<lambda>_. out)) (as_evidenceStoreStreams svc);
          svc' = (if opens target (as_evidenceStoreStreams svc) then svc1 else svc)
      in (r, svc'\<lparr>as_evidenceStoreStreams := streams\<rparr>))"

definition get_orchestrator_stream ::
  "'st stream_client \<Rightarrow> ('ctx, 'q, 'st, 'cc, 'auth, 'opt) assessment \<Rightarrow> nat res \<times> ('ctx, 'q, 'st, 'cc, 'auth, 'opt) assessment" where
  "get_orchestrator_stream sc svc =
     (let target = rc_Target (as_orchestrator svc); (out, svc1) = initOrchestratorStream sc svc;
          (r, streams) = GetStream target ''Orchestrator'' (Some (\<lambda>_. out)) (as_orchestratorStreams svc);
          svc' = (if opens target (as_orchestratorStreams svc) then svc1 else svc)
      in (r, svc'\<lparr>as_orchestratorStreams := streams\<rparr>))"

text \<open>\<open>Shutdown\<close> closes the streams of both kinds.\<close>

definition Shutdown_as :: "('ctx, 'q, 'st, 'cc, 'auth, 'opt) assessment \<Rightarrow> 'st set res" where
  "Shutdown_as svc =
     (case CloseAll (as_evidenceStoreStreams svc) of
        Ok closed \<Rightarrow> map_res (\<lambda>more. closed \<union> more) (CloseAll (as_orchestratorStreams svc))
      | r \<Rightarrow> r)"

section \<open>Handlers\<close>

definition new_result :: "string \<Rightarrow> timestamp \<Rightarrow> Evidence \<Rightarrow> resource \<Rightarrow> Result \<Rightarrow> AssessmentResult" where
  "new_result uuid now ev resource data =
     \<lparr> ar_Id = uuid, ar_Timestamp = Some now, ar_MetricId = r_MetricID data, ar_MetricConfiguration = r_Config data,
       ar_Compliant = r_Compliant data, ar_EvidenceId = ev_Id ev, ar_ResourceId = or_Id resource,
       ar_ResourceTypes = ResourceTypes resource, ar_NonComplianceComments = ''No comments so far'',
       ar_CloudServiceId = ev_CloudServiceId ev, ar_ToolId = Some AssessmentToolId \<rparr>"

text \<open>The loop over the evaluations: hooks, the stream to the orchestrator at pointer \<open>p\<close>, the results.\<close>

fun emit_results ::
  "(nat \<Rightarrow> string) \<Rightarrow> timestamp \<Rightarrow> 'ctx \<Rightarrow> Evidence \<Rightarrow> resource \<Rightarrow> nat \<Rightarrow> Result list \<Rightarrow> AssessmentResult list \<Rightarrow>
   ('ctx, 'q, 'st, 'cc, 'auth, 'opt) assessment \<Rightarrow> AssessmentResult list res \<times> ('ctx, 'q, 'st, 'cc, 'auth, 'opt) assessment" where
  "emit_results uuid now ctx ev resource p [] results svc = (Ok results, svc)"
| "emit_results uuid now ctx ev resource p (data # rest) results svc =
     (let result = new_result (uuid (length results)) now ev resource data;
          svc = go_inform (ctx, Some result, None) svc
      in case Send p result (as_orchestratorStreams svc) of
           None \<Rightarrow> (Panic, svc)
         | Some streams \<Rightarrow>
             emit_results uuid now ctx ev resource p rest (results @ [result]) (svc\<lparr>as_orchestratorStreams := streams\<rparr>))"

text \<open>The part of \<open>handleEvidence\<close> after the evaluation.\<close>

definition send_results ::
  "'st stream_client \<Rightarrow> (nat \<Rightarrow> string) \<Rightarrow> timestamp \<Rightarrow> 'ctx \<Rightarrow> Evidence \<Rightarrow> resource \<Rightarrow> Result list \<Rightarrow>
   ('ctx, 'q, 'st, 'cc, 'auth, 'opt) assessment \<Rightarrow> AssessmentResult list res \<times> ('ctx, 'q, 'st, 'cc, 'auth, 'opt) assessment" where
  "send_results sc uuid now ctx ev resource evaluations svc =
     (case get_orchestrator_stream sc svc of
        (Err err, svc) \<Rightarrow>
          (let e = Wrap (''could not get stream to orchestrator ('' @ rc_Target (as_orchestrator svc) @ ''): '') err
           in (Err (Status Internal (error_string e)), go_inform (ctx, None, Some e) svc))
      | (Panic, svc) \<Rightarrow> (Panic, svc)
      | (Ok p, svc) \<Rightarrow> emit_results uuid now ctx ev resource p evaluations [] svc)"

definition store_evidence ::
  "'st stream_client \<Rightarrow> 'ctx \<Rightarrow> Evidence \<Rightarrow> ('ctx, 'q, 'st, 'cc, 'auth, 'opt) assessment \<Rightarrow>
   unit res \<times> ('ctx, 'q, 'st, 'cc, 'auth, 'opt) assessment" where
  "store_evidence sc ctx ev svc =
     (if as_isEvidenceStoreDisabled svc then (Ok (), svc)
      else (case get_evidence_stream sc svc of
        (Err err, svc) \<Rightarrow>
          (let e = Wrap (''could not get stream to evidence store ('' @ rc_Target (as_evidenceStore svc) @ ''): '') err
           in (Err (Status Internal (error_string e)), go_inform (ctx, None, Some e) svc))
      | (Panic, svc) \<Rightarrow> (Panic, svc)
      | (Ok p, svc) \<Rightarrow>
          (case Send p ev (as_evidenceStoreStreams svc) of
             None \<Rightarrow> (Panic, svc)
           | Some streams \<Rightarrow> (Ok (), svc\<lparr>as_evidenceStoreStreams := streams\<rparr>))))"

definition handleEvidence ::
  "'m assess_lib \<Rightarrow> ('tx, 'q) rego_lib \<Rightarrow> orch_client \<Rightarrow> 'st stream_client \<Rightarrow> (nat \<Rightarrow> string) \<Rightarrow> timestamp \<Rightarrow> 'ctx \<Rightarrow> Evidence \<Rightarrow>
   ('ctx, 'q, 'st, 'cc, 'auth, 'opt) assessment \<Rightarrow> AssessmentResult list res \<times> ('ctx, 'q, 'st, 'cc, 'auth, 'opt) assessment" where
  "handleEvidence al lib client sc uuid now ctx ev svc =
     (case al_UnmarshalNew al (ev_Resource ev) of
        Err err \<Rightarrow> (Err (Status Internal (''could not unmarshal resource proto message: '' @ error_string err)), svc)
      | Panic \<Rightarrow> (Panic, svc)
      | Ok m \<Rightarrow>
          (case Validate (al_Validate al) (Some m) of
             Err err \<Rightarrow> (Err err, svc)
           | Panic \<Rightarrow> (Panic, svc)
           | Ok m \<Rightarrow>
               (case al_IsResource al m of
                  None \<Rightarrow>
                    (Err (Status Internal (''invalid embedded resource: protobuf message is not a valid ontology resource'')), svc)
                | Some resource \<Rightarrow>
                    (case Eval lib ev resource (metrics_source client now) (as_pe svc, as_cachedConfigurations svc) of
                       (Err err, pe, cache) \<Rightarrow>
                         (Err (Status Internal (error_string err)),
                          go_inform (ctx, None, Some (Wrap ''could not evaluate evidence: '' err))
                            (svc\<lparr>as_pe := pe, as_cachedConfigurations := cache\<rparr>))
                     | (Panic, pe, cache) \<Rightarrow> (Panic, svc\<lparr>as_pe := pe, as_cachedConfigurations := cache\<rparr>)
                     | (Ok evaluations, pe, cache) \<Rightarrow>
                         (case store_evidence sc ctx ev (svc\<lparr>as_pe := pe, as_cachedConfigurations := cache\<rparr>) of
                            (Err err, svc) \<Rightarrow> (Err err, svc)
                          | (Panic, svc) \<Rightarrow> (Panic, svc)
                          | (Ok _, svc) \<Rightarrow> send_results sc uuid now ctx ev resource evaluations svc)))))"

definition AssessEvidence ::
  "'m assess_lib \<Rightarrow> ('tx, 'q) rego_lib \<Rightarrow> orch_client \<Rightarrow> 'st stream_client \<Rightarrow> (nat \<Rightarrow> string) \<Rightarrow> timestamp \<Rightarrow>
   AssessEvidenceRequest validator \<Rightarrow> 'ctx \<Rightarrow> AssessEvidenceRequest option \<Rightarrow>
   ('ctx, 'q, 'st, 'cc, 'auth, 'opt) assessment \<Rightarrow> unit res \<times> ('ctx, 'q, 'st, 'cc, 'auth, 'opt) assessment" where
  "AssessEvidence al lib client sc uuid now v ctx req svc =
     (case Validate v req of
        Err err \<Rightarrow> (Err err, svc)
      | Panic \<Rightarrow> (Panic, svc)
      | Ok req \<Rightarrow>
          if \<not> az_CheckAccess (as_authz svc) ctx AccessUpdate (aer_GetCloudServiceId req) then (Err ErrPermissionDenied, svc)
          else (case aer_Evidence req of
             None \<Rightarrow> (Panic, svc)
           | Some ev \<Rightarrow>
               (case handleEvidence al lib client sc uuid now ctx ev svc of
                  (r, svc) \<Rightarrow> (map_res (\<lambda>_. ()) r, svc))))"

text \<open>A response of the stream: whether the evidence was assessed, and the message. \<open>uuid k\<close> are the identifiers for the k-th request.\<close>

definition assess_round ::
  "'m assess_lib \<Rightarrow> ('tx, 'q) rego_lib \<Rightarrow> orch_client \<Rightarrow> 'st stream_client \<Rightarrow> (nat \<Rightarrow> nat \<Rightarrow> string) \<Rightarrow> timestamp \<Rightarrow>
   AssessEvidenceRequest validator \<Rightarrow> 'ctx \<Rightarrow> AssessEvidenceRequest \<Rightarrow>
   nat \<times> ('ctx, 'q, 'st, 'cc, 'auth, 'opt) assessment \<Rightarrow> (bool \<times> string) option \<times> nat \<times> ('ctx, 'q, 'st, 'cc, 'auth, 'opt) assessment" where
  "assess_round al lib client sc uuid now v ctx req ks =
     (case ks of (k, svc) \<Rightarrow>
        (let (r, svc') = AssessEvidence al lib client sc (uuid k) now v ctx (Some \<lparr> aer_Evidence = aer_Evidence req \<rparr>) svc
         in (stream_response r, Suc k, svc')))"

definition AssessEvidences ::
  "'m assess_lib \<Rightarrow> ('tx, 'q) rego_lib \<Rightarrow> orch_client \<Rightarrow> 'st stream_client \<Rightarrow> (nat \<Rightarrow> nat \<Rightarrow> string) \<Rightarrow> timestamp \<Rightarrow>
   AssessEvidenceRequest validator \<Rightarrow> 'ctx \<Rightarrow> (nat \<Rightarrow> go_error option) \<Rightarrow> AssessEvidenceRequest res list \<Rightarrow>
   ('ctx, 'q, 'st, 'cc, 'auth, 'opt) assessment \<Rightarrow>
   unit res \<times> (nat \<times> ('ctx, 'q, 'st, 'cc, 'auth, 'opt) assessment) \<times> (bool \<times> string) list" where
  "AssessEvidences al lib client sc uuid now v ctx send ins svc =
     serve_stream (assess_round al lib client sc uuid now v ctx) ''cannot send response to the client: '' send ins (0, svc) []"

section \<open>The source is stable\<close>

text \<open>What the client answers, with the wrapping of errors, and the caches that agree with it.\<close>

definition cfg_of :: "orch_client \<Rightarrow> string \<Rightarrow> string \<Rightarrow> MetricConfiguration res" where
  "cfg_of client sid mid =
     (case oc_GetMetricConfiguration client \<lparr> gmc_CloudServiceId = sid, gmc_MetricId = mid \<rparr> of
        Err err \<Rightarrow> Err (Wrap (''could not retrieve metric configuration for '' @ mid @ '': '') err)
      | r \<Rightarrow> r)"

definition impl_of :: "orch_client \<Rightarrow> string \<Rightarrow> MetricImplementation res" where
  "impl_of client = MetricImplementation_as client LANGUAGE_REGO"

definition cache_ok :: "orch_client \<Rightarrow> config_cache \<Rightarrow> bool" where
  "cache_ok client cache \<longleftrightarrow>
     (\<forall>sid mid t c. length sid = 36 \<and> cache (config_key sid mid) = Some (t, c) \<longrightarrow> cfg_of client sid mid = Ok c)"

lemma config_key_inj: "config_key sid mid = config_key sid' mid' \<Longrightarrow> length sid = 36 \<Longrightarrow> length sid' = 36 \<Longrightarrow> sid = sid' \<and> mid = mid'"
  by (simp add: config_key_def)

lemma cfg_of_Ok:
  "oc_GetMetricConfiguration client \<lparr> gmc_CloudServiceId = sid, gmc_MetricId = mid \<rparr> = Ok c \<longleftrightarrow> cfg_of client sid mid = Ok c"
  by (simp add: cfg_of_def split: res.split)

lemma cache_ok_insert:
  assumes "cache_ok client cache" "length sid = 36" "cfg_of client sid mid = Ok c"
  shows "cache_ok client (cache(config_key sid mid \<mapsto> (now, c)))"
  unfolding cache_ok_def
proof (intro allI impI; elim conjE)
  fix sid' mid' t c'
  assume a: "length sid' = 36" "(cache(config_key sid mid \<mapsto> (now, c))) (config_key sid' mid') = Some (t, c')"
  show "cfg_of client sid' mid' = Ok c'"
  proof (cases "config_key sid' mid' = config_key sid mid")
    case True
    with config_key_inj [OF True a(1) assms(2)] a(2) assms(3) show ?thesis by simp
  next
    case False
    with a assms(1) show ?thesis unfolding cache_ok_def by (metis fun_upd_other)
  qed
qed

lemma MetricConfiguration_stable:
  assumes "cache_ok client cache" "length sid = 36"
  shows "\<exists>cache'. MetricConfiguration_as client now sid mid cache = (cfg_of client sid mid, cache') \<and> cache_ok client cache'"
proof (cases "case cache (config_key sid mid) of Some (cachedAt, config) \<Rightarrow> if now + EvictionTime < cachedAt then None else Some config | None \<Rightarrow> None")
  case None
  then show ?thesis
    using assms(1) cache_ok_insert [OF assms, of mid _ now]
    by (cases "oc_GetMetricConfiguration client \<lparr> gmc_CloudServiceId = sid, gmc_MetricId = mid \<rparr>")
      (simp_all add: MetricConfiguration_as_def Let_def cfg_of_def)
next
  case (Some c)
  then obtain t where "cache (config_key sid mid) = Some (t, c)" by (auto split: option.splits if_splits)
  with assms have "cfg_of client sid mid = Ok c" unfolding cache_ok_def by blast
  with Some assms(1) show ?thesis by (simp add: MetricConfiguration_as_def Let_def)
qed

interpretation assessment_src: stable_source "metrics_source client now" "cache_ok client" "Metrics client" "cfg_of client" "impl_of client"
  for client now
proof (unfold_locales, goal_cases)
  case (1 s)
  then show ?case by (simp add: metrics_source_def)
next
  case (2 s mid sid)
  then show ?case using MetricConfiguration_stable by (simp add: metrics_source_def plain_ids_def)
next
  case (3 s mid)
  then show ?case by (simp add: metrics_source_def impl_of_def)
qed

section \<open>Lemmas on the handlers\<close>

text \<open>The results for the evaluations, with the identifiers from number \<open>n\<close> on.\<close>

definition results_of :: "(nat \<Rightarrow> string) \<Rightarrow> timestamp \<Rightarrow> Evidence \<Rightarrow> resource \<Rightarrow> nat \<Rightarrow> Result list \<Rightarrow> AssessmentResult list" where
  "results_of uuid now ev resource n evaluations =
     map (\<lambda>i. new_result (uuid (n + i)) now ev resource (evaluations ! i)) [0..<length evaluations]"

lemma results_of_simps [simp]:
  "results_of uuid now ev resource n [] = []"
  "results_of uuid now ev resource n (d # ds) = new_result (uuid n) now ev resource d # results_of uuid now ev resource (Suc n) ds"
  by (simp_all add: results_of_def upt_conv_Cons map_Suc_upt [symmetric] del: upt_Suc)

abbreviation accepted :: "('st, 'm) streams \<Rightarrow> nat \<Rightarrow> 'm list" where
  "accepted s p \<equiv> ch_accepted (so_heap s ! p)"

lemma Send_accepted:
  "Send p m s = Some s' \<Longrightarrow> p < length (so_heap s) \<Longrightarrow>
   accepted s' p = accepted s p @ [m] \<and> length (so_heap s') = length (so_heap s) \<and> so_channels s' = so_channels s"
  by (auto simp: Send_def split: if_splits)

lemma emit_results_spec:
  assumes "emit_results uuid now ctx ev resource p evaluations results svc = (Ok rs, svc')"
    "p < length (so_heap (as_orchestratorStreams svc))"
  shows "rs = results @ results_of uuid now ev resource (length results) evaluations \<and>
    as_tasks svc' = as_tasks svc @ map (\<lambda>r. (ctx, Some r, None)) (results_of uuid now ev resource (length results) evaluations) \<and>
    accepted (as_orchestratorStreams svc') p =
      accepted (as_orchestratorStreams svc) p @ results_of uuid now ev resource (length results) evaluations \<and>
    as_evidenceStoreStreams svc' = as_evidenceStoreStreams svc"
  using assms
proof (induction evaluations arbitrary: results svc)
  case Nil
  then show ?case by simp
next
  case (Cons d ds)
  let ?r = "new_result (uuid (length results)) now ev resource d"
  from Cons.prems(1) obtain streams where s: "Send p ?r (as_orchestratorStreams svc) = Some streams"
    and e: "emit_results uuid now ctx ev resource p ds (results @ [?r])
        ((go_inform (ctx, Some ?r, None) svc)\<lparr>as_orchestratorStreams := streams\<rparr>) = (Ok rs, svc')"
    by (auto simp: Let_def split: option.splits)
  note sent = Send_accepted [OF s Cons.prems(2)]
  from Cons.IH [OF e] sent Cons.prems(2) show ?case by simp
qed

text \<open>As long as there is room on the channel, every evaluation gives a result.\<close>

lemma emit_results_room:
  assumes "p < length (so_heap (as_orchestratorStreams svc))"
    "length (ch_channel (so_heap (as_orchestratorStreams svc) ! p)) + length evaluations \<le> channel_cap"
  shows "\<exists>rs svc'. emit_results uuid now ctx ev resource p evaluations results svc = (Ok rs, svc')"
  using assms
proof (induction evaluations arbitrary: results svc)
  case (Cons d ds)
  let ?r = "new_result (uuid (length results)) now ev resource d"
  let ?st = "update_channel p (\<lambda>c. c\<lparr>ch_channel := ch_channel c @ [?r], ch_accepted := ch_accepted c @ [?r]\<rparr>) (as_orchestratorStreams svc)"
  have "Send p ?r (as_orchestratorStreams svc) = Some ?st" using Cons.prems by (simp add: Send_def)
  moreover have "\<exists>rs svc'. emit_results uuid now ctx ev resource p ds (results @ [?r])
      ((go_inform (ctx, Some ?r, None) svc)\<lparr>as_orchestratorStreams := ?st\<rparr>) = (Ok rs, svc')"
    by (rule Cons.IH) (use Cons.prems in simp_all)
  ultimately show ?case by (simp add: Let_def)
qed simp

text \<open>The messages handed to the stream of a target so far.\<close>

definition handed :: "('st, 'm) streams \<Rightarrow> string \<Rightarrow> 'm list" where
  "handed s target = (case so_channels s target of None \<Rightarrow> [] | Some p \<Rightarrow> accepted s p)"

lemma GetStream_handed:
  assumes "streams_ok s" "GetStream target component init s = (Ok p, s')"
  shows "so_channels s' target = Some p \<and> p < length (so_heap s') \<and> accepted s' p = handed s target"
proof (cases "so_channels s target")
  case None
  with assms(2) show ?thesis
    by (auto simp: GetStream_def addStream_def handed_def nth_append split: option.splits prod.splits)
next
  case (Some q)
  with assms(1) have "q < length (so_heap s)" by (simp add: streams_ok_def)
  with Some assms(2) show ?thesis
    by (auto simp: GetStream_def restartStream_def handed_def split: option.splits prod.splits if_splits)
qed

lemma Send_handed:
  assumes "so_channels s target = Some p" "p < length (so_heap s)" "Send p m s = Some s'"
  shows "handed s' target = accepted s p @ [m]"
  using Send_accepted [OF assms(3,2)] assms(1) by (simp add: handed_def)

lemma get_evidence_stream_spec:
  assumes "get_evidence_stream sc svc = (Ok p, svc')" "streams_ok (as_evidenceStoreStreams svc)"
  shows "so_channels (as_evidenceStoreStreams svc') (rc_Target (as_evidenceStore svc)) = Some p \<and>
    p < length (so_heap (as_evidenceStoreStreams svc')) \<and>
    accepted (as_evidenceStoreStreams svc') p = handed (as_evidenceStoreStreams svc) (rc_Target (as_evidenceStore svc)) \<and>
    as_orchestratorStreams svc' = as_orchestratorStreams svc \<and> as_orchestrator svc' = as_orchestrator svc \<and> as_tasks svc' = as_tasks svc"
proof -
  obtain out svc1 where i: "initEvidenceStoreStream sc svc = (out, svc1)" by fastforce
  then have same: "as_orchestratorStreams svc1 = as_orchestratorStreams svc" "as_orchestrator svc1 = as_orchestrator svc"
      "as_tasks svc1 = as_tasks svc"
    by (auto simp: initEvidenceStoreStream_def Let_def split: sum.splits)
  obtain r st where g: "GetStream (rc_Target (as_evidenceStore svc)) ''Evidence Store'' (Some (\<lambda>_. out)) (as_evidenceStoreStreams svc) = (r, st)"
    by fastforce
  with i assms(1) have "r = Ok p" "svc' = (if opens (rc_Target (as_evidenceStore svc)) (as_evidenceStoreStreams svc) then svc1 else svc)\<lparr>as_evidenceStoreStreams := st\<rparr>"
    by (simp_all add: get_evidence_stream_def Let_def)
  with GetStream_handed [OF assms(2), of _ "''Evidence Store''" "Some (\<lambda>_. out)" p st] g same show ?thesis by simp
qed

lemma get_orchestrator_stream_spec:
  assumes "get_orchestrator_stream sc svc = (Ok p, svc')" "streams_ok (as_orchestratorStreams svc)"
  shows "so_channels (as_orchestratorStreams svc') (rc_Target (as_orchestrator svc)) = Some p \<and>
    p < length (so_heap (as_orchestratorStreams svc')) \<and>
    accepted (as_orchestratorStreams svc') p = handed (as_orchestratorStreams svc) (rc_Target (as_orchestrator svc)) \<and>
    as_evidenceStoreStreams svc' = as_evidenceStoreStreams svc \<and> as_tasks svc' = as_tasks svc"
proof -
  obtain out svc1 where i: "initOrchestratorStream sc svc = (out, svc1)" by fastforce
  then have same: "as_evidenceStoreStreams svc1 = as_evidenceStoreStreams svc" "as_tasks svc1 = as_tasks svc"
    by (auto simp: initOrchestratorStream_def Let_def split: sum.splits)
  obtain r st where g: "GetStream (rc_Target (as_orchestrator svc)) ''Orchestrator'' (Some (\<lambda>_. out)) (as_orchestratorStreams svc) = (r, st)"
    by fastforce
  with i assms(1) have "r = Ok p" "svc' = (if opens (rc_Target (as_orchestrator svc)) (as_orchestratorStreams svc) then svc1 else svc)\<lparr>as_orchestratorStreams := st\<rparr>"
    by (simp_all add: get_orchestrator_stream_def Let_def)
  with GetStream_handed [OF assms(2), of _ "''Orchestrator''" "Some (\<lambda>_. out)" p st] g same show ?thesis by simp
qed

lemma emit_results_channels:
  assumes "emit_results uuid now ctx ev resource p evaluations results svc = (Ok rs, svc')"
    "p < length (so_heap (as_orchestratorStreams svc))"
  shows "so_channels (as_orchestratorStreams svc') = so_channels (as_orchestratorStreams svc)"
  using assms
proof (induction evaluations arbitrary: results svc)
  case (Cons d ds)
  let ?r = "new_result (uuid (length results)) now ev resource d"
  from Cons.prems(1) obtain streams where s: "Send p ?r (as_orchestratorStreams svc) = Some streams"
    and e: "emit_results uuid now ctx ev resource p ds (results @ [?r])
        ((go_inform (ctx, Some ?r, None) svc)\<lparr>as_orchestratorStreams := streams\<rparr>) = (Ok rs, svc')"
    by (auto simp: Let_def split: option.splits)
  from Cons.IH [OF e] Send_accepted [OF s Cons.prems(2)] Cons.prems(2) show ?case by simp
qed simp

lemma store_evidence_spec:
  assumes "store_evidence sc ctx ev svc = (Ok u, svc')" "streams_ok (as_evidenceStoreStreams svc)"
  shows "as_orchestratorStreams svc' = as_orchestratorStreams svc \<and> as_orchestrator svc' = as_orchestrator svc \<and> as_tasks svc' = as_tasks svc \<and>
    (if as_isEvidenceStoreDisabled svc then as_evidenceStoreStreams svc' = as_evidenceStoreStreams svc
     else handed (as_evidenceStoreStreams svc') (rc_Target (as_evidenceStore svc)) =
       handed (as_evidenceStoreStreams svc) (rc_Target (as_evidenceStore svc)) @ [ev])"
proof (cases "as_isEvidenceStoreDisabled svc")
  case True
  with assms(1) show ?thesis by (simp add: store_evidence_def)
next
  case False
  with assms(1) obtain p svc1 st where g: "get_evidence_stream sc svc = (Ok p, svc1)" and
    s: "Send p ev (as_evidenceStoreStreams svc1) = Some st" "svc' = svc1\<lparr>as_evidenceStoreStreams := st\<rparr>"
    by (auto simp: store_evidence_def Let_def split: prod.splits res.splits option.splits)
  note spec = get_evidence_stream_spec [OF g assms(2)]
  then have "handed st (rc_Target (as_evidenceStore svc)) = handed (as_evidenceStoreStreams svc) (rc_Target (as_evidenceStore svc)) @ [ev]"
    using Send_handed [OF _ _ s(1)] by metis
  with spec s(2) False show ?thesis by simp
qed

lemma send_results_spec:
  assumes "send_results sc uuid now ctx ev resource evaluations svc = (Ok results, svc')" "streams_ok (as_orchestratorStreams svc)"
  shows "results = results_of uuid now ev resource 0 evaluations \<and>
    as_tasks svc' = as_tasks svc @ map (\<lambda>r. (ctx, Some r, None)) results \<and>
    handed (as_orchestratorStreams svc') (rc_Target (as_orchestrator svc)) =
      handed (as_orchestratorStreams svc) (rc_Target (as_orchestrator svc)) @ results \<and>
    as_evidenceStoreStreams svc' = as_evidenceStoreStreams svc"
proof -
  from assms(1) obtain p svc1 where g: "get_orchestrator_stream sc svc = (Ok p, svc1)" and
    e: "emit_results uuid now ctx ev resource p evaluations [] svc1 = (Ok results, svc')"
    by (auto simp: send_results_def Let_def split: prod.splits res.splits)
  note spec = get_orchestrator_stream_spec [OF g assms(2)]
  then have p: "p < length (so_heap (as_orchestratorStreams svc1))" by simp
  from emit_results_spec [OF e p] emit_results_channels [OF e p] spec show ?thesis by (simp add: handed_def)
qed

text \<open>The steps of a successful assessment.\<close>

lemma handleEvidence_steps:
  assumes "handleEvidence al lib client sc uuid now ctx ev svc = (Ok results, svc')"
  obtains m resource evaluations pe cache svc1 u
  where "al_UnmarshalNew al (ev_Resource ev) = Ok m" "al_Validate al m = None" "al_IsResource al m = Some resource"
    "Eval lib ev resource (metrics_source client now) (as_pe svc, as_cachedConfigurations svc) = (Ok evaluations, pe, cache)"
    "store_evidence sc ctx ev (svc\<lparr>as_pe := pe, as_cachedConfigurations := cache\<rparr>) = (Ok u, svc1)"
    "send_results sc uuid now ctx ev resource evaluations svc1 = (Ok results, svc')"
proof -
  from assms obtain m resource where m: "al_UnmarshalNew al (ev_Resource ev) = Ok m" "al_Validate al m = None" "al_IsResource al m = Some resource"
    by (auto simp: handleEvidence_def split: res.splits option.splits)
  obtain r pe cache where E: "Eval lib ev resource (metrics_source client now) (as_pe svc, as_cachedConfigurations svc) = (r, pe, cache)"
    by (metis prod.collapse)
  with assms m that show thesis
    by (auto simp: handleEvidence_def split: res.splits prod.splits)
qed

section \<open>Properties\<close>

text \<open>
  C9: a successful assessment delivers everything it computed. If \<open>handleEvidence\<close> succeeds, there is exactly one
  result per evaluation of the policies, in order, with the identifier, service and resource of the
  evidence and the verdict of the policy; each result is handed to the stream to the orchestrator and to the
  hooks, in order and once, and the evidence itself once to the stream to the evidence store unless
  that is disabled.
\<close>

theorem handleEvidence_delivers:
  assumes "streams_ok (as_orchestratorStreams svc)" "streams_ok (as_evidenceStoreStreams svc)"
    "handleEvidence al lib client sc uuid now ctx ev svc = (Ok results, svc')"
  shows "\<exists>m resource evaluations. al_UnmarshalNew al (ev_Resource ev) = Ok m \<and> al_Validate al m = None \<and> al_IsResource al m = Some resource \<and>
    fst (Eval lib ev resource (metrics_source client now) (as_pe svc, as_cachedConfigurations svc)) = Ok evaluations \<and>
    results = results_of uuid now ev resource 0 evaluations \<and>
    as_tasks svc' = as_tasks svc @ map (\<lambda>r. (ctx, Some r, None)) results \<and>
    handed (as_orchestratorStreams svc') (rc_Target (as_orchestrator svc)) =
      handed (as_orchestratorStreams svc) (rc_Target (as_orchestrator svc)) @ results \<and>
    (if as_isEvidenceStoreDisabled svc then as_evidenceStoreStreams svc' = as_evidenceStoreStreams svc
     else handed (as_evidenceStoreStreams svc') (rc_Target (as_evidenceStore svc)) =
       handed (as_evidenceStoreStreams svc) (rc_Target (as_evidenceStore svc)) @ [ev])"
proof -
  from handleEvidence_steps [OF assms(3)] obtain m resource evaluations pe cache svc1 u
    where m: "al_UnmarshalNew al (ev_Resource ev) = Ok m" "al_Validate al m = None" "al_IsResource al m = Some resource"
      and E: "Eval lib ev resource (metrics_source client now) (as_pe svc, as_cachedConfigurations svc) = (Ok evaluations, pe, cache)"
      and st: "store_evidence sc ctx ev (svc\<lparr>as_pe := pe, as_cachedConfigurations := cache\<rparr>) = (Ok u, svc1)"
      and sr: "send_results sc uuid now ctx ev resource evaluations svc1 = (Ok results, svc')" .
  have st': "as_orchestratorStreams svc1 = as_orchestratorStreams svc" "as_orchestrator svc1 = as_orchestrator svc" "as_tasks svc1 = as_tasks svc"
    "if as_isEvidenceStoreDisabled svc then as_evidenceStoreStreams svc1 = as_evidenceStoreStreams svc
     else handed (as_evidenceStoreStreams svc1) (rc_Target (as_evidenceStore svc)) =
       handed (as_evidenceStoreStreams svc) (rc_Target (as_evidenceStore svc)) @ [ev]"
    using store_evidence_spec [OF st] assms(2) by (cases "as_isEvidenceStoreDisabled svc"; simp)+
  with send_results_spec [OF sr] assms(1) m E show ?thesis by auto
qed

text \<open>A service with fresh caches, a client with one metric, and streams that open.\<close>

definition echo_client :: orch_client where
  "echo_client = \<lparr> oc_ListMetrics = (\<lambda>_. Ok ([echo_metric], [])),
     oc_GetMetricConfiguration = (\<lambda>req. echo_cfg (gmc_CloudServiceId req) (gmc_MetricId req)),
     oc_GetMetricImplementation = (\<lambda>req. echo_impl ''enabled'' (gmi_MetricId req)) \<rparr>"

definition echo_al :: "unit assess_lib" where
  "echo_al = \<lparr> al_UnmarshalNew = (\<lambda>_. Ok ()), al_Validate = (\<lambda>_. None), al_IsResource = (\<lambda>_. Some echo_resource) \<rparr>"

definition echo_streams :: "unit stream_client" where
  "echo_streams = \<lparr> sc_StoreEvidences = Inr (), sc_StoreAssessmentResults = Inr (), sc_SubscribeMetricChangeEvents = Inr () \<rparr>"

definition echo_service :: "(unit, string, unit, unit, unit, unit) assessment" where
  "echo_service = NewService_as []"

lemma echo_client_answers:
  "Metrics echo_client = Ok [echo_metric]" "cfg_of echo_client = echo_cfg" "impl_of echo_client = echo_impl ''enabled''"
proof -
  show "Metrics echo_client = Ok [echo_metric]"
    unfolding Metrics_def ListAllPaginated_def by (subst ListAllPaginated_loop.simps) (simp add: echo_client_def Let_def)
qed (simp_all add: fun_eq_iff cfg_of_def impl_of_def MetricImplementation_as_def echo_client_def echo_cfg_def echo_impl_def)

lemma echo_client_stable: "stable_source (metrics_source echo_client now) (cache_ok echo_client) (Ok [echo_metric]) echo_cfg (echo_impl ''enabled'')"
  using assessment_src.stable_source_axioms [of echo_client now] by (simp add: echo_client_answers)

lemma echo_service_fields:
  "as_pe echo_service = NewRegoEval []" "as_cachedConfigurations echo_service = Map.empty" "as_evidenceStoreStreams echo_service = NewStreamsOf"
  "as_orchestratorStreams echo_service = NewStreamsOf" "as_isEvidenceStoreDisabled echo_service = False" "as_tasks echo_service = []"
  "rc_Target (as_orchestrator echo_service) = ''localhost:9090''" "rc_Target (as_evidenceStore echo_service) = ''localhost:9090''"
  by (simp_all add: echo_service_def NewService_as_def NewRPCConnection_def DefaultEvidenceStoreAddress_def DefaultOrchestratorAddress_def
      NewRegoEval_def WithPackageName_def DefaultRegoPackage_def Let_def)

lemma streams_ok_new [simp]: "streams_ok NewStreamsOf"
  by (simp add: streams_ok_def NewStreamsOf_def)

lemma handed_new: "handed NewStreamsOf target = []"
  by (simp add: handed_def NewStreamsOf_def)

lemma echo_handleEvidence:
  "fst (handleEvidence echo_al echo_lib echo_client echo_streams uuid now () echo_evidence echo_service) =
     Ok [new_result (uuid 0) now echo_evidence echo_resource (echo_result ''Echo'')]"
proof -
  obtain pe cache where "Eval echo_lib echo_evidence echo_resource (metrics_source echo_client now) (NewRegoEval [], Map.empty) =
      (Ok [echo_result ''Echo''], pe, cache)"
    using echo_Eval [OF echo_client_stable, of Map.empty] by (metis cache_ok_def option.distinct(1) prod.collapse)
  then show ?thesis
    by (simp add: handleEvidence_def echo_al_def echo_service_fields store_evidence_def get_evidence_stream_def initEvidenceStoreStream_def
        send_results_def get_orchestrator_stream_def initOrchestratorStream_def echo_streams_def GetStream_def addStream_def
        NewStreamsOf_def Send_def channel_cap_def Let_def)
qed

theorem handleEvidence_delivers_witness:
  "handed (as_orchestratorStreams (snd (handleEvidence echo_al echo_lib echo_client echo_streams (\<lambda>_. ''u'') 7 () echo_evidence echo_service))) ''localhost:9090''
     = [new_result ''u'' 7 echo_evidence echo_resource (echo_result ''Echo'')]"
proof -
  obtain svc' where h: "handleEvidence echo_al echo_lib echo_client echo_streams (\<lambda>_. ''u'') 7 () echo_evidence echo_service =
      (Ok [new_result ''u'' 7 echo_evidence echo_resource (echo_result ''Echo'')], svc')"
    using echo_handleEvidence by (metis prod.collapse)
  with handleEvidence_delivers [OF _ _ h] show ?thesis by (auto simp: echo_service_fields handed_new)
qed

text \<open>
  C24: a changed configuration takes effect with its event. Suppose the two caches of the service agree with
  the answers of the orchestrator, and then only the configuration of one metric for one service
  changes. Once the change event is handled, the evaluation of any metric for any service gives what the new answers give.
\<close>

theorem config_change_takes_effect:
  assumes "cache_ok client (as_cachedConfigurations svc)"
    "coherent lib (re_pkg (as_pe svc)) (cfg_of client) (impl_of client) (re_qc (as_pe svc))"
    "mce_Type e = TYPE_CONFIG_CHANGED" "plain_ids mid sid" "impl_of client' = impl_of client"
    "\<forall>sid' mid'. (sid', mid') \<noteq> (mce_CloudServiceId e, mce_MetricId e) \<longrightarrow> cfg_of client' sid' mid' = cfg_of client sid' mid'"
  shows "fst (evalMap lib ''.'' sid mid m (metrics_source client' now)
      (as_pe (handleMetricEvent e svc), as_cachedConfigurations (handleMetricEvent e svc))) =
    evalMap_ref lib ''.'' (re_pkg (as_pe svc)) (cfg_of client') (impl_of client') sid m mid"
proof -
  let ?svc = "handleMetricEvent e svc"
  have pe: "as_pe ?svc = HandleMetricEvent e (as_pe svc)" by (simp add: handleMetricEvent_def Let_def)
  have "cache_ok client' (as_cachedConfigurations ?svc)"
    unfolding cache_ok_def
  proof (intro allI impI; elim conjE)
    fix sid' mid' t c
    assume a: "length sid' = 36" "as_cachedConfigurations ?svc (config_key sid' mid') = Some (t, c)"
    then have "config_key sid' mid' \<noteq> config_key (mce_CloudServiceId e) (mce_MetricId e)"
      "as_cachedConfigurations svc (config_key sid' mid') = Some (t, c)"
      using assms(3) by (auto simp: handleMetricEvent_def Let_def split: if_splits)
    then have "(sid', mid') \<noteq> (mce_CloudServiceId e, mce_MetricId e)" "cfg_of client sid' mid' = Ok c"
      using assms(1) a(1) unfolding cache_ok_def by auto
    then show "cfg_of client' sid' mid' = Ok c" using assms(6) by simp
  qed
  moreover have "coherent lib (re_pkg (as_pe ?svc)) (cfg_of client') (impl_of client') (re_qc (as_pe ?svc))"
    using HandleMetricEvent_coherent [OF assms(2), of e "impl_of client'" "cfg_of client'"] assms(5,6) by (simp add: pe)
  ultimately show ?thesis
    using assessment_src.evalMap_stable [of client' "as_cachedConfigurations ?svc" lib "as_pe ?svc" mid sid m now] assms(4) by (auto simp: pe)
qed

theorem config_change_takes_effect_witness:
  "fst (evalMap echo_lib ''.'' (ev_CloudServiceId echo_evidence) ''Echo'' [''enabled'' \<mapsto> JBool True, ''type'' \<mapsto> JNull] (metrics_source echo_client 9)
     (as_pe (handleMetricEvent \<lparr> mce_Type = TYPE_CONFIG_CHANGED, mce_MetricId = ''Echo'', mce_CloudServiceId = ev_CloudServiceId echo_evidence \<rparr> echo_service),
      as_cachedConfigurations (handleMetricEvent \<lparr> mce_Type = TYPE_CONFIG_CHANGED, mce_MetricId = ''Echo'', mce_CloudServiceId = ev_CloudServiceId echo_evidence \<rparr> echo_service)))
   = Ok (Some (echo_result ''Echo''))"
proof -
  let ?sid = "ev_CloudServiceId echo_evidence"
  let ?old = "echo_client\<lparr>oc_GetMetricConfiguration := \<lambda>req. if gmc_CloudServiceId req = ?sid \<and> gmc_MetricId req = ''Echo'' then Err EOF
    else echo_cfg (gmc_CloudServiceId req) (gmc_MetricId req)\<rparr>"
  let ?e = "\<lparr> mce_Type = TYPE_CONFIG_CHANGED, mce_MetricId = ''Echo'', mce_CloudServiceId = ?sid \<rparr>"
  have "impl_of ?old = impl_of echo_client" by (simp add: impl_of_def MetricImplementation_as_def fun_eq_iff)
  moreover have "\<forall>sid' mid'. (sid', mid') \<noteq> (mce_CloudServiceId ?e, mce_MetricId ?e) \<longrightarrow> cfg_of echo_client sid' mid' = cfg_of ?old sid' mid'"
    by (auto simp: cfg_of_def echo_client_def)
  moreover have "plain_ids ''Echo'' ?sid" by (simp add: plain_ids_def echo_evidence_def)
  ultimately show ?thesis
    using config_change_takes_effect [of ?old echo_service echo_lib ?e "''Echo''" ?sid echo_client "[''enabled'' \<mapsto> JBool True, ''type'' \<mapsto> JNull]" 9]
    by (simp add: echo_service_fields cache_ok_def NewRegoEval_def coherent_empty echo_client_answers echo_evalMap)
qed

text \<open>
  A cached configuration does not expire. However long ago an entry was cached, a lookup returns it and
  does not ask the orchestrator: the comparison with the eviction time has the wrong direction, since it holds only for
  entries cached in the future.
\<close>

lemma MetricConfiguration_never_expires:
  assumes "cache (config_key sid mid) = Some (cachedAt, config)" "cachedAt \<le> now"
  shows "MetricConfiguration_as client now sid mid cache = (Ok config, cache)"
  using assms by (simp add: MetricConfiguration_as_def Let_def EvictionTime_def)

end
