(* ===== verification/Discovery.thy ===== *)
theory Discovery
  imports Assessment
begin

text \<open>
  The discovery service (src/service/discovery/discovery.go and graph.go) and the conversion of ontology resources
  (src/api/discovery/discovery.go): starting and running discoverers, handing evidences to the assessment, listing resources
  and the edges between them.

  The discoverers of the cloud providers are values of the interface \<open>Discoverer\<close>; what \<open>List\<close> returns in a run is an argument of the
  run. Their constructors are the record \<open>provider_lib\<close>, the scheduler \<open>disc_gocron\<close>, packing a message \<open>disc_lib\<close>. As in the assessment,
  a \<open>Send\<close> that finds its channel full stops the model with \<open>Panic\<close>. The two goroutines of a run that send
  events are recorded in \<open>d_tasks\<close>.
\<close>

section \<open>Requests and state\<close>

record StartDiscoveryRequest =
  sdr_ResourceGroup :: "string option"

record ResourceFilter =
  rf_Type :: "string option"
  rf_CloudServiceId :: "string option"

record ListResourcesRequest = PaginatedRequest +
  lrr_Filter :: "ResourceFilter option"

record UpdateResourceRequest =
  udr_Resource :: "Resource option"

record GraphEdge =
  ge_Id :: string
  ge_Source :: string
  ge_Target :: string
  ge_Type :: string

definition udr_GetCloudServiceId :: "UpdateResourceRequest \<Rightarrow> string" where
  "udr_GetCloudServiceId req = (case udr_Resource req of None \<Rightarrow> [] | Some r \<Rightarrow> rs_CloudServiceId r)"

datatype DiscoveryEventType = DiscovererStart | DiscovererFinished

record DiscoveryEvent =
  de_Type :: DiscoveryEventType
  de_DiscovererName :: string
  de_DiscoveredItems :: int
  de_Time :: timestamp

record Discoverer =
  dc_Name :: string
  dc_CloudServiceID :: string

record provider_lib =
  pl_Azure :: "string \<Rightarrow> string option \<Rightarrow> Discoverer res"
  pl_K8S :: "string \<Rightarrow> Discoverer list res"
  pl_AWS :: "string \<Rightarrow> Discoverer list res"

record 'sched disc_gocron =
  dg_TagsUnique :: "'sched \<Rightarrow> 'sched"
  dg_Do :: "int \<Rightarrow> string \<Rightarrow> Discoverer \<Rightarrow> 'sched \<Rightarrow> unit res \<times> 'sched"
  dg_StartAsync :: "'sched \<Rightarrow> 'sched"
  dg_Stop :: "'sched \<Rightarrow> 'sched"

record disc_lib =
  dl_New :: "resource \<Rightarrow> Any res"

record ('ctx, 'db, 'sched, 'st, 'cc, 'auth, 'opt) discovery =
  d_assessmentStreams :: "('st, AssessEvidenceRequest) streams"
  d_assessment :: "('cc, 'auth, 'opt) RPCConnection"
  d_storage :: "(Resource, 'db) gorm"
  d_db :: 'db
  d_scheduler :: 'sched
  d_authz :: "'ctx AuthorizationStrategy"
  d_providers :: "string list"
  d_discoverers :: "Discoverer list"
  d_discoveryInterval :: int
  d_tasks :: "DiscoveryEvent list"
  d_csID :: string

definition ProviderAWS :: string where "ProviderAWS = ''aws''"
definition ProviderK8S :: string where "ProviderK8S = ''k8s''"
definition ProviderAzure :: string where "ProviderAzure = ''azure''"

definition DefaultAssessmentAddress :: string where
  "DefaultAssessmentAddress = ''localhost:9090''"

definition DefaultCloudServiceID :: string where
  "DefaultCloudServiceID = ''00000000-0000-0000-0000-000000000000''"

definition EvidenceCollectorToolId :: string where
  "EvidenceCollectorToolId = ''Clouditor Evidences Collection''"

section \<open>Options and constructor\<close>

text \<open>The options work on the service itself and on the storage, which defaults to an in-memory one.\<close>

type_synonym ('ctx, 'db, 'sched, 'st, 'cc, 'auth, 'opt) discovery_config =
  "('ctx, 'db, 'sched, 'st, 'cc, 'auth, 'opt) discovery \<times> ((Resource, 'db) gorm \<times> 'db) option"

definition WithAssessmentAddress ::
  "string \<Rightarrow> 'opt list \<Rightarrow> ('ctx, 'db, 'sched, 'st, 'cc, 'auth, 'opt) discovery_config \<Rightarrow> ('ctx, 'db, 'sched, 'st, 'cc, 'auth, 'opt) discovery_config" where
  "WithAssessmentAddress target opts c =
     (case c of (svc, st) \<Rightarrow> (svc\<lparr>d_assessment := (d_assessment svc)\<lparr>rc_Target := target, rc_Opts := opts\<rparr>\<rparr>, st))"

definition WithCloudServiceID ::
  "string \<Rightarrow> ('ctx, 'db, 'sched, 'st, 'cc, 'auth, 'opt) discovery_config \<Rightarrow> ('ctx, 'db, 'sched, 'st, 'cc, 'auth, 'opt) discovery_config" where
  "WithCloudServiceID csid c = (case c of (svc, st) \<Rightarrow> (svc\<lparr>d_csID := csid\<rparr>, st))"

definition WithProviders ::
  "string list \<Rightarrow> ('ctx, 'db, 'sched, 'st, 'cc, 'auth, 'opt) discovery_config \<Rightarrow> ('ctx, 'db, 'sched, 'st, 'cc, 'auth, 'opt) discovery_config" where
  "WithProviders ps c = (case c of (svc, st) \<Rightarrow> (svc\<lparr>d_providers := ps\<rparr>, st))"

definition WithAdditionalDiscoverers ::
  "Discoverer list \<Rightarrow> ('ctx, 'db, 'sched, 'st, 'cc, 'auth, 'opt) discovery_config \<Rightarrow> ('ctx, 'db, 'sched, 'st, 'cc, 'auth, 'opt) discovery_config" where
  "WithAdditionalDiscoverers ds c = (case c of (svc, st) \<Rightarrow> (svc\<lparr>d_discoverers := d_discoverers svc @ ds\<rparr>, st))"

definition WithStorage_di ::
  "(Resource, 'db) gorm \<times> 'db \<Rightarrow> ('ctx, 'db, 'sched, 'st, 'cc, 'auth, 'opt) discovery_config \<Rightarrow> ('ctx, 'db, 'sched, 'st, 'cc, 'auth, 'opt) discovery_config" where
  "WithStorage_di storage c = (case c of (svc, _) \<Rightarrow> (svc, Some storage))"

definition WithDiscoveryInterval ::
  "int \<Rightarrow> ('ctx, 'db, 'sched, 'st, 'cc, 'auth, 'opt) discovery_config \<Rightarrow> ('ctx, 'db, 'sched, 'st, 'cc, 'auth, 'opt) discovery_config" where
  "WithDiscoveryInterval interval c = (case c of (svc, st) \<Rightarrow> (svc\<lparr>d_discoveryInterval := interval\<rparr>, st))"

definition WithAuthorizationStrategy_di ::
  "'ctx AuthorizationStrategy \<Rightarrow> ('ctx, 'db, 'sched, 'st, 'cc, 'auth, 'opt) discovery_config \<Rightarrow> ('ctx, 'db, 'sched, 'st, 'cc, 'auth, 'opt) discovery_config" where
  "WithAuthorizationStrategy_di authz c = (case c of (svc, st) \<Rightarrow> (svc\<lparr>d_authz := authz\<rparr>, st))"

definition NewService_di ::
  "'sched \<Rightarrow> (Resource, 'db) gorm \<times> 'db \<Rightarrow>
   (('ctx, 'db, 'sched, 'st, 'cc, 'auth, 'opt) discovery_config \<Rightarrow> ('ctx, 'db, 'sched, 'st, 'cc, 'auth, 'opt) discovery_config) list \<Rightarrow>
   ('ctx, 'db, 'sched, 'st, 'cc, 'auth, 'opt) discovery" where
  "NewService_di scheduler inmem opts =
     (let (svc, st) = fold (\<lambda>opt c. opt c) opts
        (\<lparr> d_assessmentStreams = NewStreamsOf, d_assessment = NewRPCConnection DefaultAssessmentAddress [], d_storage = fst inmem, d_db = snd inmem,
           d_scheduler = scheduler, d_authz = strategy_AllowAll, d_providers = [], d_discoverers = [],
           d_discoveryInterval = 5 * 60 * 10 ^ 9, d_tasks = [], d_csID = DefaultCloudServiceID \<rparr>, None);
          (storage, db) = Deref inmem st
      in svc\<lparr>d_storage := storage, d_db := db\<rparr>)"

section \<open>Conversion of resources\<close>

definition ToDiscoveryResource :: "disc_lib \<Rightarrow> resource \<Rightarrow> string \<Rightarrow> Resource res" where
  "ToDiscoveryResource lib resource csID =
     (case dl_New lib resource of
        Err err \<Rightarrow> Err (Wrap ''could not convert protobuf structure: '' err)
      | Panic \<Rightarrow> Panic
      | Ok a \<Rightarrow> Ok \<lparr> rs_Id = or_Id resource, rs_CloudServiceId = csID,
                      rs_ResourceType = Join (ResourceTypes resource) '','', rs_Properties = Some a \<rparr>)"

definition ErrNotOntologyResource :: go_error where
  "ErrNotOntologyResource = ErrText ''protobuf message is not a valid ontology resource''"

definition ToOntologyResource :: "'m assess_lib \<Rightarrow> Resource \<Rightarrow> resource res" where
  "ToOntologyResource al r =
     (case al_UnmarshalNew al (rs_Properties r) of
        Err err \<Rightarrow> Err err
      | Panic \<Rightarrow> Panic
      | Ok m \<Rightarrow> (case al_IsResource al m of None \<Rightarrow> Err ErrNotOntologyResource | Some r \<Rightarrow> Ok r))"

section \<open>Running discoverers\<close>

definition initAssessmentStream ::
  "go_error + 'st \<Rightarrow> ('ctx, 'db, 'sched, 'st, 'cc, 'auth, 'opt) discovery \<Rightarrow>
   ('st option \<times> go_error option) \<times> ('ctx, 'db, 'sched, 'st, 'cc, 'auth, 'opt) discovery" where
  "initAssessmentStream opened svc =
     (let svc = svc\<lparr>d_assessment := ForceReconnect (d_assessment svc)\<rparr>
      in case opened of
           Inl err \<Rightarrow> ((None, Some (Wrap ''could not set up stream for assessing evidences: '' err)), svc)
         | Inr stream \<Rightarrow> ((Some stream, None), svc))"

definition get_assessment_stream ::
  "go_error + 'st \<Rightarrow> ('ctx, 'db, 'sched, 'st, 'cc, 'auth, 'opt) discovery \<Rightarrow> nat res \<times> ('ctx, 'db, 'sched, 'st, 'cc, 'auth, 'opt) discovery" where
  "get_assessment_stream opened svc =
     (let target = rc_Target (d_assessment svc); (out, svc1) = initAssessmentStream opened svc;
          (r, streams) = GetStream target ''Assessment'' (Some (\<lambda>_. out)) (d_assessmentStreams svc);
          svc' = (if opens target (d_assessmentStreams svc) then svc1 else svc)
      in (r, svc'\<lparr>d_assessmentStreams := streams\<rparr>))"

definition new_evidence :: "string \<Rightarrow> timestamp \<Rightarrow> string \<Rightarrow> resource \<Rightarrow> Any \<Rightarrow> Evidence" where
  "new_evidence uuid now csID resource a =
     \<lparr> ev_Id = uuid, ev_Timestamp = Some now, ev_CloudServiceId = csID, ev_ToolId = EvidenceCollectorToolId,
       ev_Raw = Some (or_Raw resource), ev_Resource = Some a \<rparr>"

text \<open>One round of the loop over the resources; \<open>Ok\<close> goes on to the next one.\<close>

definition discover_resource ::
  "disc_lib \<Rightarrow> go_error + 'st \<Rightarrow> string \<Rightarrow> timestamp \<Rightarrow> resource \<Rightarrow> ('ctx, 'db, 'sched, 'st, 'cc, 'auth, 'opt) discovery \<Rightarrow>
   unit res \<times> ('ctx, 'db, 'sched, 'st, 'cc, 'auth, 'opt) discovery" where
  "discover_resource lib opened uuid now resource svc =
     (case ToDiscoveryResource lib resource (d_csID svc) of
        Err err \<Rightarrow> (Ok (), svc)
      | Panic \<Rightarrow> (Panic, svc)
      | Ok r \<Rightarrow>
          (case storage_Save (d_storage svc) r (cond_eq ''id'' (rs_Id r)) (d_db svc) of
             (saved, d) \<Rightarrow>
               (let svc = svc\<lparr>d_db := d\<rparr>
                in if saved = Panic then (Panic, svc)
                   else (case dl_New lib resource of
                           Err err \<Rightarrow> (Ok (), svc)
                         | Panic \<Rightarrow> (Panic, svc)
                         | Ok a \<Rightarrow>
                             (case get_assessment_stream opened svc of
                                (Err err, svc) \<Rightarrow> (Ok (), svc)
                              | (Panic, svc) \<Rightarrow> (Panic, svc)
                              | (Ok p, svc) \<Rightarrow>
                                  (case Send p \<lparr> aer_Evidence = Some (new_evidence uuid now (d_csID svc) resource a) \<rparr> (d_assessmentStreams svc) of
                                     None \<Rightarrow> (Panic, svc)
                                   | Some streams \<Rightarrow> (Ok (), svc\<lparr>d_assessmentStreams := streams\<rparr>)))))))"

fun discover_resources ::
  "disc_lib \<Rightarrow> go_error + 'st \<Rightarrow> (nat \<Rightarrow> string) \<Rightarrow> timestamp \<Rightarrow> nat \<Rightarrow> resource list \<Rightarrow> ('ctx, 'db, 'sched, 'st, 'cc, 'auth, 'opt) discovery \<Rightarrow>
   unit res \<times> ('ctx, 'db, 'sched, 'st, 'cc, 'auth, 'opt) discovery" where
  "discover_resources lib opened uuid now n [] svc = (Ok (), svc)"
| "discover_resources lib opened uuid now n (resource # list) svc =
     (case discover_resource lib opened (uuid n) now resource svc of
        (Ok _, svc) \<Rightarrow> discover_resources lib opened uuid now (n + 1) list svc
      | r \<Rightarrow> r)"

definition StartDiscovery ::
  "disc_lib \<Rightarrow> go_error + 'st \<Rightarrow> (nat \<Rightarrow> string) \<Rightarrow> timestamp \<Rightarrow> Discoverer \<Rightarrow> resource list res \<Rightarrow>
   ('ctx, 'db, 'sched, 'st, 'cc, 'auth, 'opt) discovery \<Rightarrow> unit res \<times> ('ctx, 'db, 'sched, 'st, 'cc, 'auth, 'opt) discovery" where
  "StartDiscovery lib opened uuid now discoverer listed svc =
     (let svc = svc\<lparr>d_tasks := d_tasks svc @ [\<lparr> de_Type = DiscovererStart, de_DiscovererName = dc_Name discoverer,
            de_DiscoveredItems = 0, de_Time = now \<rparr>]\<rparr>
      in case listed of
           Err err \<Rightarrow> (Ok (), svc)
         | Panic \<Rightarrow> (Panic, svc)
         | Ok list \<Rightarrow>
             discover_resources lib opened uuid now 0 list
               (svc\<lparr>d_tasks := d_tasks svc @ [\<lparr> de_Type = DiscovererFinished, de_DiscovererName = dc_Name discoverer,
                  de_DiscoveredItems = int (length list), de_Time = now \<rparr>]\<rparr>))"

section \<open>Handlers\<close>

fun add_discoverers ::
  "provider_lib \<Rightarrow> StartDiscoveryRequest \<Rightarrow> string list \<Rightarrow> ('ctx, 'db, 'sched, 'st, 'cc, 'auth, 'opt) discovery \<Rightarrow>
   unit res \<times> ('ctx, 'db, 'sched, 'st, 'cc, 'auth, 'opt) discovery" where
  "add_discoverers pl req [] svc = (Ok (), svc)"
| "add_discoverers pl req (provider # ps) svc =
     (if provider = ProviderAzure then
        (case pl_Azure pl (d_csID svc) (if Deref [] (sdr_ResourceGroup req) \<noteq> [] then sdr_ResourceGroup req else None) of
           Err err \<Rightarrow> (Err (Status FailedPrecondition (''could not authenticate to Azure: '' @ error_string err)), svc)
         | Panic \<Rightarrow> (Panic, svc)
         | Ok d \<Rightarrow> add_discoverers pl req ps (svc\<lparr>d_discoverers := d_discoverers svc @ [d]\<rparr>))
      else if provider = ProviderK8S then
        (case pl_K8S pl (d_csID svc) of
           Err err \<Rightarrow> (Err (Status FailedPrecondition (''could not authenticate to Kubernetes: '' @ error_string err)), svc)
         | Panic \<Rightarrow> (Panic, svc)
         | Ok ds \<Rightarrow> add_discoverers pl req ps (svc\<lparr>d_discoverers := d_discoverers svc @ ds\<rparr>))
      else if provider = ProviderAWS then
        (case pl_AWS pl (d_csID svc) of
           Err err \<Rightarrow> (Err (Status FailedPrecondition (''could not authenticate to AWS: '' @ error_string err)), svc)
         | Panic \<Rightarrow> (Panic, svc)
         | Ok ds \<Rightarrow> add_discoverers pl req ps (svc\<lparr>d_discoverers := d_discoverers svc @ ds\<rparr>))
      else (Err (Status InvalidArgument (''provider '' @ provider @ '' not known'')), svc))"

fun schedule_discoverers ::
  "'sched disc_gocron \<Rightarrow> Discoverer list \<Rightarrow> ('ctx, 'db, 'sched, 'st, 'cc, 'auth, 'opt) discovery \<Rightarrow>
   unit res \<times> ('ctx, 'db, 'sched, 'st, 'cc, 'auth, 'opt) discovery" where
  "schedule_discoverers dg [] svc = (Ok (), svc)"
| "schedule_discoverers dg (v # vs) svc =
     (case dg_Do dg (d_discoveryInterval svc) (dc_Name v) v (d_scheduler svc) of
        (Err err, sch) \<Rightarrow>
          (Err (Status Aborted (''could not schedule job for {'' @ dc_Name v @ ''}: '' @ error_string err)), svc\<lparr>d_scheduler := sch\<rparr>)
      | (Panic, sch) \<Rightarrow> (Panic, svc\<lparr>d_scheduler := sch\<rparr>)
      | (Ok _, sch) \<Rightarrow> schedule_discoverers dg vs (svc\<lparr>d_scheduler := sch\<rparr>))"

definition Start ::
  "provider_lib \<Rightarrow> 'sched disc_gocron \<Rightarrow> StartDiscoveryRequest validator \<Rightarrow> 'ctx \<Rightarrow> StartDiscoveryRequest option \<Rightarrow>
   ('ctx, 'db, 'sched, 'st, 'cc, 'auth, 'opt) discovery \<Rightarrow> bool res \<times> ('ctx, 'db, 'sched, 'st, 'cc, 'auth, 'opt) discovery" where
  "Start pl dg v ctx req svc =
     (case Validate v req of
        Err err \<Rightarrow> (Err err, svc)
      | Panic \<Rightarrow> (Panic, svc)
      | Ok req \<Rightarrow>
          if \<not> az_CheckAccess (d_authz svc) ctx AccessUpdate (d_csID svc) then (Err ErrPermissionDenied, svc)
          else (case add_discoverers pl req (d_providers svc) (svc\<lparr>d_scheduler := dg_TagsUnique dg (d_scheduler svc)\<rparr>) of
                  (Err err, svc) \<Rightarrow> (Err err, svc)
                | (Panic, svc) \<Rightarrow> (Panic, svc)
                | (Ok _, svc) \<Rightarrow>
                    (case schedule_discoverers dg (d_discoverers svc) svc of
                       (Err err, svc) \<Rightarrow> (Err err, svc)
                     | (Panic, svc) \<Rightarrow> (Panic, svc)
                     | (Ok _, svc) \<Rightarrow> (Ok True, svc\<lparr>d_scheduler := dg_StartAsync dg (d_scheduler svc)\<rparr>))))"

definition Shutdown_di ::
  "'sched disc_gocron \<Rightarrow> ('ctx, 'db, 'sched, 'st, 'cc, 'auth, 'opt) discovery \<Rightarrow> 'st set res \<times> ('ctx, 'db, 'sched, 'st, 'cc, 'auth, 'opt) discovery" where
  "Shutdown_di dg svc =
     (case CloseAll (d_assessmentStreams svc) of
        Panic \<Rightarrow> (Panic, svc)
      | r \<Rightarrow> (r, svc\<lparr>d_scheduler := dg_Stop dg (d_scheduler svc)\<rparr>))"

text \<open>The condition on the type: the first, one in between or the last of several types.\<close>

definition type_frag :: "string \<Rightarrow> sql \<times> sqlval list" where
  "type_frag t =
     ([TParen [TAtom (ALike ''resource_type''), TOr, TAtom (ALike ''resource_type''), TOr, TAtom (ALike ''resource_type'')]],
      [VStr (t @ '',%''), VStr (''%,'' @ t @ '',%''), VStr (''%,'' @ t)])"

definition resource_frags :: "ResourceFilter option \<Rightarrow> bool \<times> string list \<Rightarrow> (sql \<times> sqlval list) list" where
  "resource_frags fil scope =
     (case fil of
        None \<Rightarrow> []
      | Some f \<Rightarrow>
          opt_frag (AEq ''cloud_service_id'') VStr (rf_CloudServiceId f) @
          (case rf_Type f of None \<Rightarrow> [] | Some t \<Rightarrow> [type_frag t])) @
     (if \<not> fst scope then [([TAtom (AIn ''cloud_service_id'')], [VStrs (snd scope)])] else [])"

definition ListResources ::
  "proto_lib \<Rightarrow> ListResourcesRequest validator \<Rightarrow> 'ctx \<Rightarrow> ListResourcesRequest option \<Rightarrow>
   ('ctx, 'db, 'sched, 'st, 'cc, 'auth, 'opt) discovery \<Rightarrow> (Resource list \<times> string) res" where
  "ListResources pb v ctx req svc =
     (case Validate v req of
        Err err \<Rightarrow> Err err
      | Panic \<Rightarrow> Panic
      | Ok req \<Rightarrow>
          if (case lrr_Filter req of
                None \<Rightarrow> False
              | Some f \<Rightarrow> \<not> az_CheckAccess (d_authz svc) ctx AccessRead (Deref [] (rf_CloudServiceId f)))
          then Err ErrPermissionDenied
          else PaginateStorage pb req (d_storage svc) DefaultPaginationOpts
                 (frag_conds (resource_frags (lrr_Filter req) (az_AllowedCloudServices (d_authz svc) ctx))) (d_db svc))"

fun graph_edges :: "'m assess_lib \<Rightarrow> Resource list \<Rightarrow> GraphEdge list" where
  "graph_edges al [] = []"
| "graph_edges al (resource # rs) =
     (case ToOntologyResource al resource of
        Ok r \<Rightarrow> map (\<lambda>rel. \<lparr> ge_Id = rs_Id resource @ ''-'' @ rel_Value rel, ge_Source = rs_Id resource,
                              ge_Target = rel_Value rel, ge_Type = rel_Property rel \<rparr>) (Related r)
      | _ \<Rightarrow> []) @ graph_edges al rs"

definition ListGraphEdges ::
  "proto_lib \<Rightarrow> 'm assess_lib \<Rightarrow> PaginatedRequest validator \<Rightarrow> 'ctx \<Rightarrow> PaginatedRequest option \<Rightarrow>
   ('ctx, 'db, 'sched, 'st, 'cc, 'auth, 'opt) discovery \<Rightarrow> (GraphEdge list \<times> string) res" where
  "ListGraphEdges pb al v ctx req svc =
     (case Validate v req of
        Err err \<Rightarrow> Err err
      | Panic \<Rightarrow> Panic
      | Ok req \<Rightarrow>
          (case PaginateStorage pb req (d_storage svc) DefaultPaginationOpts
                  (frag_conds (resource_frags None (az_AllowedCloudServices (d_authz svc) ctx))) (d_db svc) of
             Err err \<Rightarrow> Err (database_error err)
           | Panic \<Rightarrow> Panic
           | Ok (results, npt) \<Rightarrow> Ok (graph_edges al results, npt)))"

definition UpdateResource ::
  "UpdateResourceRequest validator \<Rightarrow> 'ctx \<Rightarrow> UpdateResourceRequest option \<Rightarrow> ('ctx, 'db, 'sched, 'st, 'cc, 'auth, 'opt) discovery \<Rightarrow>
   Resource res \<times> ('ctx, 'db, 'sched, 'st, 'cc, 'auth, 'opt) discovery" where
  "UpdateResource v ctx req svc =
     (case Validate v req of
        Err err \<Rightarrow> (Err err, svc)
      | Panic \<Rightarrow> (Panic, svc)
      | Ok req \<Rightarrow>
          if \<not> az_CheckAccess (d_authz svc) ctx AccessRead (udr_GetCloudServiceId req) then (Err ErrPermissionDenied, svc)
          else (case udr_Resource req of
             None \<Rightarrow> (Panic, svc)
           | Some resource \<Rightarrow>
               (case storage_Save (d_storage svc) resource (cond_eq ''id'' (rs_Id resource)) (d_db svc) of
                  (Err err, d) \<Rightarrow> (Err (database_error err), svc\<lparr>d_db := d\<rparr>)
                | (Panic, d) \<Rightarrow> (Panic, svc\<lparr>d_db := d\<rparr>)
                | (Ok _, d) \<Rightarrow> (Ok resource, svc\<lparr>d_db := d\<rparr>))))"

section \<open>Lemmas\<close>

text \<open>What a run does not change.\<close>

definition disc_keeps ::
  "('ctx, 'db, 'sched, 'st, 'cc, 'auth, 'opt) discovery \<Rightarrow> ('ctx, 'db, 'sched, 'st, 'cc, 'auth, 'opt) discovery \<Rightarrow> bool" where
  "disc_keeps svc svc' \<longleftrightarrow> d_storage svc' = d_storage svc \<and> d_csID svc' = d_csID svc \<and>
     rc_Target (d_assessment svc') = rc_Target (d_assessment svc) \<and> d_tasks svc' = d_tasks svc \<and> d_discoverers svc' = d_discoverers svc"

lemma GetStream_open:
  assumes "\<exists>st. f = (\<lambda>_. (Some st, None))"
  shows "\<exists>p s'. GetStream target component (Some f) s = (Ok p, s')"
  using assms by (auto simp: GetStream_def addStream_def restartStream_def split: option.splits)

lemma get_assessment_stream_ok:
  assumes "streams_ok (d_assessmentStreams svc)" "tgt = rc_Target (d_assessment svc)"
  shows "\<exists>p svc'. get_assessment_stream (Inr st) svc = (Ok p, svc') \<and> so_channels (d_assessmentStreams svc') tgt = Some p \<and>
    p < length (so_heap (d_assessmentStreams svc')) \<and> accepted (d_assessmentStreams svc') p = handed (d_assessmentStreams svc) tgt \<and>
    streams_ok (d_assessmentStreams svc') \<and> d_db svc' = d_db svc \<and> disc_keeps svc svc'"
proof -
  let ?init = "Some (\<lambda>_. (Some st, None))"
  obtain p s' where g: "GetStream tgt ''Assessment'' ?init (d_assessmentStreams svc) = (Ok p, s')"
    using GetStream_open [of "\<lambda>_. (Some st, None)"] by blast
  let ?svc = "(if opens tgt (d_assessmentStreams svc) then svc\<lparr>d_assessment := ForceReconnect (d_assessment svc)\<rparr> else svc)\<lparr>d_assessmentStreams := s'\<rparr>"
  have e: "get_assessment_stream (Inr st) svc = (Ok p, ?svc)"
    using g assms(2) by (simp add: get_assessment_stream_def initAssessmentStream_def Let_def)
  moreover have "disc_keeps svc ?svc" "d_db ?svc = d_db svc" by (auto simp: disc_keeps_def ForceReconnect_def)
  ultimately show ?thesis
    using GetStream_handed [OF assms(1) g] GetStream_ok [OF assms(1) g] by (intro exI [of _ p] exI [of _ ?svc]) simp
qed

definition stored_resource :: "(resource \<Rightarrow> Any) \<Rightarrow> string \<Rightarrow> resource \<Rightarrow> Resource" where
  "stored_resource any csID r =
     \<lparr> rs_Id = or_Id r, rs_CloudServiceId = csID, rs_ResourceType = Join (ResourceTypes r) '','', rs_Properties = Some (any r) \<rparr>"

definition evidence_request :: "(resource \<Rightarrow> Any) \<Rightarrow> (nat \<Rightarrow> string) \<Rightarrow> timestamp \<Rightarrow> string \<Rightarrow> nat \<times> resource \<Rightarrow> AssessEvidenceRequest" where
  "evidence_request any uuid now csID nr =
     \<lparr> aer_Evidence = Some (new_evidence (uuid (fst nr)) now csID (snd nr) (any (snd nr))) \<rparr>"

text \<open>A database that accepts every save.\<close>

definition saves :: "('r, 'db) gorm \<Rightarrow> bool" where
  "saves g \<longleftrightarrow> (\<forall>w r d. fst (gorm_Save g w r d) = None)"

lemma storage_Save_saves: "saves g \<Longrightarrow> \<exists>d'. storage_Save g r cs d = (Ok (), d')"
  unfolding saves_def storage_Save_def by (metis (no_types, lifting) option.case(1) prod.case prod.collapse)

lemma discover_resource_spec:
  assumes "gorm_table (d_storage svc) T" "t_key T = resource_key" "saves (d_storage svc)" "streams_ok (d_assessmentStreams svc)"
    "dl_New lib r = Ok (any r)" "discover_resource lib (Inr st) u now r svc = (Ok x, svc')"
    and tgt: "tgt = rc_Target (d_assessment svc)"
  shows "t_rows T (d_db svc') = insert (stored_resource any (d_csID svc) r) {y \<in> t_rows T (d_db svc). rs_Id y \<noteq> or_Id r} \<and>
    handed (d_assessmentStreams svc') tgt = handed (d_assessmentStreams svc) tgt @ [\<lparr> aer_Evidence = Some (new_evidence u now (d_csID svc) r (any r)) \<rparr>] \<and>
    streams_ok (d_assessmentStreams svc') \<and> disc_keeps svc svc'"
proof -
  let ?r = "stored_resource any (d_csID svc) r"
  have conv: "ToDiscoveryResource lib r (d_csID svc) = Ok ?r" using assms(5) by (simp add: ToDiscoveryResource_def stored_resource_def)
  obtain d where sv: "storage_Save (d_storage svc) ?r (cond_eq ''id'' (rs_Id ?r)) (d_db svc) = (Ok (), d)"
    using storage_Save_saves [OF assms(3)] by blast
  let ?svc = "svc\<lparr>d_db := d\<rparr>"
  obtain p svc1 where g: "get_assessment_stream (Inr st) ?svc = (Ok p, svc1)" "so_channels (d_assessmentStreams svc1) tgt = Some p"
    "p < length (so_heap (d_assessmentStreams svc1))" "accepted (d_assessmentStreams svc1) p = handed (d_assessmentStreams svc) tgt"
    "streams_ok (d_assessmentStreams svc1)" "d_db svc1 = d" "disc_keeps ?svc svc1"
    using get_assessment_stream_ok [of ?svc tgt st] assms(4) tgt by auto
  have cs: "d_csID svc1 = d_csID svc" using g(7) by (simp add: disc_keeps_def)
  obtain s' where s': "Send p \<lparr> aer_Evidence = Some (new_evidence u now (d_csID svc) r (any r)) \<rparr> (d_assessmentStreams svc1) = Some s'"
    "svc' = svc1\<lparr>d_assessmentStreams := s'\<rparr>"
    using assms(5,6) conv sv g(1) cs by (auto simp: discover_resource_def Let_def split: option.splits)
  have "t_rows T d = insert ?r {y \<in> t_rows T (d_db svc). rs_Id y \<noteq> or_Id r}"
    using gorm_table.st_Save_Ok [OF assms(1) sv] assms(2) by (simp add: resource_key_def stored_resource_def)
  moreover have "handed s' tgt = handed (d_assessmentStreams svc) tgt @ [\<lparr> aer_Evidence = Some (new_evidence u now (d_csID svc) r (any r)) \<rparr>]"
    using Send_handed [OF g(2,3) s'(1)] g(4) by simp
  ultimately show ?thesis
    using s' g(5,6,7) Send_ok [OF g(5,3) s'(1)] by (simp add: disc_keeps_def)
qed

lemma discover_resources_spec:
  assumes "gorm_table (d_storage svc) T" "t_key T = resource_key" "saves (d_storage svc)" "streams_ok (d_assessmentStreams svc)"
    "\<forall>r \<in> set rs. dl_New lib r = Ok (any r)" "discover_resources lib (Inr st) uuid now n rs svc = (Ok x, svc')"
    and "tgt = rc_Target (d_assessment svc)"
  shows "t_rows T (d_db svc') =
      fold (\<lambda>r rows. insert (stored_resource any (d_csID svc) r) {y \<in> rows. rs_Id y \<noteq> or_Id r}) rs (t_rows T (d_db svc)) \<and>
    handed (d_assessmentStreams svc') tgt = handed (d_assessmentStreams svc) tgt @ map (evidence_request any uuid now (d_csID svc)) (enumerate n rs) \<and>
    disc_keeps svc svc'"
  using assms
proof (induction rs arbitrary: n svc)
  case Nil
  then show ?case by (simp add: disc_keeps_def)
next
  case (Cons r rs)
  obtain svc1 where r: "discover_resource lib (Inr st) (uuid n) now r svc = (Ok (), svc1)"
    and rs: "discover_resources lib (Inr st) uuid now (n + 1) rs svc1 = (Ok x, svc')"
    using Cons.prems(6) by (auto split: prod.splits res.splits)
  note spec = discover_resource_spec [OF Cons.prems(1-4) _ r Cons.prems(7), of any]
  have "dl_New lib r = Ok (any r)" using Cons.prems(5) by simp
  note spec = spec [OF this]
  have k: "d_storage svc1 = d_storage svc" "d_csID svc1 = d_csID svc" "tgt = rc_Target (d_assessment svc1)"
    using spec Cons.prems(7) by (simp_all add: disc_keeps_def)
  have "gorm_table (d_storage svc1) T" "saves (d_storage svc1)" "streams_ok (d_assessmentStreams svc1)" "\<forall>r \<in> set rs. dl_New lib r = Ok (any r)"
    using Cons.prems(1,3,5) spec by (simp_all add: k)
  note IH = Cons.IH [OF this(1) Cons.prems(2) this(2,3,4) rs k(3)]
  have h: "handed (d_assessmentStreams svc1) tgt = handed (d_assessmentStreams svc) tgt @ [evidence_request any uuid now (d_csID svc) (n, r)]"
    "t_rows T (d_db svc1) = insert (stored_resource any (d_csID svc) r) {y \<in> t_rows T (d_db svc). rs_Id y \<noteq> or_Id r}" "disc_keeps svc svc1"
    using spec by (simp_all add: evidence_request_def)
  from IH show ?case by (simp add: h(1,2) k(2)) (use h(3) in \<open>simp add: disc_keeps_def\<close>)
qed

text \<open>A run ends well as long as there is room in the channel.\<close>

lemma channel_le_accepted:
  assumes "streams_ok s" "p < length (so_heap s)"
  shows "length (ch_channel (so_heap s ! p)) \<le> length (accepted s p)"
proof -
  let ?c = "so_heap s ! p"
  have "mset (accepted s p) = mset (ch_sent ?c) + mset (ch_inflight ?c) + mset (ch_channel ?c) + mset (ch_requeue ?c)"
    using assms by (simp add: streams_ok_def chan_ok_def)
  from arg_cong [OF this, of size] show ?thesis by simp
qed

lemma discover_resource_runs:
  assumes "saves (d_storage svc)" "streams_ok (d_assessmentStreams svc)" "dl_New lib r = Ok a"
    "length (handed (d_assessmentStreams svc) (rc_Target (d_assessment svc))) < channel_cap"
  shows "\<exists>svc'. discover_resource lib (Inr st) u now r svc = (Ok (), svc')"
proof -
  obtain x where conv: "ToDiscoveryResource lib r (d_csID svc) = Ok x" using assms(3) by (simp add: ToDiscoveryResource_def)
  obtain d where sv: "storage_Save (d_storage svc) x (cond_eq ''id'' (rs_Id x)) (d_db svc) = (Ok (), d)"
    using storage_Save_saves [OF assms(1)] by blast
  let ?svc = "svc\<lparr>d_db := d\<rparr>"
  obtain p svc1 where g: "get_assessment_stream (Inr st) ?svc = (Ok p, svc1)" "p < length (so_heap (d_assessmentStreams svc1))"
    "accepted (d_assessmentStreams svc1) p = handed (d_assessmentStreams svc) (rc_Target (d_assessment svc))" "streams_ok (d_assessmentStreams svc1)"
    using get_assessment_stream_ok [of ?svc "rc_Target (d_assessment svc)" st] assms(2) by auto
  have "length (ch_channel (so_heap (d_assessmentStreams svc1) ! p)) < channel_cap"
    using channel_le_accepted [OF g(4,2)] g(3) assms(4) by simp
  then show ?thesis using assms(3) conv sv g(1) by (simp add: discover_resource_def Let_def Send_def)
qed

lemma discover_resources_runs:
  assumes "gorm_table (d_storage svc) T" "t_key T = resource_key" "saves (d_storage svc)" "streams_ok (d_assessmentStreams svc)"
    "\<forall>r. dl_New lib r = Ok (any r)" "length (handed (d_assessmentStreams svc) (rc_Target (d_assessment svc))) + length rs \<le> channel_cap"
  shows "\<exists>svc'. discover_resources lib (Inr st) uuid now n rs svc = (Ok (), svc')"
  using assms
proof (induction rs arbitrary: n svc)
  case (Cons r rs)
  have "length (handed (d_assessmentStreams svc) (rc_Target (d_assessment svc))) < channel_cap" using Cons.prems(6) by simp
  then obtain svc1 where r: "discover_resource lib (Inr st) (uuid n) now r svc = (Ok (), svc1)"
    using discover_resource_runs [OF Cons.prems(3,4) spec [OF Cons.prems(5)]] by blast
  note step = discover_resource_spec [where any = any, OF Cons.prems(1-4) spec [OF Cons.prems(5), of r] r refl]
  then have k: "d_storage svc1 = d_storage svc" "rc_Target (d_assessment svc1) = rc_Target (d_assessment svc)"
    "streams_ok (d_assessmentStreams svc1)" by (simp_all add: disc_keeps_def)
  have "\<exists>svc'. discover_resources lib (Inr st) uuid now (n + 1) rs svc1 = (Ok (), svc')"
    using Cons.prems step by (intro Cons.IH) (simp_all add: k)
  with r show ?case by simp
qed simp

lemma StartDiscovery_runs:
  assumes "gorm_table (d_storage svc) T" "t_key T = resource_key" "saves (d_storage svc)" "streams_ok (d_assessmentStreams svc)"
    "\<forall>r. dl_New lib r = Ok (any r)" "length (handed (d_assessmentStreams svc) (rc_Target (d_assessment svc))) + length rs \<le> channel_cap"
  shows "\<exists>svc'. StartDiscovery lib (Inr st) uuid now discoverer (Ok rs) svc = (Ok (), svc')"
  unfolding StartDiscovery_def Let_def res.case using assms by (intro discover_resources_runs [where any = any]) simp_all

section \<open>The condition on the type\<close>

text \<open>What the listing needs of the \<open>LIKE\<close> of the database: a percent sign stands for any text, a comma for itself.\<close>

definition like_commas :: "sqlenv \<Rightarrow> bool" where
  "like_commas env \<longleftrightarrow>
     (\<forall>t s. sql_like env (t @ '','' @ s) (t @ '',%'')) \<and> (\<forall>s t. sql_like env (s @ '','' @ t) (''%,'' @ t)) \<and>
     (\<forall>s t s'. sql_like env (s @ '','' @ t @ '','' @ s') (''%,'' @ t @ '',%'')) \<and>
     (\<forall>s p. sql_like env s p \<and> CHR '','' \<in> set p \<longrightarrow> CHR '','' \<in> set s)"

lemma like_match_weaken: "like_match s p \<Longrightarrow> like_match s (CHR ''%'' # p)"
  by (cases s) auto

lemma like_match_prefix: "like_match s p \<Longrightarrow> like_match (t @ s) (t @ p)"
proof (induction t)
  case (Cons c t)
  then show ?case using like_match_weaken [of "t @ s" "t @ p"] by auto
qed simp

lemma like_match_any: "like_match s p \<Longrightarrow> like_match (t @ s) (CHR ''%'' # p)"
  by (induction t) (simp_all add: like_match_weaken)

lemma like_match_comma: "like_match s p \<Longrightarrow> CHR '','' \<in> set p \<Longrightarrow> CHR '','' \<in> set s"
  by (induction s p rule: like_match.induct) (auto split: if_splits)

lemma like_match_commas: "like_commas (md_env d)"
proof -
  have all: "like_match s ''%''" for s using like_match_any [of "[]" "[]" s] by simp
  have "like_match (t @ '','' @ s) (t @ '',%'')" for t s
    using like_match_prefix [of "'','' @ s" "'',%''" t] like_match_prefix [OF all, of "'',''"] by simp
  moreover have "like_match (s @ '','' @ t) (''%,'' @ t)" for s t
    using like_match_any [OF like_match_prefix [where t = "'','' @ t" and s = "[]" and p = "[]"], where t = s] by simp
  moreover have "like_match (s @ '','' @ t @ '','' @ s') (''%,'' @ t @ '',%'')" for s t s'
    using like_match_any [OF like_match_prefix [OF all [of s'], where t = "'','' @ t @ '',''"], where t = s] by simp
  ultimately show ?thesis by (simp add: like_commas_def md_env_def) (blast intro: like_match_comma)
qed

lemma type_frag_ok: "frag_ok env col (type_frag t)"
  by (simp add: frag_ok_def type_frag_def sql_holds_def)

lemma type_frag_holds:
  assumes "like_commas env" "col ''resource_type'' = VStr (Join ts '','')" "t \<in> set ts" "CHR '','' \<notin> set t"
  shows "sql_holds env col (fst (type_frag t)) (snd (type_frag t)) \<longleftrightarrow> length ts \<noteq> 1"
proof -
  have eq: "sql_holds env col (fst (type_frag t)) (snd (type_frag t)) \<longleftrightarrow>
      sql_like env (Join ts '','') (t @ '',%'') \<or> sql_like env (Join ts '','') (''%,'' @ t @ '',%'') \<or> sql_like env (Join ts '','') (''%,'' @ t)"
    using assms(2) by (auto simp: type_frag_def sql_holds_def)
  show ?thesis
  proof (cases "length ts = 1")
    case True
    then have "ts = [t]" using assms(3) by (cases ts) auto
    moreover have "\<not> sql_like env t p" if "CHR '','' \<in> set p" for p using assms(1,4) that by (auto simp: like_commas_def)
    ultimately show ?thesis using eq by simp
  next
    case False
    obtain us vs where ts: "ts = us @ t # vs" using assms(3) by (meson split_list)
    have "Join ts '','' = (if us = [] then [] else Join us '','' @ '','') @ t @ (if vs = [] then [] else '','' @ Join vs '','')"
    proof -
      have "Join (t # vs) '','' = t @ (if vs = [] then [] else '','' @ Join vs '','')" by (cases vs) simp_all
      moreover have "us \<noteq> [] \<Longrightarrow> Join (us @ t # vs) '','' = Join us '','' @ '','' @ Join (t # vs) '',''"
        by (induction us rule: induct_list012) simp_all
      ultimately show ?thesis using ts by auto
    qed
    moreover have "us \<noteq> [] \<or> vs \<noteq> []" using False ts by auto
    ultimately show ?thesis
      using False assms(1) eq by (cases "us = []"; cases "vs = []") (simp_all add: like_commas_def)
  qed
qed

definition resource_matches :: "sqlenv \<Rightarrow> ResourceFilter option \<Rightarrow> bool \<times> string list \<Rightarrow> Resource \<Rightarrow> bool" where
  "resource_matches env fil scope r \<longleftrightarrow>
     (\<forall>f. fil = Some f \<longrightarrow> (\<forall>x. rf_CloudServiceId f = Some x \<longrightarrow> rs_CloudServiceId r = x) \<and>
        (\<forall>t. rf_Type f = Some t \<longrightarrow> sql_holds env (resource_col r) (fst (type_frag t)) (snd (type_frag t)))) \<and>
     (fst scope \<or> rs_CloudServiceId r \<in> set (snd scope))"

lemma resource_cols [simp]:
  "resource_col r ''cloud_service_id'' = VStr (rs_CloudServiceId r)" "resource_col r ''resource_type'' = VStr (rs_ResourceType r)"
  by (simp_all add: resource_col_def)

lemma resource_frags_hold:
  "conds_hold env (resource_col r) pk (frag_conds (resource_frags fil scope)) \<longleftrightarrow> resource_matches env fil scope r"
proof -
  have ok: "\<forall>f \<in> set (resource_frags fil scope). frag_ok env (resource_col r) f"
    by (auto simp: resource_frags_def opt_frag_def type_frag_ok split: option.splits)
  show ?thesis
  proof (cases fil)
    case None
    then show ?thesis unfolding frag_conds_holds [OF ok] by (auto simp: resource_frags_def resource_matches_def)
  next
    case (Some f)
    then show ?thesis
      unfolding frag_conds_holds [OF ok]
      by (cases "rf_Type f") (auto simp: resource_frags_def resource_matches_def ball_Un opt_frag_ball)
  qed
qed

section \<open>Edges and updates\<close>

lemma graph_edges_set:
  "e \<in> set (graph_edges al rs) \<longleftrightarrow>
   (\<exists>resource \<in> set rs. \<exists>r rel. ToOntologyResource al resource = Ok r \<and> rel \<in> set (Related r) \<and>
      e = \<lparr> ge_Id = rs_Id resource @ ''-'' @ rel_Value rel, ge_Source = rs_Id resource, ge_Target = rel_Value rel, ge_Type = rel_Property rel \<rparr>)"
proof (induction rs)
  case (Cons a rs)
  then show ?case by (cases "ToOntologyResource al a") auto
qed simp

text \<open>Every edge of the graph starts at a stored resource that the caller may access.\<close>

lemma ListGraphEdges_sound:
  assumes "gorm_table (d_storage svc) T" "has_schema T resource_key resource_col" "authz_strategy (d_authz svc)"
    "ListGraphEdges pb al v ctx (Some req) svc = Ok (edges, npt)" "e \<in> set edges"
  shows "\<exists>r \<in> t_rows T (d_db svc). rs_Id r = ge_Source e \<and> az_CheckAccess (d_authz svc) ctx typ (rs_CloudServiceId r)"
proof -
  let ?scope = "az_AllowedCloudServices (d_authz svc) ctx"
  obtain results where p: "PaginateStorage pb req (d_storage svc) DefaultPaginationOpts (frag_conds (resource_frags None ?scope)) (d_db svc) = Ok (results, npt)"
    and e: "edges = graph_edges al results"
    using assms(4) by (auto simp: ListGraphEdges_def Validate_def split: res.splits option.splits if_splits)
  obtain x where x: "x \<in> set results" "ge_Source e = rs_Id x" using assms(5) e by (auto simp: graph_edges_set)
  obtain r where r: "r \<in> t_rows T (d_db svc)" "t_holds T (d_db svc) (frag_conds (resource_frags None ?scope)) r" "x = t_load T PreloadAssociations (d_db svc) r"
    using PaginateStorage_sound [OF assms(1) p frag_conds_simps(2,1) x(1)] by blast
  have "rs_Id x = rs_Id r"
    using gorm_table.load_key [OF assms(1), of PreloadAssociations "d_db svc" r] assms(2) r(3) by (simp add: has_schema_def resource_key_def)
  moreover have "fst ?scope \<or> rs_CloudServiceId r \<in> set (snd ?scope)"
    using r(2) assms(2) by (simp add: t_holds_def has_schema_def resource_frags_hold resource_matches_def)
  ultimately show ?thesis
    using r(1) x(2) authz_strategy.check_iff_allowed [OF assms(3), of ctx "typ"] by (intro bexI [of _ r]) simp_all
qed

text \<open>
  An update replaces whatever resource has the identifier. Access is checked for the cloud service in the request only, so that
  the resource of a cloud service without access can be taken over.
\<close>

lemma UpdateResource_replaces:
  assumes "gorm_table (d_storage svc) T" "t_key T = resource_key" "UpdateResource v ctx (Some \<lparr> udr_Resource = Some r \<rparr>) svc = (Ok x, svc')"
  shows "az_CheckAccess (d_authz svc) ctx AccessRead (rs_CloudServiceId r) \<and> x = r \<and>
    t_rows T (d_db svc') = insert r {y \<in> t_rows T (d_db svc). rs_Id y \<noteq> rs_Id r}"
proof -
  have v: "v \<lparr> udr_Resource = Some r \<rparr> = None"
    using assms(3) by (cases "v \<lparr> udr_Resource = Some r \<rparr>") (simp_all add: UpdateResource_def Validate_def)
  have acc: "az_CheckAccess (d_authz svc) ctx AccessRead (rs_CloudServiceId r)"
    by (rule ccontr) (use assms(3) v in \<open>simp add: UpdateResource_def udr_GetCloudServiceId_def\<close>)
  obtain c d where c: "storage_Save (d_storage svc) r (cond_eq ''id'' (rs_Id r)) (d_db svc) = (c, d)" by fastforce
  then have d: "storage_Save (d_storage svc) r (cond_eq ''id'' (rs_Id r)) (d_db svc) = (Ok (), d)" "x = r" "svc' = svc\<lparr>d_db := d\<rparr>"
    using assms(3) v acc by (cases c; simp add: UpdateResource_def udr_GetCloudServiceId_def)+
  with acc gorm_table.st_Save_Ok [OF assms(1) d(1)] assms(2) show ?thesis by (simp add: resource_key_def)
qed

section \<open>Scheduling\<close>

text \<open>What gocron documents of a scheduler with unique tags.\<close>

definition unique_tags :: "'sched disc_gocron \<Rightarrow> ('sched \<Rightarrow> (string \<times> Discoverer) list) \<Rightarrow> bool" where
  "unique_tags dg jobs \<longleftrightarrow>
     (\<forall>s. jobs (dg_TagsUnique dg s) = jobs s) \<and> (\<forall>s. jobs (dg_StartAsync dg s) = jobs s) \<and>
     (\<forall>n tag d s s'. dg_Do dg n tag d s = (Ok (), s') \<longrightarrow> tag \<notin> fst ` set (jobs s) \<and> jobs s' = jobs s @ [(tag, d)]) \<and>
     (\<forall>n tag d s e s'. dg_Do dg n tag d s = (Err e, s') \<longrightarrow> jobs s' = jobs s)"

lemma schedule_discoverers_jobs:
  assumes "unique_tags dg jobs" "schedule_discoverers dg ds svc = (Ok u, svc')"
  shows "jobs (d_scheduler svc') = jobs (d_scheduler svc) @ map (\<lambda>d. (dc_Name d, d)) ds \<and> d_discoverers svc' = d_discoverers svc \<and>
    distinct (map dc_Name ds) \<and> dc_Name ` set ds \<inter> fst ` set (jobs (d_scheduler svc)) = {}"
  using assms(2)
proof (induction ds arbitrary: svc)
  case (Cons d ds)
  obtain sch where g: "dg_Do dg (d_discoveryInterval svc) (dc_Name d) d (d_scheduler svc) = (Ok (), sch)"
    and r: "schedule_discoverers dg ds (svc\<lparr>d_scheduler := sch\<rparr>) = (Ok u, svc')"
    using Cons.prems by (auto split: prod.splits res.splits)
  have "dc_Name d \<notin> fst ` set (jobs (d_scheduler svc))" "jobs sch = jobs (d_scheduler svc) @ [(dc_Name d, d)]"
    using assms(1) g by (auto simp: unique_tags_def)
  with Cons.IH [OF r] show ?case by auto
qed simp

lemma add_discoverers_scheduler: "add_discoverers pl req ps svc = (r, svc') \<Longrightarrow> d_scheduler svc' = d_scheduler svc"
  by (induction ps arbitrary: svc) (auto split: if_splits res.splits)

text \<open>A successful start schedules every discoverer once, under its name; the service cannot be started twice.\<close>

lemma Start_schedules:
  assumes "unique_tags dg jobs" "Start pl dg v ctx (Some req) svc = (Ok b, svc')"
  shows "jobs (d_scheduler svc') = jobs (d_scheduler svc) @ map (\<lambda>d. (dc_Name d, d)) (d_discoverers svc') \<and>
    distinct (map dc_Name (d_discoverers svc')) \<and> dc_Name ` set (d_discoverers svc') \<inter> fst ` set (jobs (d_scheduler svc)) = {}"
proof -
  let ?svc = "svc\<lparr>d_scheduler := dg_TagsUnique dg (d_scheduler svc)\<rparr>"
  obtain svc1 svc2 where a: "add_discoverers pl req (d_providers svc) ?svc = (Ok (), svc1)"
    and s: "schedule_discoverers dg (d_discoverers svc1) svc1 = (Ok (), svc2)" "svc' = svc2\<lparr>d_scheduler := dg_StartAsync dg (d_scheduler svc2)\<rparr>"
    using assms(2) by (auto simp: Start_def Validate_def split: option.splits if_splits prod.splits res.splits)
  have "d_scheduler svc1 = d_scheduler ?svc" by (rule add_discoverers_scheduler [OF a])
  with schedule_discoverers_jobs [OF assms(1) s(1)] s(2) assms(1) show ?thesis by (simp add: unique_tags_def)
qed

section \<open>Properties\<close>

lemma StartDiscovery_spec:
  assumes "gorm_table (d_storage svc) T" "t_key T = resource_key" "saves (d_storage svc)" "streams_ok (d_assessmentStreams svc)"
    "\<forall>r \<in> set list. dl_New lib r = Ok (any r)" "StartDiscovery lib (Inr st) uuid now discoverer (Ok list) svc = (Ok u, svc')"
    "tgt = rc_Target (d_assessment svc)"
  shows "t_rows T (d_db svc') =
      fold (\<lambda>r rows. insert (stored_resource any (d_csID svc) r) {y \<in> rows. rs_Id y \<noteq> or_Id r}) list (t_rows T (d_db svc)) \<and>
    handed (d_assessmentStreams svc') tgt = handed (d_assessmentStreams svc) tgt @ map (evidence_request any uuid now (d_csID svc)) (enumerate 0 list) \<and>
    map de_Type (d_tasks svc') = map de_Type (d_tasks svc) @ [DiscovererStart, DiscovererFinished] \<and>
    de_DiscoveredItems (last (d_tasks svc')) = int (length list)"
proof -
  let ?start = "\<lparr> de_Type = DiscovererStart, de_DiscovererName = dc_Name discoverer, de_DiscoveredItems = 0, de_Time = now \<rparr>"
  let ?finish = "\<lparr> de_Type = DiscovererFinished, de_DiscovererName = dc_Name discoverer, de_DiscoveredItems = int (length list), de_Time = now \<rparr>"
  let ?svc = "svc\<lparr>d_tasks := d_tasks svc @ [?start, ?finish]\<rparr>"
  have run: "discover_resources lib (Inr st) uuid now 0 list ?svc = (Ok u, svc')"
    using assms(6) by (simp add: StartDiscovery_def Let_def)
  have spec: "t_rows T (d_db svc') =
      fold (\<lambda>r rows. insert (stored_resource any (d_csID ?svc) r) {y \<in> rows. rs_Id y \<noteq> or_Id r}) list (t_rows T (d_db ?svc)) \<and>
    handed (d_assessmentStreams svc') tgt = handed (d_assessmentStreams ?svc) tgt @ map (evidence_request any uuid now (d_csID ?svc)) (enumerate 0 list) \<and>
    disc_keeps ?svc svc'"
    using assms by (intro discover_resources_spec [OF _ _ _ _ _ run]) simp_all
  then show ?thesis by (simp add: disc_keeps_def)
qed


text \<open>A discovery with one stored resource of two types and one of a single type, for examples.\<close>

definition vm_resource :: resource where
  "vm_resource = \<lparr> or_Id = ''vm'', or_TypeNames = [''VirtualMachine'', ''Compute''], or_JSON = Ok Map.empty, or_Raw = ''raw'',
     or_Fields = [(''network_id'', FString ''net'')] \<rparr>"

definition any_lib :: disc_lib where
  "any_lib = \<lparr> dl_New = (\<lambda>r. Ok \<lparr> any_TypeUrl = ''resource'', any_Value = or_Id r \<rparr>) \<rparr>"

definition new_disc :: "'ctx AuthorizationStrategy \<Rightarrow> mem_db \<Rightarrow> ('ctx, mem_db, unit, unit, unit, unit, unit) discovery" where
  "new_disc az d = NewService_di () (mem_gorm mt_Resource, d) [WithAuthorizationStrategy_di az, WithCloudServiceID ''u1'']"

lemma new_disc_simps [simp]:
  "d_storage (new_disc az d) = mem_gorm mt_Resource" "d_db (new_disc az d) = d" "d_authz (new_disc az d) = az" "d_csID (new_disc az d) = ''u1''"
  "d_assessmentStreams (new_disc az d) = NewStreamsOf" "d_assessment (new_disc az d) = NewRPCConnection DefaultAssessmentAddress []"
  "d_tasks (new_disc az d) = []"
  by (simp_all add: new_disc_def NewService_di_def WithAuthorizationStrategy_di_def WithCloudServiceID_def Let_def)

lemma mem_saves: "saves (mem_gorm M)"
  by (simp add: saves_def mem_gorm_def)

lemma vm_StartDiscovery:
  "fst (StartDiscovery any_lib (Inr ()) (\<lambda>_. ''e1'') 7 \<lparr> dc_Name = ''test'', dc_CloudServiceID = ''u1'' \<rparr> (Ok [vm_resource])
     (new_disc strategy_AllowAll empty_db)) = Ok ()"
  by (simp add: StartDiscovery_def discover_resource_def ToDiscoveryResource_def any_lib_def storage_Save_def mem_gorm_def
      get_assessment_stream_def initAssessmentStream_def GetStream_def addStream_def NewStreamsOf_def Send_def opens_def channel_cap_def Let_def)

text \<open>
  C15: a run of a discoverer keeps the storage and the assessment up to date. Afterwards the storage has the latest
  state of every resource that was listed, and the others as before; the stream to the assessment has been handed one evidence per
  resource, in order and after everything before, with the cloud service of the discovery; and both events are
  under way.
\<close>

theorem StartDiscovery_delivers:
  assumes "gorm_table (d_storage svc) T" "t_key T = resource_key" "saves (d_storage svc)" "streams_ok (d_assessmentStreams svc)"
    "\<forall>r \<in> set list. dl_New lib r = Ok (any r)" "StartDiscovery lib (Inr st) uuid now discoverer (Ok list) svc = (Ok u, svc')"
    "tgt = rc_Target (d_assessment svc)"
  shows "t_rows T (d_db svc') =
      fold (\<lambda>r rows. insert (stored_resource any (d_csID svc) r) {y \<in> rows. rs_Id y \<noteq> or_Id r}) list (t_rows T (d_db svc)) \<and>
    handed (d_assessmentStreams svc') tgt = handed (d_assessmentStreams svc) tgt @ map (evidence_request any uuid now (d_csID svc)) (enumerate 0 list) \<and>
    map de_Type (d_tasks svc') = map de_Type (d_tasks svc) @ [DiscovererStart, DiscovererFinished] \<and>
    de_DiscoveredItems (last (d_tasks svc')) = int (length list)"
  by (rule StartDiscovery_spec [OF assms])

theorem StartDiscovery_delivers_witness:
  "handed (d_assessmentStreams (snd (StartDiscovery any_lib (Inr ()) (\<lambda>_. ''e1'') 7 \<lparr> dc_Name = ''test'', dc_CloudServiceID = ''u1'' \<rparr>
     (Ok [vm_resource]) (new_disc strategy_AllowAll empty_db :: (unit, mem_db, unit, unit, unit, unit, unit) discovery)))) DefaultAssessmentAddress =
   [\<lparr> aer_Evidence = Some (new_evidence ''e1'' 7 ''u1'' vm_resource \<lparr> any_TypeUrl = ''resource'', any_Value = ''vm'' \<rparr>) \<rparr>]"
proof -
  let ?run = "StartDiscovery any_lib (Inr ()) (\<lambda>_. ''e1'') 7 \<lparr> dc_Name = ''test'', dc_CloudServiceID = ''u1'' \<rparr> (Ok [vm_resource]) (new_disc strategy_AllowAll empty_db :: (unit, mem_db, unit, unit, unit, unit, unit) discovery)"
  obtain svc' where run: "?run = (Ok (), svc')" using vm_StartDiscovery by (metis prod.collapse)
  have "\<forall>r \<in> set [vm_resource]. dl_New any_lib r = Ok \<lparr> any_TypeUrl = ''resource'', any_Value = or_Id r \<rparr>" by (simp add: any_lib_def)
  moreover have "t_key (mem_sem mt_Resource) = resource_key" by (simp add: mt_Resource_def)
  ultimately have "handed (d_assessmentStreams svc') DefaultAssessmentAddress = map (evidence_request
      (\<lambda>r. \<lparr> any_TypeUrl = ''resource'', any_Value = or_Id r \<rparr>) (\<lambda>_. ''e1'') 7 ''u1'') (enumerate 0 [vm_resource])"
    using StartDiscovery_delivers [OF _ _ _ _ _ run refl, of "mem_sem mt_Resource" "\<lambda>r. \<lparr> any_TypeUrl = ''resource'', any_Value = or_Id r \<rparr>"]
      mem_resource.gorm_table_axioms mem_saves [of mt_Resource] by (simp add: handed_new NewRPCConnection_def)
  then show ?thesis by (simp add: run evidence_request_def) (simp add: vm_resource_def)
qed

definition type_request :: ListResourcesRequest where
  "type_request = \<lparr> req_PageToken = [], req_PageSize = 0, req_OrderBy = [], req_Asc = True,
     lrr_Filter = Some \<lparr> rf_Type = Some ''Compute'', rf_CloudServiceId = None \<rparr> \<rparr>"

definition two_resources :: "Resource list" where
  "two_resources = [\<lparr> rs_Id = ''vm'', rs_CloudServiceId = ''u1'', rs_ResourceType = ''VirtualMachine,Compute'', rs_Properties = None \<rparr>,
     \<lparr> rs_Id = ''c'', rs_CloudServiceId = ''u1'', rs_ResourceType = ''Compute'', rs_Properties = None \<rparr>]"


end
