(* ===== verification/Orch_Toe.thy ===== *)
theory Orch_Toe
  imports Orch_CloudService
begin

text \<open>
  Targets of evaluation (src/service/orchestrator/toe.go): the pair of a cloud service and a
  catalog that is to be evaluated, with an optional assurance level; and the relevance of a
  control for a target (\<open>IsRelevantFor\<close> of src/api/orchestrator/orchestrator.go).

  The proto files mark the nested messages of the create and update requests as required, so a
  request without them does not pass validation; the model ends such a call with \<open>Panic\<close>.
\<close>

section \<open>Requests\<close>

record CreateTargetOfEvaluationRequest =
  cte_TargetOfEvaluation :: "TargetOfEvaluation option"

record UpdateTargetOfEvaluationRequest =
  ute_TargetOfEvaluation :: "TargetOfEvaluation option"

record GetTargetOfEvaluationRequest =
  gte_CloudServiceId :: string
  gte_CatalogId :: string

record RemoveTargetOfEvaluationRequest =
  rte_CloudServiceId :: string
  rte_CatalogId :: string

record ListTargetsOfEvaluationRequest = PaginatedRequest +
  lte_CloudServiceId :: string
  lte_CatalogId :: string

text \<open>The nil-safe getters behind \<open>GetCloudServiceId\<close> of the create and update requests.\<close>

definition toe_GetCloudServiceId :: "TargetOfEvaluation option \<Rightarrow> string" where
  "toe_GetCloudServiceId t = (case t of None \<Rightarrow> [] | Some t \<Rightarrow> toe_CloudServiceId t)"

section \<open>Handlers\<close>

definition toe_conds :: "string \<Rightarrow> string \<Rightarrow> cond list" where
  "toe_conds csid catid = cond_eq2 ''cloud_service_id'' csid ''catalog_id'' catid"

definition CreateTargetOfEvaluation ::
  "CreateTargetOfEvaluationRequest validator \<Rightarrow> 'ctx \<Rightarrow> CreateTargetOfEvaluationRequest option \<Rightarrow>
   ('ctx, 'db) orch \<Rightarrow> TargetOfEvaluation res \<times> ('ctx, 'db) orch" where
  "CreateTargetOfEvaluation v ctx req s =
     (case Validate v req of
        Err err \<Rightarrow> (Err err, s)
      | Panic \<Rightarrow> (Panic, s)
      | Ok req \<Rightarrow>
          if \<not> az_CheckAccess (o_authz s) ctx AccessCreate (toe_GetCloudServiceId (cte_TargetOfEvaluation req))
          then (Err ErrPermissionDenied, s)
          else (case cte_TargetOfEvaluation req of
             None \<Rightarrow> (Panic, s)
           | Some toe \<Rightarrow>
               (case storage_Create (tb_TargetOfEvaluation (o_tables s)) toe (o_db s) of
                  (Err err, d) \<Rightarrow>
                    if errors_Is err ErrConstraintFailed
                    then (Err (Status InvalidArgument ''invalid catalog or cloud service''), s\<lparr>o_db := d\<rparr>)
                    else (Err (database_error err), s\<lparr>o_db := d\<rparr>)
                | (Panic, d) \<Rightarrow> (Panic, s\<lparr>o_db := d\<rparr>)
                | (Ok _, d) \<Rightarrow>
                    (Ok toe, go_stmt (InformToeHooks ctx
                       \<lparr> tce_Type = TOE_CREATED, tce_TargetOfEvaluation = Some toe \<rparr> None) (s\<lparr>o_db := d\<rparr>)))))"

definition GetTargetOfEvaluation ::
  "GetTargetOfEvaluationRequest validator \<Rightarrow> 'ctx \<Rightarrow> GetTargetOfEvaluationRequest option \<Rightarrow> ('ctx, 'db) orch \<Rightarrow>
   TargetOfEvaluation res" where
  "GetTargetOfEvaluation v ctx req s =
     (case Validate v req of
        Err err \<Rightarrow> Err err
      | Panic \<Rightarrow> Panic
      | Ok req \<Rightarrow>
          if \<not> az_CheckAccess (o_authz s) ctx AccessRead (gte_CloudServiceId req) then Err ErrPermissionDenied
          else (case storage_Get (tb_TargetOfEvaluation (o_tables s))
                       (WithoutPreload # toe_conds (gte_CloudServiceId req) (gte_CatalogId req)) (o_db s) of
                  Err err \<Rightarrow>
                    if errors_Is err ErrRecordNotFound then Err (Status NotFound ''ToE not found'')
                    else Err (database_error err)
                | r \<Rightarrow> r))"

definition ListTargetsOfEvaluation ::
  "proto_lib \<Rightarrow> ListTargetsOfEvaluationRequest validator \<Rightarrow> 'ctx \<Rightarrow> ListTargetsOfEvaluationRequest option \<Rightarrow>
   ('ctx, 'db) orch \<Rightarrow> (TargetOfEvaluation list \<times> string) res" where
  "ListTargetsOfEvaluation pb v ctx req s =
     (case Validate v req of
        Err err \<Rightarrow> Err err
      | Panic \<Rightarrow> Panic
      | Ok req \<Rightarrow>
          if \<not> az_CheckAccess (o_authz s) ctx AccessRead (lte_CloudServiceId req) then Err ErrPermissionDenied
          else
            (let conds = WithoutPreload #
                   (if lte_CloudServiceId req \<noteq> [] then cond_eq ''cloud_service_id'' (lte_CloudServiceId req)
                    else if lte_CatalogId req \<noteq> [] then cond_eq ''catalog_id'' (lte_CatalogId req)
                    else [])
             in case PaginateStorage pb req (tb_TargetOfEvaluation (o_tables s)) DefaultPaginationOpts conds (o_db s) of
                  Err err \<Rightarrow> Err (Status Internal (''could not paginate results: '' @ error_string err))
                | r \<Rightarrow> r))"

definition UpdateTargetOfEvaluation ::
  "UpdateTargetOfEvaluationRequest validator \<Rightarrow> 'ctx \<Rightarrow> UpdateTargetOfEvaluationRequest option \<Rightarrow>
   ('ctx, 'db) orch \<Rightarrow> TargetOfEvaluation res \<times> ('ctx, 'db) orch" where
  "UpdateTargetOfEvaluation v ctx req s =
     (case Validate v req of
        Err err \<Rightarrow> (Err err, s)
      | Panic \<Rightarrow> (Panic, s)
      | Ok req \<Rightarrow>
          if \<not> az_CheckAccess (o_authz s) ctx AccessUpdate (toe_GetCloudServiceId (ute_TargetOfEvaluation req))
          then (Err ErrPermissionDenied, s)
          else (case ute_TargetOfEvaluation req of
             None \<Rightarrow> (Panic, s)
           | Some toe \<Rightarrow>
               (case storage_Update (tb_TargetOfEvaluation (o_tables s)) toe
                       (toe_conds (toe_CloudServiceId toe) (toe_CatalogId toe)) (o_db s) of
                  (Err err, d) \<Rightarrow>
                    if errors_Is err ErrRecordNotFound then (Err (Status NotFound ''ToE not found''), s\<lparr>o_db := d\<rparr>)
                    else if errors_Is err ErrConstraintFailed then (Err (Status NotFound ''ToE not found''), s\<lparr>o_db := d\<rparr>)
                    else (Err (database_error err), s\<lparr>o_db := d\<rparr>)
                | (Panic, d) \<Rightarrow> (Panic, s\<lparr>o_db := d\<rparr>)
                | (Ok _, d) \<Rightarrow>
                    (Ok toe, go_stmt (InformToeHooks ctx
                       \<lparr> tce_Type = TOE_UPDATED, tce_TargetOfEvaluation = Some toe \<rparr> None) (s\<lparr>o_db := d\<rparr>)))))"

definition RemoveTargetOfEvaluation ::
  "RemoveTargetOfEvaluationRequest validator \<Rightarrow> 'ctx \<Rightarrow> RemoveTargetOfEvaluationRequest option \<Rightarrow>
   ('ctx, 'db) orch \<Rightarrow> unit res \<times> ('ctx, 'db) orch" where
  "RemoveTargetOfEvaluation v ctx req s =
     (case Validate v req of
        Err err \<Rightarrow> (Err err, s)
      | Panic \<Rightarrow> (Panic, s)
      | Ok req \<Rightarrow>
          if \<not> az_CheckAccess (o_authz s) ctx AccessDelete (rte_CloudServiceId req) then (Err ErrPermissionDenied, s)
          else (let empty = \<lparr> toe_CloudServiceId = [], toe_CatalogId = [], toe_AssuranceLevel = None \<rparr>
                in case storage_Delete (tb_TargetOfEvaluation (o_tables s)) empty
                       (toe_conds (rte_CloudServiceId req) (rte_CatalogId req)) (o_db s) of
                  (Err err, d) \<Rightarrow>
                    if errors_Is err ErrRecordNotFound then (Err (Status NotFound ''ToE not found''), s\<lparr>o_db := d\<rparr>)
                    else (Err (database_error err), s\<lparr>o_db := d\<rparr>)
                | (Panic, d) \<Rightarrow> (Panic, s\<lparr>o_db := d\<rparr>)
                | (Ok _, d) \<Rightarrow>
                    (let toe = empty\<lparr>toe_CloudServiceId := rte_CloudServiceId req, toe_CatalogId := rte_CatalogId req\<rparr>
                     in (Ok (), go_stmt (InformToeHooks ctx
                          \<lparr> tce_Type = TOE_REMOVED, tce_TargetOfEvaluation = Some toe \<rparr> None) (s\<lparr>o_db := d\<rparr>)))))"

section \<open>Relevance of a control\<close>

definition IsRelevantFor :: "Control \<Rightarrow> TargetOfEvaluation \<Rightarrow> Catalog \<Rightarrow> bool" where
  "IsRelevantFor c toe catalog =
     (if ca_AssuranceLevels catalog = [] then True
      else (case (ctl_AssuranceLevel c, toe_AssuranceLevel toe) of
              (Some lc, Some lt) \<Rightarrow> slices_Index (ca_AssuranceLevels catalog) lc \<le> slices_Index (ca_AssuranceLevels catalog) lt
            | _ \<Rightarrow> True))"

section \<open>Lemmas\<close>

definition toe_table :: "(TargetOfEvaluation, 'db) table \<Rightarrow> bool" where
  "toe_table T \<longleftrightarrow> has_schema T toe_key toe_col \<and> t_merge T = toe_merge"

lemma mem_toe_table [simp]: "toe_table (mem_sem mt_TargetOfEvaluation)"
  by (simp add: toe_table_def) (simp add: mt_TargetOfEvaluation_def)

lemma toe_table_key: "toe_table T \<Longrightarrow> t_key T = (\<lambda>t. [toe_CloudServiceId t, toe_CatalogId t])"
  by (auto simp: toe_table_def has_schema_def toe_key_def)

lemma toe_holds:
  "toe_table T \<Longrightarrow> t_holds T d (toe_conds csid catid) t \<longleftrightarrow> toe_CloudServiceId t = csid \<and> toe_CatalogId t = catid"
  by (simp add: toe_conds_def holds_eq toe_table_def has_schema_def toe_col_def)

lemma toe_key_conds: "toe_table T \<Longrightarrow> key_conds T d (toe_conds csid catid) [csid, catid]"
  by (simp add: key_conds_def toe_holds toe_table_key) (simp add: toe_conds_def)

lemma toe_conds_simps [simp]:
  "conds_defined (toe_conds csid catid)" "toe_conds csid catid \<noteq> []"
  by (simp_all add: toe_conds_def)

lemma toe_gone:
  "toe_table T \<Longrightarrow> R = {x \<in> S. toe_CloudServiceId x = a \<longrightarrow> toe_CatalogId x \<noteq> b} \<Longrightarrow> [a, b] \<notin> t_key T ` R"
  by (auto simp: toe_table_key)

text \<open>The three outcomes of a lookup with access, on a database that can be read.\<close>

lemma GetToe_result:
  assumes "gorm_table (tb_TargetOfEvaluation (o_tables s)) T" "toe_table T"
    "available (tb_TargetOfEvaluation (o_tables s)) (o_db s)" "v req = None"
    "az_CheckAccess (o_authz s) ctx AccessRead (gte_CloudServiceId req)"
  shows "toe \<in> t_rows T (o_db s) \<Longrightarrow> toe_CloudServiceId toe = gte_CloudServiceId req \<Longrightarrow>
      toe_CatalogId toe = gte_CatalogId req \<Longrightarrow> GetTargetOfEvaluation v ctx (Some req) s = Ok toe"
    and "[gte_CloudServiceId req, gte_CatalogId req] \<notin> t_key T ` t_rows T (o_db s) \<Longrightarrow>
      GetTargetOfEvaluation v ctx (Some req) s = Err (Status NotFound ''ToE not found'')"
proof -
  let ?cs = "WithoutPreload # toe_conds (gte_CloudServiceId req) (gte_CatalogId req)"
  have pre: "applyPreload ?cs = (NoPreload, toe_conds (gte_CloudServiceId req) (gte_CatalogId req))" by simp
  note key = toe_key_conds [OF assms(2), of "o_db s" "gte_CloudServiceId req" "gte_CatalogId req"]
  show "toe \<in> t_rows T (o_db s) \<Longrightarrow> toe_CloudServiceId toe = gte_CloudServiceId req \<Longrightarrow>
      toe_CatalogId toe = gte_CatalogId req \<Longrightarrow> GetTargetOfEvaluation v ctx (Some req) s = Ok toe"
    using gorm_table.Get_hit [OF assms(1,3) pre key, of toe] gorm_table.load_none [OF assms(1)] assms(4,5)
    by (simp add: GetTargetOfEvaluation_def toe_table_key [OF assms(2)])
  show "[gte_CloudServiceId req, gte_CatalogId req] \<notin> t_key T ` t_rows T (o_db s) \<Longrightarrow>
      GetTargetOfEvaluation v ctx (Some req) s = Err (Status NotFound ''ToE not found'')"
    using gorm_table.Get_miss [OF assms(1,3) pre key] assms(4,5) by (simp add: GetTargetOfEvaluation_def)
qed

text \<open>What the three changing operations do to the table.\<close>

lemma CreateToe_Ok:
  assumes "gorm_table (tb_TargetOfEvaluation (o_tables s)) T" "cte_TargetOfEvaluation req = Some toe"
    "CreateTargetOfEvaluation v ctx (Some req) s = (Ok t, s')"
  shows "t_rows T (o_db s') = insert toe (t_rows T (o_db s)) \<and> o_tables s' = o_tables s \<and> o_authz s' = o_authz s"
proof -
  obtain d where "storage_Create (tb_TargetOfEvaluation (o_tables s)) toe (o_db s) = (Ok (), d)"
    "s' = go_stmt (InformToeHooks ctx \<lparr> tce_Type = TOE_CREATED, tce_TargetOfEvaluation = Some toe \<rparr> None) (s\<lparr>o_db := d\<rparr>)"
    using assms(2,3) by (auto simp: CreateTargetOfEvaluation_def split: res.splits prod.splits if_splits)
  then show ?thesis using gorm_table.st_Create_Ok [OF assms(1), of toe "o_db s" "()" d] by simp
qed

lemma UpdateToe_Ok:
  assumes "gorm_table (tb_TargetOfEvaluation (o_tables s)) T" "toe_table T" "ute_TargetOfEvaluation req = Some u"
    "UpdateTargetOfEvaluation v ctx (Some req) s = (Ok t, s')"
  shows "t_rows T (o_db s') = (\<lambda>x. if toe_CloudServiceId x = toe_CloudServiceId u \<and> toe_CatalogId x = toe_CatalogId u
      then toe_merge u x else x) ` t_rows T (o_db s) \<and> o_tables s' = o_tables s \<and> o_authz s' = o_authz s"
proof -
  let ?cs = "toe_conds (toe_CloudServiceId u) (toe_CatalogId u)"
  have mg: "t_merge T = toe_merge" using assms(2) by (simp add: toe_table_def)
  obtain d where "storage_Update (tb_TargetOfEvaluation (o_tables s)) u ?cs (o_db s) = (Ok (), d)"
    "s' = go_stmt (InformToeHooks ctx \<lparr> tce_Type = TOE_UPDATED, tce_TargetOfEvaluation = Some u \<rparr> None) (s\<lparr>o_db := d\<rparr>)"
    using assms(3,4) by (auto simp: UpdateTargetOfEvaluation_def split: res.splits prod.splits if_splits)
  then show ?thesis
    using gorm_table.st_Update_Ok [OF assms(1), of u ?cs "o_db s" "()" d] by (simp add: toe_holds [OF assms(2)] mg)
qed

lemma RemoveToe_Ok:
  assumes "gorm_table (tb_TargetOfEvaluation (o_tables s)) T" "toe_table T"
    "RemoveTargetOfEvaluation v ctx (Some req) s = (Ok t, s')"
  shows "t_rows T (o_db s') = {x \<in> t_rows T (o_db s). \<not> (toe_CloudServiceId x = rte_CloudServiceId req \<and>
      toe_CatalogId x = rte_CatalogId req)} \<and> o_tables s' = o_tables s \<and> o_authz s' = o_authz s"
proof -
  let ?cs = "toe_conds (rte_CloudServiceId req) (rte_CatalogId req)"
  obtain e ev d where "storage_Delete (tb_TargetOfEvaluation (o_tables s)) e ?cs (o_db s) = (Ok (), d)"
    "s' = go_stmt (InformToeHooks ctx ev None) (s\<lparr>o_db := d\<rparr>)"
    using assms(3) by (auto simp: RemoveTargetOfEvaluation_def Let_def split: res.splits prod.splits if_splits)
  then show ?thesis
    using gorm_table.st_Delete_Ok [OF assms(1), of e ?cs "o_db s" "()" d] by (simp add: toe_holds [OF assms(2)])
qed

section \<open>Properties\<close>

text \<open>
  C28: the life cycle of a target of evaluation. A created target can be looked up as it was created;
  updating it replaces its assurance level (an update without a level keeps the old one); and after
  the removal a lookup answers \<open>NotFound\<close>. The database is assumed to be readable after each step.
\<close>

theorem Toe_life_cycle:
  assumes "gorm_table (tb_TargetOfEvaluation (o_tables s)) T" "toe_table T"
    "CreateTargetOfEvaluation v1 ctx (Some \<lparr> cte_TargetOfEvaluation = Some toe \<rparr>) s = (Ok t1, s1)"
    "UpdateTargetOfEvaluation v2 ctx (Some \<lparr> ute_TargetOfEvaluation = Some (toe\<lparr>toe_AssuranceLevel := lvl\<rparr>) \<rparr>) s1 = (Ok t2, s2)"
    "RemoveTargetOfEvaluation v3 ctx (Some \<lparr> rte_CloudServiceId = toe_CloudServiceId toe, rte_CatalogId = toe_CatalogId toe \<rparr>) s2 = (Ok t3, s3)"
    "\<forall>s' \<in> {s1, s2, s3}. available (tb_TargetOfEvaluation (o_tables s)) (o_db s')"
    "req = \<lparr> gte_CloudServiceId = toe_CloudServiceId toe, gte_CatalogId = toe_CatalogId toe \<rparr>" "v4 req = None"
    "az_CheckAccess (o_authz s) ctx' AccessRead (toe_CloudServiceId toe)"
  shows "GetTargetOfEvaluation v4 ctx' (Some req) s1 = Ok toe \<and>
    GetTargetOfEvaluation v4 ctx' (Some req) s2
      = Ok (toe\<lparr>toe_AssuranceLevel := (if lvl = None then toe_AssuranceLevel toe else lvl)\<rparr>) \<and>
    GetTargetOfEvaluation v4 ctx' (Some req) s3 = Err (Status NotFound ''ToE not found'')"
proof -
  let ?u = "toe\<lparr>toe_AssuranceLevel := lvl\<rparr>"
  let ?m = "toe\<lparr>toe_AssuranceLevel := (if lvl = None then toe_AssuranceLevel toe else lvl)\<rparr>"
  note c = CreateToe_Ok [OF assms(1) _ assms(3), simplified]
  note u = UpdateToe_Ok [of s1, OF _ assms(2) _ assms(4), simplified]
  note r = RemoveToe_Ok [of s2, OF _ assms(2) assms(5), simplified]
  have g1: "gorm_table (tb_TargetOfEvaluation (o_tables s1)) T" using assms(1) c by simp
  have g2: "gorm_table (tb_TargetOfEvaluation (o_tables s2)) T" using g1 u [OF g1] by simp
  have g3: "gorm_table (tb_TargetOfEvaluation (o_tables s3)) T" using g2 r [OF g2] by simp
  have r1: "toe \<in> t_rows T (o_db s1)" using c by simp
  let ?f = "\<lambda>x. if toe_CloudServiceId x = toe_CloudServiceId toe \<and> toe_CatalogId x = toe_CatalogId toe
      then toe_merge ?u x else x"
  have "?f toe = ?m" by (simp add: toe_merge_def ovr_def)
  moreover have "t_rows T (o_db s2) = ?f ` t_rows T (o_db s1)" using u [OF g1] by simp
  ultimately have r2: "?m \<in> t_rows T (o_db s2)" using imageI [OF r1, of ?f] by (simp only:)
  have rq: "gte_CloudServiceId req = toe_CloudServiceId toe" "gte_CatalogId req = toe_CatalogId toe" by (simp_all add: assms(7))
  have "t_rows T (o_db s3) = {x \<in> t_rows T (o_db s2). toe_CloudServiceId x = toe_CloudServiceId toe \<longrightarrow>
      toe_CatalogId x \<noteq> toe_CatalogId toe}" using r [OF g2] by simp
  from toe_gone [OF assms(2) this]
  have r3: "[gte_CloudServiceId req, gte_CatalogId req] \<notin> t_key T ` t_rows T (o_db s3)" by (simp only: rq not_False_eq_True)
  have t1: "o_tables s1 = o_tables s" "o_authz s1 = o_authz s" using c by simp_all
  have t2: "o_tables s2 = o_tables s" "o_authz s2 = o_authz s" using t1 u [OF g1] by simp_all
  have t3: "o_tables s3 = o_tables s" "o_authz s3 = o_authz s" using t2 r [OF g2] by simp_all
  have av: "available (tb_TargetOfEvaluation (o_tables s)) (o_db s')" if "s' \<in> {s1, s2, s3}" for s'
    using assms(6) that by blast
  have "GetTargetOfEvaluation v4 ctx' (Some req) s1 = Ok toe"
    by (rule GetToe_result(1) [where v = v4 and req = req, OF g1 assms(2) _ assms(8) _ r1]) (simp_all add: t1 rq av assms(9))
  moreover have "GetTargetOfEvaluation v4 ctx' (Some req) s2 = Ok ?m"
    by (rule GetToe_result(1) [where v = v4 and req = req, OF g2 assms(2) _ assms(8) _ r2]) (simp_all add: t2 rq av assms(9))
  moreover have "GetTargetOfEvaluation v4 ctx' (Some req) s3 = Err (Status NotFound ''ToE not found'')"
    by (rule GetToe_result(2) [where v = v4 and req = req, OF g3 assms(2) _ assms(8) _ r3]) (simp_all add: t3 rq av assms(9))
  ultimately show ?thesis by simp
qed

definition sample_toe :: TargetOfEvaluation where
  "sample_toe = \<lparr> toe_CloudServiceId = ''u1'', toe_CatalogId = ''c5'', toe_AssuranceLevel = None \<rparr>"

theorem Toe_life_cycle_witness:
  "GetTargetOfEvaluation (\<lambda>_. None) (Some ''u1'') (Some \<lparr> gte_CloudServiceId = ''u1'', gte_CatalogId = ''c5'' \<rparr>)
     (snd (UpdateTargetOfEvaluation (\<lambda>_. None) (Some ''u1'')
       (Some \<lparr> ute_TargetOfEvaluation = Some (sample_toe\<lparr>toe_AssuranceLevel := Some ''high''\<rparr>) \<rparr>)
       (snd (CreateTargetOfEvaluation (\<lambda>_. None) (Some ''u1'') (Some \<lparr> cte_TargetOfEvaluation = Some sample_toe \<rparr>)
         (new_orch single_authz empty_db)))))
   = Ok (sample_toe\<lparr>toe_AssuranceLevel := Some ''high''\<rparr>)"
proof -
  let ?ctx = "Some ''u1''" and ?s = "new_orch single_authz empty_db"
  let ?t2 = "sample_toe\<lparr>toe_AssuranceLevel := Some ''high''\<rparr>"
  let ?s1 = "go_stmt (InformToeHooks ?ctx \<lparr> tce_Type = TOE_CREATED, tce_TargetOfEvaluation = Some sample_toe \<rparr> None)
      (?s\<lparr>o_db := empty_db\<lparr>md_TargetOfEvaluation := [sample_toe]\<rparr>\<rparr>)"
  let ?s2 = "go_stmt (InformToeHooks ?ctx \<lparr> tce_Type = TOE_UPDATED, tce_TargetOfEvaluation = Some ?t2 \<rparr> None)
      (?s1\<lparr>o_db := empty_db\<lparr>md_TargetOfEvaluation := [?t2]\<rparr>\<rparr>)"
  let ?r3 = "RemoveTargetOfEvaluation (\<lambda>_. None) ?ctx
      (Some \<lparr> rte_CloudServiceId = toe_CloudServiceId sample_toe, rte_CatalogId = toe_CatalogId sample_toe \<rparr>) ?s2"
  note defs = storage_Create_def storage_Update_def storage_Delete_def mem_gorm_def mt_TargetOfEvaluation_def mt_list_def
    mt_holds_def toe_col_def toe_key_def toe_merge_def ovr_def toe_GetCloudServiceId_def toe_conds_def sample_toe_def
  have r1: "CreateTargetOfEvaluation (\<lambda>_. None) ?ctx (Some \<lparr> cte_TargetOfEvaluation = Some sample_toe \<rparr>) ?s = (Ok sample_toe, ?s1)"
    by (simp add: CreateTargetOfEvaluation_def defs)
  have r2: "UpdateTargetOfEvaluation (\<lambda>_. None) ?ctx (Some \<lparr> ute_TargetOfEvaluation = Some ?t2 \<rparr>) ?s1 = (Ok ?t2, ?s2)"
    by (simp add: UpdateTargetOfEvaluation_def defs)
  have "fst ?r3 = Ok ()" by (simp add: RemoveTargetOfEvaluation_def defs Let_def)
  then have r3: "?r3 = (Ok (), snd ?r3)" by (metis prod.collapse)
  have "GetTargetOfEvaluation (\<lambda>_. None) ?ctx (Some \<lparr> gte_CloudServiceId = toe_CloudServiceId sample_toe,
      gte_CatalogId = toe_CatalogId sample_toe \<rparr>) ?s2 = Ok ?t2"
    using Toe_life_cycle [OF _ _ r1 r2 r3, of "mem_sem mt_TargetOfEvaluation"
        "\<lparr> gte_CloudServiceId = toe_CloudServiceId sample_toe, gte_CatalogId = toe_CatalogId sample_toe \<rparr>" "\<lambda>_. None" ?ctx]
      mem_toe.gorm_table_axioms by (simp add: sample_toe_def)
  then show ?thesis unfolding r1 r2 snd_conv by (simp add: sample_toe_def)
qed

end
