(* ===== verification/Orch_Results.thy ===== *)
theory Orch_Results
  imports Orch_CloudService Stream_Loop
begin

text \<open>
  Assessment results at the orchestrator (src/service/orchestrator/assessment_results.go): lookup,
  filtered and grouped listing, storing one result and storing a stream of results.
\<close>

section \<open>Requests\<close>

record GetAssessmentResultRequest =
  gar_Id :: string

record Filter =
  f_CloudServiceId :: "string option"
  f_Compliant :: "bool option"
  f_MetricIds :: "string list option"
  f_ToolId :: "string option"

record ListAssessmentResultsRequest = PaginatedRequest +
  lar_Filter :: "Filter option"
  lar_LatestByResourceId :: "bool option"

record StoreAssessmentResultRequest =
  sar_Result :: "AssessmentResult option"

text \<open>The status and the message of a response of the stream.\<close>

type_synonym StoreAssessmentResultsResponse = "bool \<times> string"

definition sar_GetCloudServiceId :: "StoreAssessmentResultRequest \<Rightarrow> string" where
  "sar_GetCloudServiceId req = (case sar_Result req of None \<Rightarrow> [] | Some r \<Rightarrow> ar_CloudServiceId r)"

section \<open>Handlers\<close>

definition GetAssessmentResult ::
  "GetAssessmentResultRequest validator \<Rightarrow> 'ctx \<Rightarrow> GetAssessmentResultRequest option \<Rightarrow> ('ctx, 'db) orch \<Rightarrow>
   AssessmentResult res" where
  "GetAssessmentResult v ctx req s =
     (case Validate v req of
        Err err \<Rightarrow> Err err
      | Panic \<Rightarrow> Panic
      | Ok req \<Rightarrow>
          (case storage_Get (tb_AssessmentResult (o_tables s)) (cond_eq ''Id'' (gar_Id req)) (o_db s) of
             Err err \<Rightarrow>
               if errors_Is err ErrRecordNotFound then Err (Status NotFound ''assessment result not found'')
               else Err (database_error err)
           | Panic \<Rightarrow> Panic
           | Ok res \<Rightarrow>
               (let (all, allowed) = az_AllowedCloudServices (o_authz s) ctx
                in if \<not> all \<and> \<not> slices_Contains allowed (ar_CloudServiceId res) then Err ErrPermissionDenied
                   else Ok res)))"

text \<open>
  The query of \<open>ListAssessmentResults\<close>, fragment by fragment with its argument; a field of the filter
  that is set adds one.
\<close>

definition result_frags :: "Filter option \<Rightarrow> bool \<times> string list \<Rightarrow> (sql \<times> sqlval list) list" where
  "result_frags fil scope =
     (case fil of
        None \<Rightarrow> []
      | Some f \<Rightarrow>
          opt_frag (AEq ''cloud_service_id'') VStr (f_CloudServiceId f) @
          opt_frag (AEq ''compliant'') VBool (f_Compliant f) @
          opt_frag (AIn ''metric_id'') VStrs (f_MetricIds f) @
          opt_frag (AEq ''tool_id'') VStr (f_ToolId f)) @
     (if \<not> fst scope then [([TAtom (AIn ''cloud_service_id'')], [VStrs (snd scope)])] else [])"

definition latest_query :: "(sql \<times> sqlval list) list \<Rightarrow> raw_sql" where
  "latest_query frags =
     RawLatest [''resource_id'', ''metric_id''] (if frags \<noteq> [] then Some (join_and (map fst frags)) else None) []"

definition ListAssessmentResults ::
  "proto_lib \<Rightarrow> ListAssessmentResultsRequest validator \<Rightarrow> 'ctx \<Rightarrow> ListAssessmentResultsRequest option \<Rightarrow>
   ('ctx, 'db) orch \<Rightarrow> (AssessmentResult list \<times> string) res" where
  "ListAssessmentResults pb v ctx req s =
     (case Validate v req of
        Err err \<Rightarrow> Err err
      | Panic \<Rightarrow> Panic
      | Ok req \<Rightarrow>
          (let scope = az_AllowedCloudServices (o_authz s) ctx
           in if \<not> fst scope \<and> (\<exists>f csid. lar_Filter req = Some f \<and> f_CloudServiceId f = Some csid \<and>
                  \<not> slices_Contains (snd scope) csid)
              then Err ErrPermissionDenied
              else
                (let frags = result_frags (lar_Filter req) scope
                 in if Deref False (lar_LatestByResourceId req) then
                      (case storage_Raw (tb_AssessmentResult (o_tables s)) (latest_query frags)
                              (concat (map snd frags)) (o_db s) of
                         Err err \<Rightarrow> Err (database_error err)
                       | Panic \<Rightarrow> Panic
                       | Ok results \<Rightarrow> Ok (results, []))
                    else
                      (case PaginateStorage pb req (tb_AssessmentResult (o_tables s)) DefaultPaginationOpts
                              (frag_conds frags) (o_db s) of
                         Err err \<Rightarrow> Err (Status Internal (''could not paginate results: '' @ error_string err))
                       | r \<Rightarrow> r))))"

definition StoreAssessmentResult ::
  "StoreAssessmentResultRequest validator \<Rightarrow> 'ctx \<Rightarrow> StoreAssessmentResultRequest option \<Rightarrow> ('ctx, 'db) orch \<Rightarrow>
   unit res \<times> ('ctx, 'db) orch" where
  "StoreAssessmentResult v ctx req s =
     (case Validate v req of
        Err err \<Rightarrow> (Err err, s)
      | Panic \<Rightarrow> (Panic, s)
      | Ok req \<Rightarrow>
          if \<not> az_CheckAccess (o_authz s) ctx AccessRead (sar_GetCloudServiceId req) then (Err ErrPermissionDenied, s)
          else (case sar_Result req of
             None \<Rightarrow> (Panic, s)
           | Some result \<Rightarrow>
               (case storage_Create (tb_AssessmentResult (o_tables s)) result (o_db s) of
                  (Err err, d) \<Rightarrow> (Err (database_error err), s\<lparr>o_db := d\<rparr>)
                | (Panic, d) \<Rightarrow> (Panic, s\<lparr>o_db := d\<rparr>)
                | (Ok _, d) \<Rightarrow> (Ok (), go_stmt (InformResultHook ctx (Some result) None) (s\<lparr>o_db := d\<rparr>)))))"

text \<open>
  One round of the loop of \<open>StoreAssessmentResults\<close>, and the loop. The debug message after the store
  reads \<open>result.Result.Id\<close>.
\<close>

definition store_result_round ::
  "StoreAssessmentResultRequest validator \<Rightarrow> 'ctx \<Rightarrow> StoreAssessmentResultRequest \<Rightarrow> ('ctx, 'db) orch \<Rightarrow>
   StoreAssessmentResultsResponse option \<times> ('ctx, 'db) orch" where
  "store_result_round v ctx result s =
     (let (r, s') = StoreAssessmentResult v ctx (Some \<lparr> sar_Result = sar_Result result \<rparr>) s
      in if sar_Result result = None then (None, s') else (stream_response r, s'))"

definition StoreAssessmentResults ::
  "StoreAssessmentResultRequest validator \<Rightarrow> 'ctx \<Rightarrow> (nat \<Rightarrow> go_error option) \<Rightarrow> StoreAssessmentResultRequest res list \<Rightarrow>
   ('ctx, 'db) orch \<Rightarrow> unit res \<times> ('ctx, 'db) orch \<times> StoreAssessmentResultsResponse list" where
  "StoreAssessmentResults v ctx send ins s =
     serve_stream (store_result_round v ctx) ''cannot stream response to the client: '' send ins s []"

section \<open>Lemmas\<close>

text \<open>What the filter and the scope of the caller mean for a result.\<close>

definition filter_matches :: "Filter option \<Rightarrow> AssessmentResult \<Rightarrow> bool" where
  "filter_matches fil r \<longleftrightarrow>
     (\<forall>f. fil = Some f \<longrightarrow>
        (\<forall>x. f_CloudServiceId f = Some x \<longrightarrow> ar_CloudServiceId r = x) \<and> (\<forall>x. f_Compliant f = Some x \<longrightarrow> ar_Compliant r = x) \<and>
        (\<forall>x. f_MetricIds f = Some x \<longrightarrow> ar_MetricId r \<in> set x) \<and> (\<forall>x. f_ToolId f = Some x \<longrightarrow> ar_ToolId r = Some x))"

lemma opt_str_eq [simp]: "opt_str t = VStr x \<longleftrightarrow> t = Some x"
  by (cases t) auto

lemma val_eq_VBool [simp]: "val_eq (VBool a) (VBool b) \<longleftrightarrow> a = b"
  by simp

lemma result_frags_ok: "\<forall>f \<in> set (result_frags fil scope). frag_ok env col f"
  by (cases fil) (simp_all add: result_frags_def ball_Un opt_frag_ball)

lemma result_cols [simp]:
  "result_col r ''cloud_service_id'' = VStr (ar_CloudServiceId r)" "result_col r ''compliant'' = VBool (ar_Compliant r)"
  "result_col r ''metric_id'' = VStr (ar_MetricId r)" "result_col r ''tool_id'' = opt_str (ar_ToolId r)"
  "result_col r ''resource_id'' = VStr (ar_ResourceId r)" "result_col r ''timestamp'' = opt_time (ar_Timestamp r)"
  by (simp_all add: result_col_def)

lemma result_frags_hold:
  "(\<forall>f \<in> set (result_frags fil scope). sql_holds env (result_col r) (fst f) (snd f)) \<longleftrightarrow>
   filter_matches fil r \<and> (fst scope \<or> ar_CloudServiceId r \<in> set (snd scope))"
  by (cases fil) (auto simp: result_frags_def filter_matches_def ball_Un opt_frag_ball)

lemma result_table_holds:
  "has_schema T result_key result_col \<Longrightarrow>
   t_holds T d (frag_conds (result_frags fil scope)) r \<longleftrightarrow> filter_matches fil r \<and> (fst scope \<or> ar_CloudServiceId r \<in> set (snd scope))"
  by (simp add: t_holds_def frag_conds_holds result_frags_ok has_schema_def result_frags_hold)

lemma result_table_where:
  assumes "has_schema T result_key result_col"
  shows "t_where T d (rq_where (latest_query (result_frags fil scope))) (concat (map snd (result_frags fil scope))) r
    \<longleftrightarrow> filter_matches fil r \<and> (fst scope \<or> ar_CloudServiceId r \<in> set (snd scope))"
proof -
  let ?fs = "result_frags fil scope"
  have "t_where T d (rq_where (latest_query ?fs)) (concat (map snd ?fs)) r
      \<longleftrightarrow> (\<forall>f \<in> set ?fs. sql_holds (t_env T d) (result_col r) (fst f) (snd f))"
    using assms join_and_holds [OF result_frags_ok [of fil scope "t_env T d" "result_col r"]]
    by (simp add: t_where_def latest_query_def has_schema_def)
  then show ?thesis by (simp add: result_frags_hold)
qed

lemma filter_matches_col: "result_col r = result_col r' \<Longrightarrow> filter_matches fil r = filter_matches fil r'"
proof -
  assume eq: "result_col r = result_col r'"
  have "ar_CloudServiceId r = ar_CloudServiceId r'" "ar_Compliant r = ar_Compliant r'" "ar_MetricId r = ar_MetricId r'"
    "opt_str (ar_ToolId r) = opt_str (ar_ToolId r')"
    using fun_cong [OF eq, of "''cloud_service_id''"] fun_cong [OF eq, of "''compliant''"]
      fun_cong [OF eq, of "''metric_id''"] fun_cong [OF eq, of "''tool_id''"] by simp_all
  moreover then have "ar_ToolId r = ar_ToolId r'" by (cases "ar_ToolId r"; cases "ar_ToolId r'") simp_all
  ultimately show ?thesis by (simp add: filter_matches_def)
qed

lemma result_csid_col: "result_col r = result_col r' \<Longrightarrow> ar_CloudServiceId r = ar_CloudServiceId r'"
  by (metis result_cols(1) sqlval.inject(1))

section \<open>Properties\<close>

text \<open>
  C12: \<open>ListAssessmentResults\<close> is sound for every request, paginated or grouped: each result belongs to a
  cloud service that the caller may access and satisfies every condition of the filter; a filter on a
  service outside the scope of the caller is refused.
\<close>

theorem ListAssessmentResults_sound:
  assumes "gorm_table (tb_AssessmentResult (o_tables s)) T" "has_schema T result_key result_col" "authz_strategy (o_authz s)"
    "v req = None"
  shows "(\<forall>results npt r. ListAssessmentResults pb v ctx (Some req) s = Ok (results, npt) \<and> r \<in> set results \<longrightarrow>
      az_CheckAccess (o_authz s) ctx typ (ar_CloudServiceId r) \<and> filter_matches (lar_Filter req) r) \<and>
    (\<forall>f csid. lar_Filter req = Some f \<and> f_CloudServiceId f = Some csid \<and> \<not> az_CheckAccess (o_authz s) ctx typ csid \<longrightarrow>
      ListAssessmentResults pb v ctx (Some req) s = Err ErrPermissionDenied)"
proof (intro conjI allI impI; elim conjE)
  let ?scope = "az_AllowedCloudServices (o_authz s) ctx" and ?g = "tb_AssessmentResult (o_tables s)" and ?d = "o_db s"
  let ?fs = "result_frags (lar_Filter req) ?scope"
  note az = authz_strategy.check_iff_allowed [OF assms(3), of ctx "typ"]
  fix results npt r
  assume ok: "ListAssessmentResults pb v ctx (Some req) s = Ok (results, npt)" and r: "r \<in> set results"
  have "filter_matches (lar_Filter req) r \<and> (fst ?scope \<or> ar_CloudServiceId r \<in> set (snd ?scope))"
  proof (cases "Deref False (lar_LatestByResourceId req)")
    case True
    with ok assms(4) have "gorm_Raw ?g (latest_query ?fs) (concat (map snd ?fs)) ?d = Ok results"
      by (auto simp: ListAssessmentResults_def Let_def storage_Raw_def split: res.splits if_splits)
    from gorm_table.raw_sound [OF assms(1) this r] show ?thesis by (simp add: result_table_where [OF assms(2)])
  next
    case False
    with ok assms(4) have pg: "PaginateStorage pb req ?g DefaultPaginationOpts (frag_conds ?fs) ?d = Ok (results, npt)"
      by (auto simp: ListAssessmentResults_def Let_def split: res.splits if_splits)
    from PaginateStorage_sound [OF assms(1) pg frag_conds_simps(2,1) r] obtain x
      where x: "t_holds T ?d (frag_conds ?fs) x" "r = t_load T PreloadAssociations ?d x" by blast
    have "result_col r = result_col x"
      using gorm_table.load_col [OF assms(1)] assms(2) x(2) by (simp add: has_schema_def)
    from filter_matches_col [OF this] result_csid_col [OF this] x(1) show ?thesis
      by (simp add: result_table_holds [OF assms(2)])
  qed
  then show "az_CheckAccess (o_authz s) ctx typ (ar_CloudServiceId r)" "filter_matches (lar_Filter req) r"
    by (simp_all add: az)
next
  fix f csid
  assume "lar_Filter req = Some f" "f_CloudServiceId f = Some csid" "\<not> az_CheckAccess (o_authz s) ctx typ csid"
  then show "ListAssessmentResults pb v ctx (Some req) s = Err ErrPermissionDenied"
    using assms(4) authz_strategy.check_iff_allowed [OF assms(3), of ctx "typ"]
    by (simp add: ListAssessmentResults_def Let_def)
qed

definition sample_result :: AssessmentResult where
  "sample_result = \<lparr> ar_Id = ''r1'', ar_Timestamp = Some 5, ar_MetricId = ''TLS'', ar_MetricConfiguration = None,
     ar_Compliant = True, ar_EvidenceId = ''e1'', ar_ResourceId = ''vm'', ar_ResourceTypes = [],
     ar_NonComplianceComments = [], ar_CloudServiceId = ''u1'', ar_ToolId = None \<rparr>"

definition list_req :: "Filter option \<Rightarrow> bool \<Rightarrow> ListAssessmentResultsRequest" where
  "list_req f latest_only = \<lparr> req_PageToken = [], req_PageSize = 0, req_OrderBy = [], req_Asc = True, lar_Filter = f,
     lar_LatestByResourceId = Some latest_only \<rparr>"

theorem ListAssessmentResults_sound_witness:
  "ListAssessmentResults unary_proto (\<lambda>_. None) (Some ''u1'')
     (Some (list_req (Some \<lparr> f_CloudServiceId = Some ''u2'', f_Compliant = None, f_MetricIds = None, f_ToolId = None \<rparr>) False))
     (new_orch single_authz (empty_db\<lparr>md_AssessmentResult := [sample_result]\<rparr>)) = Err ErrPermissionDenied"
  using ListAssessmentResults_sound [of "new_orch single_authz (empty_db\<lparr>md_AssessmentResult := [sample_result]\<rparr>)"
      "mem_sem mt_AssessmentResult" "\<lambda>_. None" _ unary_proto "Some ''u1''" AccessRead]
    mem_result.gorm_table_axioms single.authz_strategy_axioms by (simp add: list_req_def)

text \<open>What a grouped listing gives: stored results in scope, one per resource and metric, and none older than another.\<close>

lemma grouped_listing:
  assumes "gorm_table (tb_AssessmentResult (o_tables s)) T" "has_schema T result_key result_col" "authz_strategy (o_authz s)"
    "v req = None" "lar_LatestByResourceId req = Some True"
    "ListAssessmentResults pb v ctx (Some req) s = Ok (results, npt)"
  shows "distinct (map (\<lambda>r. (ar_ResourceId r, ar_MetricId r)) results)" "npt = []"
    "x \<in> set results \<Longrightarrow> x \<in> t_rows T (o_db s) \<and> filter_matches (lar_Filter req) x \<and> az_CheckAccess (o_authz s) ctx typ (ar_CloudServiceId x)"
    "r \<in> t_rows T (o_db s) \<Longrightarrow> filter_matches (lar_Filter req) r \<Longrightarrow> az_CheckAccess (o_authz s) ctx typ (ar_CloudServiceId r) \<Longrightarrow>
      \<exists>x \<in> set results. ar_ResourceId x = ar_ResourceId r \<and> ar_MetricId x = ar_MetricId r \<and>
         ts_le (opt_time (ar_Timestamp r)) (opt_time (ar_Timestamp x))"
proof -
  let ?scope = "az_AllowedCloudServices (o_authz s) ctx" and ?g = "tb_AssessmentResult (o_tables s)" and ?d = "o_db s"
  let ?fs = "result_frags (lar_Filter req) ?scope"
  note az = authz_strategy.check_iff_allowed [OF assms(3), of ctx "typ"]
  have col: "t_col T = result_col" using assms(2) by (simp add: has_schema_def)
  have raw: "gorm_Raw ?g (latest_query ?fs) (concat (map snd ?fs)) ?d = Ok results" and "npt = []"
    using assms(4-6) by (auto simp: ListAssessmentResults_def Let_def storage_Raw_def split: res.splits if_splits)
  then show "npt = []" by simp
  have part: "map (result_col r) (rq_partition (latest_query ?fs)) = [VStr (ar_ResourceId r), VStr (ar_MetricId r)]" for r
    by (simp add: latest_query_def)
  have "distinct (map (\<lambda>r. [VStr (ar_ResourceId r), VStr (ar_MetricId r)]) results)"
    using gorm_table.raw_distinct [OF assms(1) raw] by (simp only: col part)
  then show "distinct (map (\<lambda>r. (ar_ResourceId r, ar_MetricId r)) results)"
    by (auto simp: distinct_map inj_on_def)
  show "x \<in> t_rows T ?d \<and> filter_matches (lar_Filter req) x \<and> az_CheckAccess (o_authz s) ctx typ (ar_CloudServiceId x)" if "x \<in> set results"
    using gorm_table.raw_sound [OF assms(1) raw that] by (simp add: result_table_where [OF assms(2)] az)
  show "\<exists>x \<in> set results. ar_ResourceId x = ar_ResourceId r \<and> ar_MetricId x = ar_MetricId r \<and>
         ts_le (opt_time (ar_Timestamp r)) (opt_time (ar_Timestamp x))"
    if "r \<in> t_rows T ?d" "filter_matches (lar_Filter req) r" "az_CheckAccess (o_authz s) ctx typ (ar_CloudServiceId r)"
  proof -
    have "t_where T ?d (rq_where (latest_query ?fs)) (concat (map snd ?fs)) r"
      using that(2,3) az by (simp add: result_table_where [OF assms(2)])
    from gorm_table.raw_latest [OF assms(1) raw that(1) this] obtain x
      where "x \<in> set results" "map (result_col x) (rq_partition (latest_query ?fs)) = map (result_col r) (rq_partition (latest_query ?fs))"
        "ts_le (result_col r ''timestamp'') (result_col x ''timestamp'')" unfolding col by blast
    then show ?thesis unfolding part by (intro bexI [of _ x]) simp_all
  qed
qed



lemma StoreAssessmentResult_rows:
  assumes "gorm_table (tb_AssessmentResult (o_tables s)) T" "StoreAssessmentResult v ctx (Some \<lparr> sar_Result = Some result \<rparr>) s = (r, s')"
  shows "o_tables s' = o_tables s \<and> o_authz s' = o_authz s \<and>
    ((r = Ok () \<and> t_rows T (o_db s') = insert result (t_rows T (o_db s))) \<or>
     (\<exists>err. r = Err err \<and> t_rows T (o_db s') = t_rows T (o_db s)))"
proof -
  obtain c d where c: "storage_Create (tb_AssessmentResult (o_tables s)) result (o_db s) = (c, d)" by fastforce
  then have "c \<noteq> Panic" using storage_Create_returns [of "tb_AssessmentResult (o_tables s)" result "o_db s"] by simp
  then have rows: "(c = Ok () \<and> t_rows T d = insert result (t_rows T (o_db s))) \<or> (\<exists>err. c = Err err \<and> t_rows T d = t_rows T (o_db s))"
    using c gorm_table.st_Create_Ok [OF assms(1), of result "o_db s" _ d] gorm_table.st_Create_Err [OF assms(1), of result "o_db s" _ d]
    by (cases c) simp_all
  show ?thesis
  proof (cases "v \<lparr> sar_Result = Some result \<rparr> = None \<and> az_CheckAccess (o_authz s) ctx AccessRead (ar_CloudServiceId result)")
    case True
    with assms(2) c have "(r, s') = (case c of Ok _ \<Rightarrow> (Ok (), go_stmt (InformResultHook ctx (Some result) None) (s\<lparr>o_db := d\<rparr>))
        | Err err \<Rightarrow> (Err (database_error err), s\<lparr>o_db := d\<rparr>) | Panic \<Rightarrow> (Panic, s\<lparr>o_db := d\<rparr>))"
      by (simp add: StoreAssessmentResult_def sar_GetCloudServiceId_def split: res.splits)
    with rows show ?thesis by (cases c) simp_all
  next
    case False
    with assms(2) have "s' = s \<and> (\<exists>err. r = Err err)"
      by (cases "v \<lparr> sar_Result = Some result \<rparr>")
        (auto simp: StoreAssessmentResult_def sar_GetCloudServiceId_def Validate_def)
    then show ?thesis by simp
  qed
qed

text \<open>The round as a storing handler, for every service whose results table obeys the contract of gorm.\<close>

interpretation result_stream: storing_handler "store_result_round v ctx" "\<lambda>r. \<lparr> sar_Result = Some r \<rparr>" "\<lambda>s. t_rows T (o_db s)"
    "\<lambda>s. gorm_table (tb_AssessmentResult (o_tables s)) T" for v ctx T
proof (unfold_locales, goal_cases)
  case (1 s r)
  obtain c s' where st: "StoreAssessmentResult v ctx (Some \<lparr> sar_Result = Some r \<rparr>) s = (c, s')" by fastforce
  show ?case using StoreAssessmentResult_rows [OF 1 st] 1
    by (cases c) (simp_all add: store_result_round_def st, blast+)
qed



text \<open>
  A message without a result ends the handler with a nil dereference, whatever the validation, the
  authorization or the database say: the message logged after the store reads the identifier of
  the missing result.
\<close>

lemma StoreAssessmentResults_nil_result:
  "fst (StoreAssessmentResults v ctx send (Ok \<lparr> sar_Result = None \<rparr> # ins) s) = Panic"
  by (simp add: StoreAssessmentResults_def store_result_round_def case_prod_beta)

end
