(* ===== verification/Evaluation.thy ===== *)
theory Evaluation
  imports Orch_Toe Orch_Catalogs Orch_Results Connection
begin

text \<open>
  The evaluation service (src/service/evaluation/evaluation.go): scheduling of evaluations, the evaluation
  of catalogs, controls and sub-controls from assessment results, manual evaluation results and the
  listing of results.

  The generated client of the orchestrator is the record \<open>eval_client\<close> and the scheduler of gocron the
  record \<open>gocron\<close>; \<open>scheduler_ok\<close> states what gocron documents. \<open>fresh n\<close> is the n-th new identifier with the
  time at which it is made. The goroutines of an errgroup share only the storage, and each writes there once, at its end;
  they run in the order that an argument gives, and the theorems hold for every order.
\<close>

section \<open>Requests\<close>

record StartEvaluationRequest =
  sev_CloudServiceId :: string
  sev_CatalogId :: string
  sev_Interval :: "int option"

record StopEvaluationRequest =
  pev_CloudServiceId :: string
  pev_CatalogId :: string

record CreateEvaluationResultRequest =
  cer_Result :: "EvaluationResult option"

record EvaluationFilter =
  ef_CloudServiceId :: "string option"
  ef_CatalogId :: "string option"
  ef_ControlId :: "string option"
  ef_SubControls :: "string option"
  ef_ParentsOnly :: "bool option"
  ef_ValidManualOnly :: "bool option"

record ListEvaluationResultsRequest = PaginatedRequest +
  ler_Filter :: "EvaluationFilter option"
  ler_LatestByControlId :: "bool option"

definition cer_GetCloudServiceId :: "CreateEvaluationResultRequest \<Rightarrow> string" where
  "cer_GetCloudServiceId req = (case cer_Result req of None \<Rightarrow> [] | Some r \<Rightarrow> er_CloudServiceId r)"

section \<open>State\<close>

record eval_client =
  ec_GetTargetOfEvaluation :: "GetTargetOfEvaluationRequest \<Rightarrow> TargetOfEvaluation res"
  ec_GetCatalog :: "GetCatalogRequest \<Rightarrow> Catalog res"
  ec_ListControls :: "ListControlsRequest \<Rightarrow> (Control list \<times> string) res"
  ec_ListAssessmentResults :: "ListAssessmentResultsRequest \<Rightarrow> (AssessmentResult list \<times> string) res"

text \<open>The arguments with which the scheduler calls \<open>evaluateCatalog\<close>.\<close>

record 'ctx eval_job =
  ej_ctx :: 'ctx
  ej_toe :: TargetOfEvaluation
  ej_catalog :: Catalog
  ej_interval :: int

text \<open>
  gocron's \<open>StartAsync\<close>, \<open>FindJobsByTag\<close>, \<open>RemoveByTags\<close> and the chain
  \<open>Every(interval).Minute().Tag(tags).Do(job)\<close>.
\<close>

record ('ctx, 'sched) gocron =
  gc_StartAsync :: "'sched \<Rightarrow> 'sched"
  gc_FindJobsByTag :: "string list \<Rightarrow> 'sched \<Rightarrow> 'ctx eval_job list res"
  gc_RemoveByTags :: "string list \<Rightarrow> 'sched \<Rightarrow> unit res \<times> 'sched"
  gc_Do :: "int \<Rightarrow> string list \<Rightarrow> 'ctx eval_job \<Rightarrow> 'sched \<Rightarrow> unit res \<times> 'sched"

text \<open>The two maps of the cached controls; the inner one is an association list.\<close>

type_synonym control_cache = "string \<rightharpoonup> (string \<times> Control) list"

record ('ctx, 'db, 'sched, 'cc, 'auth, 'opt) evaluation =
  e_orchestrator :: "('cc, 'auth, 'opt) RPCConnection"
  e_scheduler :: 'sched
  e_authz :: "'ctx AuthorizationStrategy"
  e_storage :: "(EvaluationResult, 'db) gorm"
  e_db :: 'db
  e_catalogControls :: control_cache

definition ErrCatalogIdIsMissing :: go_error where
  "ErrCatalogIdIsMissing = ErrText ''catalog_id is missing''"

definition ErrCategoryNameIsMissing :: go_error where
  "ErrCategoryNameIsMissing = ErrText ''category_name is missing''"

definition ErrControlIdIsMissing :: go_error where
  "ErrControlIdIsMissing = ErrText ''control_id is missing''"

definition ErrControlNotAvailable :: go_error where
  "ErrControlNotAvailable = ErrText ''control not available''"

definition defaultInterval :: int where
  "defaultInterval = 5"

definition DefaultOrchestratorAddress_ev :: string where
  "DefaultOrchestratorAddress_ev = ''localhost:9090''"

section \<open>Options and constructor\<close>

text \<open>The options work on the connection and on the storage, which defaults to an in-memory one.\<close>

type_synonym ('db, 'cc, 'auth, 'opt) evaluation_config =
  "('cc, 'auth, 'opt) RPCConnection \<times> ((EvaluationResult, 'db) gorm \<times> 'db) option"

definition WithStorage_el ::
  "(EvaluationResult, 'db) gorm \<times> 'db \<Rightarrow> ('db, 'cc, 'auth, 'opt) evaluation_config \<Rightarrow> ('db, 'cc, 'auth, 'opt) evaluation_config" where
  "WithStorage_el storage c = (case c of (conn, _) \<Rightarrow> (conn, Some storage))"

definition WithAuthorizer_el ::
  "'auth \<Rightarrow> ('db, 'cc, 'auth, 'opt) evaluation_config \<Rightarrow> ('db, 'cc, 'auth, 'opt) evaluation_config" where
  "WithAuthorizer_el auth c = (case c of (conn, st) \<Rightarrow> (SetAuthorizer auth conn, st))"

definition WithOrchestratorAddress_el ::
  "string \<Rightarrow> 'opt list \<Rightarrow> ('db, 'cc, 'auth, 'opt) evaluation_config \<Rightarrow> ('db, 'cc, 'auth, 'opt) evaluation_config" where
  "WithOrchestratorAddress_el target opts c = (case c of (conn, st) \<Rightarrow> (conn\<lparr>rc_Target := target, rc_Opts := opts\<rparr>, st))"

definition NewService_el ::
  "'sched \<Rightarrow> (EvaluationResult, 'db) gorm \<times> 'db \<Rightarrow>
   (('db, 'cc, 'auth, 'opt) evaluation_config \<Rightarrow> ('db, 'cc, 'auth, 'opt) evaluation_config) list \<Rightarrow>
   ('ctx, 'db, 'sched, 'cc, 'auth, 'opt) evaluation" where
  "NewService_el scheduler inmem opts =
     (let (conn, st) = fold (\<lambda>opt c. opt c) opts (NewRPCConnection DefaultOrchestratorAddress_ev [], None);
          (storage, db) = Deref inmem st
      in \<lparr> e_orchestrator = conn, e_scheduler = scheduler, e_authz = strategy_AllowAll, e_storage = storage, e_db = db,
           e_catalogControls = Map.empty \<rparr>)"

section \<open>The cache of controls\<close>

definition control_tag :: "string \<Rightarrow> string \<Rightarrow> string" where
  "control_tag categoryName controlId = categoryName @ ''-'' @ controlId"

text \<open>\<open>m[k] = v\<close> on an association list.\<close>

fun put_entry :: "'k \<Rightarrow> 'v \<Rightarrow> ('k \<times> 'v) list \<Rightarrow> ('k \<times> 'v) list" where
  "put_entry k v [] = [(k, v)]"
| "put_entry k v ((k', v') # m) = (if k' = k then (k, v) # m else (k', v') # put_entry k v m)"

fun store_controls :: "Control list \<Rightarrow> (string \<times> Control) list \<Rightarrow> (string \<times> Control) list" where
  "store_controls [] m = m"
| "store_controls (c # cs) m = store_controls cs (put_entry (control_tag (ctl_CategoryName c) (ctl_Id c)) c m)"

definition all_controls :: "eval_client \<Rightarrow> string \<Rightarrow> Control list res option" where
  "all_controls client catalogId =
     ListAllPaginated set_page_token (ec_ListControls client) snd fst
       \<lparr> req_PageToken = [], req_PageSize = 0, req_OrderBy = [], req_Asc = False, lco_CatalogId = catalogId,
         lco_CategoryName = [], lco_Filter = None \<rparr>"

text \<open>A listing whose pages never end has no result; the call then never returns.\<close>

definition cacheControls ::
  "eval_client \<Rightarrow> string \<Rightarrow> ('ctx, 'db, 'sched, 'cc, 'auth, 'opt) evaluation \<Rightarrow>
   unit res \<times> ('ctx, 'db, 'sched, 'cc, 'auth, 'opt) evaluation" where
  "cacheControls client catalogId svc =
     (if catalogId = [] then (Err ErrCatalogIdIsMissing, svc)
      else (case all_controls client catalogId of
              None \<Rightarrow> (Panic, svc)
            | Some Panic \<Rightarrow> (Panic, svc)
            | Some (Err err) \<Rightarrow> (Err err, svc)
            | Some (Ok controls) \<Rightarrow>
                if length controls = 0
                then (Err (ErrText (''no controls for catalog '' @ quoted catalogId @ '' available'')), svc)
                else (Ok (), svc\<lparr>e_catalogControls := (e_catalogControls svc)(catalogId \<mapsto> store_controls controls [])\<rparr>)))"

text \<open>Reading a missing catalog reads a nil map.\<close>

definition cached_controls :: "string \<Rightarrow> control_cache \<Rightarrow> (string \<times> Control) list" where
  "cached_controls catalogId m = Deref [] (m catalogId)"

definition getControl :: "string \<Rightarrow> string \<Rightarrow> string \<Rightarrow> control_cache \<Rightarrow> Control res" where
  "getControl catalogId categoryName controlId m =
     (if catalogId = [] then Err ErrCatalogIdIsMissing
      else if categoryName = [] then Err ErrCategoryNameIsMissing
      else if controlId = [] then Err ErrControlIdIsMissing
      else (case map_of (cached_controls catalogId m) (control_tag categoryName controlId) of
              None \<Rightarrow> Err ErrControlNotAvailable
            | Some control \<Rightarrow> Ok control))"

definition getMetricIds :: "Metric list \<Rightarrow> string list" where
  "getMetricIds metrics = map m_Id metrics"

fun subcontrol_metrics :: "Control list \<Rightarrow> control_cache \<Rightarrow> Metric list \<Rightarrow> Metric list res" where
  "subcontrol_metrics [] m metrics = Ok metrics"
| "subcontrol_metrics (c # cs) m metrics =
     (case getControl (ctl_CategoryCatalogId c) (ctl_CategoryName c) (ctl_Id c) m of
        Err err \<Rightarrow> Err err
      | Panic \<Rightarrow> Panic
      | Ok subcontrol \<Rightarrow> subcontrol_metrics cs m (metrics @ ctl_Metrics subcontrol))"

definition getMetricsFromSubcontrols :: "Control option \<Rightarrow> control_cache \<Rightarrow> Metric list res" where
  "getMetricsFromSubcontrols control m =
     (case control of
        None \<Rightarrow> Err (ErrText ''control is missing'')
      | Some control \<Rightarrow> subcontrol_metrics (ctl_Controls control) m [])"

definition getAllMetricsFromControl :: "string \<Rightarrow> string \<Rightarrow> string \<Rightarrow> control_cache \<Rightarrow> Metric list res" where
  "getAllMetricsFromControl catalogId categoryName controlId m =
     (case getControl catalogId categoryName controlId m of
        Err err \<Rightarrow> Err (Wrap (''could not get control for control id {'' @ controlId @ ''}: '') err)
      | Panic \<Rightarrow> Panic
      | Ok control \<Rightarrow>
          if length (ctl_Controls control) \<noteq> 0
          then (case getMetricsFromSubcontrols (Some control) m of
                  Err err \<Rightarrow> Err (Wrap ''error getting metrics from sub-controls: '' err)
                | Panic \<Rightarrow> Panic
                | Ok subControlMetrics \<Rightarrow> Ok (ctl_Metrics control @ subControlMetrics))
          else Ok (ctl_Metrics control))"

section \<open>Listing and creating results\<close>

text \<open>The fragments that the last condition of the filter adds. The second is a disjunction without parentheses.\<close>

definition manual_frags :: "(sql \<times> sqlval list) list" where
  "manual_frags =
     [([TAtom (AIn ''status'')], [VInts [status_number COMPLIANT_MANUALLY, status_number NOT_COMPLIANT_MANUALLY]]),
      ([TAtom (AIsNull ''valid_until''), TOr, TAtom (AGeNow ''valid_until'')], [])]"

definition filter_frags :: "EvaluationFilter \<Rightarrow> (sql \<times> sqlval list) list" where
  "filter_frags f =
     opt_frag (AEq ''cloud_service_id'') VStr (ef_CloudServiceId f) @
     opt_frag (AEq ''control_catalog_id'') VStr (ef_CatalogId f) @
     opt_frag (AEq ''control_id'') VStr (ef_ControlId f) @
     opt_frag (ALike ''control_id'') (\<lambda>s. VStr (s @ ''%'')) (ef_SubControls f) @
     (if Deref False (ef_ParentsOnly f) then [([TAtom (AIsNull ''parent_control_id'')], [])] else [])"

definition eval_frags :: "EvaluationFilter option \<Rightarrow> bool \<times> string list \<Rightarrow> (sql \<times> sqlval list) list" where
  "eval_frags fil scope =
     (case fil of
        None \<Rightarrow> []
      | Some f \<Rightarrow> filter_frags f @ (if Deref False (ef_ValidManualOnly f) then manual_frags else [])) @
     (if \<not> fst scope then [([TAtom (AIn ''cloud_service_id'')], [VStrs (snd scope)])] else [])"

definition eval_query :: "EvaluationFilter option \<Rightarrow> (sql \<times> sqlval list) list \<Rightarrow> raw_sql" where
  "eval_query fil frags =
     RawLatest
       (''control_id'' # (case fil of None \<Rightarrow> [] | Some f \<Rightarrow> (case ef_SubControls f of None \<Rightarrow> [] | Some _ \<Rightarrow> [''control_id''])))
       (if frags \<noteq> [] then Some (join_and (map fst frags)) else None) [''control_catalog_id'', ''control_id'']"

definition ListEvaluationResults ::
  "proto_lib \<Rightarrow> ListEvaluationResultsRequest validator \<Rightarrow> 'ctx \<Rightarrow> ListEvaluationResultsRequest option \<Rightarrow>
   ('ctx, 'db, 'sched, 'cc, 'auth, 'opt) evaluation \<Rightarrow> (EvaluationResult list \<times> string) res" where
  "ListEvaluationResults pb v ctx req svc =
     (case Validate v req of
        Err err \<Rightarrow> Err err
      | Panic \<Rightarrow> Panic
      | Ok req \<Rightarrow>
          (let scope = az_AllowedCloudServices (e_authz svc) ctx
           in if (case ler_Filter req of
                    None \<Rightarrow> False
                  | Some f \<Rightarrow> \<not> az_CheckAccess (e_authz svc) ctx AccessRead (Deref [] (ef_CloudServiceId f)))
              then Err ErrPermissionDenied
              else
                (let frags = eval_frags (ler_Filter req) scope
                 in if Deref False (ler_LatestByControlId req) then
                      (case storage_Raw (e_storage svc) (eval_query (ler_Filter req) frags) (concat (map snd frags)) (e_db svc) of
                         Err err \<Rightarrow> Err (database_error err)
                       | Panic \<Rightarrow> Panic
                       | Ok results \<Rightarrow> Ok (results, []))
                    else
                      (case PaginateStorage pb req (e_storage svc) DefaultPaginationOpts (frag_conds frags) (e_db svc) of
                         Err err \<Rightarrow>
                           Err (Status Internal (''could not paginate results: '' @
                             error_string (Wrap ''could not paginate evaluation results: '' err)))
                       | r \<Rightarrow> r))))"

definition CreateEvaluationResult ::
  "CreateEvaluationResultRequest validator \<Rightarrow> string \<Rightarrow> 'ctx \<Rightarrow> CreateEvaluationResultRequest option \<Rightarrow>
   ('ctx, 'db, 'sched, 'cc, 'auth, 'opt) evaluation \<Rightarrow>
   EvaluationResult res \<times> ('ctx, 'db, 'sched, 'cc, 'auth, 'opt) evaluation" where
  "CreateEvaluationResult v uuid ctx req svc =
     (case Validate v req of
        Err err \<Rightarrow> (Err err, svc)
      | Panic \<Rightarrow> (Panic, svc)
      | Ok req \<Rightarrow>
          (case cer_Result req of
             None \<Rightarrow> (Panic, svc)
           | Some result \<Rightarrow>
               if er_Status result \<noteq> COMPLIANT_MANUALLY \<and> er_Status result \<noteq> NOT_COMPLIANT_MANUALLY
               then (Err (Status InvalidArgument ''only manually set statuses are allowed''), svc)
               else if er_ValidUntil result = None then (Err (Status InvalidArgument ''validity must be set''), svc)
               else if \<not> az_CheckAccess (e_authz svc) ctx AccessCreate (cer_GetCloudServiceId req)
               then (Err ErrPermissionDenied, svc)
               else (let res = result\<lparr>er_Id := uuid\<rparr>
                     in case storage_Create (e_storage svc) res (e_db svc) of
                          (Err err, d) \<Rightarrow> (Err (database_error err), svc\<lparr>e_db := d\<rparr>)
                        | (Panic, d) \<Rightarrow> (Panic, svc\<lparr>e_db := d\<rparr>)
                        | (Ok _, d) \<Rightarrow> (Ok res, svc\<lparr>e_db := d\<rparr>))))"

section \<open>Evaluation\<close>

text \<open>The new identifier and the time of the n-th result that is made.\<close>

type_synonym fresh = "nat \<Rightarrow> string \<times> timestamp"

text \<open>
  An errgroup: the goroutines, by index, run in the given order; \<open>Wait\<close> gives the first error. A panic in a goroutine
  ends the program.
\<close>

fun run_group :: "(nat \<Rightarrow> 's \<Rightarrow> 'a res \<times> 's) \<Rightarrow> nat list \<Rightarrow> 's \<Rightarrow> (nat \<times> 'a res) list \<times> 's" where
  "run_group f [] s = ([], s)"
| "run_group f (i # order) s =
     (case f i s of (r, s') \<Rightarrow> (case run_group f order s' of (rs, s'') \<Rightarrow> ((i, r) # rs, s'')))"

fun group_Wait :: "(nat \<times> 'a res) list \<Rightarrow> unit res" where
  "group_Wait [] = Ok ()"
| "group_Wait ((i, r) # rs) =
     (case group_Wait rs of
        Panic \<Rightarrow> Panic
      | w \<Rightarrow> (case r of Panic \<Rightarrow> Panic | Err err \<Rightarrow> Err err | Ok _ \<Rightarrow> w))"

text \<open>The loop over the assessment results.\<close>

fun check_assessments :: "AssessmentResult list \<Rightarrow> EvaluationStatus \<times> string list \<Rightarrow> EvaluationStatus \<times> string list" where
  "check_assessments [] acc = acc"
| "check_assessments (r # rs) (status, failing) =
     (if \<not> ar_Compliant r then check_assessments rs (NOT_COMPLIANT, failing @ [ar_Id r])
      else check_assessments rs (status, failing))"

text \<open>Errors of the listing are logged and leave no results.\<close>

definition list_assessments :: "eval_client \<Rightarrow> TargetOfEvaluation \<Rightarrow> Metric list \<Rightarrow> AssessmentResult list res" where
  "list_assessments client toe metrics =
     (if length metrics \<noteq> 0 then
        (case ListAllPaginated set_page_token (ec_ListAssessmentResults client) snd fst
                \<lparr> req_PageToken = [], req_PageSize = 0, req_OrderBy = [], req_Asc = False,
                  lar_Filter = Some \<lparr> f_CloudServiceId = Some (toe_CloudServiceId toe), f_Compliant = None,
                                      f_MetricIds = Some (getMetricIds metrics), f_ToolId = None \<rparr>,
                  lar_LatestByResourceId = Some True \<rparr> of
           None \<Rightarrow> Panic
         | Some (Err err) \<Rightarrow> Ok []
         | Some r \<Rightarrow> r)
      else Ok [])"

definition subcontrol_result :: "string \<times> timestamp \<Rightarrow> TargetOfEvaluation \<Rightarrow> Control \<Rightarrow> AssessmentResult list \<Rightarrow> EvaluationResult" where
  "subcontrol_result idt toe control assessments =
     (let (status, failing) = check_assessments assessments (if length assessments = 0 then PENDING else COMPLIANT, [])
      in \<lparr> er_Id = fst idt, er_CloudServiceId = toe_CloudServiceId toe, er_ControlId = ctl_Id control,
           er_ControlCategoryName = ctl_CategoryName control, er_ControlCatalogId = toe_CatalogId toe,
           er_ParentControlId = ctl_ParentControlId control, er_Status = status, er_Timestamp = Some (snd idt),
           er_FailingAssessmentResultIds = failing, er_Comment = None, er_ValidUntil = None \<rparr>)"

definition evaluateSubcontrol ::
  "eval_client \<Rightarrow> string \<times> timestamp \<Rightarrow> TargetOfEvaluation option \<Rightarrow> Control option \<Rightarrow>
   ('ctx, 'db, 'sched, 'cc, 'auth, 'opt) evaluation \<Rightarrow>
   EvaluationResult option res \<times> ('ctx, 'db, 'sched, 'cc, 'auth, 'opt) evaluation" where
  "evaluateSubcontrol client idt toe control svc =
     (case (toe, control) of
        (Some toe, Some control) \<Rightarrow>
          (case getAllMetricsFromControl (toe_CatalogId toe) (ctl_CategoryName control) (ctl_Id control) (e_catalogControls svc) of
             Err err \<Rightarrow> (Err err, svc)
           | Panic \<Rightarrow> (Panic, svc)
           | Ok metrics \<Rightarrow>
               (case list_assessments client toe metrics of
                  Ok assessments \<Rightarrow>
                    (let eval = subcontrol_result idt toe control assessments
                     in case storage_Create (e_storage svc) eval (e_db svc) of
                          (Err err, d) \<Rightarrow> (Err err, svc\<lparr>e_db := d\<rparr>)
                        | (Panic, d) \<Rightarrow> (Panic, svc\<lparr>e_db := d\<rparr>)
                        | (Ok _, d) \<Rightarrow> (Ok (Some eval), svc\<lparr>e_db := d\<rparr>))
                | Err err \<Rightarrow> (Err err, svc)
                | Panic \<Rightarrow> (Panic, svc)))
      | _ \<Rightarrow> (Ok None, svc))"

text \<open>The loop over the results of the sub-controls; a missing result is a nil dereference.\<close>

fun check_results ::
  "EvaluationResult option list \<Rightarrow> EvaluationStatus \<times> string list \<Rightarrow> (EvaluationStatus \<times> string list) res" where
  "check_results [] acc = Ok acc"
| "check_results (None # rs) acc = Panic"
| "check_results (Some r # rs) (status, failing) =
     (if (er_Status r = COMPLIANT \<or> er_Status r = COMPLIANT_MANUALLY) \<and>
         (status \<noteq> NOT_COMPLIANT \<and> status \<noteq> NOT_COMPLIANT_MANUALLY)
      then check_results rs (COMPLIANT, failing)
      else if er_Status r = PENDING \<and> status = PENDING then check_results rs (PENDING, failing)
      else check_results rs (NOT_COMPLIANT, failing @ er_FailingAssessmentResultIds r))"

definition relevant_controls ::
  "TargetOfEvaluation \<Rightarrow> Catalog \<Rightarrow> string list \<Rightarrow> Control list \<Rightarrow> Control list" where
  "relevant_controls toe catalog ignored controls =
     filter (\<lambda>c. \<not> slices_Contains ignored (ctl_Id c) \<and> IsRelevantFor c toe catalog) controls"

text \<open>\<open>results[i]\<close> after \<open>Wait\<close>.\<close>

definition group_results :: "nat \<Rightarrow> (nat \<times> 'a option res) list \<Rightarrow> 'a option list" where
  "group_results n rs = map (\<lambda>i. case map_of rs i of Some (Ok r) \<Rightarrow> r | _ \<Rightarrow> None) [0..<n]"

definition control_result ::
  "string \<times> timestamp \<Rightarrow> TargetOfEvaluation \<Rightarrow> Control \<Rightarrow> EvaluationStatus \<Rightarrow> string list \<Rightarrow> EvaluationResult" where
  "control_result idt toe control status failing =
     \<lparr> er_Id = fst idt, er_CloudServiceId = toe_CloudServiceId toe, er_ControlId = ctl_Id control,
       er_ControlCategoryName = ctl_CategoryName control, er_ControlCatalogId = toe_CatalogId toe,
       er_ParentControlId = None, er_Status = status, er_Timestamp = Some (snd idt),
       er_FailingAssessmentResultIds = failing, er_Comment = None, er_ValidUntil = None \<rparr>"

text \<open>The result of the control takes \<open>fresh 0\<close>, that of the i-th sub-control \<open>fresh (i + 1)\<close>.\<close>

definition evaluateControl ::
  "eval_client \<Rightarrow> fresh \<Rightarrow> nat list \<Rightarrow> TargetOfEvaluation \<Rightarrow> Catalog \<Rightarrow> Control \<Rightarrow> EvaluationResult list \<Rightarrow>
   ('ctx, 'db, 'sched, 'cc, 'auth, 'opt) evaluation \<Rightarrow> unit res \<times> ('ctx, 'db, 'sched, 'cc, 'auth, 'opt) evaluation" where
  "evaluateControl client fresh order toe catalog control manual svc =
     (let ignored = map er_ControlId manual;
          relevant = relevant_controls toe catalog ignored (ctl_Controls control);
          (rs, svc) = run_group (\<lambda>i. evaluateSubcontrol client (fresh (i + 1)) (Some toe) (Some (relevant ! i))) order svc
      in case group_Wait rs of
           Err err \<Rightarrow> (Err err, svc)
         | Panic \<Rightarrow> (Panic, svc)
         | Ok _ \<Rightarrow>
             (case check_results (group_results (length relevant) rs @ map Some manual) (PENDING, []) of
                Err err \<Rightarrow> (Err err, svc)
              | Panic \<Rightarrow> (Panic, svc)
              | Ok (status, failing) \<Rightarrow>
                  (case storage_Create (e_storage svc) (control_result (fresh 0) toe control status failing) (e_db svc) of
                     (r, d) \<Rightarrow> (r, svc\<lparr>e_db := d\<rparr>))))"

text \<open>\<open>strings.Compare\<close>, on bytes.\<close>

fun strings_Compare :: "string \<Rightarrow> string \<Rightarrow> int" where
  "strings_Compare [] [] = 0"
| "strings_Compare [] (b # bs) = -1"
| "strings_Compare (a # as) [] = 1"
| "strings_Compare (a # as) (b # bs) =
     (if of_char a < (of_char b :: nat) then -1 else if of_char b < (of_char a :: nat) then 1 else strings_Compare as bs)"

definition manual_request :: "TargetOfEvaluation \<Rightarrow> ListEvaluationResultsRequest" where
  "manual_request toe =
     \<lparr> req_PageToken = [], req_PageSize = 0, req_OrderBy = [], req_Asc = False,
       ler_Filter = Some \<lparr> ef_CloudServiceId = Some (toe_CloudServiceId toe), ef_CatalogId = Some (toe_CatalogId toe),
         ef_ControlId = None, ef_SubControls = None, ef_ParentsOnly = None, ef_ValidManualOnly = Some True \<rparr>,
       ler_LatestByControlId = Some True \<rparr>"

text \<open>The controls that \<open>evaluateCatalog\<close> ignores, and the manual results of the sub-controls of a control.\<close>

definition ignored_controls :: "EvaluationResult list \<Rightarrow> string list" where
  "ignored_controls results = map er_ControlId (filter (\<lambda>r. er_ParentControlId r = None) results)"

definition manual_for :: "EvaluationResult list \<Rightarrow> string \<Rightarrow> EvaluationResult list" where
  "manual_for results controlId = filter (\<lambda>r. er_ParentControlId r = Some controlId) results"

text \<open>
  Go iterates over a map in any order and the sort may exchange controls of equal id; here the order is that of the
  list. It is only the order in which the goroutines are started.
\<close>

definition catalog_controls :: "string \<Rightarrow> control_cache \<Rightarrow> Control list" where
  "catalog_controls catalogId m =
     sort_less (\<lambda>a b. strings_Compare (ctl_Id a) (ctl_Id b) < 0) (map snd (cached_controls catalogId m))"

text \<open>
  The listing of manual results runs under the background context \<open>bg\<close>, which \<open>ListAllPaginated\<close> passes. The
  goroutines of the controls run in the order \<open>order\<close>, those of the j-th control in the order \<open>orders j\<close>.
\<close>

definition evaluateCatalog ::
  "proto_lib \<Rightarrow> ListEvaluationResultsRequest validator \<Rightarrow> 'ctx \<Rightarrow> eval_client \<Rightarrow> (nat \<Rightarrow> fresh) \<Rightarrow> nat list \<Rightarrow> (nat \<Rightarrow> nat list) \<Rightarrow>
   TargetOfEvaluation \<Rightarrow> Catalog \<Rightarrow> ('ctx, 'db, 'sched, 'cc, 'auth, 'opt) evaluation \<Rightarrow>
   unit res \<times> ('ctx, 'db, 'sched, 'cc, 'auth, 'opt) evaluation" where
  "evaluateCatalog pb v bg client fresh order orders toe catalog svc =
     (let controls = catalog_controls (toe_CatalogId toe) (e_catalogControls svc)
      in case ListAllPaginated set_page_token (\<lambda>req. ListEvaluationResults pb v bg (Some req) svc) snd fst (manual_request toe) of
           None \<Rightarrow> (Panic, svc)
         | Some Panic \<Rightarrow> (Panic, svc)
         | Some (Err err) \<Rightarrow> (Err err, svc)
         | Some (Ok results) \<Rightarrow>
             (let relevant = relevant_controls toe catalog (ignored_controls results)
                    (filter (\<lambda>c. ctl_ParentControlId c = None) controls);
                  (rs, svc) = run_group (\<lambda>j. evaluateControl client (fresh j) (orders j) toe catalog (relevant ! j)
                    (manual_for results (ctl_Id (relevant ! j)))) order svc
              in (group_Wait rs, svc)))"

section \<open>Scheduling\<close>

definition addJobToScheduler ::
  "('ctx, 'sched) gocron \<Rightarrow> 'ctx \<Rightarrow> TargetOfEvaluation option \<Rightarrow> Catalog \<Rightarrow> int \<Rightarrow>
   ('ctx, 'db, 'sched, 'cc, 'auth, 'opt) evaluation \<Rightarrow> unit res \<times> ('ctx, 'db, 'sched, 'cc, 'auth, 'opt) evaluation" where
  "addJobToScheduler gc ctx toe catalog interval svc =
     (if interval = 0 then (Err (Status Internal ''evaluation cannot be scheduled: interval is invalid''), svc)
      else (case toe of
              None \<Rightarrow> (Err (Status Internal ''evaluation cannot be scheduled: target of evaluation is invalid''), svc)
            | Some toe \<Rightarrow>
                (case gc_Do gc interval [toe_CloudServiceId toe, toe_CatalogId toe]
                        \<lparr> ej_ctx = ctx, ej_toe = toe, ej_catalog = catalog, ej_interval = interval \<rparr> (e_scheduler svc) of
                   (Err err, sch) \<Rightarrow>
                     (Err (Status Internal (''evaluation for cloud service '' @ quoted (toe_CloudServiceId toe) @
                        '' and catalog ID '' @ quoted (ca_Id catalog) @ '' cannot be scheduled: '' @ error_string err)),
                      svc\<lparr>e_scheduler := sch\<rparr>)
                 | (r, sch) \<Rightarrow> (r, svc\<lparr>e_scheduler := sch\<rparr>))))"

text \<open>The part of \<open>StartEvaluation\<close> after the orchestrator has answered.\<close>

definition schedule_evaluation ::
  "('ctx, 'sched) gocron \<Rightarrow> 'ctx \<Rightarrow> StartEvaluationRequest \<Rightarrow> TargetOfEvaluation \<Rightarrow> Catalog \<Rightarrow>
   ('ctx, 'db, 'sched, 'cc, 'auth, 'opt) evaluation \<Rightarrow> bool res \<times> ('ctx, 'db, 'sched, 'cc, 'auth, 'opt) evaluation" where
  "schedule_evaluation gc ctx req toe catalog svc =
     (let interval = (if Deref 0 (sev_Interval req) = 0 then defaultInterval else Deref 0 (sev_Interval req));
          found = gc_FindJobsByTag gc [sev_CloudServiceId req, sev_CatalogId req] (e_scheduler svc);
          schedule = (case addJobToScheduler gc ctx (Some toe) catalog interval svc of
             (Ok _, svc) \<Rightarrow> (Ok True, svc)
           | (Err err, svc) \<Rightarrow> (Err err, svc)
           | (Panic, svc) \<Rightarrow> (Panic, svc))
      in case found of
           Err err \<Rightarrow>
             if errors_Is err ErrJobNotFoundWithTag then schedule
             else (Err (Status Internal (''error while retrieving existing scheduler job: '' @ error_string err)), svc)
         | Panic \<Rightarrow> (Panic, svc)
         | Ok jobs \<Rightarrow>
             if length jobs > 0
             then (Err (Status AlreadyExists (''evaluation for Cloud Service '' @ quoted (toe_CloudServiceId toe) @
                     '' and Catalog ID '' @ quoted (toe_CatalogId toe) @ '' already started'')), svc)
             else schedule)"

definition StartEvaluation ::
  "('ctx, 'sched) gocron \<Rightarrow> eval_client \<Rightarrow> StartEvaluationRequest validator \<Rightarrow> 'ctx \<Rightarrow> StartEvaluationRequest option \<Rightarrow>
   ('ctx, 'db, 'sched, 'cc, 'auth, 'opt) evaluation \<Rightarrow> bool res \<times> ('ctx, 'db, 'sched, 'cc, 'auth, 'opt) evaluation" where
  "StartEvaluation gc client v ctx req svc =
     (case Validate v req of
        Err err \<Rightarrow> (Err err, svc)
      | Panic \<Rightarrow> (Panic, svc)
      | Ok req \<Rightarrow>
          if \<not> az_CheckAccess (e_authz svc) ctx AccessCreate (sev_CloudServiceId req) then (Err ErrPermissionDenied, svc)
          else
            (case cacheControls client (sev_CatalogId req) (svc\<lparr>e_scheduler := gc_StartAsync gc (e_scheduler svc)\<rparr>) of
               (Err err, svc) \<Rightarrow> (Err (Status Internal (''could not cache controls: '' @ error_string err)), svc)
             | (Panic, svc) \<Rightarrow> (Panic, svc)
             | (Ok _, svc) \<Rightarrow>
                 (case ec_GetTargetOfEvaluation client
                         \<lparr> gte_CloudServiceId = sev_CloudServiceId req, gte_CatalogId = sev_CatalogId req \<rparr> of
                    Err err \<Rightarrow> (Err (Status Internal (''could not get target of evaluation: '' @ error_string err)), svc)
                  | Panic \<Rightarrow> (Panic, svc)
                  | Ok toe \<Rightarrow>
                      (case ec_GetCatalog client \<lparr> gca_CatalogId = sev_CatalogId req \<rparr> of
                         Err err \<Rightarrow> (Err (Status Internal (''could not get catalog: '' @ error_string err)), svc)
                       | Panic \<Rightarrow> (Panic, svc)
                       | Ok catalog \<Rightarrow> schedule_evaluation gc ctx req toe catalog svc))))"

definition StopEvaluation ::
  "('ctx, 'sched) gocron \<Rightarrow> StopEvaluationRequest validator \<Rightarrow> 'ctx \<Rightarrow> StopEvaluationRequest option \<Rightarrow>
   ('ctx, 'db, 'sched, 'cc, 'auth, 'opt) evaluation \<Rightarrow> unit res \<times> ('ctx, 'db, 'sched, 'cc, 'auth, 'opt) evaluation" where
  "StopEvaluation gc v ctx req svc =
     (case Validate v req of
        Err err \<Rightarrow> (Err err, svc)
      | Panic \<Rightarrow> (Panic, svc)
      | Ok req \<Rightarrow>
          if \<not> az_CheckAccess (e_authz svc) ctx AccessCreate (pev_CloudServiceId req) then (Err ErrPermissionDenied, svc)
          else
            (case gc_RemoveByTags gc [pev_CloudServiceId req, pev_CatalogId req] (e_scheduler svc) of
               (Err err, sch) \<Rightarrow>
                 if errors_Is err ErrJobNotFoundWithTag
                 then (Err (Status FailedPrecondition (''job for cloud service '' @ quoted (pev_CloudServiceId req) @
                         '' and catalog '' @ quoted (pev_CatalogId req) @ '' not running'')), svc\<lparr>e_scheduler := sch\<rparr>)
                 else (Err (Status Internal (''error while removing jobs for cloud service '' @ quoted (pev_CloudServiceId req) @
                         '' and catalog '' @ quoted (pev_CatalogId req) @ '': '' @ error_string err)), svc\<lparr>e_scheduler := sch\<rparr>)
             | (r, sch) \<Rightarrow> (r, svc\<lparr>e_scheduler := sch\<rparr>)))"

end
