(* ===== verification/Eval_Status.thy ===== *)
theory Eval_Status
  imports Evaluation
begin

text \<open>
  The results of evaluations: the status of sub-controls and controls, the rows that the evaluation of a catalog stores, and
  the meaning of the query behind the listing of evaluation results, with the properties about them.
\<close>

section \<open>Groups of goroutines\<close>

lemma run_group_keeps:
  assumes "\<And>i s r s'. P s \<Longrightarrow> f i s = (r, s') \<Longrightarrow> P s'" "P s" "run_group f order s = (rs, s')"
  shows "P s'"
  using assms(2,3) by (induction order arbitrary: s rs) (auto split: prod.splits dest: assms(1))

text \<open>
  Tasks that, when they succeed, give a value and add rows that depend on the index alone: then the outcome of the
  group is the same for every order.
\<close>

locale group_tasks =
  fixes task :: "nat \<Rightarrow> 's \<Rightarrow> 'a res \<times> 's" and keeps :: "'s \<Rightarrow> bool" and rows :: "'s \<Rightarrow> 'r set"
    and val :: "nat \<Rightarrow> 'a" and adds :: "nat \<Rightarrow> 'r set" and legal :: "nat \<Rightarrow> bool"
  assumes task_keeps: "keeps s \<Longrightarrow> task i s = (r, s') \<Longrightarrow> keeps s'"
    and task_ok: "keeps s \<Longrightarrow> legal i \<Longrightarrow> task i s = (Ok a, s') \<Longrightarrow> a = val i \<and> rows s' = rows s \<union> adds i"
begin

lemma group_keeps: "keeps s \<Longrightarrow> run_group task order s = (rs, s') \<Longrightarrow> keeps s'"
  by (rule run_group_keeps [of keeps, OF task_keeps])

lemma group_ok:
  "keeps s \<Longrightarrow> run_group task order s = (rs, s') \<Longrightarrow> group_Wait rs = Ok () \<Longrightarrow> \<forall>i \<in> set order. legal i \<Longrightarrow>
   rows s' = rows s \<union> \<Union> (adds ` set order) \<and> map_of rs = (\<lambda>i. if i \<in> set order then Some (Ok (val i)) else None)"
proof (induction order arbitrary: s rs)
  case Nil
  then show ?case by auto
next
  case (Cons i order)
  obtain r s1 where t: "task i s = (r, s1)" by fastforce
  obtain rs1 s2 where g: "run_group task order s1 = (rs1, s2)" by fastforce
  have eqs: "rs = (i, r) # rs1" "s' = s2" using Cons.prems(2) t g by simp_all
  obtain a where a: "r = Ok a" "group_Wait rs1 = Ok ()"
    using Cons.prems(3) eqs by (auto split: res.splits)
  have k: "keeps s1" using task_keeps [OF Cons.prems(1) t] .
  have "a = val i \<and> rows s1 = rows s \<union> adds i" using task_ok [OF Cons.prems(1)] Cons.prems(4) t a(1) by simp
  with Cons.IH [OF k g [folded eqs(2)] a(2)] Cons.prems(4) eqs a(1) show ?case by (auto simp: fun_eq_iff)
qed

end

section \<open>Sub-controls and controls\<close>

text \<open>What the status of a sub-control means.\<close>

definition status_of :: "AssessmentResult list \<Rightarrow> EvaluationStatus" where
  "status_of rs = (if rs = [] then PENDING else if \<forall>r \<in> set rs. ar_Compliant r then COMPLIANT else NOT_COMPLIANT)"

definition failing_of :: "AssessmentResult list \<Rightarrow> string list" where
  "failing_of rs = map ar_Id (filter (\<lambda>r. \<not> ar_Compliant r) rs)"

lemma check_assessments_eq:
  "check_assessments rs (st, failing) = (if \<forall>r \<in> set rs. ar_Compliant r then st else NOT_COMPLIANT, failing @ failing_of rs)"
  by (induction rs arbitrary: st failing) (auto simp: failing_of_def)

lemma subcontrol_result_status:
  "er_Status (subcontrol_result idt toe c rs) = status_of rs"
  "er_FailingAssessmentResultIds (subcontrol_result idt toe c rs) = failing_of rs"
  by (auto simp: subcontrol_result_def check_assessments_eq status_of_def)

text \<open>The assessment results that a sub-control is judged by.\<close>

definition judged :: "eval_client \<Rightarrow> control_cache \<Rightarrow> TargetOfEvaluation \<Rightarrow> Control \<Rightarrow> AssessmentResult list" where
  "judged client m toe c =
     (case getAllMetricsFromControl (toe_CatalogId toe) (ctl_CategoryName c) (ctl_Id c) m of
        Ok metrics \<Rightarrow> (case list_assessments client toe metrics of Ok rs \<Rightarrow> rs | _ \<Rightarrow> [])
      | _ \<Rightarrow> [])"

lemma evaluateSubcontrol_keeps:
  "evaluateSubcontrol client idt toe c svc = (r, svc') \<Longrightarrow>
   e_storage svc' = e_storage svc \<and> e_catalogControls svc' = e_catalogControls svc \<and> e_authz svc' = e_authz svc \<and> e_scheduler svc' = e_scheduler svc"
  by (auto simp: evaluateSubcontrol_def Let_def split: option.splits res.splits prod.splits)

lemma evaluateSubcontrol_ok:
  assumes "gorm_table (e_storage svc) T"
    "evaluateSubcontrol client idt (Some toe) (Some c) svc = (Ok a, svc')"
  shows "a = Some (subcontrol_result idt toe c (judged client (e_catalogControls svc) toe c)) \<and>
    t_rows T (e_db svc') = insert (subcontrol_result idt toe c (judged client (e_catalogControls svc) toe c)) (t_rows T (e_db svc))"
proof -
  let ?r = "subcontrol_result idt toe c (judged client (e_catalogControls svc) toe c)"
  obtain metrics where m: "getAllMetricsFromControl (toe_CatalogId toe) (ctl_CategoryName c) (ctl_Id c) (e_catalogControls svc) = Ok metrics"
    using assms(2) by (auto simp: evaluateSubcontrol_def split: res.splits)
  obtain rs where rs: "list_assessments client toe metrics = Ok rs"
    using assms(2) m by (auto simp: evaluateSubcontrol_def split: res.splits)
  have j: "judged client (e_catalogControls svc) toe c = rs" by (simp add: judged_def m rs)
  obtain d where d: "storage_Create (e_storage svc) ?r (e_db svc) = (Ok (), d)" "a = Some ?r" "svc' = svc\<lparr>e_db := d\<rparr>"
    using assms(2) m rs j by (auto simp: evaluateSubcontrol_def Let_def split: prod.splits res.splits)
  with gorm_table.st_Create_Ok [OF assms(1) d(1)] show ?thesis by simp
qed

text \<open>
  The status of a control from the results of its sub-controls: pending results come first, then compliant ones; any
  other result, and every result after it, counts against the control.
\<close>

abbreviation is_pending :: "EvaluationResult \<Rightarrow> bool" where
  "is_pending r \<equiv> er_Status r = PENDING"

abbreviation is_compliant :: "EvaluationResult \<Rightarrow> bool" where
  "is_compliant r \<equiv> er_Status r = COMPLIANT \<or> er_Status r = COMPLIANT_MANUALLY"

definition offending :: "EvaluationResult list \<Rightarrow> EvaluationResult list" where
  "offending rs = dropWhile is_compliant (dropWhile is_pending rs)"

definition control_status :: "EvaluationResult list \<Rightarrow> EvaluationStatus" where
  "control_status rs =
     (if \<forall>r \<in> set rs. is_pending r then PENDING else if offending rs = [] then COMPLIANT else NOT_COMPLIANT)"

lemma check_results_steps:
  "check_results (map Some rs) (NOT_COMPLIANT, failing) = Ok (NOT_COMPLIANT, failing @ concat (map er_FailingAssessmentResultIds rs))"
  "check_results (map Some rs) (COMPLIANT, failing) =
     Ok (if dropWhile is_compliant rs = [] then COMPLIANT else NOT_COMPLIANT,
         failing @ concat (map er_FailingAssessmentResultIds (dropWhile is_compliant rs)))"
  by (induction rs arbitrary: failing) auto

lemma check_results_eq:
  "check_results (map Some rs) (PENDING, failing) =
     Ok (control_status rs, failing @ concat (map er_FailingAssessmentResultIds (offending rs)))"
proof (induction rs arbitrary: failing)
  case Nil
  then show ?case by (simp add: control_status_def offending_def)
next
  case (Cons r rs)
  then show ?case by (auto simp: control_status_def offending_def check_results_steps)
qed

lemma control_status_facts:
  "control_status rs = PENDING \<longleftrightarrow> (\<forall>r \<in> set rs. is_pending r)"
  "control_status rs = COMPLIANT \<Longrightarrow> (\<forall>r \<in> set rs. is_pending r \<or> is_compliant r) \<and> (\<exists>r \<in> set rs. is_compliant r)"
  "\<forall>r \<in> set rs. \<not> is_pending r \<Longrightarrow> rs \<noteq> [] \<Longrightarrow> control_status rs = COMPLIANT \<longleftrightarrow> (\<forall>r \<in> set rs. is_compliant r)"
  "r \<in> set rs \<Longrightarrow> \<not> is_pending r \<Longrightarrow> \<not> is_compliant r \<Longrightarrow> control_status rs = NOT_COMPLIANT"
proof -
  show "control_status rs = PENDING \<longleftrightarrow> (\<forall>r \<in> set rs. is_pending r)" by (simp add: control_status_def)
  show compl: "(\<forall>r \<in> set rs. is_pending r \<or> is_compliant r) \<and> (\<exists>r \<in> set rs. is_compliant r)"
    if "control_status rs = COMPLIANT" for rs
  proof -
    have o: "\<forall>r \<in> set (dropWhile is_pending rs). is_compliant r" "\<not> (\<forall>r \<in> set rs. is_pending r)"
      using that by (auto simp: control_status_def offending_def split: if_splits)
    have "\<forall>r \<in> set rs. is_pending r \<or> is_compliant r"
    proof
      fix r assume "r \<in> set rs"
      then have "r \<in> set (takeWhile is_pending rs) \<or> r \<in> set (dropWhile is_pending rs)"
        by (metis UnE set_append takeWhile_dropWhile_id)
      then show "is_pending r \<or> is_compliant r" using o(1) by (auto dest: set_takeWhileD)
    qed
    with o(2) show ?thesis by blast
  qed
  show "control_status rs = COMPLIANT \<longleftrightarrow> (\<forall>r \<in> set rs. is_compliant r)" if "\<forall>r \<in> set rs. \<not> is_pending r" "rs \<noteq> []"
  proof -
    have "dropWhile is_pending rs = rs" using that(1) by (cases rs) auto
    moreover have "\<not> (\<forall>r \<in> set rs. is_pending r)" using that by (metis last_in_set)
    ultimately show ?thesis by (auto simp: control_status_def offending_def)
  qed
  show "control_status rs = NOT_COMPLIANT" if "r \<in> set rs" "\<not> is_pending r" "\<not> is_compliant r"
  proof -
    have "control_status rs \<noteq> COMPLIANT" using compl [of rs] that by blast
    moreover have "control_status rs \<noteq> PENDING" using that by (auto simp: control_status_def)
    moreover have "control_status rs \<in> {PENDING, COMPLIANT, NOT_COMPLIANT}" by (simp add: control_status_def)
    ultimately show ?thesis by simp
  qed
qed

text \<open>The results that the evaluation of a control makes.\<close>

definition sub_results ::
  "eval_client \<Rightarrow> control_cache \<Rightarrow> fresh \<Rightarrow> TargetOfEvaluation \<Rightarrow> Catalog \<Rightarrow> Control \<Rightarrow> EvaluationResult list \<Rightarrow> EvaluationResult list" where
  "sub_results client m fresh toe catalog control manual =
     (let relevant = relevant_controls toe catalog (map er_ControlId manual) (ctl_Controls control)
      in map (\<lambda>i. subcontrol_result (fresh (i + 1)) toe (relevant ! i) (judged client m toe (relevant ! i))) [0..<length relevant])"

definition own_result ::
  "fresh \<Rightarrow> TargetOfEvaluation \<Rightarrow> Control \<Rightarrow> EvaluationResult list \<Rightarrow> EvaluationResult" where
  "own_result fresh toe control rs =
     control_result (fresh 0) toe control (control_status rs) (concat (map er_FailingAssessmentResultIds (offending rs)))"

definition control_rows ::
  "eval_client \<Rightarrow> control_cache \<Rightarrow> fresh \<Rightarrow> TargetOfEvaluation \<Rightarrow> Catalog \<Rightarrow> Control \<Rightarrow> EvaluationResult list \<Rightarrow> EvaluationResult set" where
  "control_rows client m fresh toe catalog control manual =
     (let subs = sub_results client m fresh toe catalog control manual
      in insert (own_result fresh toe control (subs @ manual)) (set subs))"

text \<open>What no evaluation changes; \<open>T\<close> reads the table of the storage.\<close>

definition eval_keeps ::
  "(EvaluationResult, 'db) table \<Rightarrow> (EvaluationResult, 'db) gorm \<Rightarrow> control_cache \<Rightarrow> ('ctx, 'db, 'sched, 'cc, 'auth, 'opt) evaluation \<Rightarrow> bool" where
  "eval_keeps T g m svc \<longleftrightarrow> gorm_table g T \<and> e_storage svc = g \<and> e_catalogControls svc = m"

interpretation subs: group_tasks
  "\<lambda>i. evaluateSubcontrol client (fresh (i + 1)) (Some toe) (Some (cs ! i))" "eval_keeps T g m"
  "\<lambda>svc. t_rows T (e_db svc)" "\<lambda>i. Some (subcontrol_result (fresh (i + 1)) toe (cs ! i) (judged client m toe (cs ! i)))"
  "\<lambda>i. {subcontrol_result (fresh (i + 1)) toe (cs ! i) (judged client m toe (cs ! i))}" "\<lambda>i. True"
proof (unfold_locales, goal_cases)
  case 1
  then show ?case by (auto simp: eval_keeps_def dest: evaluateSubcontrol_keeps)
next
  case 2
  then show ?case by (auto simp: eval_keeps_def dest: evaluateSubcontrol_ok)
qed

text \<open>An order in which n goroutines may run.\<close>

definition order_of :: "nat \<Rightarrow> nat list \<Rightarrow> bool" where
  "order_of n order \<longleftrightarrow> distinct order \<and> set order = {..<n}"

lemma evaluateControl_keeps:
  assumes "eval_keeps T g m svc" "evaluateControl client fresh order toe catalog control manual svc = (r, svc')"
  shows "eval_keeps T g m svc'"
proof -
  let ?rel = "relevant_controls toe catalog (map er_ControlId manual) (ctl_Controls control)"
  obtain rs svc1 where g: "run_group (\<lambda>i. evaluateSubcontrol client (fresh (i + 1)) (Some toe) (Some (?rel ! i))) order svc = (rs, svc1)"
    by fastforce
  have "eval_keeps T g m svc1" using subs.group_keeps [OF assms(1) g] .
  with assms(2) g show ?thesis
    by (auto simp: evaluateControl_def Let_def eval_keeps_def split: res.splits prod.splits)
qed

lemma evaluateControl_ok:
  assumes k: "eval_keeps T g m svc"
    and order: "order_of (length (relevant_controls toe catalog (map er_ControlId manual) (ctl_Controls control))) order"
    and ok: "evaluateControl client fresh order toe catalog control manual svc = (Ok u, svc')"
  shows "t_rows T (e_db svc') = t_rows T (e_db svc) \<union> control_rows client m fresh toe catalog control manual"
proof -
  let ?rel = "relevant_controls toe catalog (map er_ControlId manual) (ctl_Controls control)"
  let ?subs = "sub_results client m fresh toe catalog control manual"
  let ?own = "own_result fresh toe control (?subs @ manual)"
  obtain rs svc1 where g: "run_group (\<lambda>i. evaluateSubcontrol client (fresh (i + 1)) (Some toe) (Some (?rel ! i))) order svc = (rs, svc1)"
    by fastforce
  have w: "group_Wait rs = Ok ()" using ok g by (auto simp: evaluateControl_def split: res.splits)
  have k1: "eval_keeps T g m svc1" using subs.group_keeps [OF k g] .
  have rows: "t_rows T (e_db svc1) = t_rows T (e_db svc) \<union> set ?subs"
    and mo: "map_of rs = (\<lambda>i. if i \<in> set order then
      Some (Ok (Some (subcontrol_result (fresh (i + 1)) toe (?rel ! i) (judged client m toe (?rel ! i))))) else None)"
    using subs.group_ok [OF k g w] order by (auto simp: sub_results_def Let_def order_of_def)
  have "group_results (length ?rel) rs = map Some ?subs"
    using order by (simp add: group_results_def mo sub_results_def Let_def order_of_def)
  then have "check_results (group_results (length ?rel) rs @ map Some manual) (PENDING, []) =
      Ok (control_status (?subs @ manual), concat (map er_FailingAssessmentResultIds (offending (?subs @ manual))))"
    using check_results_eq [of "?subs @ manual" "[]"] by simp
  then obtain d where d: "storage_Create (e_storage svc1) ?own (e_db svc1) = (Ok (), d)" "svc' = svc1\<lparr>e_db := d\<rparr>"
    using ok g w by (auto simp: evaluateControl_def own_result_def split: prod.splits)
  have "gorm_table (e_storage svc1) T" using k1 by (simp add: eval_keeps_def)
  from gorm_table.st_Create_Ok [OF this d(1)] d(2) rows show ?thesis by (auto simp: control_rows_def Let_def)
qed

interpretation controls: group_tasks
  "\<lambda>j. evaluateControl client (fresh j) (orders j) toe catalog (cs ! j) (manual j)" "eval_keeps T g m"
  "\<lambda>svc. t_rows T (e_db svc)" "\<lambda>j. ()" "\<lambda>j. control_rows client m (fresh j) toe catalog (cs ! j) (manual j)"
  "\<lambda>j. order_of (length (relevant_controls toe catalog (map er_ControlId (manual j)) (ctl_Controls (cs ! j)))) (orders j)"
proof (unfold_locales, goal_cases)
  case 1
  then show ?case by (auto dest: evaluateControl_keeps)
next
  case 2
  then show ?case by (auto dest: evaluateControl_ok)
qed

section \<open>The meaning of the query\<close>

lemma Join_append: "xs \<noteq> [] \<Longrightarrow> ys \<noteq> [] \<Longrightarrow> Join (xs @ ys) sep = Join xs sep @ sep @ Join ys sep"
proof (induction xs rule: induct_list012)
  case (2 x)
  then show ?case by (cases ys) simp_all
qed simp_all

lemma join_and_no_or: "\<forall>f \<in> set fs. frag_ok env col f \<Longrightarrow> TOr \<notin> set (join_and (map fst fs))"
  by (induction fs rule: induct_list012) (auto simp: frag_ok_def)

text \<open>
  A disjunction without parentheses among fragments that are joined by \<open>AND\<close> splits the whole condition: what stands
  before it belongs to its first part and what follows to its second.
\<close>

lemma join_and_or:
  assumes "fs \<noteq> []" "\<forall>f \<in> set fs. frag_ok env col f" "\<forall>f \<in> set gs. frag_ok env col f" "\<not> needs_arg a" "\<not> needs_arg b"
  shows "sql_holds env col (join_and (map fst (fs @ ([TAtom a, TOr, TAtom b], []) # gs)))
      (concat (map snd (fs @ ([TAtom a, TOr, TAtom b], []) # gs))) \<longleftrightarrow>
    (\<forall>f \<in> set fs. sql_holds env col (fst f) (snd f)) \<and> atom_holds env col a VNull \<or>
    atom_holds env col b VNull \<and> (\<forall>f \<in> set gs. sql_holds env col (fst f) (snd f))"
proof -
  let ?P = "\<lambda>fs. \<forall>f \<in> set fs. sql_holds env col (fst f) (snd f)" and ?q = "[TAtom a, TOr, TAtom b]"
  let ?gargs = "concat (map snd gs)"
  have tail: "sql_go env col (join_and (?q # map fst gs)) ?gargs (?P fs) =
      Some (?P fs \<and> atom_holds env col a VNull \<or> atom_holds env col b VNull \<and> ?P gs, [])"
  proof (cases "gs = []")
    case True
    then show ?thesis using assms(4,5) by simp
  next
    case False
    then have "join_and (?q # map fst gs) = ?q @ TAnd # join_and (map fst gs)" by (cases gs) simp_all
    then show ?thesis
      using assms(4,5) join_and_go [OF assms(3), of "[]"]
        sql_go_conj [OF join_and_no_or [OF assms(3)], of env col ?gargs "atom_holds env col b VNull"] by simp
  qed
  have "sql_go env col (join_and (map fst fs) @ TAnd # join_and (?q # map fst gs)) (concat (map snd fs) @ ?gargs) True =
      sql_go env col (join_and (?q # map fst gs)) ?gargs (?P fs)"
    using join_and_go [OF assms(2), of ?gargs] by (simp add: sql_go_append [OF join_and_no_or [OF assms(2)]])
  then have "sql_go env col (join_and (map fst (fs @ (?q, []) # gs))) (concat (map snd (fs @ (?q, []) # gs))) True =
      Some (?P fs \<and> atom_holds env col a VNull \<or> atom_holds env col b VNull \<and> ?P gs, [])"
    using tail Join_append [of "map fst fs" "?q # map fst gs" "[TAnd]"] assms(1) by simp
  then show ?thesis by (simp add: sql_holds_def)
qed

lemma eval_cols [simp]:
  "eval_col r ''cloud_service_id'' = VStr (er_CloudServiceId r)" "eval_col r ''control_id'' = VStr (er_ControlId r)"
  "eval_col r ''control_catalog_id'' = VStr (er_ControlCatalogId r)"
  "eval_col r ''parent_control_id'' = opt_str (er_ParentControlId r)"
  "eval_col r ''status'' = VInt (status_number (er_Status r))" "eval_col r ''valid_until'' = opt_time (er_ValidUntil r)"
  "eval_col r ''timestamp'' = opt_time (er_Timestamp r)"
  by (simp_all add: eval_col_def)

lemma opt_null [simp]: "opt_str s = VNull \<longleftrightarrow> s = None" "opt_time t = VNull \<longleftrightarrow> t = None"
  by (cases s; simp) (cases t; simp)

lemma status_manual [simp]:
  "status_number st = 2 \<longleftrightarrow> st = COMPLIANT_MANUALLY" "status_number st = 4 \<longleftrightarrow> st = NOT_COMPLIANT_MANUALLY"
  by (cases st; simp)+

text \<open>What the conditions of the filter before the last one, and the last one, ask of a result.\<close>

definition passes :: "sqlenv \<Rightarrow> EvaluationFilter \<Rightarrow> EvaluationResult \<Rightarrow> bool" where
  "passes env f r \<longleftrightarrow>
     (\<forall>x. ef_CloudServiceId f = Some x \<longrightarrow> er_CloudServiceId r = x) \<and> (\<forall>x. ef_CatalogId f = Some x \<longrightarrow> er_ControlCatalogId r = x) \<and>
     (\<forall>x. ef_ControlId f = Some x \<longrightarrow> er_ControlId r = x) \<and>
     (\<forall>x. ef_SubControls f = Some x \<longrightarrow> sql_like env (er_ControlId r) (x @ ''%'')) \<and>
     (Deref False (ef_ParentsOnly f) \<longrightarrow> er_ParentControlId r = None)"

definition manually :: "EvaluationResult \<Rightarrow> bool" where
  "manually r \<longleftrightarrow> er_Status r = COMPLIANT_MANUALLY \<or> er_Status r = NOT_COMPLIANT_MANUALLY"

definition still_valid :: "sqlenv \<Rightarrow> EvaluationResult \<Rightarrow> bool" where
  "still_valid env r \<longleftrightarrow> (\<exists>t. er_ValidUntil r = Some t \<and> sql_now env \<le> t)"

definition in_scope :: "bool \<times> string list \<Rightarrow> EvaluationResult \<Rightarrow> bool" where
  "in_scope scope r \<longleftrightarrow> fst scope \<or> er_CloudServiceId r \<in> set (snd scope)"

text \<open>The results that a listing is about.\<close>

definition selected :: "sqlenv \<Rightarrow> EvaluationFilter option \<Rightarrow> bool \<times> string list \<Rightarrow> EvaluationResult \<Rightarrow> bool" where
  "selected env fil scope r \<longleftrightarrow>
     (case fil of
        None \<Rightarrow> in_scope scope r
      | Some f \<Rightarrow>
          if Deref False (ef_ValidManualOnly f)
          then passes env f r \<and> manually r \<and> er_ValidUntil r = None \<or> still_valid env r \<and> in_scope scope r
          else passes env f r \<and> in_scope scope r)"

lemma filter_frags_ok: "\<forall>x \<in> set (filter_frags f). frag_ok env col x"
  by (auto simp: filter_frags_def opt_frag_def split: option.splits)

lemma filter_frags_hold:
  "(\<forall>x \<in> set (filter_frags f). sql_holds env (eval_col r) (fst x) (snd x)) \<longleftrightarrow> passes env f r"
  by (auto simp: filter_frags_def passes_def ball_Un opt_frag_ball)

lemma val_ge_now_valid: "val_ge_now env (opt_time (er_ValidUntil r)) \<longleftrightarrow> still_valid env r"
  by (cases "er_ValidUntil r") (simp_all add: still_valid_def)

lemma eval_frags_hold:
  "sql_holds env (eval_col r) (join_and (map fst (eval_frags fil scope))) (concat (map snd (eval_frags fil scope)))
    \<longleftrightarrow> selected env fil scope r"
proof -
  let ?scope = "if \<not> fst scope then [([TAtom (AIn ''cloud_service_id'')], [VStrs (snd scope)])] else []"
  let ?st = "([TAtom (AIn ''status'')], [VInts [status_number COMPLIANT_MANUALLY, status_number NOT_COMPLIANT_MANUALLY]])"
  have sok: "\<forall>x \<in> set ?scope. frag_ok env (eval_col r) x" by simp
  have sc: "(\<forall>x \<in> set ?scope. sql_holds env (eval_col r) (fst x) (snd x)) \<longleftrightarrow> in_scope scope r"
    by (auto simp: in_scope_def)
  show ?thesis
  proof (cases "\<exists>f. fil = Some f \<and> Deref False (ef_ValidManualOnly f)")
    case True
    then obtain f where f: "fil = Some f" "Deref False (ef_ValidManualOnly f)" by blast
    have "eval_frags fil scope =
        (filter_frags f @ [?st]) @ ([TAtom (AIsNull ''valid_until''), TOr, TAtom (AGeNow ''valid_until'')], []) # ?scope"
      using f by (simp add: eval_frags_def manual_frags_def)
    moreover have "\<forall>x \<in> set (filter_frags f @ [?st]). frag_ok env (eval_col r) x"
      using filter_frags_ok [of f env "eval_col r"] by auto
    moreover have "(\<forall>x \<in> set (filter_frags f @ [?st]). sql_holds env (eval_col r) (fst x) (snd x)) \<longleftrightarrow> passes env f r \<and> manually r"
      using filter_frags_hold [of f env r] by (auto simp: manually_def)
    ultimately show ?thesis
      using join_and_or [of "filter_frags f @ [?st]" env "eval_col r" ?scope "AIsNull ''valid_until''" "AGeNow ''valid_until''"]
        sok sc f by (simp add: selected_def val_ge_now_valid del: append_assoc append_Cons map_append concat_append)
  next
    case False
    then have "eval_frags fil scope = (case fil of None \<Rightarrow> [] | Some f \<Rightarrow> filter_frags f) @ ?scope"
      by (auto simp: eval_frags_def split: option.splits)
    moreover have "\<forall>x \<in> set ((case fil of None \<Rightarrow> [] | Some f \<Rightarrow> filter_frags f) @ ?scope). frag_ok env (eval_col r) x"
      using sok filter_frags_ok by (cases fil) auto
    ultimately show ?thesis
      using join_and_holds [of "(case fil of None \<Rightarrow> [] | Some f \<Rightarrow> filter_frags f) @ ?scope" env "eval_col r"] sc False
        filter_frags_hold [of _ env r]
      by (cases fil) (auto simp: selected_def ball_Un simp del: map_append concat_append)
  qed
qed

lemma eval_table_holds:
  assumes "has_schema T eval_key eval_col"
  shows "t_holds T d (frag_conds (eval_frags fil scope)) r \<longleftrightarrow> selected (t_env T d) fil scope r"
proof -
  let ?q = "join_and (map fst (eval_frags fil scope))" and ?args = "concat (map snd (eval_frags fil scope))"
  have "?q = [] \<or> sql_holds (t_env T d) (eval_col r) ?q ?args \<longleftrightarrow> sql_holds (t_env T d) (eval_col r) ?q ?args"
    by (cases "?q = []") (simp_all add: sql_holds_def)
  then have "t_holds T d (frag_conds (eval_frags fil scope)) r \<longleftrightarrow> sql_holds (t_env T d) (eval_col r) ?q ?args"
    using assms by (simp add: t_holds_def frag_conds_def BuildConds_def has_schema_def o_def)
  then show ?thesis by (simp only: eval_frags_hold)
qed

lemma eval_table_where:
  assumes "has_schema T eval_key eval_col"
  shows "t_where T d (rq_where (eval_query fil (eval_frags fil scope))) (concat (map snd (eval_frags fil scope))) r \<longleftrightarrow>
    selected (t_env T d) fil scope r"
proof (cases "eval_frags fil scope = []")
  case True
  then show ?thesis using eval_frags_hold [of "t_env T d" r fil scope] by (simp add: t_where_def eval_query_def sql_holds_def)
next
  case False
  then show ?thesis
    using assms eval_frags_hold [of "t_env T d" r fil scope] by (simp add: t_where_def eval_query_def has_schema_def)
qed

lemma selected_col: "eval_col r = eval_col r' \<Longrightarrow> selected env fil scope r = selected env fil scope r' \<and> passes env f r = passes env f r' \<and>
    er_CloudServiceId r = er_CloudServiceId r'"
proof -
  assume eq: "eval_col r = eval_col r'"
  have "er_CloudServiceId r = er_CloudServiceId r'" "er_ControlId r = er_ControlId r'" "er_ControlCatalogId r = er_ControlCatalogId r'"
    "opt_str (er_ParentControlId r) = opt_str (er_ParentControlId r')" "status_number (er_Status r) = status_number (er_Status r')"
    "opt_time (er_ValidUntil r) = opt_time (er_ValidUntil r')"
    using fun_cong [OF eq, of "''cloud_service_id''"] fun_cong [OF eq, of "''control_id''"] fun_cong [OF eq, of "''control_catalog_id''"]
      fun_cong [OF eq, of "''parent_control_id''"] fun_cong [OF eq, of "''status''"] fun_cong [OF eq, of "''valid_until''"] by simp_all
  moreover then have "er_ParentControlId r = er_ParentControlId r'"
    by (cases "er_ParentControlId r"; cases "er_ParentControlId r'") simp_all
  moreover have "er_ValidUntil r = er_ValidUntil r'" using calculation
    by (cases "er_ValidUntil r"; cases "er_ValidUntil r'") simp_all
  moreover have "manually r = manually r'" using calculation by (simp add: manually_def flip: status_manual)
  ultimately show ?thesis
    by (simp add: selected_def passes_def in_scope_def still_valid_def cong: if_cong split: option.split)
qed

text \<open>Every result of a listing is selected, and the grouped listing has all selected controls.\<close>

lemma ListEvaluationResults_selected:
  assumes "gorm_table (e_storage svc) T" "has_schema T eval_key eval_col" "v req = None"
    "ListEvaluationResults pb v ctx (Some req) svc = Ok (results, npt)" "r \<in> set results"
  shows "selected (t_env T (e_db svc)) (ler_Filter req) (az_AllowedCloudServices (e_authz svc) ctx) r"
proof -
  let ?scope = "az_AllowedCloudServices (e_authz svc) ctx"
  let ?fs = "eval_frags (ler_Filter req) ?scope"
  show ?thesis
  proof (cases "Deref False (ler_LatestByControlId req)")
    case True
    with assms(3,4) have "gorm_Raw (e_storage svc) (eval_query (ler_Filter req) ?fs) (concat (map snd ?fs)) (e_db svc) = Ok results"
      by (auto simp: ListEvaluationResults_def Let_def storage_Raw_def split: res.splits if_splits)
    from gorm_table.raw_sound [OF assms(1) this assms(5)] show ?thesis by (simp add: eval_table_where [OF assms(2)])
  next
    case False
    with assms(3,4) have pg: "PaginateStorage pb req (e_storage svc) DefaultPaginationOpts (frag_conds ?fs) (e_db svc) = Ok (results, npt)"
      by (auto simp: ListEvaluationResults_def Let_def split: res.splits if_splits)
    from PaginateStorage_sound [OF assms(1) pg frag_conds_simps(2,1) assms(5)] obtain x
      where x: "t_holds T (e_db svc) (frag_conds ?fs) x" "r = t_load T PreloadAssociations (e_db svc) x" by blast
    have "eval_col r = eval_col x"
      using gorm_table.load_col [OF assms(1)] assms(2) x(2) by (simp add: has_schema_def)
    from selected_col [OF this] x(1) show ?thesis by (simp only: eval_table_holds [OF assms(2)])
  qed
qed

lemma ListAllPaginated_single:
  "lst (set_page_token [] req) = Ok (xs, []) \<Longrightarrow> ListAllPaginated set_page_token lst snd fst req = Some (Ok xs)"
  by (simp add: ListAllPaginated_def ListAllPaginated_loop.simps)

section \<open>Properties\<close>

text \<open>
  A listing of evaluation results stays within the access rights of the caller, paginated or grouped, with
  every filter; a filter on a cloud service outside of them is refused. Without the condition on
  manual results, each result also passes the filter.
\<close>

lemma ListEvaluationResults_scope:
  assumes "gorm_table (e_storage svc) T" "has_schema T eval_key eval_col" "authz_strategy (e_authz svc)" "v req = None"
    "[] \<notin> set (snd (az_AllowedCloudServices (e_authz svc) ctx))"
  shows "(\<forall>results npt r. ListEvaluationResults pb v ctx (Some req) svc = Ok (results, npt) \<and> r \<in> set results \<longrightarrow>
      az_CheckAccess (e_authz svc) ctx typ (er_CloudServiceId r) \<and>
      (\<forall>f. ler_Filter req = Some f \<and> ef_ValidManualOnly f \<noteq> Some True \<longrightarrow> passes (t_env T (e_db svc)) f r)) \<and>
    (\<forall>f csid. ler_Filter req = Some f \<and> ef_CloudServiceId f = Some csid \<and> \<not> az_CheckAccess (e_authz svc) ctx typ csid \<longrightarrow>
      ListEvaluationResults pb v ctx (Some req) svc = Err ErrPermissionDenied)"
proof (intro conjI allI impI; elim conjE)
  note az = authz_strategy.check_iff_allowed [OF assms(3), of ctx]
  fix results npt r
  assume ok: "ListEvaluationResults pb v ctx (Some req) svc = Ok (results, npt)" and r: "r \<in> set results"
  note sel = ListEvaluationResults_selected [OF assms(1,2,4) ok r]
  show "az_CheckAccess (e_authz svc) ctx typ (er_CloudServiceId r)"
  proof (cases "ler_Filter req")
    case None
    with sel show ?thesis by (simp add: selected_def in_scope_def az)
  next
    case (Some f)
    with ok assms(4) have "az_CheckAccess (e_authz svc) ctx AccessRead (Deref [] (ef_CloudServiceId f))"
      by (simp add: ListEvaluationResults_def Let_def split: if_splits)
    with Some sel assms(5) show ?thesis
      by (cases "ef_CloudServiceId f") (auto simp: selected_def in_scope_def az passes_def split: if_splits)
  qed
  fix f
  assume "ler_Filter req = Some f" "ef_ValidManualOnly f \<noteq> Some True"
  with sel show "passes (t_env T (e_db svc)) f r"
    by (cases "ef_ValidManualOnly f") (auto simp: selected_def split: if_splits)
next
  fix f csid
  assume "ler_Filter req = Some f" "ef_CloudServiceId f = Some csid" "\<not> az_CheckAccess (e_authz svc) ctx typ csid"
  then show "ListEvaluationResults pb v ctx (Some req) svc = Err ErrPermissionDenied"
    using assms(4) authz_strategy.check_type_irrelevant [OF assms(3), of ctx AccessRead csid "typ"]
    by (simp add: ListEvaluationResults_def Let_def)
qed

definition sample_manual :: EvaluationResult where
  "sample_manual = \<lparr> er_Id = ''m1'', er_CloudServiceId = ''u2'', er_ControlId = ''OPS-01'', er_ControlCategoryName = ''OPS'',
     er_ControlCatalogId = ''C5'', er_ParentControlId = None, er_Status = COMPLIANT_MANUALLY, er_Timestamp = Some 1,
     er_FailingAssessmentResultIds = [], er_Comment = None, er_ValidUntil = Some 9 \<rparr>"

definition new_eval ::
  "'ctx AuthorizationStrategy \<Rightarrow> 'sched \<Rightarrow> EvaluationResult list \<Rightarrow> control_cache \<Rightarrow> ('ctx, mem_db, 'sched, unit, unit, unit) evaluation" where
  "new_eval az sched rs m =
     \<lparr> e_orchestrator = NewRPCConnection DefaultOrchestratorAddress_ev [], e_scheduler = sched, e_authz = az,
       e_storage = mem_gorm mt_EvaluationResult, e_db = empty_db\<lparr>md_EvaluationResult := rs\<rparr>, e_catalogControls = m \<rparr>"

lemma new_eval_simps [simp]:
  "e_scheduler (new_eval az sched rs m) = sched" "e_authz (new_eval az sched rs m) = az"
  "e_storage (new_eval az sched rs m) = mem_gorm mt_EvaluationResult"
  "e_db (new_eval az sched rs m) = empty_db\<lparr>md_EvaluationResult := rs\<rparr>" "e_catalogControls (new_eval az sched rs m) = m"
  by (simp_all add: new_eval_def)

text \<open>
  C21: a control is evaluated from the results of its relevant sub-controls and its valid manual results, in whatever order
  its goroutines run. One result is stored for it. The status is pending if and only if all of these are pending; it is
  compliant only if some are compliant and the others pending, and without pending ones if and only if
  all are compliant; a result that is neither makes it not compliant. Pending results in front of compliant ones are
  passed over, behind them they make the control not compliant.
\<close>

theorem evaluateControl_status:
  assumes "gorm_table (e_storage svc) T"
    "order_of (length (relevant_controls toe catalog (map er_ControlId manual) (ctl_Controls control))) order"
    "evaluateControl client fresh order toe catalog control manual svc = (Ok u, svc')"
    "rs = sub_results client (e_catalogControls svc) fresh toe catalog control manual @ manual"
  shows "\<exists>own \<in> t_rows T (e_db svc'). er_ControlId own = ctl_Id control \<and> er_CloudServiceId own = toe_CloudServiceId toe \<and>
    er_ControlCatalogId own = toe_CatalogId toe \<and>
    (er_Status own = PENDING \<longleftrightarrow> (\<forall>r \<in> set rs. is_pending r)) \<and>
    (er_Status own = COMPLIANT \<longrightarrow> (\<forall>r \<in> set rs. is_pending r \<or> is_compliant r) \<and> (\<exists>r \<in> set rs. is_compliant r)) \<and>
    (rs \<noteq> [] \<and> (\<forall>r \<in> set rs. \<not> is_pending r) \<longrightarrow> (er_Status own = COMPLIANT \<longleftrightarrow> (\<forall>r \<in> set rs. is_compliant r))) \<and>
    ((\<exists>r \<in> set rs. \<not> is_pending r \<and> \<not> is_compliant r) \<longrightarrow> er_Status own = NOT_COMPLIANT) \<and>
    (\<forall>c p. is_compliant c \<and> is_pending p \<longrightarrow>
       (rs = [p, c] \<longrightarrow> er_Status own = COMPLIANT) \<and> (rs = [c, p] \<longrightarrow> er_Status own = NOT_COMPLIANT))"
proof -
  let ?own = "own_result fresh toe control rs"
  have "eval_keeps T (e_storage svc) (e_catalogControls svc) svc" using assms(1) by (simp add: eval_keeps_def)
  from evaluateControl_ok [OF this assms(2,3)] have "?own \<in> t_rows T (e_db svc')"
    by (simp add: control_rows_def Let_def assms(4))
  moreover have "er_Status ?own = control_status rs" "er_ControlId ?own = ctl_Id control"
    "er_CloudServiceId ?own = toe_CloudServiceId toe" "er_ControlCatalogId ?own = toe_CatalogId toe"
    by (simp_all add: own_result_def control_result_def)
  moreover have "(rs = [p, c] \<longrightarrow> control_status rs = COMPLIANT) \<and> (rs = [c, p] \<longrightarrow> control_status rs = NOT_COMPLIANT)"
    if "is_compliant c" "is_pending p" for c p
    using that by (auto simp: control_status_def offending_def)
  ultimately show ?thesis using control_status_facts [where rs = rs] by (intro bexI [of _ ?own]) auto
qed

text \<open>A small catalog for examples: a control with one sub-control that has one metric.\<close>

definition ops_toe :: TargetOfEvaluation where
  "ops_toe = \<lparr> toe_CloudServiceId = ''u1'', toe_CatalogId = ''C5'', toe_AssuranceLevel = None \<rparr>"

definition ops_metric :: Metric where
  "ops_metric = \<lparr> m_Id = ''TLS'', m_Name = [], m_Description = [], m_Category = [], m_Scale = NOMINAL, m_Range = None,
     m_Interval = 0, m_Implementation = None, m_DeprecatedSince = None \<rparr>"

definition ops_sub :: Control where
  "ops_sub = Control ''OPS-01.1'' ''OPS'' ''C5'' [] [] [] [ops_metric] (Some ''OPS-01'') (Some ''OPS'') (Some ''C5'') None"

definition ops_control :: Control where
  "ops_control = Control ''OPS-01'' ''OPS'' ''C5'' [] [] [ops_sub] [] None None None None"

definition ops_cache :: control_cache where
  "ops_cache = [''C5'' \<mapsto> store_controls [ops_control, ops_sub] []]"

definition ops_client :: "AssessmentResult list \<Rightarrow> eval_client" where
  "ops_client rs = \<lparr> ec_GetTargetOfEvaluation = (\<lambda>_. Ok ops_toe), ec_GetCatalog = (\<lambda>_. Ok (empty_Catalog\<lparr>ca_Id := ''C5''\<rparr>)),
     ec_ListControls = (\<lambda>_. Ok ([ops_control, ops_sub], [])), ec_ListAssessmentResults = (\<lambda>_. Ok (rs, [])) \<rparr>"

definition ops_fresh :: fresh where
  "ops_fresh n = (replicate n CHR ''a'', 7)"

lemma ops_relevant [simp]: "IsRelevantFor c ops_toe empty_Catalog"
  by (simp add: IsRelevantFor_def empty_Catalog_def)

lemma ops_judged: "judged (ops_client [sample_result]) ops_cache ops_toe ops_sub = [sample_result]"
  by (simp add: judged_def getAllMetricsFromControl_def getControl_def cached_controls_def ops_cache_def ops_toe_def ops_sub_def
      ops_control_def control_tag_def list_assessments_def ops_client_def ListAllPaginated_single)

lemma ops_metrics:
  "getAllMetricsFromControl ''C5'' ''OPS'' ''OPS-01.1'' ops_cache = Ok [ops_metric]"
  by (simp add: getAllMetricsFromControl_def getControl_def cached_controls_def ops_cache_def ops_sub_def ops_control_def control_tag_def)

lemma new_eval_create:
  assumes "distinct (map er_Id (rs @ [r]))"
  shows "storage_Create (mem_gorm mt_EvaluationResult) r (empty_db\<lparr>md_EvaluationResult := rs\<rparr>) =
      (Ok (), empty_db\<lparr>md_EvaluationResult := rs @ [r]\<rparr>)"
proof -
  have "distinct (map eval_key rs)" using assms by (simp add: distinct_map inj_on_def eval_key_def)
  then have "dedup eval_key rs = rs" by (rule dedup_id)
  then have "mt_list mt_EvaluationResult (empty_db\<lparr>md_EvaluationResult := rs\<rparr>) = rs" by simp
  moreover have "eval_key r \<notin> eval_key ` set rs" using assms by (auto simp: eval_key_def)
  ultimately show ?thesis
    by (simp add: storage_Create_def mem_gorm_def mt_EvaluationResult_def)
qed

lemma new_eval_update [simp]: "(new_eval az sched rs m)\<lparr>e_db := empty_db\<lparr>md_EvaluationResult := rs'\<rparr>\<rparr> = new_eval az sched rs' m"
  by (simp add: new_eval_def)

lemma ops_evaluateSubcontrol:
  "evaluateSubcontrol (ops_client [sample_result]) (ops_fresh 1) (Some ops_toe) (Some ops_sub) (new_eval strategy_AllowAll () [] ops_cache) =
     (Ok (Some (subcontrol_result (ops_fresh 1) ops_toe ops_sub [sample_result])),
      new_eval strategy_AllowAll () [subcontrol_result (ops_fresh 1) ops_toe ops_sub [sample_result]] ops_cache)"
proof -
  have "list_assessments (ops_client [sample_result]) ops_toe [ops_metric] = Ok [sample_result]"
    by (simp add: list_assessments_def ops_client_def ListAllPaginated_single)
  moreover have "getAllMetricsFromControl (toe_CatalogId ops_toe) (ctl_CategoryName ops_sub) (ctl_Id ops_sub) ops_cache = Ok [ops_metric]"
    using ops_metrics by (simp add: ops_toe_def ops_sub_def)
  ultimately show ?thesis
    using new_eval_create [of "[]"] by (simp add: evaluateSubcontrol_def Let_def)
qed

lemma ops_evaluateControl:
  "evaluateControl (ops_client [sample_result]) ops_fresh [0] ops_toe empty_Catalog ops_control [] (new_eval strategy_AllowAll () [] ops_cache) =
     (Ok (), new_eval strategy_AllowAll () [subcontrol_result (ops_fresh 1) ops_toe ops_sub [sample_result],
        control_result (ops_fresh 0) ops_toe ops_control COMPLIANT []] ops_cache)"
proof -
  let ?r = "subcontrol_result (ops_fresh 1) ops_toe ops_sub [sample_result]"
  let ?c = "control_result (ops_fresh 0) ops_toe ops_control COMPLIANT []"
  have "relevant_controls ops_toe empty_Catalog [] (ctl_Controls ops_control) = [ops_sub]"
    by (simp add: relevant_controls_def ops_control_def)
  moreover have "er_Status ?r = COMPLIANT" by (simp add: subcontrol_result_status status_of_def sample_result_def)
  moreover have "distinct (map er_Id ([?r] @ [?c]))"
    by (simp add: subcontrol_result_def control_result_def ops_fresh_def split: prod.split)
  from new_eval_create [OF this]
  have "storage_Create (mem_gorm mt_EvaluationResult) ?c (empty_db\<lparr>md_EvaluationResult := [?r]\<rparr>) = (Ok (), empty_db\<lparr>md_EvaluationResult := [?r, ?c]\<rparr>)"
    by simp
  ultimately show ?thesis
    by (simp add: evaluateControl_def Let_def group_results_def ops_evaluateSubcontrol [unfolded One_nat_def])
qed

theorem evaluateControl_status_witness:
  "\<exists>own \<in> t_rows (mem_sem mt_EvaluationResult) (e_db (new_eval strategy_AllowAll ()
      [subcontrol_result (ops_fresh 1) ops_toe ops_sub [sample_result], control_result (ops_fresh 0) ops_toe ops_control COMPLIANT []] ops_cache
      :: (unit, mem_db, unit, unit, unit, unit) evaluation)).
     er_ControlId own = ''OPS-01'' \<and> er_Status own = COMPLIANT"
proof -
  have rel: "relevant_controls ops_toe empty_Catalog [] (ctl_Controls ops_control) = [ops_sub]"
    by (simp add: relevant_controls_def ops_control_def)
  let ?r = "subcontrol_result (ops_fresh 1) ops_toe ops_sub [sample_result]"
  let ?svc = "new_eval strategy_AllowAll () [] ops_cache :: (unit, mem_db, unit, unit, unit, unit) evaluation"
  have subs: "[?r] = sub_results (ops_client [sample_result]) (e_catalogControls ?svc) ops_fresh ops_toe empty_Catalog ops_control [] @ []"
    using ops_judged by (simp add: sub_results_def rel)
  have st: "er_Status ?r = COMPLIANT" by (simp add: subcontrol_result_status status_of_def sample_result_def)
  have ord: "order_of (length (relevant_controls ops_toe empty_Catalog (map er_ControlId []) (ctl_Controls ops_control))) [0]"
    by (auto simp: rel order_of_def)
  have ax: "gorm_table (e_storage ?svc) (mem_sem mt_EvaluationResult)" using mem_eval.gorm_table_axioms by simp
  show ?thesis
    using evaluateControl_status [OF ax ord ops_evaluateControl subs] st
    by (elim bexE conjE, intro bexI conjI) (simp_all add: ops_control_def)
qed

text \<open>
  C4: the evaluation of a catalog refines its specification: however the goroutines of controls and sub-controls are
  ordered, a successful run adds exactly the results of the relevant top-level controls without a valid manual result, and of their
  relevant sub-controls without one.
\<close>

theorem evaluateCatalog_rows:
  assumes "gorm_table (e_storage svc) T"
    and lst: "ListEvaluationResults pb v bg (Some (manual_request toe)) svc = Ok (results, [])"
    and rel: "relevant = relevant_controls toe catalog (ignored_controls results)
      (filter (\<lambda>c. ctl_ParentControlId c = None) (catalog_controls (toe_CatalogId toe) (e_catalogControls svc)))"
    and orders: "order_of (length relevant) order"
      "\<forall>j < length relevant. order_of (length (relevant_controls toe catalog
         (map er_ControlId (manual_for results (ctl_Id (relevant ! j)))) (ctl_Controls (relevant ! j)))) (orders j)"
    and ok: "evaluateCatalog pb v bg client fresh order orders toe catalog svc = (Ok u, svc')"
  shows "t_rows T (e_db svc') = t_rows T (e_db svc) \<union>
    (\<Union>j < length relevant. control_rows client (e_catalogControls svc) (fresh j) toe catalog (relevant ! j)
       (manual_for results (ctl_Id (relevant ! j))))"
proof -
  let ?m = "e_catalogControls svc" and ?manual = "\<lambda>j. manual_for results (ctl_Id (relevant ! j))"
  let ?task = "\<lambda>j. evaluateControl client (fresh j) (orders j) toe catalog (relevant ! j) (?manual j)"
  have l: "ListAllPaginated set_page_token (\<lambda>req. ListEvaluationResults pb v bg (Some req) svc) snd fst (manual_request toe) = Some (Ok results)"
    using lst by (intro ListAllPaginated_single) (simp add: manual_request_def)
  obtain rs svc1 where g: "run_group ?task order svc = (rs, svc1)" by fastforce
  then have w: "group_Wait rs = Ok ()" "svc' = svc1" using ok l rel by (simp_all add: evaluateCatalog_def Let_def)
  have "eval_keeps T (e_storage svc) ?m svc" using assms(1) by (simp add: eval_keeps_def)
  from controls.group_ok [OF this g w(1)] orders w(2) show ?thesis by (auto simp: order_of_def)
qed

lemma ops_catalog:
  "catalog_controls ''C5'' ops_cache = [ops_control, ops_sub]"
  "relevant_controls ops_toe empty_Catalog (ignored_controls [])
     (filter (\<lambda>c. ctl_ParentControlId c = None) (catalog_controls ''C5'' ops_cache)) = [ops_control]"
proof -
  show c: "catalog_controls ''C5'' ops_cache = [ops_control, ops_sub]"
    by (simp add: catalog_controls_def cached_controls_def ops_cache_def control_tag_def)
      (simp add: ops_control_def ops_sub_def control_tag_def)
  show "relevant_controls ops_toe empty_Catalog (ignored_controls [])
     (filter (\<lambda>c. ctl_ParentControlId c = None) (catalog_controls ''C5'' ops_cache)) = [ops_control]"
    by (simp add: c relevant_controls_def ignored_controls_def) (simp add: ops_control_def ops_sub_def)
qed

lemma ops_manual:
  "ListEvaluationResults unary_proto (\<lambda>_. None) ctx (Some (manual_request ops_toe)) (new_eval strategy_AllowAll () [] ops_cache) = Ok ([], [])"
  by (simp add: ListEvaluationResults_def manual_request_def storage_Raw_def mem_gorm_def latest_def)

theorem evaluateCatalog_rows_witness:
  "control_rows (ops_client [sample_result]) ops_cache ops_fresh ops_toe empty_Catalog ops_control [] \<subseteq>
     t_rows (mem_sem mt_EvaluationResult) (e_db (snd (evaluateCatalog unary_proto (\<lambda>_. None) () (ops_client [sample_result]) (\<lambda>_. ops_fresh)
       [0] (\<lambda>_. [0]) ops_toe empty_Catalog
       (new_eval strategy_AllowAll () [] ops_cache :: (unit, mem_db, unit, unit, unit, unit) evaluation))))"
proof -
  let ?svc = "new_eval strategy_AllowAll () [] ops_cache :: (unit, mem_db, unit, unit, unit, unit) evaluation"
  let ?run = "evaluateCatalog unary_proto (\<lambda>_. None) () (ops_client [sample_result]) (\<lambda>_. ops_fresh) [0] (\<lambda>_. [0]) ops_toe empty_Catalog ?svc"
  have cat: "toe_CatalogId ops_toe = ''C5''" by (simp add: ops_toe_def)
  have m: "manual_for [] c = []" for c by (simp add: manual_for_def)
  have "ListAllPaginated set_page_token (\<lambda>req. ListEvaluationResults unary_proto (\<lambda>_. None) () (Some req) ?svc) snd fst (manual_request ops_toe) = Some (Ok [])"
    using ops_manual by (intro ListAllPaginated_single) (simp add: manual_request_def)
  then obtain svc' where ok: "?run = (Ok (), svc')"
    by (simp add: evaluateCatalog_def cat ops_catalog(2) m ops_evaluateControl)
  have ax: "gorm_table (e_storage ?svc) (mem_sem mt_EvaluationResult)" using mem_eval.gorm_table_axioms by simp
  have "relevant_controls ops_toe empty_Catalog [] (ctl_Controls ops_control) = [ops_sub]"
    by (simp add: relevant_controls_def ops_control_def)
  with evaluateCatalog_rows [OF ax ops_manual refl _ _ ok] show ?thesis
    by (simp add: cat ops_catalog(2) ok m order_of_def lessThan_Suc)
qed



end
