(* ===== verification/Eval_Jobs.thy ===== *)
theory Eval_Jobs
  imports Eval_Status
begin

text \<open>
  The jobs of the evaluation service: what starting and stopping evaluations does to the jobs of the scheduler,
  and the invariant of all its states.
\<close>

section \<open>Jobs\<close>

definition has_tags :: "string list \<Rightarrow> string list \<times> 'ctx eval_job \<Rightarrow> bool" where
  "has_tags tags job \<longleftrightarrow> set tags \<subseteq> set (fst job)"

text \<open>
  What gocron documents of a scheduler with the given jobs (tags and call): jobs are found and removed by having all tags, a
  job is added at the end or not at all, and starting the scheduler changes no job.
\<close>

definition scheduler_ok :: "('ctx, 'sched) gocron \<Rightarrow> ('sched \<Rightarrow> (string list \<times> 'ctx eval_job) list) \<Rightarrow> bool" where
  "scheduler_ok gc jobs \<longleftrightarrow>
     (\<forall>s. jobs (gc_StartAsync gc s) = jobs s) \<and>
     (\<forall>tags s. gc_FindJobsByTag gc tags s =
        (if filter (has_tags tags) (jobs s) = [] then Err ErrJobNotFoundWithTag else Ok (map snd (filter (has_tags tags) (jobs s))))) \<and>
     (\<forall>tags s. fst (gc_RemoveByTags gc tags s) = (if filter (has_tags tags) (jobs s) = [] then Err ErrJobNotFoundWithTag else Ok ())) \<and>
     (\<forall>tags s. jobs (snd (gc_RemoveByTags gc tags s)) = filter (\<lambda>j. \<not> has_tags tags j) (jobs s)) \<and>
     (\<forall>n tags j s r s'. gc_Do gc n tags j s = (r, s') \<longrightarrow>
        (r = Ok () \<and> jobs s' = jobs s @ [(tags, j)]) \<or> ((\<exists>e. r = Err e) \<and> jobs s' = jobs s))"

text \<open>The orchestrator gives the target of evaluation that was asked for.\<close>

definition toe_client :: "eval_client \<Rightarrow> bool" where
  "toe_client client \<longleftrightarrow>
     (\<forall>req toe. ec_GetTargetOfEvaluation client req = Ok toe \<longrightarrow>
        toe_CloudServiceId toe = gte_CloudServiceId req \<and> toe_CatalogId toe = gte_CatalogId req)"

text \<open>
  The states that the service goes through: calls of its handlers, and runs of the scheduler's jobs, in any order and with any outcome.
\<close>

inductive eval_reach ::
  "('ctx, 'sched) gocron \<Rightarrow> ('sched \<Rightarrow> (string list \<times> 'ctx eval_job) list) \<Rightarrow>
   ('ctx, 'db, 'sched, 'cc, 'auth, 'opt) evaluation \<Rightarrow> bool" for gc jobs where
  init: "jobs (e_scheduler svc) = [] \<Longrightarrow> eval_reach gc jobs svc"
| start: "eval_reach gc jobs svc \<Longrightarrow> toe_client client \<Longrightarrow> StartEvaluation gc client v ctx req svc = (r, svc') \<Longrightarrow> eval_reach gc jobs svc'"
| stop: "eval_reach gc jobs svc \<Longrightarrow> StopEvaluation gc v' ctx req' svc = (r', svc') \<Longrightarrow> eval_reach gc jobs svc'"
| create: "eval_reach gc jobs svc \<Longrightarrow> CreateEvaluationResult v'' uuid ctx req'' svc = (r'', svc') \<Longrightarrow> eval_reach gc jobs svc'"
| run: "eval_reach gc jobs svc \<Longrightarrow> (tags, j) \<in> set (jobs (e_scheduler svc)) \<Longrightarrow>
    evaluateCatalog pb vl bg client fresh order orders (ej_toe j) (ej_catalog j) svc = (rr, svc') \<Longrightarrow> eval_reach gc jobs svc'"

lemma evaluateControl_scheduler:
  assumes "evaluateControl client fresh order toe catalog control manual svc = (r, svc')"
  shows "e_scheduler svc' = e_scheduler svc"
proof -
  let ?rel = "relevant_controls toe catalog (map er_ControlId manual) (ctl_Controls control)"
  obtain rs svc1 where g: "run_group (\<lambda>i. evaluateSubcontrol client (fresh (i + 1)) (Some toe) (Some (?rel ! i))) order svc = (rs, svc1)"
    by fastforce
  have "e_scheduler svc1 = e_scheduler svc"
    by (rule run_group_keeps [of "\<lambda>s. e_scheduler s = e_scheduler svc", OF _ _ g]) (auto dest: evaluateSubcontrol_keeps)
  with assms g show ?thesis by (auto simp: evaluateControl_def Let_def split: res.splits prod.splits)
qed

lemma evaluateCatalog_scheduler:
  assumes "evaluateCatalog pb v bg client fresh order orders toe catalog svc = (r, svc')"
  shows "e_scheduler svc' = e_scheduler svc"
proof -
  have "e_scheduler s' = e_scheduler svc"
    if "run_group (\<lambda>j. evaluateControl client (fresh j) (orders j) toe catalog (cs ! j) (manual j)) order svc = (rs, s')" for cs manual rs s'
    by (rule run_group_keeps [of "\<lambda>s. e_scheduler s = e_scheduler svc", OF _ _ that]) (auto dest: evaluateControl_scheduler)
  with assms show ?thesis
    by (auto simp: evaluateCatalog_def Let_def split: option.splits res.splits prod.splits)
qed

lemma cacheControls_scheduler: "cacheControls client cat svc = (r, svc') \<Longrightarrow> e_scheduler svc' = e_scheduler svc"
  by (auto simp: cacheControls_def split: if_splits option.splits res.splits)

lemma CreateEvaluationResult_scheduler: "CreateEvaluationResult v uuid ctx req svc = (r, svc') \<Longrightarrow> e_scheduler svc' = e_scheduler svc"
  by (auto simp: CreateEvaluationResult_def Let_def split: if_splits option.splits res.splits prod.splits)

lemma scheduler_okD:
  assumes "scheduler_ok gc jobs"
  shows "jobs (gc_StartAsync gc s) = jobs s"
    "filter (has_tags tags) (jobs s) = [] \<Longrightarrow> gc_FindJobsByTag gc tags s = Err ErrJobNotFoundWithTag"
    "filter (has_tags tags) (jobs s) \<noteq> [] \<Longrightarrow> gc_FindJobsByTag gc tags s = Ok (map snd (filter (has_tags tags) (jobs s)))"
    "gc_RemoveByTags gc tags s = (r', s') \<Longrightarrow>
       r' = (if filter (has_tags tags) (jobs s) = [] then Err ErrJobNotFoundWithTag else Ok ()) \<and> jobs s' = filter (\<lambda>j. \<not> has_tags tags j) (jobs s)"
    "gc_Do gc n tags j s = (r, s') \<Longrightarrow> (r = Ok () \<and> jobs s' = jobs s @ [(tags, j)]) \<or> ((\<exists>e. r = Err e) \<and> jobs s' = jobs s)"
  using assms unfolding scheduler_ok_def by (metis fst_conv snd_conv)+

text \<open>What \<open>StartEvaluation\<close> does to the jobs: it adds one for the target if there was none, or nothing.\<close>

lemma schedule_evaluation_jobs:
  assumes "scheduler_ok gc jobs" "schedule_evaluation gc ctx req toe catalog svc = (r, svc')"
  shows "(r = Ok True \<and> filter (has_tags [sev_CloudServiceId req, sev_CatalogId req]) (jobs (e_scheduler svc)) = [] \<and>
      (\<exists>n. n \<noteq> 0 \<and> jobs (e_scheduler svc') = jobs (e_scheduler svc) @ [([toe_CloudServiceId toe, toe_CatalogId toe],
         \<lparr> ej_ctx = ctx, ej_toe = toe, ej_catalog = catalog, ej_interval = n \<rparr>)])) \<or>
    ((\<exists>e. r = Err e) \<and> jobs (e_scheduler svc') = jobs (e_scheduler svc) \<and>
      (filter (has_tags [sev_CloudServiceId req, sev_CatalogId req]) (jobs (e_scheduler svc)) \<noteq> [] \<longrightarrow> res_code r = Some AlreadyExists))"
proof (cases "filter (has_tags [sev_CloudServiceId req, sev_CatalogId req]) (jobs (e_scheduler svc)) = []")
  case False
  note scheduler_okD(3) [OF assms(1) this]
  with assms(2) False have "res_code r = Some AlreadyExists \<and> svc' = svc" by (auto simp: schedule_evaluation_def Let_def)
  moreover then have "\<exists>e. r = Err e" by (cases r) simp_all
  ultimately show ?thesis by simp
next
  case True
  define n where "n = (if Deref 0 (sev_Interval req) = 0 then defaultInterval else Deref 0 (sev_Interval req))"
  let ?job = "\<lparr> ej_ctx = ctx, ej_toe = toe, ej_catalog = catalog, ej_interval = n \<rparr>"
  let ?tags = "[toe_CloudServiceId toe, toe_CatalogId toe]"
  obtain r1 sch where g: "gc_Do gc n ?tags ?job (e_scheduler svc) = (r1, sch)" by fastforce
  have n: "n \<noteq> 0" by (simp add: n_def defaultInterval_def)
  note d = scheduler_okD(5) [OF assms(1) g]
  note f = scheduler_okD(2) [OF assms(1) True]
  show ?thesis
  proof (cases r1)
    case (Ok u)
    then have "r = Ok True" "e_scheduler svc' = sch"
      using assms(2) f g n by (auto simp: schedule_evaluation_def addJobToScheduler_def Let_def n_def [symmetric])
    with Ok d n True show ?thesis by auto
  next
    case (Err e)
    then have "\<exists>e. r = Err e" "e_scheduler svc' = sch"
      using assms(2) f g n by (auto simp: schedule_evaluation_def addJobToScheduler_def Let_def n_def [symmetric])
    with Err d True show ?thesis by simp
  next
    case Panic
    with d show ?thesis by simp
  qed
qed

lemma StartEvaluation_jobs:
  assumes "scheduler_ok gc jobs" "toe_client client" "StartEvaluation gc client v ctx (Some req) svc = (r, svc')"
  shows "(r = Ok True \<and> filter (has_tags [sev_CloudServiceId req, sev_CatalogId req]) (jobs (e_scheduler svc)) = [] \<and>
      (\<exists>toe catalog n. n \<noteq> 0 \<and> toe_CloudServiceId toe = sev_CloudServiceId req \<and> toe_CatalogId toe = sev_CatalogId req \<and>
         jobs (e_scheduler svc') = jobs (e_scheduler svc) @ [([sev_CloudServiceId req, sev_CatalogId req],
           \<lparr> ej_ctx = ctx, ej_toe = toe, ej_catalog = catalog, ej_interval = n \<rparr>)])) \<or>
    (r \<noteq> Ok True \<and> jobs (e_scheduler svc') = jobs (e_scheduler svc))"
proof (cases "\<exists>svc1 toe catalog. e_scheduler svc1 = gc_StartAsync gc (e_scheduler svc) \<and>
    ec_GetTargetOfEvaluation client \<lparr> gte_CloudServiceId = sev_CloudServiceId req, gte_CatalogId = sev_CatalogId req \<rparr> = Ok toe \<and>
    schedule_evaluation gc ctx req toe catalog svc1 = (r, svc')")
  case True
  then obtain svc1 toe catalog where s1: "e_scheduler svc1 = gc_StartAsync gc (e_scheduler svc)"
    "ec_GetTargetOfEvaluation client \<lparr> gte_CloudServiceId = sev_CloudServiceId req, gte_CatalogId = sev_CatalogId req \<rparr> = Ok toe"
    and sch: "schedule_evaluation gc ctx req toe catalog svc1 = (r, svc')" by metis
  have "toe_CloudServiceId toe = sev_CloudServiceId req" "toe_CatalogId toe = sev_CatalogId req"
    using assms(2) s1(2) by (auto simp: toe_client_def)
  moreover have "jobs (e_scheduler svc1) = jobs (e_scheduler svc)" using s1(1) scheduler_okD(1) [OF assms(1)] by simp
  ultimately show ?thesis using schedule_evaluation_jobs [OF assms(1) sch] by auto
next
  case False
  obtain r0 svc0 where c: "cacheControls client (sev_CatalogId req) (svc\<lparr>e_scheduler := gc_StartAsync gc (e_scheduler svc)\<rparr>) = (r0, svc0)" by fastforce
  have "e_scheduler svc0 = gc_StartAsync gc (e_scheduler svc)" using cacheControls_scheduler [OF c] by simp
  with assms(3) c False have "r \<noteq> Ok True \<and> (svc' = svc \<or> svc' = svc0)"
    by (auto simp: StartEvaluation_def split: res.splits if_splits)
  then show ?thesis using scheduler_okD(1) [OF assms(1)] \<open>e_scheduler svc0 = _\<close> by auto
qed

lemma StopEvaluation_jobs:
  assumes "scheduler_ok gc jobs" "StopEvaluation gc v ctx req svc = (r, svc')"
  shows "(\<exists>tags. jobs (e_scheduler svc') = filter (\<lambda>j. \<not> has_tags tags j) (jobs (e_scheduler svc))) \<or> svc' = svc"
proof (cases "\<exists>tags r1. gc_RemoveByTags gc tags (e_scheduler svc) = (r1, e_scheduler svc')")
  case True
  then show ?thesis using scheduler_okD(4) [OF assms(1)] by blast
next
  case False
  with assms(2) show ?thesis
    by (auto simp: StopEvaluation_def split: res.splits if_splits prod.splits)
qed

text \<open>
  A well-formed list of jobs: each is tagged with the cloud service and the catalog of its target, and there is one at most per pair.
\<close>

definition jobs_ok :: "(string list \<times> 'ctx eval_job) list \<Rightarrow> bool" where
  "jobs_ok js \<longleftrightarrow> distinct (map (\<lambda>j. set (fst j)) js) \<and>
     (\<forall>(ts, j) \<in> set js. ts = [toe_CloudServiceId (ej_toe j), toe_CatalogId (ej_toe j)] \<and> ej_interval j \<noteq> 0)"

lemma jobs_ok_filter: "jobs_ok js \<Longrightarrow> jobs_ok (filter P js)"
  by (auto simp: jobs_ok_def distinct_map_filter)

lemma jobs_ok_add:
  assumes "jobs_ok js" "filter (has_tags [toe_CloudServiceId toe, toe_CatalogId toe]) js = []" "n \<noteq> 0"
  shows "jobs_ok (js @ [([toe_CloudServiceId toe, toe_CatalogId toe], \<lparr> ej_ctx = ctx, ej_toe = toe, ej_catalog = catalog, ej_interval = n \<rparr>)])"
proof -
  have "{toe_CloudServiceId toe, toe_CatalogId toe} \<notin> (\<lambda>j. set (fst j)) ` set js"
    using assms(2) by (auto simp: filter_empty_conv has_tags_def)
  with assms(1,3) show ?thesis by (auto simp: jobs_ok_def)
qed

section \<open>Properties\<close>

lemma eval_reach_jobs: "eval_reach gc jobs svc \<Longrightarrow> scheduler_ok gc jobs \<Longrightarrow> jobs_ok (jobs (e_scheduler svc))"
proof (induction rule: eval_reach.induct)
  case (init svc)
  then show ?case by (simp add: jobs_ok_def)
next
  case (start svc client v ctx req r svc')
  show ?case
  proof (cases req)
    case None
    then have "svc' = svc" using start by (auto simp: StartEvaluation_def Validate_def)
    then show ?thesis using start by simp
  next
    case (Some q)
    from StartEvaluation_jobs [OF start.prems start.hyps(2) start.hyps(3) [unfolded Some]] show ?thesis
    proof (elim disjE conjE exE)
      fix toe catalog n
      assume "filter (has_tags [sev_CloudServiceId q, sev_CatalogId q]) (jobs (e_scheduler svc)) = []" "n \<noteq> 0"
        "toe_CloudServiceId toe = sev_CloudServiceId q" "toe_CatalogId toe = sev_CatalogId q"
        "jobs (e_scheduler svc') = jobs (e_scheduler svc) @ [([sev_CloudServiceId q, sev_CatalogId q],
           \<lparr> ej_ctx = ctx, ej_toe = toe, ej_catalog = catalog, ej_interval = n \<rparr>)]"
      then show ?thesis using jobs_ok_add [of "jobs (e_scheduler svc)" toe n ctx catalog] start.IH [OF start.prems] by simp
    qed (use start.IH [OF start.prems] in simp)
  qed
next
  case (stop svc v' ctx req' r' svc')
  then show ?case using StopEvaluation_jobs [OF stop.prems stop.hyps(2)] jobs_ok_filter by auto
next
  case (create svc v'' uuid ctx req'' r'' svc')
  then show ?case using CreateEvaluationResult_scheduler by metis
next
  case (run svc tags j pb vl bg client fresh order orders rr svc')
  then show ?case using evaluateCatalog_scheduler by metis
qed


text \<open>A scheduler that keeps its jobs in a list, for examples.\<close>

definition list_gocron :: "('ctx, (string list \<times> 'ctx eval_job) list) gocron" where
  "list_gocron =
     \<lparr> gc_StartAsync = (\<lambda>s. s),
       gc_FindJobsByTag = (\<lambda>tags s. if filter (has_tags tags) s = [] then Err ErrJobNotFoundWithTag else Ok (map snd (filter (has_tags tags) s))),
       gc_RemoveByTags = (\<lambda>tags s. (if filter (has_tags tags) s = [] then Err ErrJobNotFoundWithTag else Ok (), filter (\<lambda>j. \<not> has_tags tags j) s)),
       gc_Do = (\<lambda>n tags j s. if n \<le> 0 then (Err (ErrText ''interval must be greater than 0''), s) else (Ok (), s @ [(tags, j)])) \<rparr>"

lemma list_gocron_ok: "scheduler_ok list_gocron (\<lambda>s. s)"
  by (auto simp: scheduler_ok_def list_gocron_def split: if_splits)

definition ops_start :: StartEvaluationRequest where
  "ops_start = \<lparr> sev_CloudServiceId = ''u1'', sev_CatalogId = ''C5'', sev_Interval = None \<rparr>"

definition ops_job :: "unit eval_job" where
  "ops_job = \<lparr> ej_ctx = (), ej_toe = ops_toe, ej_catalog = empty_Catalog\<lparr>ca_Id := ''C5''\<rparr>, ej_interval = 5 \<rparr>"

text \<open>The client of the examples, restricted to the one target that it knows.\<close>

definition ops_toe_client :: eval_client where
  "ops_toe_client = (ops_client [])\<lparr> ec_GetTargetOfEvaluation := (\<lambda>req.
     if gte_CloudServiceId req = ''u1'' \<and> gte_CatalogId req = ''C5'' then Ok ops_toe else Err (Status NotFound ''ToE not found'')) \<rparr>"

lemma ops_toe_client_ok: "toe_client ops_toe_client"
  by (auto simp: toe_client_def ops_toe_client_def ops_toe_def split: if_splits)

lemma ops_StartEvaluation:
  "StartEvaluation list_gocron ops_toe_client (\<lambda>_. None) () (Some ops_start) (new_eval strategy_AllowAll [] [] Map.empty) =
     (Ok True, new_eval strategy_AllowAll [([''u1'', ''C5''], ops_job)] [] ops_cache)"
proof -
  have "all_controls ops_toe_client ''C5'' = Some (Ok [ops_control, ops_sub])"
    by (simp add: all_controls_def ops_toe_client_def ops_client_def ListAllPaginated_single)
  then show ?thesis
    by (simp add: StartEvaluation_def cacheControls_def schedule_evaluation_def addJobToScheduler_def ops_start_def list_gocron_def
        defaultInterval_def new_eval_def ops_toe_client_def ops_client_def ops_toe_def ops_job_def ops_cache_def Let_def)
qed


text \<open>
  Starting an evaluation adds the one job for its target; starting it again adds none; stopping it gives the jobs as they were
  before, and stopping it without a job is refused as a failed precondition.
\<close>

lemma Start_Stop_evaluation:
  assumes "scheduler_ok gc jobs" "toe_client client" "StartEvaluation gc client v ctx (Some req) svc = (Ok True, svc1)"
    and tags: "tags = [sev_CloudServiceId req, sev_CatalogId req]"
  shows "(\<exists>job. filter (has_tags tags) (jobs (e_scheduler svc1)) = [(tags, job)] \<and> ej_ctx job = ctx \<and>
       [toe_CloudServiceId (ej_toe job), toe_CatalogId (ej_toe job)] = tags) \<and>
    (\<forall>client' v' ctx' req' r svc2. toe_client client' \<and> [sev_CloudServiceId req', sev_CatalogId req'] = tags \<and>
       StartEvaluation gc client' v' ctx' (Some req') svc1 = (r, svc2) \<longrightarrow> r \<noteq> Ok True \<and> jobs (e_scheduler svc2) = jobs (e_scheduler svc1)) \<and>
    (\<forall>v' ctx' req' r svc2. v' req' = None \<and> az_CheckAccess (e_authz svc1) ctx' AccessCreate (pev_CloudServiceId req') \<and>
       [pev_CloudServiceId req', pev_CatalogId req'] = tags \<and> StopEvaluation gc v' ctx' (Some req') svc1 = (r, svc2) \<longrightarrow>
       r = Ok () \<and> jobs (e_scheduler svc2) = jobs (e_scheduler svc) \<and>
       res_code (fst (StopEvaluation gc v' ctx' (Some req') svc2)) = Some FailedPrecondition)"
proof -
  let ?js = "jobs (e_scheduler svc)"
  obtain toe catalog n where none: "filter (has_tags tags) ?js = []" and toe: "[toe_CloudServiceId toe, toe_CatalogId toe] = tags"
    and js1: "jobs (e_scheduler svc1) = ?js @ [(tags, \<lparr> ej_ctx = ctx, ej_toe = toe, ej_catalog = catalog, ej_interval = n \<rparr>)]"
    using StartEvaluation_jobs [OF assms(1-3)] tags by auto
  have has: "has_tags tags (tags, j)" for j by (simp add: has_tags_def)
  have f1: "filter (has_tags tags) (jobs (e_scheduler svc1)) = [(tags, \<lparr> ej_ctx = ctx, ej_toe = toe, ej_catalog = catalog, ej_interval = n \<rparr>)]"
    using none by (simp add: js1 has)
  have f2: "filter (\<lambda>j. \<not> has_tags tags j) (jobs (e_scheduler svc1)) = ?js"
    using none by (simp add: js1 has filter_id_conv filter_empty_conv)
  have start: "r \<noteq> Ok True \<and> jobs (e_scheduler svc2) = jobs (e_scheduler svc1)"
    if "toe_client client'" "[sev_CloudServiceId req', sev_CatalogId req'] = tags" "StartEvaluation gc client' v' ctx' (Some req') svc1 = (r, svc2)"
    for client' v' ctx' req' r svc2
    using StartEvaluation_jobs [OF assms(1) that(1,3)] that(2) f1 by auto
  have stop: "r = Ok () \<and> jobs (e_scheduler svc2) = ?js \<and> res_code (fst (StopEvaluation gc v' ctx' (Some req') svc2)) = Some FailedPrecondition"
    if v: "v' req' = None" "az_CheckAccess (e_authz svc1) ctx' AccessCreate (pev_CloudServiceId req')" "[pev_CloudServiceId req', pev_CatalogId req'] = tags"
      and st: "StopEvaluation gc v' ctx' (Some req') svc1 = (r, svc2)" for v' ctx' req' r svc2
  proof -
    obtain r1 sch where g: "gc_RemoveByTags gc tags (e_scheduler svc1) = (r1, sch)" by fastforce
    have r1: "r1 = Ok ()" "jobs sch = ?js" using scheduler_okD(4) [OF assms(1) g] f1 f2 by simp_all
    have s2: "r = Ok ()" "svc2 = svc1\<lparr>e_scheduler := sch\<rparr>" using st v g r1 by (simp_all add: StopEvaluation_def)
    obtain r2 sch2 where g2: "gc_RemoveByTags gc tags sch = (r2, sch2)" by fastforce
    have "r2 = Err ErrJobNotFoundWithTag" using scheduler_okD(4) [OF assms(1) g2] r1(2) none by simp
    then have "res_code (fst (StopEvaluation gc v' ctx' (Some req') svc2)) = Some FailedPrecondition"
      using v g2 s2 by (simp add: StopEvaluation_def)
    with s2 r1(2) show ?thesis by simp
  qed
  show ?thesis
  proof (intro conjI)
    show "\<exists>job. filter (has_tags tags) (jobs (e_scheduler svc1)) = [(tags, job)] \<and> ej_ctx job = ctx \<and>
       [toe_CloudServiceId (ej_toe job), toe_CatalogId (ej_toe job)] = tags"
      using f1 toe by (intro exI [of _ "\<lparr> ej_ctx = ctx, ej_toe = toe, ej_catalog = catalog, ej_interval = n \<rparr>"]) simp
  qed (use start stop in blast)+
qed

end

