(* ===== verification/Eval_Cache.thy ===== *)
theory Eval_Cache
  imports Eval_Jobs
begin

text \<open>
  The type of the cache of controls of the evaluation service (the map \<open>catalogControls\<close> of
  src/service/evaluation/evaluation.go): which entries it can have in the states that the
  service goes through, and what a lookup gives.
\<close>

section \<open>Well-formed caches\<close>

text \<open>
  A cached catalog has controls, each under the tag of its own category and identifier and
  under no other.
\<close>

definition cache_typed :: "control_cache \<Rightarrow> bool" where
  "cache_typed m \<longleftrightarrow>
     (\<forall>cat entries. m cat = Some entries \<longrightarrow> entries \<noteq> [] \<and> distinct (map fst entries) \<and>
        (\<forall>(k, c) \<in> set entries. k = control_tag (ctl_CategoryName c) (ctl_Id c)))"

definition entries_typed :: "(string \<times> Control) list \<Rightarrow> bool" where
  "entries_typed entries \<longleftrightarrow> distinct (map fst entries) \<and> (\<forall>(k, c) \<in> set entries. k = control_tag (ctl_CategoryName c) (ctl_Id c))"

lemma put_entry_keys: "set (map fst (put_entry k v m)) = insert k (set (map fst m))"
  by (induction m rule: put_entry.induct) auto

lemma put_entry_entries: "set (put_entry k v m) \<subseteq> insert (k, v) (set m)"
  by (induction k v m rule: put_entry.induct) auto

lemma put_entry_distinct: "distinct (map fst m) \<Longrightarrow> distinct (map fst (put_entry k v m))"
proof (induction k v m rule: put_entry.induct)
  case (2 k v k' v' m)
  then show ?case using put_entry_keys [of k v m] by auto
qed simp

lemma put_entry_typed:
  "entries_typed m \<Longrightarrow> entries_typed (put_entry (control_tag (ctl_CategoryName c) (ctl_Id c)) c m)"
  unfolding entries_typed_def using put_entry_distinct put_entry_entries by fastforce

lemma put_entry_not_Nil: "put_entry k v m \<noteq> []"
  by (induction k v m rule: put_entry.induct) simp_all

lemma store_controls_typed:
  "entries_typed m \<Longrightarrow> entries_typed (store_controls cs m)"
  by (induction cs m rule: store_controls.induct) (simp_all add: put_entry_typed)

lemma store_controls_not_Nil: "cs \<noteq> [] \<or> m \<noteq> [] \<Longrightarrow> store_controls cs m \<noteq> []"
  by (induction cs m rule: store_controls.induct) (simp_all add: put_entry_not_Nil)

section \<open>Every operation keeps the cache well-formed\<close>

lemma cacheControls_typed:
  assumes "cache_typed (e_catalogControls svc)" "cacheControls client cat svc = (r, svc')"
  shows "cache_typed (e_catalogControls svc')"
proof (cases "svc' = svc")
  case False
  then obtain cs where "cs \<noteq> []" "e_catalogControls svc' = (e_catalogControls svc)(cat \<mapsto> store_controls cs [])"
    using assms(2) by (auto simp: cacheControls_def split: if_splits option.splits res.splits)
  moreover have "entries_typed (store_controls cs [])"
    by (rule store_controls_typed) (simp add: entries_typed_def)
  ultimately show ?thesis
    using assms(1) store_controls_not_Nil [of cs] unfolding cache_typed_def entries_typed_def by simp
qed (use assms(1) in simp)

lemma schedule_evaluation_cache:
  "schedule_evaluation gc ctx req toe catalog svc = (r, svc') \<Longrightarrow> e_catalogControls svc' = e_catalogControls svc"
  by (cases "gc_Do gc (if Deref 0 (sev_Interval req) = 0 then defaultInterval else Deref 0 (sev_Interval req))
        [toe_CloudServiceId toe, toe_CatalogId toe] \<lparr> ej_ctx = ctx, ej_toe = toe, ej_catalog = catalog,
          ej_interval = (if Deref 0 (sev_Interval req) = 0 then defaultInterval else Deref 0 (sev_Interval req)) \<rparr> (e_scheduler svc)")
    (auto simp: schedule_evaluation_def addJobToScheduler_def Let_def split: res.splits if_splits)

lemma StartEvaluation_typed:
  assumes "cache_typed (e_catalogControls svc)" "StartEvaluation gc client v ctx req svc = (r, svc')"
  shows "cache_typed (e_catalogControls svc')"
proof (cases "svc' = svc")
  case False
  then obtain req' where req: "req = Some req'"
    using assms(2) by (cases req) (auto simp: StartEvaluation_def Validate_def)
  obtain r1 svc1 where c: "cacheControls client (sev_CatalogId req') (svc\<lparr>e_scheduler := gc_StartAsync gc (e_scheduler svc)\<rparr>) = (r1, svc1)"
    by fastforce
  have "cache_typed (e_catalogControls svc1)"
    using cacheControls_typed [OF _ c] assms(1) by simp
  moreover have "e_catalogControls svc' = e_catalogControls svc1"
    using assms(2) c False req
    by (auto simp: StartEvaluation_def Validate_def schedule_evaluation_cache split: option.splits res.splits if_splits)
  ultimately show ?thesis
    by simp
qed (use assms(1) in simp)

lemma StopEvaluation_cache: "StopEvaluation gc v ctx req svc = (r, svc') \<Longrightarrow> e_catalogControls svc' = e_catalogControls svc"
  by (auto simp: StopEvaluation_def split: res.splits if_splits prod.splits)

lemma CreateEvaluationResult_cache:
  "CreateEvaluationResult v uuid ctx req svc = (r, svc') \<Longrightarrow> e_catalogControls svc' = e_catalogControls svc"
  by (auto simp: CreateEvaluationResult_def Let_def split: if_splits option.splits res.splits prod.splits)

lemma evaluateControl_cache:
  assumes "evaluateControl client fresh order toe catalog control manual svc = (r, svc')"
  shows "e_catalogControls svc' = e_catalogControls svc"
proof -
  let ?rel = "relevant_controls toe catalog (map er_ControlId manual) (ctl_Controls control)"
  obtain rs svc1 where g: "run_group (\<lambda>i. evaluateSubcontrol client (fresh (i + 1)) (Some toe) (Some (?rel ! i))) order svc = (rs, svc1)"
    by fastforce
  have "e_catalogControls svc1 = e_catalogControls svc"
    by (rule run_group_keeps [of "\<lambda>s. e_catalogControls s = e_catalogControls svc", OF _ _ g]) (auto dest: evaluateSubcontrol_keeps)
  then show ?thesis
    using assms g by (auto simp: evaluateControl_def Let_def split: res.splits prod.splits)
qed

lemma evaluateCatalog_cache:
  assumes "evaluateCatalog pb v bg client fresh order orders toe catalog svc = (r, svc')"
  shows "e_catalogControls svc' = e_catalogControls svc"
proof -
  have "e_catalogControls s' = e_catalogControls svc"
    if "run_group (\<lambda>j. evaluateControl client (fresh j) (orders j) toe catalog (cs ! j) (manual j)) order svc = (rs, s')" for cs manual rs s'
    by (rule run_group_keeps [of "\<lambda>s. e_catalogControls s = e_catalogControls svc", OF _ _ that]) (auto dest: evaluateControl_cache)
  with assms show ?thesis
    by (auto simp: evaluateCatalog_def Let_def split: option.splits res.splits prod.splits)
qed

section \<open>Properties\<close>

text \<open>The states of the service from its constructor on, with any client, any arguments and any outcome of the calls.\<close>

inductive eval_state ::
  "('ctx, 'sched) gocron \<Rightarrow> ('ctx, 'db, 'sched, 'cc, 'auth, 'opt) evaluation \<Rightarrow> bool" for gc where
  new: "eval_state gc (NewService_el scheduler inmem opts)"
| start: "eval_state gc svc \<Longrightarrow> StartEvaluation gc client v ctx req svc = (r, svc') \<Longrightarrow> eval_state gc svc'"
| stop: "eval_state gc svc \<Longrightarrow> StopEvaluation gc v' ctx req' svc = (r', svc') \<Longrightarrow> eval_state gc svc'"
| create: "eval_state gc svc \<Longrightarrow> CreateEvaluationResult v'' uuid ctx req'' svc = (r'', svc') \<Longrightarrow> eval_state gc svc'"
| run: "eval_state gc svc \<Longrightarrow> evaluateCatalog pb vl bg client fresh order orders toe catalog svc = (rr, svc') \<Longrightarrow> eval_state gc svc'"

lemma eval_state_typed: "eval_state gc svc \<Longrightarrow> cache_typed (e_catalogControls svc)"
proof (induction rule: eval_state.induct)
  case (new scheduler inmem opts)
  then show ?case by (simp add: NewService_el_def cache_typed_def Let_def split_def)
next
  case (start svc client v ctx req r svc')
  show ?case using StartEvaluation_typed [OF start.IH start.hyps(2)] .
qed (simp_all add: StopEvaluation_cache CreateEvaluationResult_cache evaluateCatalog_cache)

lemma control_tag_inj:
  assumes "control_tag a b = control_tag a' b'" "CHR ''-'' \<notin> set a" "CHR ''-'' \<notin> set a'"
  shows "a = a' \<and> b = b'"
  using assms unfolding control_tag_def
proof (induction a arbitrary: a')
  case Nil
  then show ?case by (cases a') auto
next
  case (Cons x a)
  then show ?case by (cases a') auto
qed

text \<open>
  C22: in every state that the evaluation service reaches, its cache of controls is well-formed:
  a cached catalog has controls, each under the tag of its own category and identifier, and no
  tag occurs twice. A lookup therefore gives a control with the requested tag, and the requested
  control itself when the names of categories have no hyphen.
\<close>

theorem control_cache_typed:
  assumes "eval_state gc svc"
  shows "cache_typed (e_catalogControls svc) \<and>
    (\<forall>cat category control c. getControl cat category control (e_catalogControls svc) = Ok c \<longrightarrow>
       control_tag (ctl_CategoryName c) (ctl_Id c) = control_tag category control \<and>
       (CHR ''-'' \<notin> set category \<union> set (ctl_CategoryName c) \<longrightarrow> ctl_CategoryName c = category \<and> ctl_Id c = control))"
proof (intro conjI allI impI)
  show typed: "cache_typed (e_catalogControls svc)"
    using eval_state_typed [OF assms] .
  fix cat category control c
  assume "getControl cat category control (e_catalogControls svc) = Ok c"
  then obtain entries where "e_catalogControls svc cat = Some entries" "(control_tag category control, c) \<in> set entries"
    by (cases "e_catalogControls svc cat") (auto simp: getControl_def cached_controls_def split: if_splits option.splits dest: map_of_SomeD)
  then show tag: "control_tag (ctl_CategoryName c) (ctl_Id c) = control_tag category control"
    using typed unfolding cache_typed_def by fastforce
  assume "CHR ''-'' \<notin> set category \<union> set (ctl_CategoryName c)"
  then show "ctl_CategoryName c = category" "ctl_Id c = control"
    using control_tag_inj [OF tag] by simp_all
qed

theorem control_cache_typed_witness:
  "cache_typed (e_catalogControls (snd (StartEvaluation list_gocron (ops_client []) (\<lambda>_. None) ()
     (Some \<lparr> sev_CloudServiceId = ''u1'', sev_CatalogId = ''C5'', sev_Interval = None \<rparr>)
     (NewService_el [] (mem_gorm mt_EvaluationResult, empty_db) [] :: (unit, mem_db, (string list \<times> unit eval_job) list, unit, unit, unit) evaluation))))"
  using control_cache_typed [OF eval_state.start [OF eval_state.new]] by (metis prod.collapse)

end
