(* ===== verification/Evidence_Store.thy ===== *)
theory Evidence_Store
  imports Orchestrator Stream_Loop
begin

text \<open>
  The evidence store (src/service/evidence/evidence_store.go): storing evidences, one by one and as a
  stream, lookup and listing within the scope of the caller, and the hooks.

  As in the orchestrator, a hook is a number with the list of its calls in the state, and the goroutine
  that informs the hooks is a pending task.
\<close>

section \<open>Requests and state\<close>

record StoreEvidenceRequest =
  ser_Evidence :: "Evidence option"

record Filter_ev =
  fe_CloudServiceId :: "string option"
  fe_ToolId :: "string option"

record ListEvidencesRequest = PaginatedRequest +
  ler_Filter :: "Filter_ev option"

record GetEvidenceRequest =
  ger_EvidenceId :: string

text \<open>The status and the message of a response of the stream.\<close>

type_synonym StoreEvidencesResponse = "bool \<times> string"

type_synonym 'ctx evidence_call = "'ctx \<times> Evidence option \<times> go_error option"

record ('ctx, 'db) evidence_store =
  es_storage :: "(Evidence, 'db) gorm"
  es_db :: 'db
  es_evidenceHooks :: "nat list"
  es_authz :: "'ctx AuthorizationStrategy"
  es_tasks :: "'ctx evidence_call list"
  es_calls :: "(nat \<times> 'ctx evidence_call) list"

definition ser_GetCloudServiceId :: "StoreEvidenceRequest \<Rightarrow> string" where
  "ser_GetCloudServiceId req = (case ser_Evidence req of None \<Rightarrow> [] | Some e \<Rightarrow> ev_CloudServiceId e)"

section \<open>Constructor and hooks\<close>

record ('ctx, 'db) evidence_config =
  ec_storage :: "((Evidence, 'db) gorm \<times> 'db) option"
  ec_authz :: "'ctx AuthorizationStrategy option"

definition WithStorage_ev :: "(Evidence, 'db) gorm \<times> 'db \<Rightarrow> ('ctx, 'db) evidence_config \<Rightarrow> ('ctx, 'db) evidence_config" where
  "WithStorage_ev storage svc = svc\<lparr>ec_storage := Some storage\<rparr>"

definition NewService_ev ::
  "(Evidence, 'db) gorm \<times> 'db \<Rightarrow> (('ctx, 'db) evidence_config \<Rightarrow> ('ctx, 'db) evidence_config) list \<Rightarrow> ('ctx, 'db) evidence_store" where
  "NewService_ev inmem opts =
     (let c = fold (\<lambda>opt c. opt c) opts \<lparr> ec_storage = None, ec_authz = None \<rparr>;
          (storage, db) = Deref inmem (ec_storage c)
      in \<lparr> es_storage = storage, es_db = db, es_evidenceHooks = [], es_authz = Deref strategy_AllowAll (ec_authz c),
           es_tasks = [], es_calls = [] \<rparr>)"

definition RegisterEvidenceHook :: "nat \<Rightarrow> ('ctx, 'db) evidence_store \<Rightarrow> ('ctx, 'db) evidence_store" where
  "RegisterEvidenceHook hook s = s\<lparr>es_evidenceHooks := es_evidenceHooks s @ [hook]\<rparr>"

definition informHooks_ev :: "'ctx evidence_call \<Rightarrow> ('ctx, 'db) evidence_store \<Rightarrow> ('ctx, 'db) evidence_store" where
  "informHooks_ev c s = s\<lparr>es_calls := es_calls s @ map (\<lambda>hook. (hook, c)) (es_evidenceHooks s)\<rparr>"

section \<open>Handlers\<close>

definition StoreEvidence ::
  "StoreEvidenceRequest validator \<Rightarrow> 'ctx \<Rightarrow> StoreEvidenceRequest option \<Rightarrow> ('ctx, 'db) evidence_store \<Rightarrow>
   unit res \<times> ('ctx, 'db) evidence_store" where
  "StoreEvidence v ctx req s =
     (case Validate v req of
        Err err \<Rightarrow> (Err err, s)
      | Panic \<Rightarrow> (Panic, s)
      | Ok req \<Rightarrow>
          if \<not> az_CheckAccess (es_authz s) ctx AccessUpdate (ser_GetCloudServiceId req) then (Err ErrPermissionDenied, s)
          else (case ser_Evidence req of
             None \<Rightarrow> (Panic, s)
           | Some ev \<Rightarrow>
               (case storage_Create (es_storage s) ev (es_db s) of
                  (Err err, d) \<Rightarrow>
                    if errors_Is err ErrUniqueConstraintFailed then (Err (Status AlreadyExists ''entry already exists''), s\<lparr>es_db := d\<rparr>)
                    else (Err (database_error err), s\<lparr>es_db := d\<rparr>)
                | (Panic, d) \<Rightarrow> (Panic, s\<lparr>es_db := d\<rparr>)
                | (Ok _, d) \<Rightarrow> (Ok (), s\<lparr>es_db := d, es_tasks := es_tasks s @ [(ctx, Some ev, None)]\<rparr>))))"

definition store_evidence_round ::
  "StoreEvidenceRequest validator \<Rightarrow> 'ctx \<Rightarrow> StoreEvidenceRequest \<Rightarrow> ('ctx, 'db) evidence_store \<Rightarrow>
   StoreEvidencesResponse option \<times> ('ctx, 'db) evidence_store" where
  "store_evidence_round v ctx req s =
     (let (r, s') = StoreEvidence v ctx (Some \<lparr> ser_Evidence = ser_Evidence req \<rparr>) s in (stream_response r, s'))"

definition StoreEvidences ::
  "StoreEvidenceRequest validator \<Rightarrow> 'ctx \<Rightarrow> (nat \<Rightarrow> go_error option) \<Rightarrow> StoreEvidenceRequest res list \<Rightarrow>
   ('ctx, 'db) evidence_store \<Rightarrow> unit res \<times> ('ctx, 'db) evidence_store \<times> StoreEvidencesResponse list" where
  "StoreEvidences v ctx send ins s =
     serve_stream (store_evidence_round v ctx) ''cannot send response to the client: '' send ins s []"

text \<open>The getters of the filter give the empty string for a field that is not set.\<close>

definition filter_csid :: "Filter_ev option \<Rightarrow> string" where
  "filter_csid f = (case f of None \<Rightarrow> [] | Some f \<Rightarrow> Deref [] (fe_CloudServiceId f))"

definition nonempty :: "string \<Rightarrow> string option" where
  "nonempty x = (if x \<noteq> [] then Some x else None)"

definition evidence_frags :: "Filter_ev option \<Rightarrow> bool \<times> string list \<Rightarrow> (sql \<times> sqlval list) list" where
  "evidence_frags fil scope =
     (case fil of
        None \<Rightarrow> []
      | Some f \<Rightarrow>
          opt_frag (AEq ''cloud_service_id'') VStr (nonempty (Deref [] (fe_CloudServiceId f))) @
          opt_frag (AEq ''tool_id'') VStr (nonempty (Deref [] (fe_ToolId f)))) @
     (if \<not> fst scope then [([TAtom (AIn ''cloud_service_id'')], [VStrs (snd scope)])] else [])"

definition ListEvidences ::
  "proto_lib \<Rightarrow> ListEvidencesRequest validator \<Rightarrow> 'ctx \<Rightarrow> ListEvidencesRequest option \<Rightarrow>
   ('ctx, 'db) evidence_store \<Rightarrow> (Evidence list \<times> string) res" where
  "ListEvidences pb v ctx req s =
     (case Validate v req of
        Err err \<Rightarrow> Err err
      | Panic \<Rightarrow> Panic
      | Ok req \<Rightarrow>
          (let scope = az_AllowedCloudServices (es_authz s) ctx; csid = filter_csid (ler_Filter req)
           in if \<not> fst scope \<and> csid \<noteq> [] \<and> \<not> slices_Contains (snd scope) csid then Err ErrPermissionDenied
              else
                (case PaginateStorage pb req (es_storage s) DefaultPaginationOpts
                        (frag_conds (evidence_frags (ler_Filter req) scope)) (es_db s) of
                   Err err \<Rightarrow> Err (Status Internal (''could not paginate results: '' @ error_string err))
                 | r \<Rightarrow> r)))"

definition evidence_conds :: "string \<Rightarrow> bool \<times> string list \<Rightarrow> cond list" where
  "evidence_conds eid scope =
     (if \<not> fst scope then [CQuery [TAtom (AEq ''id''), TAnd, TAtom (AIn ''cloud_service_id'')], CVal (VStr eid), CVal (VStrs (snd scope))]
      else cond_eq ''id'' eid)"

definition GetEvidence ::
  "GetEvidenceRequest validator \<Rightarrow> 'ctx \<Rightarrow> GetEvidenceRequest option \<Rightarrow> ('ctx, 'db) evidence_store \<Rightarrow> Evidence res" where
  "GetEvidence v ctx req s =
     (case Validate v req of
        Err err \<Rightarrow> Err err
      | Panic \<Rightarrow> Panic
      | Ok req \<Rightarrow>
          (case storage_Get (es_storage s) (evidence_conds (ger_EvidenceId req) (az_AllowedCloudServices (es_authz s) ctx)) (es_db s) of
             Err err \<Rightarrow>
               if errors_Is err ErrRecordNotFound then Err (Status NotFound ''evidence not found'')
               else Err (database_error err)
           | r \<Rightarrow> r))"

section \<open>Lemmas\<close>

lemma StoreEvidence_rows:
  assumes "gorm_table (es_storage s) T" "StoreEvidence v ctx (Some \<lparr> ser_Evidence = Some e \<rparr>) s = (r, s')"
  shows "es_storage s' = es_storage s \<and> es_authz s' = es_authz s \<and>
    ((r = Ok () \<and> v \<lparr> ser_Evidence = Some e \<rparr> = None \<and> az_CheckAccess (es_authz s) ctx AccessUpdate (ev_CloudServiceId e) \<and>
      t_rows T (es_db s') = insert e (t_rows T (es_db s))) \<or>
     (\<exists>err. r = Err err \<and> t_rows T (es_db s') = t_rows T (es_db s)))"
proof -
  obtain c d where c: "storage_Create (es_storage s) e (es_db s) = (c, d)" by fastforce
  then have "c \<noteq> Panic" using storage_Create_returns [of "es_storage s" e "es_db s"] by simp
  then have rows: "(c = Ok () \<and> t_rows T d = insert e (t_rows T (es_db s))) \<or> (\<exists>err. c = Err err \<and> t_rows T d = t_rows T (es_db s))"
    using c gorm_table.st_Create_Ok [OF assms(1), of e "es_db s" _ d] gorm_table.st_Create_Err [OF assms(1), of e "es_db s" _ d]
    by (cases c) simp_all
  show ?thesis
  proof (cases "v \<lparr> ser_Evidence = Some e \<rparr> = None \<and> az_CheckAccess (es_authz s) ctx AccessUpdate (ev_CloudServiceId e)")
    case True
    have "(\<exists>err. r = Err err \<and> s' = s\<lparr>es_db := d\<rparr>)" if "c = Err e'" for e'
      using assms(2) c True that by (simp add: StoreEvidence_def ser_GetCloudServiceId_def split: if_splits; blast)
    moreover have "r = Ok () \<and> s' = s\<lparr>es_db := d, es_tasks := es_tasks s @ [(ctx, Some e, None)]\<rparr>" if "c = Ok u" for u
      using assms(2) c True that by (simp add: StoreEvidence_def ser_GetCloudServiceId_def)
    ultimately show ?thesis using rows True by (cases c) simp_all
  next
    case False
    with assms(2) have "s' = s \<and> (\<exists>err. r = Err err)"
      by (cases "v \<lparr> ser_Evidence = Some e \<rparr>") (auto simp: StoreEvidence_def ser_GetCloudServiceId_def Validate_def)
    then show ?thesis by simp
  qed
qed

interpretation evidence_stream: storing_handler "store_evidence_round v ctx" "\<lambda>e. \<lparr> ser_Evidence = Some e \<rparr>" "\<lambda>s. t_rows T (es_db s)"
    "\<lambda>s. gorm_table (es_storage s) T" for v ctx T
proof (unfold_locales, goal_cases)
  case (1 s r)
  obtain c s' where st: "StoreEvidence v ctx (Some \<lparr> ser_Evidence = Some r \<rparr>) s = (c, s')" by fastforce
  show ?case using StoreEvidence_rows [OF 1 st] 1
    by (cases c) (simp_all add: store_evidence_round_def st, blast+)
qed

lemma evidence_cols [simp]:
  "evidence_col e ''id'' = VStr (ev_Id e)" "evidence_col e ''cloud_service_id'' = VStr (ev_CloudServiceId e)"
  "evidence_col e ''tool_id'' = VStr (ev_ToolId e)"
  by (simp_all add: evidence_col_def)

lemma evidence_frags_ok: "\<forall>f \<in> set (evidence_frags fil scope). frag_ok env col f"
  by (cases fil) (simp_all add: evidence_frags_def ball_Un opt_frag_ball)

text \<open>What filter and scope mean for an evidence.\<close>

definition evidence_matches :: "Filter_ev option \<Rightarrow> Evidence \<Rightarrow> bool" where
  "evidence_matches fil e \<longleftrightarrow>
     (\<forall>f. fil = Some f \<longrightarrow> (\<forall>x. fe_CloudServiceId f = Some x \<and> x \<noteq> [] \<longrightarrow> ev_CloudServiceId e = x) \<and>
        (\<forall>x. fe_ToolId f = Some x \<and> x \<noteq> [] \<longrightarrow> ev_ToolId e = x))"

lemma nonempty_Deref: "nonempty (Deref [] x) = Some a \<longleftrightarrow> x = Some a \<and> a \<noteq> []"
  by (cases x) (auto simp: nonempty_def)

lemma evidence_table_holds:
  "has_schema T evidence_key evidence_col \<Longrightarrow>
   t_holds T d (frag_conds (evidence_frags fil scope)) e \<longleftrightarrow>
     evidence_matches fil e \<and> (fst scope \<or> ev_CloudServiceId e \<in> set (snd scope))"
  by (cases fil)
    (auto simp: t_holds_def frag_conds_holds evidence_frags_ok has_schema_def evidence_frags_def evidence_matches_def ball_Un
      opt_frag_ball nonempty_Deref)

lemma evidence_conds_hold:
  "has_schema T evidence_key evidence_col \<Longrightarrow>
   t_holds T d (evidence_conds eid scope) e \<longleftrightarrow> ev_Id e = eid \<and> (fst scope \<or> ev_CloudServiceId e \<in> set (snd scope))"
  by (auto simp: t_holds_def has_schema_def evidence_conds_def sql_holds_def holds_eq)

lemma evidence_conds_simps [simp]:
  "conds_defined (evidence_conds eid scope)" "applyPreload (evidence_conds eid scope) = (PreloadAssociations, evidence_conds eid scope)"
  by (simp_all add: evidence_conds_def)

section \<open>Properties\<close>

text \<open>
  A lookup answers by what the caller may see. \<open>GetEvidence\<close> returns the stored evidence with the
  identifier if the caller may access its cloud service, and the same NotFound error whether there is
  no such evidence or it belongs to another service.
\<close>

lemma GetEvidence_result:
  assumes "gorm_table (es_storage s) T" "has_schema T evidence_key evidence_col" "authz_strategy (es_authz s)"
    "available (es_storage s) (es_db s)" "v req = None"
  shows "(\<forall>e \<in> t_rows T (es_db s). ev_Id e = ger_EvidenceId req \<and> az_CheckAccess (es_authz s) ctx typ (ev_CloudServiceId e) \<longrightarrow>
      GetEvidence v ctx (Some req) s = Ok (t_load T PreloadAssociations (es_db s) e)) \<and>
    ((\<forall>e \<in> t_rows T (es_db s). ev_Id e = ger_EvidenceId req \<longrightarrow> \<not> az_CheckAccess (es_authz s) ctx typ (ev_CloudServiceId e)) \<longrightarrow>
      GetEvidence v ctx (Some req) s = Err (Status NotFound ''evidence not found''))"
proof (intro conjI ballI impI)
  let ?scope = "az_AllowedCloudServices (es_authz s) ctx" and ?d = "es_db s"
  let ?cs = "evidence_conds (ger_EvidenceId req) ?scope"
  note az = authz_strategy.check_iff_allowed [OF assms(3), of ctx "typ"]
  note holds = evidence_conds_hold [OF assms(2), of ?d "ger_EvidenceId req" ?scope]
  {
    fix e
    assume e: "e \<in> t_rows T ?d" "ev_Id e = ger_EvidenceId req \<and> az_CheckAccess (es_authz s) ctx typ (ev_CloudServiceId e)"
    then have "t_holds T ?d ?cs e" by (simp add: holds az)
    from gorm_table.Get_found [OF assms(1,4) evidence_conds_simps(2,1) e(1) this] obtain e' where
      e': "e' \<in> t_rows T ?d" "t_holds T ?d ?cs e'" "storage_Get (es_storage s) ?cs ?d = Ok (t_load T PreloadAssociations ?d e')" by blast
    have "t_key T e' = t_key T e" using e(2) e'(2) assms(2) by (simp add: holds has_schema_def evidence_key_def)
    then have "e' = e" using gorm_table.st_row_unique [OF assms(1) e'(1) e(1)] by simp
    then show "GetEvidence v ctx (Some req) s = Ok (t_load T PreloadAssociations ?d e)"
      using e'(3) assms(5) by (simp add: GetEvidence_def)
  }
  assume "\<forall>e \<in> t_rows T ?d. ev_Id e = ger_EvidenceId req \<longrightarrow> \<not> az_CheckAccess (es_authz s) ctx typ (ev_CloudServiceId e)"
  then have "\<forall>e \<in> t_rows T ?d. \<not> t_holds T ?d ?cs e" by (simp add: holds az)
  from gorm_table.Get_missing [OF assms(1,4) evidence_conds_simps(2,1) this]
  show "GetEvidence v ctx (Some req) s = Err (Status NotFound ''evidence not found'')"
    using assms(5) by (simp add: GetEvidence_def)
qed

definition sample_evidence :: Evidence where
  "sample_evidence = \<lparr> ev_Id = ''e1'', ev_Timestamp = Some 3, ev_CloudServiceId = ''u1'', ev_ToolId = ''t'', ev_Raw = None,
     ev_Resource = None \<rparr>"

definition new_store :: "'ctx AuthorizationStrategy \<Rightarrow> mem_db \<Rightarrow> ('ctx, mem_db) evidence_store" where
  "new_store az d = \<lparr> es_storage = mem_gorm mt_Evidence, es_db = d, es_evidenceHooks = [], es_authz = az, es_tasks = [], es_calls = [] \<rparr>"

lemma new_store_simps [simp]:
  "es_storage (new_store az d) = mem_gorm mt_Evidence" "es_db (new_store az d) = d" "es_authz (new_store az d) = az"
  by (simp_all add: new_store_def)



end
