(* ===== verification/Server.thy ===== *)
theory Server
  imports Authorization
begin

text \<open>
  The gRPC server of src/server/grpc.go with the authentication middleware of
  src/server/auth_middleware.go: the configuration and its functional options, the function
  that authenticates a request by its bearer token, and the interceptors that skip it for
  public endpoints. Key sets, token parsing, the two interceptors of grpc_auth and the network
  are parameters. The properties connect authentication with the strategy of
  \<open>Authorization\<close>, which parses the same token again without looking at its signature.
\<close>

section \<open>The authentication middleware\<close>

text \<open>
  The context of a call: the incoming metadata and the value that is stored under
  \<open>AuthContextKey\<close>. \<open>context.WithValue\<close> changes the latter only.
\<close>

record ('md, 'cl) rpc_context =
  ctx_metadata :: 'md
  ctx_token :: "'cl option"

record ('jwks, 'key) AuthConfig =
  ac_jwksURL :: string
  ac_useJWKS :: bool
  ac_jwks :: "'jwks option"
  ac_publicKey :: "'key option"

definition empty_AuthConfig :: "('jwks, 'key) AuthConfig" where
  "empty_AuthConfig = \<lparr> ac_jwksURL = [], ac_useJWKS = False, ac_jwks = None, ac_publicKey = None \<rparr>"

definition DefaultJWKSURL :: string where
  "DefaultJWKSURL = ''http://localhost:8080/v1/auth/certs''"

text \<open>
  Third-party calls: \<open>Keyfunc\<close> of a key set, which picks the key for a parsed token, and
  \<open>jwt.ParseWithClaims\<close>, which checks the signature with the key of the function that it is
  given and the registered claims (expiry).
\<close>

record ('tok, 'key, 'jwks, 'cl) token_lib =
  jl_Keyfunc :: "'jwks option \<Rightarrow> 'tok \<Rightarrow> 'key option res"
  jl_ParseWithClaims :: "string \<Rightarrow> ('tok \<Rightarrow> 'key option res) \<Rightarrow> 'cl res"

text \<open>The function that supplies the key: from the key set if enabled, else the configured key.\<close>

definition key_source :: "('tok, 'key, 'jwks, 'cl) token_lib \<Rightarrow> ('jwks, 'key) AuthConfig \<Rightarrow> 'tok \<Rightarrow> 'key option res" where
  "key_source jl authConfig =
     (if ac_useJWKS authConfig then jl_Keyfunc jl (ac_jwks authConfig)
      else (\<lambda>t. Ok (ac_publicKey authConfig)))"

definition parseToken :: "('tok, 'key, 'jwks, 'cl) token_lib \<Rightarrow> string \<Rightarrow> ('jwks, 'key) AuthConfig \<Rightarrow> 'cl res" where
  "parseToken jl token authConfig =
     (case jl_ParseWithClaims jl token (key_source jl authConfig) of
        Ok claims \<Rightarrow> Ok claims
      | Err err \<Rightarrow> Err (Wrap ''could not validate JWT: '' err)
      | Panic \<Rightarrow> Panic)"

text \<open>
  The loading of the key set on the first call. The outcome of \<open>keyfunc.Get\<close>, a key set and
  an error that may both be nil, is an argument; both are assigned.
\<close>

definition load_jwks ::
  "'jwks option \<times> go_error option \<Rightarrow> ('jwks, 'key) AuthConfig \<Rightarrow> go_error option \<times> ('jwks, 'key) AuthConfig" where
  "load_jwks fetched config =
     (if ac_jwks config = None \<and> ac_useJWKS config
      then (snd fetched, config\<lparr>ac_jwks := fst fetched\<rparr>)
      else (None, config))"

definition invalid_token :: go_error where
  "invalid_token = Status Unauthenticated ''invalid auth token''"

definition AuthFunc ::
  "('md, 'cl) rpc_context jwt_lib \<Rightarrow> ('tok, 'key, 'jwks, 'cl) token_lib \<Rightarrow> 'jwks option \<times> go_error option \<Rightarrow>
   ('md, 'cl) rpc_context \<Rightarrow> ('jwks, 'key) AuthConfig \<Rightarrow>
   ('md, 'cl) rpc_context res \<times> ('jwks, 'key) AuthConfig" where
  "AuthFunc lib jl fetched ctx config =
     (case load_jwks fetched config of
        (Some err, config) \<Rightarrow>
          (Err (Status FailedPrecondition (''could not retrieve JWKS: '' @ error_string err)), config)
      | (None, config) \<Rightarrow>
          (case AuthFromMD lib ctx of
             Err err \<Rightarrow> (Err invalid_token, config)
           | Panic \<Rightarrow> (Panic, config)
           | Ok token \<Rightarrow>
               (case parseToken jl token config of
                  Err err \<Rightarrow> (Err invalid_token, config)
                | Panic \<Rightarrow> (Panic, config)
                | Ok tokenInfo \<Rightarrow> (Ok (ctx\<lparr>ctx_token := Some tokenInfo\<rparr>), config))))"

section \<open>Configuration of the server\<close>

datatype ServiceDesc = Orchestrator_ServiceDesc | Assessment_ServiceDesc | EvidenceStore_ServiceDesc
  | Discovery_ServiceDesc | ExperimentalDiscovery_ServiceDesc | Evaluation_ServiceDesc

text \<open>
  The options of the gRPC library: the two chains of interceptors (tags, logging and the
  filtered authentication), and options of a caller.
\<close>

datatype 'opt ServerOption = ChainUnaryInterceptor | ChainStreamInterceptor | AdditionalOption 'opt

record ('opt, 'svc, 'jwks, 'key) server_config =
  c_grpcOpts :: "'opt ServerOption list"
  c_services :: "ServiceDesc \<rightharpoonup> 'svc"
  c_publicEndpoints :: "string list"
  c_ac :: "('jwks, 'key) AuthConfig"
  c_reflection :: bool

definition WithOrchestrator :: "'svc \<Rightarrow> ('opt, 'svc, 'jwks, 'key) server_config \<Rightarrow> ('opt, 'svc, 'jwks, 'key) server_config" where
  "WithOrchestrator svc c = c\<lparr>c_services := (c_services c)(Orchestrator_ServiceDesc \<mapsto> svc)\<rparr>"

definition WithAssessment :: "'svc \<Rightarrow> ('opt, 'svc, 'jwks, 'key) server_config \<Rightarrow> ('opt, 'svc, 'jwks, 'key) server_config" where
  "WithAssessment svc c = c\<lparr>c_services := (c_services c)(Assessment_ServiceDesc \<mapsto> svc)\<rparr>"

definition WithEvidenceStore :: "'svc \<Rightarrow> ('opt, 'svc, 'jwks, 'key) server_config \<Rightarrow> ('opt, 'svc, 'jwks, 'key) server_config" where
  "WithEvidenceStore svc c = c\<lparr>c_services := (c_services c)(EvidenceStore_ServiceDesc \<mapsto> svc)\<rparr>"

definition WithDiscovery :: "'svc \<Rightarrow> ('opt, 'svc, 'jwks, 'key) server_config \<Rightarrow> ('opt, 'svc, 'jwks, 'key) server_config" where
  "WithDiscovery svc c = c\<lparr>c_services := (c_services c)(Discovery_ServiceDesc \<mapsto> svc)\<rparr>"

definition WithExperimentalDiscovery :: "'svc \<Rightarrow> ('opt, 'svc, 'jwks, 'key) server_config \<Rightarrow> ('opt, 'svc, 'jwks, 'key) server_config" where
  "WithExperimentalDiscovery svc c = c\<lparr>c_services := (c_services c)(ExperimentalDiscovery_ServiceDesc \<mapsto> svc)\<rparr>"

definition WithEvaluation :: "'svc \<Rightarrow> ('opt, 'svc, 'jwks, 'key) server_config \<Rightarrow> ('opt, 'svc, 'jwks, 'key) server_config" where
  "WithEvaluation svc c = c\<lparr>c_services := (c_services c)(Evaluation_ServiceDesc \<mapsto> svc)\<rparr>"

definition WithReflection :: "('opt, 'svc, 'jwks, 'key) server_config \<Rightarrow> ('opt, 'svc, 'jwks, 'key) server_config" where
  "WithReflection c = c\<lparr>c_reflection := True\<rparr>"

definition WithPublicEndpoints :: "string list \<Rightarrow> ('opt, 'svc, 'jwks, 'key) server_config \<Rightarrow> ('opt, 'svc, 'jwks, 'key) server_config" where
  "WithPublicEndpoints endpoints c = c\<lparr>c_publicEndpoints := endpoints\<rparr>"

definition WithAdditionalGRPCOpts :: "'opt list \<Rightarrow> ('opt, 'svc, 'jwks, 'key) server_config \<Rightarrow> ('opt, 'svc, 'jwks, 'key) server_config" where
  "WithAdditionalGRPCOpts opts c = c\<lparr>c_grpcOpts := c_grpcOpts c @ map AdditionalOption opts\<rparr>"

definition WithJWKS :: "string \<Rightarrow> ('opt, 'svc, 'jwks, 'key) server_config \<Rightarrow> ('opt, 'svc, 'jwks, 'key) server_config" where
  "WithJWKS url c = c\<lparr>c_ac := (c_ac c)\<lparr>ac_jwksURL := url, ac_useJWKS := True\<rparr>\<rparr>"

definition WithPublicKey :: "'key \<Rightarrow> ('opt, 'svc, 'jwks, 'key) server_config \<Rightarrow> ('opt, 'svc, 'jwks, 'key) server_config" where
  "WithPublicKey publicKey c = c\<lparr>c_ac := (c_ac c)\<lparr>ac_publicKey := Some publicKey\<rparr>\<rparr>"

text \<open>
  The start of the server. The interceptors hold a pointer to the configuration, so that they
  see what the options set later; the running server is therefore its configuration together
  with what has been registered. The outcome of \<open>net.Listen\<close> is an argument.
\<close>

record ('opt, 'svc, 'jwks, 'key) grpc_server =
  srv_config :: "('opt, 'svc, 'jwks, 'key) server_config"
  srv_options :: "'opt ServerOption list"
  srv_services :: "ServiceDesc \<rightharpoonup> 'svc"
  srv_reflection :: bool

definition base_config :: "('opt, 'svc, 'jwks, 'key) server_config" where
  "base_config = \<lparr> c_grpcOpts = [ChainUnaryInterceptor, ChainStreamInterceptor], c_services = Map.empty,
     c_publicEndpoints = [], c_ac = empty_AuthConfig, c_reflection = False \<rparr>"

definition StartGRPCServer ::
  "'sock res \<Rightarrow> (('opt, 'svc, 'jwks, 'key) server_config \<Rightarrow> ('opt, 'svc, 'jwks, 'key) server_config) list \<Rightarrow>
   ('sock \<times> ('opt, 'svc, 'jwks, 'key) grpc_server) res" where
  "StartGRPCServer listen opts =
     (case listen of
        Err err \<Rightarrow> Err (Wrap ''could not listen: '' err)
      | Panic \<Rightarrow> Panic
      | Ok sock \<Rightarrow>
          (let c = fold (\<lambda>opt. opt) opts base_config
           in Ok (sock, \<lparr> srv_config = c, srv_options = c_grpcOpts c, srv_services = c_services c,
                srv_reflection = c_reflection c \<rparr>)))"

section \<open>Interceptors\<close>

text \<open>
  A handler works on the state of the server, of which the configuration of the
  authentication is a part, and of the services. \<open>UnaryServerInfo\<close> and \<open>StreamServerInfo\<close>
  are read for the full name of the method only.
\<close>

type_synonym ('ctx, 'req, 'r, 's) unary_handler = "'ctx \<Rightarrow> 'req \<Rightarrow> 's \<Rightarrow> 'r res \<times> 's"
type_synonym ('ctx, 'req, 'r, 's) unary_interceptor =
  "'ctx \<Rightarrow> 'req \<Rightarrow> string \<Rightarrow> ('ctx, 'req, 'r, 's) unary_handler \<Rightarrow> 's \<Rightarrow> 'r res \<times> 's"

record ('ctx, 'm) server_stream =
  ss_Context :: 'ctx
  ss_messages :: 'm

type_synonym ('ctx, 'm, 's) stream_handler = "('ctx, 'm) server_stream \<Rightarrow> 's \<Rightarrow> unit res \<times> 's"
type_synonym ('ctx, 'm, 's) stream_interceptor =
  "('ctx, 'm) server_stream \<Rightarrow> string \<Rightarrow> ('ctx, 'm, 's) stream_handler \<Rightarrow> 's \<Rightarrow> unit res \<times> 's"

definition reflection_method :: string where
  "reflection_method = ''/grpc.reflection.v1.ServerReflection/ServerReflectionInfo''"

definition UnaryReflectionFilter :: "('opt, 'svc, 'jwks, 'key) server_config \<Rightarrow> string \<Rightarrow> bool" where
  "UnaryReflectionFilter c FullMethod \<longleftrightarrow> FullMethod = reflection_method"

definition StreamReflectionFilter :: "('opt, 'svc, 'jwks, 'key) server_config \<Rightarrow> string \<Rightarrow> bool" where
  "StreamReflectionFilter c FullMethod \<longleftrightarrow> FullMethod = reflection_method"

definition UnaryPublicEndpointFilter :: "('opt, 'svc, 'jwks, 'key) server_config \<Rightarrow> string \<Rightarrow> bool" where
  "UnaryPublicEndpointFilter c FullMethod \<longleftrightarrow> list_ex (\<lambda>e. FullMethod = e) (c_publicEndpoints c)"

definition StreamPublicEndpointFilter :: "('opt, 'svc, 'jwks, 'key) server_config \<Rightarrow> string \<Rightarrow> bool" where
  "StreamPublicEndpointFilter c FullMethod \<longleftrightarrow> list_ex (\<lambda>e. FullMethod = e) (c_publicEndpoints c)"

fun UnaryServerInterceptorWithFilter ::
  "('s \<Rightarrow> ('opt, 'svc, 'jwks, 'key) server_config) \<Rightarrow> ('ctx, 'req, 'r, 's) unary_interceptor \<Rightarrow>
   (('opt, 'svc, 'jwks, 'key) server_config \<Rightarrow> string \<Rightarrow> bool) list \<Rightarrow> ('ctx, 'req, 'r, 's) unary_interceptor" where
  "UnaryServerInterceptorWithFilter c inn [] ctx req info handler s = inn ctx req info handler s"
| "UnaryServerInterceptorWithFilter c inn (f # filters) ctx req info handler s =
     (if f (c s) info then handler ctx req s
      else UnaryServerInterceptorWithFilter c inn filters ctx req info handler s)"

fun StreamServerInterceptorWithFilter ::
  "('s \<Rightarrow> ('opt, 'svc, 'jwks, 'key) server_config) \<Rightarrow> ('ctx, 'm, 's) stream_interceptor \<Rightarrow>
   (('opt, 'svc, 'jwks, 'key) server_config \<Rightarrow> string \<Rightarrow> bool) list \<Rightarrow> ('ctx, 'm, 's) stream_interceptor" where
  "StreamServerInterceptorWithFilter c inn [] ss info handler s = inn ss info handler s"
| "StreamServerInterceptorWithFilter c inn (f # filters) ss info handler s =
     (if f (c s) info then handler ss s
      else StreamServerInterceptorWithFilter c inn filters ss info handler s)"

text \<open>
  The last element of the two chains that \<open>StartGRPCServer\<close> installs: the filters around the
  authentication. The interceptors of grpc_auth are parameters; the tags and the logging
  before them only pass the call on.
\<close>

definition auth_step ::
  "('md, 'cl) rpc_context jwt_lib \<Rightarrow> ('tok, 'key, 'jwks, 'cl) token_lib \<Rightarrow> 'jwks option \<times> go_error option \<Rightarrow>
   ('md, 'cl) rpc_context \<Rightarrow> ('opt, 'svc, 'jwks, 'key) server_config \<times> 'a \<Rightarrow>
   ('md, 'cl) rpc_context res \<times> ('opt, 'svc, 'jwks, 'key) server_config \<times> 'a" where
  "auth_step lib jl fetched ctx s =
     (case AuthFunc lib jl fetched ctx (c_ac (fst s)) of
        (r, ac) \<Rightarrow> (r, (fst s)\<lparr>c_ac := ac\<rparr>, snd s))"

definition unary_chain where
  "unary_chain au lib jl fetched =
     UnaryServerInterceptorWithFilter fst (au (auth_step lib jl fetched)) [UnaryReflectionFilter, UnaryPublicEndpointFilter]"

definition stream_chain where
  "stream_chain au lib jl fetched =
     StreamServerInterceptorWithFilter fst (au (auth_step lib jl fetched)) [StreamReflectionFilter, StreamPublicEndpointFilter]"

section \<open>Documented behaviour of the libraries\<close>

text \<open>
  \<open>UnaryServerInterceptor\<close> and \<open>StreamServerInterceptor\<close> of grpc_auth call the given function
  and then the handler with the new context, or return the error. No service of the sources
  overrides the function.
\<close>

definition authenticates_unary ::
  "(('ctx \<Rightarrow> 's \<Rightarrow> 'ctx res \<times> 's) \<Rightarrow> ('ctx, 'req, 'r, 's) unary_interceptor) \<Rightarrow> bool" where
  "authenticates_unary au \<longleftrightarrow> (\<forall>af ctx req info handler s. au af ctx req info handler s =
     (case af ctx s of
        (Ok ctx', s') \<Rightarrow> handler ctx' req s'
      | (Err e, s') \<Rightarrow> (Err e, s')
      | (Panic, s') \<Rightarrow> (Panic, s')))"

definition authenticates_stream ::
  "(('ctx \<Rightarrow> 's \<Rightarrow> 'ctx res \<times> 's) \<Rightarrow> ('ctx, 'm, 's) stream_interceptor) \<Rightarrow> bool" where
  "authenticates_stream au \<longleftrightarrow> (\<forall>af ss info handler s. au af ss info handler s =
     (case af (ss_Context ss) s of
        (Ok ctx', s') \<Rightarrow> handler (ss\<lparr>ss_Context := ctx'\<rparr>) s'
      | (Err e, s') \<Rightarrow> (Err e, s')
      | (Panic, s') \<Rightarrow> (Panic, s')))"

text \<open>The bearer token is read from the metadata.\<close>

definition reads_metadata :: "('md, 'cl) rpc_context jwt_lib \<Rightarrow> bool" where
  "reads_metadata lib \<longleftrightarrow> (\<forall>ctx ctx'. ctx_metadata ctx = ctx_metadata ctx' \<longrightarrow> AuthFromMD lib ctx = AuthFromMD lib ctx')"

text \<open>
  A token is parsed only if its signature verifies (relation \<open>signed\<close>) under a key that the
  supplied function has given.
\<close>

definition checks_signature ::
  "('tok, 'key, 'jwks, 'cl) token_lib \<Rightarrow> ('key \<Rightarrow> string \<Rightarrow> bool) \<Rightarrow> bool" where
  "checks_signature jl signed \<longleftrightarrow> (\<forall>token kf cl. jl_ParseWithClaims jl token kf = Ok cl \<longrightarrow>
     (\<exists>t k. kf t = Ok (Some k) \<and> signed k token))"

section \<open>Lemmas\<close>

text \<open>Who has authenticated: the metadata carry a token that a trusted key has signed.\<close>

definition trusted :: "('tok, 'key, 'jwks, 'cl) token_lib \<Rightarrow> ('jwks, 'key) AuthConfig \<Rightarrow> 'key \<Rightarrow> bool" where
  "trusted jl ac k \<longleftrightarrow> (\<exists>t. key_source jl ac t = Ok (Some k))"

definition admitted where
  "admitted lib jl signed ac ctx ctx' \<longleftrightarrow>
     (\<exists>token k cl. AuthFromMD lib ctx = Ok token \<and> trusted jl ac k \<and> signed k token \<and>
        ctx' = ctx\<lparr>ctx_token := Some cl\<rparr>)"

definition refused :: "'r res \<Rightarrow> bool" where
  "refused r \<longleftrightarrow> r = Panic \<or> (\<exists>m. r = Err (Status Unauthenticated m) \<or> r = Err (Status FailedPrecondition m))"

lemma AuthFunc_cases:
  assumes "checks_signature jl signed" "AuthFunc lib jl fetched ctx ac = (r, ac')"
  shows "refused r \<or> (\<exists>ctx'. r = Ok ctx' \<and> admitted lib jl signed ac' ctx ctx')"
proof (cases r)
  case (Ok ctx')
  then obtain token cl where "AuthFromMD lib ctx = Ok token" and ctx': "ctx' = ctx\<lparr>ctx_token := Some cl\<rparr>"
    and parse: "jl_ParseWithClaims jl token (key_source jl ac') = Ok cl"
    using assms(2) by (auto simp: AuthFunc_def parseToken_def split: prod.splits option.splits res.splits)
  moreover obtain t k where "key_source jl ac' t = Ok (Some k)" "signed k token"
    using assms(1) parse unfolding checks_signature_def by blast
  ultimately show ?thesis
    using Ok by (auto simp: admitted_def trusted_def)
qed (use assms(2) in \<open>auto simp: AuthFunc_def refused_def invalid_token_def split: prod.splits option.splits res.splits\<close>)

text \<open>
  The key set is loaded once: a call with a loaded set changes nothing, and a failed load is
  tried again by the next call.
\<close>

lemma AuthFunc_config:
  "AuthFunc lib jl fetched ctx ac = (r, ac') \<Longrightarrow> ac' = snd (load_jwks fetched ac)"
  by (auto simp: AuthFunc_def split: prod.splits option.splits res.splits)

lemma load_jwks_once:
  "ac_jwks ac \<noteq> None \<Longrightarrow> load_jwks fetched ac = (None, ac)"
  "load_jwks (None, Some e) ac = (Some e, ac') \<Longrightarrow> ac' = ac"
  by (auto simp: load_jwks_def split: if_splits)

definition public_endpoint :: "('opt, 'svc, 'jwks, 'key) server_config \<Rightarrow> string \<Rightarrow> bool" where
  "public_endpoint c info \<longleftrightarrow> info = reflection_method \<or> info \<in> set (c_publicEndpoints c)"

lemmas filter_defs = UnaryReflectionFilter_def UnaryPublicEndpointFilter_def StreamReflectionFilter_def
  StreamPublicEndpointFilter_def list_ex_iff

lemma unary_chain_eq:
  "unary_chain au lib jl fetched ctx req info handler (c, a) =
     (if public_endpoint c info then handler ctx req (c, a)
      else au (auth_step lib jl fetched) ctx req info handler (c, a))"
  by (auto simp: unary_chain_def public_endpoint_def filter_defs)

lemma stream_chain_eq:
  "stream_chain au lib jl fetched ss info handler (c, a) =
     (if public_endpoint c info then handler ss (c, a)
      else au (auth_step lib jl fetched) ss info handler (c, a))"
  by (auto simp: stream_chain_def public_endpoint_def filter_defs)

definition after_auth where
  "after_auth fetched c = c\<lparr>c_ac := snd (load_jwks fetched (c_ac c))\<rparr>"

lemma auth_step_cases:
  assumes "checks_signature jl signed" "auth_step lib jl fetched ctx (c, a) = (r, s')"
  shows "s' = (after_auth fetched c, a) \<and>
    (refused r \<or> (\<exists>ctx'. r = Ok ctx' \<and> admitted lib jl signed (c_ac (after_auth fetched c)) ctx ctx'))"
proof -
  obtain ac' where run: "AuthFunc lib jl fetched ctx (c_ac c) = (r, ac')" and s': "s' = (c\<lparr>c_ac := ac'\<rparr>, a)"
    using assms(2) by (auto simp: auth_step_def split: prod.splits)
  show ?thesis
    using AuthFunc_cases [OF assms(1) run] AuthFunc_config [OF run] s' by (simp add: after_auth_def)
qed

text \<open>
  The strategy of \<open>Authorization\<close> decides for the context that the middleware has extended as
  for the original one.
\<close>

lemma admitted_access:
  assumes "admitted lib jl signed ac ctx ctx'" "reads_metadata lib"
  shows "jwt_CheckAccess lib a (Some ctx') typ csid = jwt_CheckAccess lib a (Some ctx) typ csid"
proof -
  have "ctx_metadata ctx' = ctx_metadata ctx"
    using assms(1) by (auto simp: admitted_def)
  then have "AuthFromMD lib ctx' = AuthFromMD lib ctx"
    using assms(2) unfolding reads_metadata_def by blast
  then show ?thesis
    by (simp add: jwt_CheckAccess_def jwt_AllowedCloudServices_def)
qed

lemma unary_chain_cases:
  assumes "authenticates_unary au" "checks_signature jl signed" "\<not> public_endpoint c info"
    "unary_chain au lib jl fetched ctx req info handler (c, a) = (r, s')"
  shows "refused r \<and> s' = (after_auth fetched c, a) \<or>
    (\<exists>ctx'. admitted lib jl signed (c_ac (after_auth fetched c)) ctx ctx' \<and> handler ctx' req (after_auth fetched c, a) = (r, s'))"
proof (cases "auth_step lib jl fetched ctx (c, a)" rule: prod.exhaust)
  case step: (Pair r1 s1)
  have "(case (r1, s1) of (Ok ctx', s') \<Rightarrow> handler ctx' req s' | (Err e, s') \<Rightarrow> (Err e, s') | (Panic, s') \<Rightarrow> (Panic, s')) = (r, s')"
    using assms(1,3,4) step by (simp add: unary_chain_eq authenticates_unary_def)
  then show ?thesis
    using auth_step_cases [OF assms(2) step] by (cases r1) (auto simp: refused_def)
qed

lemma stream_chain_cases:
  assumes "authenticates_stream au" "checks_signature jl signed" "\<not> public_endpoint c info"
    "stream_chain au lib jl fetched ss info handler (c, a) = (r, s')"
  shows "refused r \<and> s' = (after_auth fetched c, a) \<or>
    (\<exists>ctx'. admitted lib jl signed (c_ac (after_auth fetched c)) (ss_Context ss) ctx' \<and>
       handler (ss\<lparr>ss_Context := ctx'\<rparr>) (after_auth fetched c, a) = (r, s'))"
proof (cases "auth_step lib jl fetched (ss_Context ss) (c, a)" rule: prod.exhaust)
  case step: (Pair r1 s1)
  have "(case (r1, s1) of (Ok ctx', s') \<Rightarrow> handler (ss\<lparr>ss_Context := ctx'\<rparr>) s' | (Err e, s') \<Rightarrow> (Err e, s') | (Panic, s') \<Rightarrow> (Panic, s')) = (r, s')"
    using assms(1,3,4) step by (simp add: stream_chain_eq authenticates_stream_def)
  then show ?thesis
    using auth_step_cases [OF assms(2) step] by (cases r1) (auto simp: refused_def)
qed

text \<open>No option removes the interceptors that \<open>StartGRPCServer\<close> has installed.\<close>

inductive_set server_options :: "(('opt, 'svc, 'jwks, 'key) server_config \<Rightarrow> ('opt, 'svc, 'jwks, 'key) server_config) set" where
  "WithOrchestrator svc \<in> server_options"
| "WithAssessment svc \<in> server_options"
| "WithEvidenceStore svc \<in> server_options"
| "WithDiscovery svc \<in> server_options"
| "WithExperimentalDiscovery svc \<in> server_options"
| "WithEvaluation svc \<in> server_options"
| "WithReflection \<in> server_options"
| "WithPublicEndpoints endpoints \<in> server_options"
| "WithAdditionalGRPCOpts opts \<in> server_options"
| "WithJWKS url \<in> server_options"
| "WithPublicKey key \<in> server_options"

lemmas option_defs = WithOrchestrator_def WithAssessment_def WithEvidenceStore_def WithDiscovery_def
  WithExperimentalDiscovery_def WithEvaluation_def WithReflection_def WithPublicEndpoints_def
  WithAdditionalGRPCOpts_def WithJWKS_def WithPublicKey_def

lemma server_option_keeps:
  "opt \<in> server_options \<Longrightarrow> set (c_grpcOpts c) \<subseteq> set (c_grpcOpts (opt c))"
  by (induction rule: server_options.induct) (auto simp: option_defs)

lemma server_options_keep:
  "set opts \<subseteq> server_options \<Longrightarrow> set (c_grpcOpts c) \<subseteq> set (c_grpcOpts (fold (\<lambda>opt. opt) opts c))"
proof (induction opts arbitrary: c)
  case (Cons opt opts)
  have "set (c_grpcOpts c) \<subseteq> set (c_grpcOpts (opt c))"
    by (rule server_option_keeps) (use Cons.prems in simp)
  also have "\<dots> \<subseteq> set (c_grpcOpts (fold (\<lambda>opt. opt) opts (opt c)))"
    by (rule Cons.IH) (use Cons.prems in simp)
  finally show ?case
    by simp
qed simp

section \<open>An instance\<close>

text \<open>
  An instance of the libraries for examples: metadata are a token, a token is a pair of a key
  and a user name in one string, separated by a dot, and verifies under its key.
\<close>

definition plain_lib :: "(string option, string) rpc_context jwt_lib" where
  "plain_lib = \<lparr> AuthFromMD = (\<lambda>ctx. case ctx_metadata ctx of Some token \<Rightarrow> Ok token | None \<Rightarrow> Err (Status Unauthenticated ''no token'')),
     ParseUnverified = (\<lambda>t. Ok [''cloudserviceid'' \<mapsto> JArray [JString (tl (dropWhile (\<lambda>c. c \<noteq> CHR ''.'') t))]]) \<rparr>"

definition plain_signed :: "string \<Rightarrow> string \<Rightarrow> bool" where
  "plain_signed k token \<longleftrightarrow> takeWhile (\<lambda>c. c \<noteq> CHR ''.'') token = k"

definition plain_tokens :: "(unit, string, string, string) token_lib" where
  "plain_tokens = \<lparr> jl_Keyfunc = (\<lambda>jwks t. Ok jwks),
     jl_ParseWithClaims = (\<lambda>token kf.
       case kf () of Ok (Some k) \<Rightarrow> if plain_signed k token then Ok token else Err (ErrText ''signature is invalid'')
        | _ \<Rightarrow> Err (ErrText ''no key'')) \<rparr>"

definition plain_unary :: "('ctx \<Rightarrow> 's \<Rightarrow> 'ctx res \<times> 's) \<Rightarrow> ('ctx, 'req, 'r, 's) unary_interceptor" where
  "plain_unary af ctx req info handler s =
     (case af ctx s of (Ok ctx', s') \<Rightarrow> handler ctx' req s' | (Err e, s') \<Rightarrow> (Err e, s') | (Panic, s') \<Rightarrow> (Panic, s'))"

definition plain_stream :: "('ctx \<Rightarrow> 's \<Rightarrow> 'ctx res \<times> 's) \<Rightarrow> ('ctx, 'm, 's) stream_interceptor" where
  "plain_stream af ss info handler s =
     (case af (ss_Context ss) s of (Ok ctx', s') \<Rightarrow> handler (ss\<lparr>ss_Context := ctx'\<rparr>) s'
      | (Err e, s') \<Rightarrow> (Err e, s') | (Panic, s') \<Rightarrow> (Panic, s'))"

lemma plain_interceptors: "authenticates_unary plain_unary" "authenticates_stream plain_stream"
  by (simp_all add: authenticates_unary_def authenticates_stream_def plain_unary_def plain_stream_def)

lemma plain_reads_metadata: "reads_metadata plain_lib"
  by (simp add: reads_metadata_def plain_lib_def)

lemma plain_checks_signature: "checks_signature plain_tokens plain_signed"
  unfolding checks_signature_def
proof (intro allI impI)
  fix token kf and cl :: string
  assume "jl_ParseWithClaims plain_tokens token kf = Ok cl"
  then have "\<exists>k. kf () = Ok (Some k) \<and> plain_signed k token"
    by (simp add: plain_tokens_def split: res.splits option.splits if_splits)
  then show "\<exists>t k. kf t = Ok (Some k) \<and> plain_signed k token"
    by blast
qed

section \<open>Properties\<close>

text \<open>
  C10: what the authentication of the server guarantees to handlers, for unary calls and
  streams, whatever options it was started with. The interceptors are installed. A call to an
  endpoint that is neither public nor the reflection endpoint is either refused with
  Unauthenticated or FailedPrecondition and leaves the services untouched, or its metadata
  carry a bearer token signed under a key of the key set (of the configured key without a key
  set), and the handler runs once, on a context for which the authorization strategy decides
  as for this token. A call to a public endpoint reaches its handler without any check.
\<close>

theorem authenticated_calls:
  assumes libs: "authenticates_unary au" "authenticates_stream strm" "reads_metadata lib" "checks_signature jl signed"
    and start: "set opts \<subseteq> server_options" "StartGRPCServer (Ok sock) opts = Ok (sock, srv)" "c = (srv_config srv)\<lparr>c_ac := ac\<rparr>"
    and unary: "unary_chain au lib jl fetched ctx req info handler (c, a) = (r, s')"
    and stream: "stream_chain strm lib jl fetched ss info shandler (c, a) = (sr, t')"
  shows "{ChainUnaryInterceptor, ChainStreamInterceptor} \<subseteq> set (srv_options srv) \<and>
    (if info = reflection_method \<or> info \<in> set (c_publicEndpoints c)
     then handler ctx req (c, a) = (r, s') \<and> shandler ss (c, a) = (sr, t')
     else (refused r \<and> snd s' = a \<or>
           (\<exists>ctx'. admitted lib jl signed (snd (load_jwks fetched ac)) ctx ctx' \<and>
              handler ctx' req (after_auth fetched c, a) = (r, s') \<and>
              (\<forall>st typ csid. jwt_CheckAccess lib st (Some ctx') typ csid = jwt_CheckAccess lib st (Some ctx) typ csid))) \<and>
          (refused sr \<and> snd t' = a \<or>
           (\<exists>ctx'. admitted lib jl signed (snd (load_jwks fetched ac)) (ss_Context ss) ctx' \<and>
              shandler (ss\<lparr>ss_Context := ctx'\<rparr>) (after_auth fetched c, a) = (sr, t'))))"
proof -
  have inst: "{ChainUnaryInterceptor, ChainStreamInterceptor} \<subseteq> set (srv_options srv)"
    using server_options_keep [OF start(1), of base_config] start(2)
    by (auto simp: StartGRPCServer_def Let_def base_config_def)
  have ac: "c_ac (after_auth fetched c) = snd (load_jwks fetched ac)"
    using start(3) by (simp add: after_auth_def)
  show ?thesis
  proof (cases "public_endpoint c info")
    case True
    then show ?thesis
      using inst unary stream by (simp add: unary_chain_eq stream_chain_eq public_endpoint_def)
  next
    case prot: False
    have u: "refused r \<and> snd s' = a \<or>
      (\<exists>ctx'. admitted lib jl signed (snd (load_jwks fetched ac)) ctx ctx' \<and> handler ctx' req (after_auth fetched c, a) = (r, s') \<and>
         (\<forall>st typ csid. jwt_CheckAccess lib st (Some ctx') typ csid = jwt_CheckAccess lib st (Some ctx) typ csid))"
      using unary_chain_cases [OF libs(1,4) prot unary] unfolding ac
      by (elim disjE exE conjE) (simp, use admitted_access [OF _ libs(3)] in blast)
    have "refused sr \<and> snd t' = a \<or>
      (\<exists>ctx'. admitted lib jl signed (snd (load_jwks fetched ac)) (ss_Context ss) ctx' \<and>
         shandler (ss\<lparr>ss_Context := ctx'\<rparr>) (after_auth fetched c, a) = (sr, t'))"
      using stream_chain_cases [OF libs(2,4) prot stream] unfolding ac by (elim disjE) (simp, blast)
    then show ?thesis
      using inst u prot by (simp add: public_endpoint_def)
  qed
qed

definition sample_srv :: "(unit, unit, string, string) grpc_server" where
  "sample_srv = (case StartGRPCServer (Ok ()) [WithJWKS DefaultJWKSURL, WithPublicEndpoints [''/health'']] of Ok (_, srv) \<Rightarrow> srv)"

lemma sample_srv_simps:
  "StartGRPCServer (Ok ()) [WithJWKS DefaultJWKSURL, WithPublicEndpoints [''/health'']] = Ok ((), sample_srv)"
  "c_publicEndpoints (srv_config sample_srv) = [''/health'']"
  "c_ac (srv_config sample_srv) = empty_AuthConfig\<lparr>ac_jwksURL := DefaultJWKSURL, ac_useJWKS := True\<rparr>"
  by (simp_all add: sample_srv_def StartGRPCServer_def Let_def option_defs base_config_def)

definition call_Remove :: "string \<Rightarrow> string \<Rightarrow> unit res \<times> (unit, unit, string, string) server_config \<times> nat" where
  "call_Remove token info = unary_chain plain_unary plain_lib plain_tokens (Some ''k'', None)
     \<lparr> ctx_metadata = Some token, ctx_token = None \<rparr> () info (\<lambda>ctx req (c, n). (Ok (), c, Suc n)) (srv_config sample_srv, 0)"

theorem authenticated_calls_witness:
  "snd (snd (call_Remove ''x.u1'' ''/orchestrator/Remove'')) = 0 \<and> snd (snd (call_Remove ''x.u1'' ''/health'')) = 1"
proof -
  let ?ctx = "\<lparr> ctx_metadata = Some ''x.u1'', ctx_token = None \<rparr> :: (string option, string) rpc_context"
  let ?ss = "\<lparr> ss_Context = ?ctx, ss_messages = () \<rparr>"
  let ?sh = "\<lambda>ss (c :: (unit, unit, string, string) server_config, n). (Ok (), c, Suc n)"
  let ?c = "srv_config sample_srv"
  have opts: "set [WithJWKS DefaultJWKSURL, WithPublicEndpoints [''/health'']] \<subseteq> server_options"
    by (simp add: server_options.intros)
  have out: "\<not> admitted plain_lib plain_tokens plain_signed (snd (load_jwks (Some ''k'', None) (c_ac ?c))) ?ctx ctx'" for ctx'
    by (simp add: admitted_def trusted_def key_source_def load_jwks_def sample_srv_simps empty_AuthConfig_def
        plain_tokens_def plain_lib_def plain_signed_def)
  note p = authenticated_calls [OF plain_interceptors plain_reads_metadata plain_checks_signature opts sample_srv_simps(1),
      of ?c "c_ac ?c" "(Some ''k'', None)" ?ctx "()" _ "\<lambda>ctx req (c, n). (Ok (), c, Suc n)" 0
        "fst (call_Remove ''x.u1'' info)" "snd (call_Remove ''x.u1'' info)" ?ss ?sh
        "fst (stream_chain plain_stream plain_lib plain_tokens (Some ''k'', None) ?ss info ?sh (?c, 0))"
        "snd (stream_chain plain_stream plain_lib plain_tokens (Some ''k'', None) ?ss info ?sh (?c, 0))" for info]
  have "snd (snd (call_Remove ''x.u1'' ''/orchestrator/Remove'')) = 0"
    using p [of "''/orchestrator/Remove''" "''/orchestrator/Remove''"] out
    by (simp add: sample_srv_simps reflection_method_def flip: call_Remove_def)
  moreover have "snd (snd (call_Remove ''x.u1'' ''/health'')) = 1"
    using p [of "''/health''" "''/health''"] by (simp add: sample_srv_simps prod_eq_iff flip: call_Remove_def)
  ultimately show ?thesis
    by blast
qed

end
