(* ===== verification/Pipeline.thy ===== *)
theory Pipeline
  imports Discovery Eval_Cache Evidence_Store Orch_Toe Server
begin

text \<open>
  The services connected with each other: the client through which the evaluation reads the
  orchestrator, the way of an evidence through the assessment into the database of the
  orchestrator and from there into the status of a sub-control, and the handlers of the
  orchestrator behind the authentication of the server.
\<close>

section \<open>The evaluation reads the orchestrator\<close>

text \<open>
  The client of the evaluation answered by the handlers of an orchestrator in state \<open>s\<close>, which
  see the context \<open>ctx\<close> of the calling service.
\<close>

definition orchestrator_client ::
  "proto_lib \<Rightarrow> GetTargetOfEvaluationRequest validator \<Rightarrow> GetCatalogRequest validator \<Rightarrow> ListControlsRequest validator \<Rightarrow>
   ListAssessmentResultsRequest validator \<Rightarrow> 'ctx \<Rightarrow> ('ctx, 'db) orch \<Rightarrow> eval_client" where
  "orchestrator_client pb vt vc vl vr ctx s =
     \<lparr> ec_GetTargetOfEvaluation = (\<lambda>req. GetTargetOfEvaluation vt ctx (Some req) s),
       ec_GetCatalog = (\<lambda>req. GetCatalog vc (Some req) s),
       ec_ListControls = (\<lambda>req. ListControls pb vl (Some req) s),
       ec_ListAssessmentResults = (\<lambda>req. ListAssessmentResults pb vr ctx (Some req) s) \<rparr>"

text \<open>
  A selection of the latest results of a cloud service for some metrics: stored results, one
  per resource and metric, none older than another stored one for the same.
\<close>

definition latest_results :: "AssessmentResult set \<Rightarrow> string \<Rightarrow> string list \<Rightarrow> AssessmentResult list \<Rightarrow> bool" where
  "latest_results rows csid mids rs \<longleftrightarrow>
     distinct (map (\<lambda>r. (ar_ResourceId r, ar_MetricId r)) rs) \<and>
     (\<forall>x \<in> set rs. x \<in> rows \<and> ar_CloudServiceId x = csid \<and> ar_MetricId x \<in> set mids) \<and>
     (\<forall>r \<in> rows. ar_CloudServiceId r = csid \<and> ar_MetricId r \<in> set mids \<longrightarrow>
        (\<exists>x \<in> set rs. ar_ResourceId x = ar_ResourceId r \<and> ar_MetricId x = ar_MetricId r \<and>
           ts_le (opt_time (ar_Timestamp r)) (opt_time (ar_Timestamp x))))"

definition results_request :: "TargetOfEvaluation \<Rightarrow> Metric list \<Rightarrow> ListAssessmentResultsRequest" where
  "results_request toe metrics =
     \<lparr> req_PageToken = [], req_PageSize = 0, req_OrderBy = [], req_Asc = False,
       lar_Filter = Some \<lparr> f_CloudServiceId = Some (toe_CloudServiceId toe), f_Compliant = None,
                           f_MetricIds = Some (getMetricIds metrics), f_ToolId = None \<rparr>,
       lar_LatestByResourceId = Some True \<rparr>"

text \<open>An orchestrator whose results can be read by the caller.\<close>

definition readable_results ::
  "(AssessmentResult, 'db) table \<Rightarrow> ListAssessmentResultsRequest validator \<Rightarrow> 'ctx \<Rightarrow> string \<Rightarrow> ('ctx, 'db) orch \<Rightarrow> bool" where
  "readable_results T vr ctx csid s \<longleftrightarrow>
     gorm_table (tb_AssessmentResult (o_tables s)) T \<and> has_schema T result_key result_col \<and> authz_strategy (o_authz s) \<and>
     available (tb_AssessmentResult (o_tables s)) (o_db s) \<and> az_CheckAccess (o_authz s) ctx AccessRead csid \<and> (\<forall>req. vr req = None)"

lemma ListAssessmentResults_answers:
  assumes "readable_results T vr ctx (toe_CloudServiceId toe) s"
  obtains rs where "ListAssessmentResults pb vr ctx (Some (results_request toe metrics)) s = Ok (rs, [])"
proof -
  let ?scope = "az_AllowedCloudServices (o_authz s) ctx"
  let ?fs = "result_frags (lar_Filter (results_request toe metrics)) ?scope"
  have "is_ok (gorm_Raw (tb_AssessmentResult (o_tables s)) (latest_query ?fs) (concat (map snd ?fs)) (o_db s))"
    using assms by (simp add: readable_results_def available_def)
  then obtain rs where raw: "gorm_Raw (tb_AssessmentResult (o_tables s)) (latest_query ?fs) (concat (map snd ?fs)) (o_db s) = Ok rs"
    by (auto simp: is_ok_iff)
  have "fst ?scope \<or> toe_CloudServiceId toe \<in> set (snd ?scope)"
    using assms authz_strategy.check_iff_allowed [of "o_authz s" ctx AccessRead "toe_CloudServiceId toe"]
    by (simp add: readable_results_def)
  then have "ListAssessmentResults pb vr ctx (Some (results_request toe metrics)) s = Ok (rs, [])"
    using raw assms by (auto simp: ListAssessmentResults_def readable_results_def storage_Raw_def Let_def results_request_def)
  then show thesis
    by (rule that)
qed

lemma list_assessments_answers:
  assumes "ListAssessmentResults pb vr ctx (Some (results_request toe metrics)) s = Ok (rs, [])" "metrics \<noteq> []"
  shows "list_assessments (orchestrator_client pb vt vc vl vr ctx s) toe metrics = Ok rs"
  using assms by (simp add: list_assessments_def orchestrator_client_def ListAllPaginated_single flip: results_request_def)
    (simp add: ListAllPaginated_single results_request_def)

lemma judged_latest:
  assumes "readable_results T vr ctx (toe_CloudServiceId toe) s"
    "getAllMetricsFromControl (toe_CatalogId toe) (ctl_CategoryName c) (ctl_Id c) m = Ok metrics" "metrics \<noteq> []"
  shows "latest_results (t_rows T (o_db s)) (toe_CloudServiceId toe) (getMetricIds metrics)
    (judged (orchestrator_client pb vt vc vl vr ctx s) m toe c)"
proof -
  obtain rs where l: "ListAssessmentResults pb vr ctx (Some (results_request toe metrics)) s = Ok (rs, [])"
    using ListAssessmentResults_answers [OF assms(1)] .
  then have j: "judged (orchestrator_client pb vt vc vl vr ctx s) m toe c = rs"
    using assms(2,3) by (simp add: judged_def list_assessments_answers)
  have g: "gorm_table (tb_AssessmentResult (o_tables s)) T" "has_schema T result_key result_col" "authz_strategy (o_authz s)"
    "vr (results_request toe metrics) = None" "lar_LatestByResourceId (results_request toe metrics) = Some True"
    "az_CheckAccess (o_authz s) ctx AccessRead (toe_CloudServiceId toe)"
    using assms(1) by (auto simp: readable_results_def results_request_def)
  have fm: "filter_matches (lar_Filter (results_request toe metrics)) r \<longleftrightarrow>
      ar_CloudServiceId r = toe_CloudServiceId toe \<and> ar_MetricId r \<in> set (getMetricIds metrics)" for r
    by (simp add: filter_matches_def results_request_def)
  show ?thesis
    unfolding j latest_results_def
    using grouped_listing(1) [OF g(1-5) l] grouped_listing(3,4) [OF g(1-5) l, unfolded fm, of _ AccessRead] g(6) by metis
qed

section \<open>From an evidence to the database of the orchestrator\<close>

lemma handleEvidence_results:
  assumes "handleEvidence al lib client sc uuid now ctx ev svc = (Ok results, svc')"
    "streams_ok (as_orchestratorStreams svc)" "streams_ok (as_evidenceStoreStreams svc)"
  shows "handed (as_orchestratorStreams svc') (rc_Target (as_orchestrator svc)) =
      handed (as_orchestratorStreams svc) (rc_Target (as_orchestrator svc)) @ results"
    "r \<in> set results \<Longrightarrow> ar_Timestamp r = Some now \<and> ar_CloudServiceId r = ev_CloudServiceId ev"
proof -
  from handleEvidence_steps [OF assms(1)] obtain m resource evaluations pe cache svc1 u
    where "al_UnmarshalNew al (ev_Resource ev) = Ok m" "al_Validate al m = None" "al_IsResource al m = Some resource"
      "Eval lib ev resource (metrics_source client now) (as_pe svc, as_cachedConfigurations svc) = (Ok evaluations, pe, cache)"
      and st: "store_evidence sc ctx ev (svc\<lparr>as_pe := pe, as_cachedConfigurations := cache\<rparr>) = (Ok u, svc1)"
      and sr: "send_results sc uuid now ctx ev resource evaluations svc1 = (Ok results, svc')" .
  have st': "as_orchestratorStreams svc1 = as_orchestratorStreams svc" "as_orchestrator svc1 = as_orchestrator svc"
    using store_evidence_spec [OF st] assms(3) by (cases "as_isEvidenceStoreDisabled svc"; simp)+
  note spec = send_results_spec [OF sr, unfolded st', OF assms(2)]
  show "handed (as_orchestratorStreams svc') (rc_Target (as_orchestrator svc)) =
      handed (as_orchestratorStreams svc) (rc_Target (as_orchestrator svc)) @ results"
    using spec by simp
  show "ar_Timestamp r = Some now \<and> ar_CloudServiceId r = ev_CloudServiceId ev" if "r \<in> set results"
    using that spec unfolding results_of_def new_result_def by auto
qed

lemma AssessEvidence_results:
  assumes "AssessEvidence al lib client sc uuid now v ctx (Some \<lparr> aer_Evidence = Some ev \<rparr>) svc = (Ok u, svc')"
    "streams_ok (as_orchestratorStreams svc)" "streams_ok (as_evidenceStoreStreams svc)"
    "handed (as_orchestratorStreams svc') (rc_Target (as_orchestrator svc)) =
       handed (as_orchestratorStreams svc) (rc_Target (as_orchestrator svc)) @ results" "r \<in> set results"
  shows "ar_Timestamp r = Some now \<and> ar_CloudServiceId r = ev_CloudServiceId ev"
proof -
  obtain rs where h: "handleEvidence al lib client sc uuid now ctx ev svc = (Ok rs, svc')"
    using assms(1) by (cases "handleEvidence al lib client sc uuid now ctx ev svc")
      (auto simp: AssessEvidence_def split: res.splits if_splits)
  then show ?thesis
    using handleEvidence_results(1) [OF h assms(2,3)] handleEvidence_results(2) [OF h assms(2,3)] assms(4,5) by simp
qed

text \<open>A stream of which every message was acknowledged has stored them all.\<close>

lemma acknowledged_all:
  "length out = length rs \<Longrightarrow> \<forall>(ok, m) \<in> set out. ok \<Longrightarrow> acknowledged rs out = set rs"
proof (induction rs arbitrary: out)
  case (Cons r rs)
  then show ?case by (cases out) auto
qed simp

lemma StoreAssessmentResults_all:
  assumes "gorm_table (tb_AssessmentResult (o_tables s)) T"
    "StoreAssessmentResults v ctx (\<lambda>_. None) (map (\<lambda>r. Ok \<lparr> sar_Result = Some r \<rparr>) received) s = (Ok u, s', out)"
    "\<forall>(ok, m) \<in> set out. ok"
  shows "t_rows T (o_db s') = t_rows T (o_db s) \<union> set received"
proof -
  let ?run = "serve_stream (store_result_round v ctx) ''cannot stream response to the client: '' (\<lambda>_. None)
    (map (\<lambda>r. Ok \<lparr> sar_Result = Some r \<rparr>) received) s []"
  obtain s1 out1 where run: "?run = (Ok (), s1, [] @ out1)" and out1: "length out1 = length received"
      "t_rows T (o_db s1) = t_rows T (o_db s) \<union> acknowledged received out1"
    using result_stream.serve_all [OF assms(1), where msg = "''cannot stream response to the client: ''" and rs = received
        and sent = "[]" and v = v and ctx = ctx] by (elim exE conjE)
  have "s1 = s'" "out1 = out"
    using run assms(2) by (simp_all add: StoreAssessmentResults_def)
  then show ?thesis
    using out1 acknowledged_all [OF out1(1)] assms(3) by simp
qed

text \<open>A result that is newer than everything stored for its resource and metric is the selected one.\<close>

definition newest :: "AssessmentResult set \<Rightarrow> AssessmentResult \<Rightarrow> bool" where
  "newest rows r \<longleftrightarrow>
     (\<forall>x \<in> rows. ar_ResourceId x = ar_ResourceId r \<and> ar_MetricId x = ar_MetricId r \<and> ar_CloudServiceId x = ar_CloudServiceId r \<and> x \<noteq> r \<longrightarrow>
        \<not> ts_le (opt_time (ar_Timestamp r)) (opt_time (ar_Timestamp x)))"

lemma newest_selected:
  assumes "latest_results rows csid mids rs" "newest rows r" "r \<in> rows" "ar_CloudServiceId r = csid" "ar_MetricId r \<in> set mids"
  shows "r \<in> set rs"
proof -
  have "\<exists>x \<in> set rs. ar_ResourceId x = ar_ResourceId r \<and> ar_MetricId x = ar_MetricId r \<and>
      ts_le (opt_time (ar_Timestamp r)) (opt_time (ar_Timestamp x))"
    using assms(1,3-5) by (simp add: latest_results_def)
  then obtain x where x: "x \<in> set rs" "ar_ResourceId x = ar_ResourceId r" "ar_MetricId x = ar_MetricId r"
      "ts_le (opt_time (ar_Timestamp r)) (opt_time (ar_Timestamp x))" by (elim bexE conjE)
  have "x \<in> rows" "ar_CloudServiceId x = csid"
    using assms(1) x(1) by (simp_all add: latest_results_def)
  then have "x = r"
    using assms(2,4) x(2-4) by (auto simp: newest_def)
  then show ?thesis
    using x(1) by simp
qed

lemma status_of_member:
  assumes "r \<in> set rs"
  shows "status_of rs \<noteq> PENDING" "\<not> ar_Compliant r \<Longrightarrow> status_of rs = NOT_COMPLIANT \<and> ar_Id r \<in> set (failing_of rs)"
  using assms by (auto simp: status_of_def failing_of_def)

section \<open>The orchestrator behind the server\<close>

text \<open>A handler of the orchestrator as the server calls it, on the configuration of the server and the state of the service.\<close>

definition serve_handler ::
  "(('md, 'cl) rpc_context option \<Rightarrow> 'req \<Rightarrow> 's \<Rightarrow> 'r res \<times> 's) \<Rightarrow> (('md, 'cl) rpc_context, 'req, 'r, 'c \<times> 's) unary_handler" where
  "serve_handler h ctx req cs = (case h (Some ctx) req (snd cs) of (r, s') \<Rightarrow> (r, fst cs, s'))"

text \<open>A handler that refuses a caller without access to the cloud service, and changes nothing then.\<close>

definition guarded ::
  "'ctx AuthorizationStrategy \<Rightarrow> ('ctx \<Rightarrow> 'req \<Rightarrow> 's \<Rightarrow> 'r res \<times> 's) \<Rightarrow> 'req \<Rightarrow> string \<Rightarrow> 's \<Rightarrow> bool" where
  "guarded az h req csid s \<longleftrightarrow>
     (\<forall>ctx. (\<forall>typ. \<not> az_CheckAccess az ctx typ csid) \<longrightarrow> (\<exists>e. h ctx req s = (Err e, s)))"

lemma RemoveCloudService_guarded:
  "guarded (o_authz s) (RemoveCloudService v) (Some \<lparr> dcs_CloudServiceId = csid \<rparr>) csid s"
  by (auto simp: guarded_def RemoveCloudService_def Validate_def split: option.splits)

lemma UpdateCloudService_guarded:
  "guarded (o_authz s) (UpdateCloudService v now) (Some req) (ucs_GetCloudServiceId req) s"
  by (auto simp: guarded_def UpdateCloudService_def Validate_def split: option.splits)

lemma guarded_call:
  assumes libs: "authenticates_unary au" "reads_metadata lib" "checks_signature jl vouches"
    and guard: "guarded (strategy_JWT lib st) h req csid s" and prot: "\<not> public_endpoint c info"
    and call: "unary_chain au lib jl fetched ctx req info (serve_handler h) (c, s) = (r, c', s')"
    and eff: "is_ok r \<or> s' \<noteq> s"
  shows "\<exists>token k claims. AuthFromMD lib ctx = Ok token \<and> trusted jl (snd (load_jwks fetched (c_ac c))) k \<and> vouches k token \<and>
    ParseUnverified lib token = Ok claims \<and> claims_grant st claims csid"
proof -
  have "\<not> (refused r \<and> (c', s') = (after_auth fetched c, s))"
    using eff by (auto simp: refused_def)
  then obtain ctx' where adm: "admitted lib jl vouches (c_ac (after_auth fetched c)) ctx ctx'"
    and run: "serve_handler h ctx' req (after_auth fetched c, s) = (r, c', s')"
    using unary_chain_cases [OF libs(1,3) prot call] by (elim disjE exE conjE) blast+
  have "\<exists>typ. az_CheckAccess (strategy_JWT lib st) (Some ctx') typ csid"
  proof (rule ccontr)
    assume "\<not> ?thesis"
    then obtain e where "h (Some ctx') req s = (Err e, s)"
      using guard unfolding guarded_def by blast
    then show False
      using run eff by (auto simp: serve_handler_def)
  qed
  then have "jwt_CheckAccess lib st (Some ctx) AccessRead csid"
    using admitted_access [OF adm libs(2)] by (auto simp: strategy_JWT_def jwt_access_cases)
  then show ?thesis
    using adm by (auto simp: jwt_access_cases admitted_def after_auth_def)
qed

section \<open>An instance\<close>

text \<open>An orchestrator in memory that allows everything, with the given results.\<close>

definition results_orch :: "AssessmentResult list \<Rightarrow> (unit, mem_db) orch" where
  "results_orch rs = new_orch strategy_AllowAll (empty_db\<lparr>md_AssessmentResult := rs\<rparr>)"

lemma results_orch_readable: "readable_results (mem_sem mt_AssessmentResult) (\<lambda>_. None) () csid (results_orch rs)"
  using mem_result.gorm_table_axioms allow_all.authz_strategy_axioms by (simp add: readable_results_def results_orch_def)

lemma orch_readable_db:
  assumes "o_tables s' = o_tables s" "o_authz s' = o_authz s" "readable_results (mem_sem mt_AssessmentResult) vr ctx csid s"
    "available (tb_AssessmentResult (o_tables s)) (o_db s')"
  shows "readable_results (mem_sem mt_AssessmentResult) vr ctx csid s'"
  using assms by (simp add: readable_results_def)

definition memory_eval :: "control_cache \<Rightarrow> (unit, mem_db, unit, unit, unit, unit) evaluation" where
  "memory_eval m = new_eval strategy_AllowAll () [] m"

lemma memory_eval_simps [simp]:
  "e_catalogControls (memory_eval m) = m" "e_storage (memory_eval m) = mem_gorm mt_EvaluationResult"
  by (simp_all add: memory_eval_def)

lemma evaluateSubcontrol_in_memory:
  assumes "readable_results T vr ctx (toe_CloudServiceId toe) s" "metrics \<noteq> []"
    "getAllMetricsFromControl (toe_CatalogId toe) (ctl_CategoryName c) (ctl_Id c) m = Ok metrics"
  obtains er svc' where "evaluateSubcontrol (orchestrator_client pb vt vc vl vr ctx s) idt (Some toe) (Some c) (memory_eval m) = (Ok (Some er), svc')"
proof -
  obtain rs where "ListAssessmentResults pb vr ctx (Some (results_request toe metrics)) s = Ok (rs, [])"
    using ListAssessmentResults_answers [OF assms(1)] .
  then show thesis
    using that assms(2,3) new_eval_create [of "[]"]
    by (simp add: evaluateSubcontrol_def list_assessments_answers memory_eval_def Let_def)
qed

text \<open>The sub-control \<open>OPS-01.1\<close> with the metric that the sample evidence is assessed by, and its target.\<close>

definition echo_sub :: Control where
  "echo_sub = Control ''OPS-01.1'' ''OPS'' ''C5'' [] [] [] [echo_metric] (Some ''OPS-01'') (Some ''OPS'') (Some ''C5'') None"

definition echo_cache :: control_cache where
  "echo_cache = [''C5'' \<mapsto> store_controls [echo_sub] []]"

definition echo_toe :: TargetOfEvaluation where
  "echo_toe = \<lparr> toe_CloudServiceId = ev_CloudServiceId echo_evidence, toe_CatalogId = ''C5'', toe_AssuranceLevel = None \<rparr>"

lemma echo_sub_metrics:
  "getAllMetricsFromControl (toe_CatalogId echo_toe) (ctl_CategoryName echo_sub) (ctl_Id echo_sub) echo_cache = Ok [echo_metric]"
  by (simp add: getAllMetricsFromControl_def getControl_def cached_controls_def echo_cache_def echo_sub_def echo_toe_def control_tag_def)

definition echo_stored :: AssessmentResult where
  "echo_stored = new_result ''u'' 7 echo_evidence echo_resource (echo_result ''Echo'')"

lemma echo_AssessEvidence:
  obtains svc' where "AssessEvidence echo_al echo_lib echo_client echo_streams (\<lambda>_. ''u'') 7 (\<lambda>_. None) () (Some \<lparr> aer_Evidence = Some echo_evidence \<rparr>) echo_service = (Ok (), svc')"
    "handed (as_orchestratorStreams svc') ''localhost:9090'' = [echo_stored]"
proof -
  obtain svc' where h: "handleEvidence echo_al echo_lib echo_client echo_streams (\<lambda>_. ''u'') 7 () echo_evidence echo_service = (Ok [echo_stored], svc')"
    using echo_handleEvidence by (metis echo_stored_def prod.collapse)
  have "as_authz echo_service = strategy_AllowAll"
    by (simp add: echo_service_def NewService_as_def Let_def)
  then have "AssessEvidence echo_al echo_lib echo_client echo_streams (\<lambda>_. ''u'') 7 (\<lambda>_. None) () (Some \<lparr> aer_Evidence = Some echo_evidence \<rparr>) echo_service = (Ok (), svc')"
    using h by (simp add: AssessEvidence_def)
  moreover have "handed (as_orchestratorStreams svc') ''localhost:9090'' = [echo_stored]"
    using handleEvidence_results(1) [OF h] by (simp add: echo_service_fields handed_new)
  ultimately show thesis
    by (rule that)
qed

lemma echo_StoreAssessmentResults:
  obtains s' where "StoreAssessmentResults (\<lambda>_. None) () (\<lambda>_. None) (map (\<lambda>r. Ok \<lparr> sar_Result = Some r \<rparr>) [echo_stored]) (results_orch []) = (Ok (), s', [(True, [])])"
    "readable_results (mem_sem mt_AssessmentResult) (\<lambda>_. None) () csid s'"
proof -
  let ?d = "empty_db\<lparr>md_AssessmentResult := [echo_stored]\<rparr>"
  let ?s = "go_stmt (InformResultHook () (Some echo_stored) None) ((results_orch [])\<lparr>o_db := ?d\<rparr>)"
  have "mt_list mt_AssessmentResult (empty_db\<lparr>md_AssessmentResult := []\<rparr>) = []"
    by simp
  moreover have "mt_put mt_AssessmentResult [echo_stored] (empty_db\<lparr>md_AssessmentResult := []\<rparr>) = ?d"
    by (simp add: mt_AssessmentResult_def)
  ultimately have "storage_Create (mem_gorm mt_AssessmentResult) echo_stored (empty_db\<lparr>md_AssessmentResult := []\<rparr>) = (Ok (), ?d)"
    by (simp add: storage_Create_def mem_gorm_def)
  then have "StoreAssessmentResults (\<lambda>_. None) () (\<lambda>_. None) (map (\<lambda>r. Ok \<lparr> sar_Result = Some r \<rparr>) [echo_stored]) (results_orch []) = (Ok (), ?s, [(True, [])])"
    by (simp add: StoreAssessmentResults_def store_result_round_def StoreAssessmentResult_def results_orch_def)
  moreover have "readable_results (mem_sem mt_AssessmentResult) (\<lambda>_. None) () csid ?s"
    by (rule orch_readable_db [OF _ _ results_orch_readable [of csid "[]"]]) (simp_all add: results_orch_def)
  ultimately show thesis
    by (rule that)
qed

end
