(* ===== verification/Rest.thy ===== *)
theory Rest
  imports Api_Base
begin

text \<open>
  The REST gateway of src/server/rest/rest.go: its global configuration and options, the
  wrapper for cross-origin requests, starting and stopping, and the expansion of paths of
  src/internal/util/filesystem.go that the embedded authorization server uses. The generated
  gateway, the multiplexer, the authorization server and the network are parameters.
\<close>

section \<open>Expanding paths\<close>

text \<open>
  \<open>filepath.Clean\<close> on Unix: empty and dot elements are dropped, and a double dot cancels the
  element before it (and is kept only at the beginning of a relative path).
\<close>

fun split_path :: "string \<Rightarrow> string list" where
  "split_path [] = [[]]"
| "split_path (c # s) =
     (if c = CHR ''/'' then [] # split_path s
      else case split_path s of x # xs \<Rightarrow> (c # x) # xs | [] \<Rightarrow> [[c]])"

fun clean_elements :: "bool \<Rightarrow> string list \<Rightarrow> string list \<Rightarrow> string list" where
  "clean_elements rooted out [] = rev out"
| "clean_elements rooted out (e # es) =
     (if e = [] \<or> e = ''.'' then clean_elements rooted out es
      else if e = ''..'' then
        (case out of
           [] \<Rightarrow> clean_elements rooted (if rooted then [] else [''..'']) es
         | x # xs \<Rightarrow> clean_elements rooted (if x = ''..'' then ''..'' # out else xs) es)
      else clean_elements rooted (e # out) es)"

definition Clean :: "string \<Rightarrow> string" where
  "Clean path =
     (let rooted = HasPrefix path ''/'';
          out = (if rooted then ''/'' else []) @ Join (clean_elements rooted [] (split_path path)) ''/''
      in if out = [] then ''.'' else out)"

text \<open>\<open>filepath.Join\<close>: the non-empty elements, separated and cleaned.\<close>

definition path_Join :: "string list \<Rightarrow> string" where
  "path_Join elem = (case filter (\<lambda>e. e \<noteq> []) elem of [] \<Rightarrow> [] | es \<Rightarrow> Clean (Join es ''/''))"

text \<open>The home directory of the user is an argument.\<close>

definition ExpandPath :: "string res \<Rightarrow> string \<Rightarrow> string res" where
  "ExpandPath userHomeDir path =
     (case userHomeDir of
        Err err \<Rightarrow> Err (Wrap ''could not find retrieve current user: '' err)
      | Panic \<Rightarrow> Panic
      | Ok home \<Rightarrow>
          (case CutPrefix path ''~'' of
             (out, found) \<Rightarrow> Ok (if found then path_Join [home, out] else out)))"

section \<open>Configuration\<close>

record corsConfig =
  allowedOrigins :: "string list"
  allowedHeaders :: "string list"
  allowedMethods :: "string list"

record 'opt rest_config =
  rc_cors :: corsConfig
  rc_opts :: "'opt list"

definition DefaultAllowedOrigins :: "string list" where
  "DefaultAllowedOrigins = []"

definition DefaultAllowedHeaders :: "string list" where
  "DefaultAllowedHeaders = [''Content-Type'', ''Accept'', ''Authorization'']"

definition DefaultAllowedMethods :: "string list" where
  "DefaultAllowedMethods = [''GET'', ''POST'', ''PUT'', ''DELETE'']"

definition DefaultAPIHTTPPort :: nat where
  "DefaultAPIHTTPPort = 8080"

text \<open>HTTP requests and responses; headers under their canonical names.\<close>

type_synonym http_header = "string \<Rightarrow> string list"

record http_request =
  hr_Method :: string
  hr_Path :: string
  hr_Header :: http_header

record http_response =
  hw_Header :: http_header
  hw_Status :: int
  hw_Body :: string

type_synonym http_handler = "http_request \<Rightarrow> http_response \<Rightarrow> http_response"

definition Header_Get :: "http_header \<Rightarrow> string \<Rightarrow> string" where
  "Header_Get h key = (case h key of [] \<Rightarrow> [] | v # _ \<Rightarrow> v)"

definition Header_Set :: "string \<Rightarrow> string \<Rightarrow> http_response \<Rightarrow> http_response" where
  "Header_Set key v w = w\<lparr>hw_Header := (hw_Header w)(key := [v])\<rparr>"

definition Header_Add :: "string \<Rightarrow> string \<Rightarrow> http_response \<Rightarrow> http_response" where
  "Header_Add key v w = w\<lparr>hw_Header := (hw_Header w)(key := hw_Header w key @ [v])\<rparr>"

text \<open>\<open>http.StripPrefix\<close>: without the prefix the request is not found.\<close>

definition StripPrefix :: "string \<Rightarrow> http_handler \<Rightarrow> http_handler" where
  "StripPrefix prefix h r w =
     (if HasPrefix (hr_Path r) prefix then h (r\<lparr>hr_Path := drop (length prefix) (hr_Path r)\<rparr>) w
      else w\<lparr>hw_Status := 404, hw_Body := ''404 page not found''\<rparr>)"

text \<open>
  An option changes the configuration and adds handlers to the multiplexer, which is read
  through the list of its additional handlers. The port that has been set before is an
  argument of the option that uses it.
\<close>

type_synonym mux = "(string \<times> string \<times> http_handler) list"
type_synonym 'opt ServerConfigOption = "nat \<Rightarrow> 'opt rest_config \<times> mux \<Rightarrow> 'opt rest_config \<times> mux"

definition WithAllowedOrigins :: "string list \<Rightarrow> 'opt ServerConfigOption" where
  "WithAllowedOrigins origins port s = ((fst s)\<lparr>rc_cors := (rc_cors (fst s))\<lparr>allowedOrigins := origins\<rparr>\<rparr>, snd s)"

definition WithAllowedHeaders :: "string list \<Rightarrow> 'opt ServerConfigOption" where
  "WithAllowedHeaders headers port s = ((fst s)\<lparr>rc_cors := (rc_cors (fst s))\<lparr>allowedHeaders := headers\<rparr>\<rparr>, snd s)"

definition WithAllowedMethods :: "string list \<Rightarrow> 'opt ServerConfigOption" where
  "WithAllowedMethods methods port s = ((fst s)\<lparr>rc_cors := (rc_cors (fst s))\<lparr>allowedMethods := methods\<rparr>\<rparr>, snd s)"

definition WithAdditionalHandler :: "string \<Rightarrow> string \<Rightarrow> http_handler \<Rightarrow> 'opt ServerConfigOption" where
  "WithAdditionalHandler meth path h port s = (fst s, snd s @ [(meth, path, h)])"

definition WithAdditionalGRPCOpts_rest :: "'opt list \<Rightarrow> 'opt ServerConfigOption" where
  "WithAdditionalGRPCOpts_rest opts port s = ((fst s)\<lparr>rc_opts := rc_opts (fst s) @ opts\<rparr>, snd s)"

text \<open>Decimal notation of an unsigned number, \<open>%d\<close>.\<close>

fun decimal :: "nat \<Rightarrow> string" where
  "decimal n = (if n < 10 then [char_of (48 + n)] else decimal (n div 10) @ [char_of (48 + n mod 10)])"

declare decimal.simps [simp del]

text \<open>
  The embedded authorization server: the options that the source adds (the loading of the
  signing keys from a path, the public URL) and the constructor belong to its library.
\<close>

record 'o oauth2_lib =
  ol_SigningKeys :: "string \<Rightarrow> string \<Rightarrow> bool \<Rightarrow> 'o"
  ol_PublicURL :: "string \<Rightarrow> 'o"
  ol_NewServer :: "string \<Rightarrow> 'o list \<Rightarrow> http_handler"

definition WithEmbeddedOAuth2Server ::
  "'o oauth2_lib \<Rightarrow> string res \<Rightarrow> string \<Rightarrow> string \<Rightarrow> bool \<Rightarrow> 'o list \<Rightarrow> 'opt ServerConfigOption" where
  "WithEmbeddedOAuth2Server lib userHomeDir keyPath keyPassword saveOnCreate opts httpPort s =
     (let publicURL = ''http://localhost:'' @ decimal httpPort @ ''/v1/auth'';
          path = (case ExpandPath userHomeDir keyPath of Ok path \<Rightarrow> path | _ \<Rightarrow> ''.'');
          authSrv = ol_NewServer lib [] (opts @ [ol_SigningKeys lib path keyPassword saveOnCreate, ol_PublicURL lib publicURL]);
          authHandler = StripPrefix ''/v1/auth'' authSrv;
          s = WithAdditionalHandler ''GET'' ''/.well-known/openid-configuration'' authSrv httpPort s;
          s = WithAdditionalHandler ''GET'' ''/v1/auth/certs'' authHandler httpPort s;
          s = WithAdditionalHandler ''GET'' ''/v1/auth/login'' authHandler httpPort s;
          s = WithAdditionalHandler ''GET'' ''/v1/auth/authorize'' authHandler httpPort s;
          s = WithAdditionalHandler ''POST'' ''/v1/auth/login'' authHandler httpPort s
      in WithAdditionalHandler ''POST'' ''/v1/auth/token'' authHandler httpPort s)"

section \<open>Cross-origin requests\<close>

definition OriginAllowed :: "corsConfig \<Rightarrow> string \<Rightarrow> bool" where
  "OriginAllowed cors origin \<longleftrightarrow> origin = [] \<or> list_ex (\<lambda>v. origin = v) (allowedOrigins cors)"

definition handleCORS :: "corsConfig \<Rightarrow> http_handler \<Rightarrow> http_handler" where
  "handleCORS cors h r w =
     (let origin = Header_Get (hr_Header r) ''Origin''
      in if OriginAllowed cors origin then
           let w = Header_Add ''Vary'' ''Origin'' (Header_Set ''Access-Control-Allow-Origin'' origin w)
           in if hr_Method r = ''OPTIONS'' \<and> Header_Get (hr_Header r) ''Access-Control-Request-Method'' \<noteq> [] then
                Header_Set ''Access-Control-Allow-Methods'' (Join (allowedMethods cors) '','')
                  (Header_Set ''Access-Control-Allow-Headers'' (Join (allowedHeaders cors) '','') w)
              else h r w
         else h r w)"

section \<open>Starting and stopping\<close>

text \<open>
  The package variables: the configuration, the port, the socket, and the number of goroutines
  that wait to announce on the unbuffered channel \<open>ready\<close> that the server is up. Of the
  server the handler inside \<open>handleCORS\<close> is kept; the wrapper reads the configuration with
  every request.
\<close>

datatype listener = TCPListener nat | OtherListener

record 'opt rest_state =
  rs_cnf :: "'opt rest_config"
  rs_httpPort :: nat
  rs_sock :: "listener option"
  rs_ready :: nat
  rs_srv :: "http_handler option"

definition init_rest :: "'opt rest_state" where
  "init_rest = \<lparr> rs_cnf = \<lparr> rc_cors = \<lparr> allowedOrigins = DefaultAllowedOrigins, allowedHeaders = DefaultAllowedHeaders,
       allowedMethods = DefaultAllowedMethods \<rparr>, rc_opts = [] \<rparr>,
     rs_httpPort = 0, rs_sock = None, rs_ready = 0, rs_srv = None \<rparr>"

text \<open>
  The six registrations of the generated gateway, in order, each with the name in its error.
  \<open>rg_Register\<close> is the outcome of one of them, \<open>rg_Serve\<close> the error that \<open>Serve\<close> returns,
  \<open>rg_Mux\<close> the multiplexer as a handler.
\<close>

datatype gateway = Discovery_gw | ExperimentalDiscovery_gw | Assessment_gw | Orchestrator_gw | Evaluation_gw | EvidenceStore_gw

record 'opt rest_lib =
  rg_insecure :: 'opt
  rg_Register :: "gateway \<Rightarrow> string \<Rightarrow> 'opt list \<Rightarrow> go_error option"
  rg_Mux :: "(gateway \<times> string) list \<Rightarrow> mux \<Rightarrow> http_handler"
  rg_Listen :: "string \<Rightarrow> listener res"
  rg_Serve :: "go_error option"

fun register_all :: "'opt rest_lib \<Rightarrow> string \<Rightarrow> 'opt list \<Rightarrow> (gateway \<times> string) list \<Rightarrow> unit res" where
  "register_all lib addr opts [] = Ok ()"
| "register_all lib addr opts ((gw, name) # gws) =
     (case rg_Register lib gw addr opts of
        Some err \<Rightarrow> Err (Wrap (''failed to connect to '' @ name @ '' gRPC service '') err)
      | None \<Rightarrow> register_all lib addr opts gws)"

definition gateways :: "(gateway \<times> string) list" where
  "gateways = [(Discovery_gw, ''discovery''), (ExperimentalDiscovery_gw, ''discovery''), (Assessment_gw, ''assessment''),
     (Orchestrator_gw, ''orchestrator''), (Evaluation_gw, ''evaluation''), (EvidenceStore_gw, ''evidence'')]"

definition RunServer ::
  "'opt rest_lib \<Rightarrow> nat \<Rightarrow> nat \<Rightarrow> 'opt ServerConfigOption list \<Rightarrow> 'opt rest_state \<Rightarrow> unit res \<times> 'opt rest_state" where
  "RunServer lib grpcPort port serverOpts s =
     (let cnf0 = (rs_cnf s)\<lparr>rc_opts := [rg_insecure lib]\<rparr>;
          addr = ''localhost:'' @ decimal grpcPort
      in case fold (\<lambda>opt. opt port) serverOpts (cnf0, []) of
           (cnf, mux) \<Rightarrow>
             (let s = s\<lparr>rs_httpPort := port, rs_cnf := cnf\<rparr>
              in case register_all lib addr (rc_opts cnf) gateways of
                   Err err \<Rightarrow> (Err err, s)
                 | Panic \<Rightarrow> (Panic, s)
                 | Ok _ \<Rightarrow>
                     (let s = s\<lparr>rs_srv := Some (rg_Mux lib (map (\<lambda>(gw, _). (gw, addr)) gateways) mux)\<rparr>
                      in case rg_Listen lib ('':'' @ decimal port) of
                           Err err \<Rightarrow> (Err err, s\<lparr>rs_sock := None\<rparr>)
                         | Panic \<Rightarrow> (Panic, s)
                         | Ok sock \<Rightarrow>
                             (let s = s\<lparr>rs_sock := Some sock, rs_ready := rs_ready s + 1\<rparr>
                              in (case rg_Serve lib of Some err \<Rightarrow> Err err | None \<Rightarrow> Ok (), s)))))"

text \<open>
  \<open>StopServer\<close> takes one waiting announcement from the channel, if there is one, and shuts the
  server down; the handler of a server that is not started is nil.
\<close>

definition StopServer :: "'opt rest_state \<Rightarrow> unit res \<times> 'opt rest_state" where
  "StopServer s =
     (let s = s\<lparr>rs_ready := rs_ready s - 1\<rparr>
      in case rs_srv s of None \<Rightarrow> (Panic, s) | Some _ \<Rightarrow> (Ok (), s))"

definition GetServerPort :: "'opt rest_state \<Rightarrow> nat res" where
  "GetServerPort s =
     (case rs_sock s of
        None \<Rightarrow> Err (ErrText ''server socket is empty'')
      | Some (TCPListener port) \<Rightarrow> Ok port
      | Some OtherListener \<Rightarrow> Err (ErrText ''server socket address is not a TCP address''))"

definition ServeHTTP :: "'opt rest_state \<Rightarrow> http_request \<Rightarrow> http_response \<Rightarrow> http_response res" where
  "ServeHTTP s r w =
     (case rs_srv s of None \<Rightarrow> Panic | Some mux \<Rightarrow> Ok (handleCORS (rc_cors (rs_cnf s)) mux r w))"

section \<open>Lemmas\<close>

lemma Clean_rooted: "HasPrefix path ''/'' \<Longrightarrow> HasPrefix (Clean path) ''/''"
  by (simp add: Clean_def HasPrefix_def)

text \<open>An expanded path is absolute when the home directory is; other paths are unchanged.\<close>

lemma ExpandPath_home:
  assumes "HasPrefix home ''/''" "ExpandPath (Ok home) path = Ok out"
  shows "if HasPrefix path ''~'' then HasPrefix out ''/'' else out = path"
proof (cases "HasPrefix path ''~''")
  case True
  obtain h where home: "home = CHR ''/'' # h"
    using assms(1) by (auto simp: HasPrefix_iff)
  have "HasPrefix (Join (filter (\<lambda>e. e \<noteq> []) [home, drop 1 path]) ''/'') ''/''"
    by (simp add: home HasPrefix_def)
  then have "HasPrefix (path_Join [home, drop 1 path]) ''/''"
    by (simp add: path_Join_def home Clean_rooted split: list.splits)
  then show ?thesis
    using assms(2) True by (simp add: ExpandPath_def CutPrefix_def)
qed (use assms(2) in \<open>simp add: ExpandPath_def CutPrefix_def\<close>)

lemma register_all_returns: "register_all lib addr opts gws \<noteq> Panic"
  by (induction lib addr opts gws rule: register_all.induct) (auto split: option.splits)

text \<open>The options other than \<open>WithAllowedOrigins\<close> keep the allowed origins.\<close>

lemma embedded_keeps_cors:
  "fst (WithEmbeddedOAuth2Server lib home kp pw sc opts port s) = fst s"
  by (simp add: WithEmbeddedOAuth2Server_def WithAdditionalHandler_def Let_def)

text \<open>Where the embedded server is reached: exactly its six routes are added.\<close>

lemma embedded_routes:
  "map (\<lambda>(m, p, h). (m, p)) (snd (WithEmbeddedOAuth2Server lib home kp pw sc opts port s)) =
     map (\<lambda>(m, p, h). (m, p)) (snd s) @
     [(''GET'', ''/.well-known/openid-configuration''), (''GET'', ''/v1/auth/certs''), (''GET'', ''/v1/auth/login''),
      (''GET'', ''/v1/auth/authorize''), (''POST'', ''/v1/auth/login''), (''POST'', ''/v1/auth/token'')]"
  by (simp add: WithEmbeddedOAuth2Server_def WithAdditionalHandler_def Let_def)

lemma handleCORS_foreign:
  "Header_Get (hr_Header r) ''Origin'' \<notin> set ([] # allowedOrigins cors) \<Longrightarrow> handleCORS cors h r w = h r w"
  by (auto simp: handleCORS_def OriginAllowed_def list_ex_iff Let_def)

lemma handleCORS_allowed:
  assumes "Header_Get (hr_Header r) ''Origin'' \<in> set ([] # allowedOrigins cors)"
    "\<And>r w. hw_Header (h r w) ''Access-Control-Allow-Origin'' = hw_Header w ''Access-Control-Allow-Origin''"
  shows "hw_Header (handleCORS cors h r w) ''Access-Control-Allow-Origin'' = [Header_Get (hr_Header r) ''Origin'']"
  using assms by (auto simp: handleCORS_def OriginAllowed_def list_ex_iff Let_def Header_Set_def Header_Add_def)

section \<open>Properties\<close>

text \<open>
  Cross-origin access to a gateway that is started with a list of origins (and headers,
  methods and possibly the embedded authorization server, as the engine does). A response
  names an origin as allowed only if the request came from it and it is in the list or empty;
  for every other origin the response is that of the multiplexer. A preflight request of a
  listed origin is answered with the lists of headers and methods and does not reach the
  multiplexer.
\<close>

lemma cross_origin_access:
  assumes "embedded = [] \<or> embedded = [WithEmbeddedOAuth2Server olib home kp pw sc oopts]"
    "RunServer lib grpcPort port ([WithAllowedOrigins origins, WithAllowedHeaders headers, WithAllowedMethods methods] @ embedded) s = (res, s')"
    "rs_srv s = None" "ServeHTTP s' r w = Ok w'"
    "\<And>gws m r w. hw_Header (rg_Mux lib gws m r w) ''Access-Control-Allow-Origin'' = hw_Header w ''Access-Control-Allow-Origin''"
    "hw_Header w ''Access-Control-Allow-Origin'' = []"
  shows "hw_Header w' ''Access-Control-Allow-Origin'' =
      (if Header_Get (hr_Header r) ''Origin'' \<in> set ([] # origins) then [Header_Get (hr_Header r) ''Origin''] else []) \<and>
    (hr_Method r = ''OPTIONS'' \<and> Header_Get (hr_Header r) ''Access-Control-Request-Method'' \<noteq> [] \<and>
       Header_Get (hr_Header r) ''Origin'' \<in> set origins \<longrightarrow>
     hw_Status w' = hw_Status w \<and> hw_Body w' = hw_Body w \<and>
     hw_Header w' ''Access-Control-Allow-Headers'' = [Join headers '',''] \<and>
     hw_Header w' ''Access-Control-Allow-Methods'' = [Join methods '',''])"
proof -
  define opts where "opts = [WithAllowedOrigins origins, WithAllowedHeaders headers, WithAllowedMethods methods] @ embedded"
  obtain cnf m where fold: "fold (\<lambda>opt. opt port) opts ((rs_cnf s)\<lparr>rc_opts := [rg_insecure lib]\<rparr>, []) = (cnf, m)"
    by fastforce
  have eq: "rc_cors cnf = (rc_cors (rs_cnf s))\<lparr>allowedOrigins := origins, allowedHeaders := headers, allowedMethods := methods\<rparr>"
    using arg_cong [OF fold, of "\<lambda>x. rc_cors (fst x)"] assms(1)
    by (auto simp: opts_def WithAllowedOrigins_def WithAllowedHeaders_def WithAllowedMethods_def embedded_keeps_cors)
  have cors: "allowedOrigins (rc_cors cnf) = origins" "allowedHeaders (rc_cors cnf) = headers" "allowedMethods (rc_cors cnf) = methods"
    by (simp_all add: eq)
  obtain mux where "rs_srv s' = Some mux" and cnf: "rs_cnf s' = cnf"
    and mux: "mux = rg_Mux lib (map (\<lambda>(gw, _). (gw, ''localhost:'' @ decimal grpcPort)) gateways) m"
    using assms(2-4) fold unfolding RunServer_def Let_def opts_def [symmetric] ServeHTTP_def
    by (auto split: res.splits option.splits)
  then have w': "w' = handleCORS (rc_cors cnf) mux r w"
    using assms(4) by (simp add: ServeHTTP_def)
  have keep: "\<And>r w. hw_Header (mux r w) ''Access-Control-Allow-Origin'' = hw_Header w ''Access-Control-Allow-Origin''"
    using assms(5) mux by simp
  show ?thesis
    using handleCORS_foreign [of r "rc_cors cnf" mux w] handleCORS_allowed [of r "rc_cors cnf" mux w, OF _ keep] keep assms(6) cors
    by (auto simp: w' handleCORS_def OriginAllowed_def list_ex_iff Let_def Header_Set_def Header_Add_def)
qed

end
