(* ===== verification/Serialization.thy ===== *)
theory Serialization
  imports Messages Authorization
begin

text \<open>
  How values are written into and read from columns of the database: the range of a metric
  (src/api/assessment/metric.go), which is stored as JSON, and the serializers of
  src/persistence/gorm/serializer.go for timestamps, \<open>Any\<close> messages and \<open>Value\<close> messages.
  Bytes are read through the JSON document that they denote; the JSON form of protobuf
  messages (protojson) is a parameter.
\<close>

section \<open>JSON\<close>

text \<open>The value of a column: NULL, a time, bytes or text (with the document in it, if any), or another type.\<close>

datatype driver_value = DNull | DTime timestamp | DBytes "json option" | DText "json option" | DOther

record value_codec =
  vc_Marshal :: "structpb_Value \<Rightarrow> json res"
  vc_Unmarshal :: "json \<Rightarrow> structpb_Value res"

definition syntax_error :: go_error where
  "syntax_error = ErrText ''invalid character''"

definition type_error :: go_error where
  "type_error = ErrText ''json: cannot unmarshal value of the wrong type''"

text \<open>
  Decoding an object into a struct with one relevant field, as \<open>encoding/json\<close> does: names are
  matched without regard to case, null resets a pointer, a repeated field is decoded into what
  is already there, unknown fields are skipped.
\<close>

fun decode_field :: "string \<Rightarrow> ('a option \<Rightarrow> json \<Rightarrow> 'a res) \<Rightarrow> (string \<times> json) list \<Rightarrow> 'a option \<Rightarrow> 'a option res" where
  "decode_field name dec [] old = Ok old"
| "decode_field name dec ((k, v) # fs) old =
     (if map ToLower k \<noteq> map ToLower name then decode_field name dec fs old
      else if v = JNull then decode_field name dec fs None
      else case dec old v of
             Ok x \<Rightarrow> decode_field name dec fs (Some x)
           | Err e \<Rightarrow> Err e
           | Panic \<Rightarrow> Panic)"

fun decode_object :: "string \<Rightarrow> ('a option \<Rightarrow> json \<Rightarrow> 'a res) \<Rightarrow> json \<Rightarrow> 'a option res" where
  "decode_object name dec (JObject fs) = decode_field name dec fs None"
| "decode_object name dec JNull = Ok None"
| "decode_object name dec doc = Err type_error"

text \<open>A slice of pointers: null is the nil pointer.\<close>

fun decode_values :: "value_codec \<Rightarrow> json list \<Rightarrow> structpb_Value option list res" where
  "decode_values vc [] = Ok []"
| "decode_values vc (JNull # js) = map_res ((#) None) (decode_values vc js)"
| "decode_values vc (j # js) =
     (case vc_Unmarshal vc j of
        Ok v \<Rightarrow> map_res ((#) (Some v)) (decode_values vc js)
      | Err e \<Rightarrow> Err e
      | Panic \<Rightarrow> Panic)"

fun decode_slice :: "value_codec \<Rightarrow> structpb_Value option list option \<Rightarrow> json \<Rightarrow> structpb_Value option list res" where
  "decode_slice vc old (JArray js) = decode_values vc js"
| "decode_slice vc old j = Err type_error"

text \<open>\<open>AllowedValues\<close> and \<open>Order\<close> hold one slice \<open>values\<close>; a nil slice and an empty one are not told apart.\<close>

definition Deref_list :: "'a list option \<Rightarrow> 'a list" where
  "Deref_list = (\<lambda>l. case l of None \<Rightarrow> [] | Some xs \<Rightarrow> xs)"

definition decode_list_message :: "value_codec \<Rightarrow> structpb_Value option list option \<Rightarrow> json \<Rightarrow> structpb_Value option list res" where
  "decode_list_message vc old j =
     (case j of
        JObject fs \<Rightarrow> map_res Deref_list (decode_field ''values'' (decode_slice vc) fs old)
      | _ \<Rightarrow> Err type_error)"

definition in_int64 :: "int \<Rightarrow> bool" where
  "in_int64 i \<longleftrightarrow> - (2 ^ 63) \<le> i \<and> i < 2 ^ 63"

fun decode_int64 :: "int option \<Rightarrow> json \<Rightarrow> int res" where
  "decode_int64 old (JNumber i) = (if in_int64 i then Ok i else Err type_error)"
| "decode_int64 old j = Err type_error"

text \<open>A null for an integer field is skipped, which \<open>decode_field\<close> shows as the default below.\<close>

definition decode_MinMax :: "MinMax option \<Rightarrow> json \<Rightarrow> MinMax res" where
  "decode_MinMax old j =
     (case j of
        JObject fs \<Rightarrow>
          (let keep = filter (\<lambda>(k, v). v \<noteq> JNull) fs
           in case (decode_field ''min'' decode_int64 keep (map_option mm_Min old),
                    decode_field ''max'' decode_int64 keep (map_option mm_Max old)) of
                (Ok lo, Ok hi) \<Rightarrow> Ok \<lparr> mm_Min = Deref 0 lo, mm_Max = Deref 0 hi \<rparr>
              | _ \<Rightarrow> Err type_error)
      | _ \<Rightarrow> Err type_error)"

section \<open>The range of a metric\<close>

definition UnmarshalJSON :: "value_codec \<Rightarrow> json \<Rightarrow> Range \<Rightarrow> unit res \<times> Range" where
  "UnmarshalJSON vc b r =
     (case decode_object ''AllowedValues'' (decode_list_message vc) b of
        Panic \<Rightarrow> (Panic, r)
      | Ok (Some r1) \<Rightarrow> (Ok (), Range_AllowedValues (Some r1))
      | _ \<Rightarrow>
          (case decode_object ''Order'' (decode_list_message vc) b of
             Panic \<Rightarrow> (Panic, r)
           | Ok (Some r2) \<Rightarrow> (Ok (), Range_Order (Some r2))
           | _ \<Rightarrow>
               (case decode_object ''MinMax'' decode_MinMax b of
                  Panic \<Rightarrow> (Panic, r)
                | Ok (Some r3) \<Rightarrow> (Ok (), Range_MinMax (Some r3))
                | Ok None \<Rightarrow> (Ok (), r)
                | Err err \<Rightarrow> (Err err, r))))"

fun encode_values :: "value_codec \<Rightarrow> structpb_Value option list \<Rightarrow> json list res" where
  "encode_values vc [] = Ok []"
| "encode_values vc (None # vs) = map_res ((#) JNull) (encode_values vc vs)"
| "encode_values vc (Some v # vs) =
     (case vc_Marshal vc v of
        Ok j \<Rightarrow> map_res ((#) j) (encode_values vc vs)
      | Err e \<Rightarrow> Err e
      | Panic \<Rightarrow> Panic)"

text \<open>The tag \<open>omitempty\<close> leaves out an empty slice and a zero.\<close>

definition encode_list_message :: "value_codec \<Rightarrow> structpb_Value option list option \<Rightarrow> json res" where
  "encode_list_message vc v =
     (case v of
        None \<Rightarrow> Ok JNull
      | Some [] \<Rightarrow> Ok (JObject [])
      | Some vs \<Rightarrow> map_res (\<lambda>js. JObject [(''values'', JArray js)]) (encode_values vc vs))"

definition encode_MinMax :: "MinMax option \<Rightarrow> json" where
  "encode_MinMax v =
     (case v of
        None \<Rightarrow> JNull
      | Some m \<Rightarrow> JObject ((if mm_Min m = 0 then [] else [(''min'', JNumber (mm_Min m))]) @
                     (if mm_Max m = 0 then [] else [(''max'', JNumber (mm_Max m))])))"

definition MarshalJSON :: "value_codec \<Rightarrow> Range \<Rightarrow> json res" where
  "MarshalJSON vc r =
     (case r of
        Range_AllowedValues v \<Rightarrow> map_res (\<lambda>j. JObject [(''allowedValues'', j)]) (encode_list_message vc v)
      | Range_Order v \<Rightarrow> map_res (\<lambda>j. JObject [(''order'', j)]) (encode_list_message vc v)
      | Range_MinMax v \<Rightarrow> Ok (JObject [(''minMax'', encode_MinMax v)])
      | NoRange \<Rightarrow> Err ErrUnsupportedType)"

definition Range_Value :: "value_codec \<Rightarrow> Range option \<Rightarrow> driver_value res" where
  "Range_Value vc r =
     (case r of
        None \<Rightarrow> Ok DNull
      | Some r \<Rightarrow>
          (case MarshalJSON vc r of
             Ok j \<Rightarrow> Ok (DBytes (Some j))
           | Err err \<Rightarrow> Err (Wrap ''could not marshal JSON: '' (Wrap ''json: error calling MarshalJSON for type *assessment.Range: '' err))
           | Panic \<Rightarrow> Panic))"

definition Range_Scan :: "value_codec \<Rightarrow> driver_value \<Rightarrow> Range \<Rightarrow> unit res \<times> Range" where
  "Range_Scan vc value r =
     (case value of
        DBytes None \<Rightarrow> (Err (Wrap ''could not unmarshal JSON: '' syntax_error), r)
      | DBytes (Some j) \<Rightarrow>
          (case UnmarshalJSON vc j r of
             (Err err, r') \<Rightarrow> (Err (Wrap ''could not unmarshal JSON: '' err), r')
           | res \<Rightarrow> res)
      | _ \<Rightarrow> (Err ErrUnsupportedType, r))"

definition GormDataType :: "Range option \<Rightarrow> string" where
  "GormDataType r = ''jsonb''"

text \<open>The check of an identifier, with the verdict of \<open>uuid.Parse\<close> as an argument.\<close>

definition CheckCloudServiceID :: "(string \<Rightarrow> bool) \<Rightarrow> string \<Rightarrow> unit res" where
  "CheckCloudServiceID is_uuid serviceID =
     (if serviceID = [] then Err (ErrText ''cloud service id is missing'')
      else if \<not> is_uuid serviceID then Err (ErrText ''cloud service id is invalid'')
      else Ok ())"

section \<open>Serializers\<close>

text \<open>
  The value of a field as the mapper passes it: a nil interface, one of the three message types
  (as pointers), or a value of another type.
\<close>

datatype 'any field_value = FNil | FTimestamp "timestamp option" | FAny "'any option" | FValue "structpb_Value option" | FOther

fun IsNil_field :: "'any field_value \<Rightarrow> bool" where
  "IsNil_field FNil = True"
| "IsNil_field (FTimestamp t) = (t = None)"
| "IsNil_field (FAny a) = (a = None)"
| "IsNil_field (FValue v) = (v = None)"
| "IsNil_field FOther = False"

definition Timestamp_Value :: "'any field_value \<Rightarrow> driver_value res" where
  "Timestamp_Value fieldValue =
     (if IsNil_field fieldValue then Ok DNull
      else case fieldValue of FTimestamp (Some t) \<Rightarrow> Ok (DTime t) | _ \<Rightarrow> Err ErrUnsupportedType)"

definition Timestamp_Scan :: "driver_value \<Rightarrow> 'any field_value \<Rightarrow> unit res \<times> 'any field_value" where
  "Timestamp_Scan dbValue dst =
     (case dbValue of
        DNull \<Rightarrow> (Ok (), dst)
      | DTime v \<Rightarrow> (Ok (), FTimestamp (Some v))
      | _ \<Rightarrow> (Err ErrUnsupportedType, dst))"

record 'any any_codec =
  ac_Marshal :: "'any \<Rightarrow> json res"
  ac_Unmarshal :: "json \<Rightarrow> 'any res"
  ac_empty :: 'any

definition Any_Value :: "'any any_codec \<Rightarrow> 'any field_value \<Rightarrow> driver_value res" where
  "Any_Value acd fieldValue =
     (if IsNil_field fieldValue then Ok DNull
      else case fieldValue of
             FAny (Some a) \<Rightarrow> map_res (\<lambda>j. DBytes (Some j)) (ac_Marshal acd a)
           | _ \<Rightarrow> Err ErrUnsupportedType)"

text \<open>A NULL column sets the field to an empty message, not to nil.\<close>

definition Any_Scan :: "'any any_codec \<Rightarrow> driver_value \<Rightarrow> 'any field_value \<Rightarrow> unit res \<times> 'any field_value" where
  "Any_Scan acd dbValue dst =
     (case dbValue of
        DNull \<Rightarrow> (Ok (), FAny (Some (ac_empty acd)))
      | _ \<Rightarrow>
          (case (case dbValue of DBytes j \<Rightarrow> Some j | DText j \<Rightarrow> Some j | _ \<Rightarrow> None) of
             None \<Rightarrow> (Err ErrUnsupportedType, dst)
           | Some bytes \<Rightarrow>
               (case (case bytes of None \<Rightarrow> Err syntax_error | Some j \<Rightarrow> ac_Unmarshal acd j) of
                  Ok a \<Rightarrow> (Ok (), FAny (Some a))
                | Err err \<Rightarrow> (Err (Wrap ''could not unmarshal JSONB value into protobuf message: '' err), dst)
                | Panic \<Rightarrow> (Panic, dst))))"

definition Value_Value :: "value_codec \<Rightarrow> 'any field_value \<Rightarrow> driver_value res" where
  "Value_Value vc fieldValue =
     (if IsNil_field fieldValue then Ok DNull
      else case fieldValue of
             FValue (Some v) \<Rightarrow> map_res (\<lambda>j. DBytes (Some j)) (vc_Marshal vc v)
           | _ \<Rightarrow> Err ErrUnsupportedType)"

definition Value_Scan :: "value_codec \<Rightarrow> driver_value \<Rightarrow> 'any field_value \<Rightarrow> unit res \<times> 'any field_value" where
  "Value_Scan vc dbValue dst =
     (case dbValue of
        DNull \<Rightarrow> (Ok (), dst)
      | DBytes bytes \<Rightarrow>
          (case (case bytes of None \<Rightarrow> Err syntax_error | Some j \<Rightarrow> vc_Unmarshal vc j) of
             Ok v \<Rightarrow> (Ok (), FValue (Some v))
           | Err err \<Rightarrow> (Err err, dst)
           | Panic \<Rightarrow> (Panic, dst))
      | _ \<Rightarrow> (Err ErrUnsupportedType, dst))"

section \<open>Lemmas\<close>

text \<open>The documented law of the JSON form of \<open>Value\<close> messages: it can be read back, and null is the null value.\<close>

definition codec_ok :: "value_codec \<Rightarrow> bool" where
  "codec_ok vc \<longleftrightarrow> (\<forall>v j. vc_Marshal vc v = Ok j \<longrightarrow> vc_Unmarshal vc j = Ok v \<and> (j = JNull \<longleftrightarrow> v = NullValue))"

text \<open>What comes back from the database: a null value in a list becomes a nil pointer.\<close>

definition stored_value :: "structpb_Value option \<Rightarrow> structpb_Value option" where
  "stored_value v = (if v = Some NullValue then None else v)"

definition stored_range :: "Range \<Rightarrow> Range" where
  "stored_range r =
     (case r of
        Range_AllowedValues v \<Rightarrow> Range_AllowedValues (map_option (map stored_value) v)
      | Range_Order v \<Rightarrow> Range_Order (map_option (map stored_value) v)
      | _ \<Rightarrow> r)"

lemma decode_values_Cons:
  "j \<noteq> JNull \<Longrightarrow> decode_values vc (j # js) =
     (case vc_Unmarshal vc j of Ok v \<Rightarrow> map_res ((#) (Some v)) (decode_values vc js) | Err e \<Rightarrow> Err e | Panic \<Rightarrow> Panic)"
  by (cases j) simp_all

lemma encode_values_Cons_Ok:
  assumes "codec_ok vc" "encode_values vc (v # vs) = Ok js"
  obtains j js' where "js = j # js'" "encode_values vc vs = Ok js'"
    "j = JNull \<and> stored_value v = None \<or> j \<noteq> JNull \<and> (\<exists>x. v = Some x \<and> x \<noteq> NullValue \<and> vc_Unmarshal vc j = Ok x)"
proof (cases v)
  case None
  then show thesis
    using assms(2) that by (auto simp: map_res_eq_Ok stored_value_def)
next
  case (Some x)
  then obtain j js' where enc: "vc_Marshal vc x = Ok j" "encode_values vc vs = Ok js'" "js = j # js'"
    using assms(2) by (auto simp: map_res_eq_Ok split: res.splits)
  have "vc_Unmarshal vc j = Ok x" "j = JNull \<longleftrightarrow> x = NullValue"
    using assms(1) enc(1) unfolding codec_ok_def by blast+
  then show thesis
    using that [OF enc(3,2)] Some by (cases "x = NullValue") (auto simp: stored_value_def)
qed

lemma decode_encode_values:
  assumes "codec_ok vc"
  shows "encode_values vc vs = Ok js \<Longrightarrow> decode_values vc js = Ok (map stored_value vs)"
proof (induction vs arbitrary: js)
  case (Cons v vs)
  obtain j js' where js: "js = j # js'" "encode_values vc vs = Ok js'"
    and j: "j = JNull \<and> stored_value v = None \<or> j \<noteq> JNull \<and> (\<exists>x. v = Some x \<and> x \<noteq> NullValue \<and> vc_Unmarshal vc j = Ok x)"
    using encode_values_Cons_Ok [OF assms Cons.prems] by blast
  from j show ?case
    using Cons.IH [OF js(2)] js(1) by (auto simp: decode_values_Cons stored_value_def)
qed simp

lemma encode_list_message_Ok:
  assumes "codec_ok vc" "encode_list_message vc (Some vs) = Ok j"
  shows "j \<noteq> JNull" "decode_list_message vc None j = Ok (map stored_value vs)"
proof -
  consider "vs = []" "j = JObject []" | js where "encode_values vc vs = Ok js" "j = JObject [(''values'', JArray js)]"
    using assms(2) by (cases vs) (auto simp: encode_list_message_def map_res_eq_Ok)
  then show "j \<noteq> JNull" "decode_list_message vc None j = Ok (map stored_value vs)"
    using decode_encode_values [OF assms(1)]
    by (cases, simp_all add: decode_list_message_def Deref_list_def)+
qed

definition in_range :: "MinMax \<Rightarrow> bool" where
  "in_range m \<longleftrightarrow> in_int64 (mm_Min m) \<and> in_int64 (mm_Max m)"

lemma ToLower_names [simp]:
  "map ToLower ''allowedValues'' = ''allowedvalues''" "map ToLower ''AllowedValues'' = ''allowedvalues''"
  "map ToLower ''order'' = ''order''" "map ToLower ''Order'' = ''order''"
  "map ToLower ''minMax'' = ''minmax''" "map ToLower ''MinMax'' = ''minmax''"
  "map ToLower ''min'' = ''min''" "map ToLower ''max'' = ''max''"
  by code_simp+

lemma ToLower_letters [simp]:
  "ToLower CHR ''i'' = CHR ''i''" "ToLower CHR ''a'' = CHR ''a''" "ToLower CHR ''n'' = CHR ''n''" "ToLower CHR ''x'' = CHR ''x''"
  by code_simp+

lemma decode_encode_MinMax:
  assumes "in_range m"
  shows "decode_MinMax None (encode_MinMax (Some m)) = Ok m"
  using assms by (simp add: decode_MinMax_def encode_MinMax_def in_range_def Let_def)

text \<open>A document of one field is decoded by the alternative of that name only.\<close>

lemma decode_object_single:
  "j \<noteq> JNull \<Longrightarrow> decode_object name dec (JObject [(k, j)]) =
     (if map ToLower k \<noteq> map ToLower name then Ok None
      else case dec None j of Ok x \<Rightarrow> Ok (Some x) | Err e \<Rightarrow> Err e | Panic \<Rightarrow> Panic)"
  by (auto split: res.splits)

lemma decode_object_null: "decode_object name dec (JObject [(k, JNull)]) = Ok None"
  by simp

lemma Unmarshal_Marshal:
  assumes "codec_ok vc" "MarshalJSON vc r = Ok j"
    "\<And>m. r = Range_MinMax (Some m) \<Longrightarrow> in_range m"
    "r \<notin> {Range_AllowedValues None, Range_Order None, Range_MinMax None}"
  shows "UnmarshalJSON vc j r0 = (Ok (), stored_range r)"
proof (cases r)
  case NoRange
  then show ?thesis
    using assms(2) by (simp add: MarshalJSON_def)
next
  case (Range_AllowedValues v)
  then obtain vs j' where "v = Some vs" "encode_list_message vc (Some vs) = Ok j'" "j = JObject [(''allowedValues'', j')]"
    using assms(2,4) by (auto simp: MarshalJSON_def map_res_eq_Ok)
  then show ?thesis
    using encode_list_message_Ok [OF assms(1)] Range_AllowedValues
    by (simp add: UnmarshalJSON_def decode_object_single stored_range_def del: decode_object.simps list.map)
next
  case (Range_Order v)
  then obtain vs j' where "v = Some vs" "encode_list_message vc (Some vs) = Ok j'" "j = JObject [(''order'', j')]"
    using assms(2,4) by (auto simp: MarshalJSON_def map_res_eq_Ok)
  then show ?thesis
    using encode_list_message_Ok [OF assms(1)] Range_Order
    by (simp add: UnmarshalJSON_def decode_object_single stored_range_def del: decode_object.simps list.map)
next
  case (Range_MinMax v)
  then obtain m where m: "v = Some m" "j = JObject [(''minMax'', encode_MinMax (Some m))]" "in_range m"
    using assms(2-4) by (auto simp: MarshalJSON_def)
  moreover have "encode_MinMax (Some m) \<noteq> JNull"
    by (simp add: encode_MinMax_def)
  ultimately show ?thesis
    using Range_MinMax decode_encode_MinMax [OF m(3)]
    by (simp add: UnmarshalJSON_def decode_object_single stored_range_def del: decode_object.simps list.map)
qed

text \<open>
  An alternative of the wrong type is not reported: its error is overwritten by the attempts at
  the other alternatives, and the variable stays as it was.
\<close>

lemma Unmarshal_malformed:
  assumes "\<not> is_ok (decode_list_message vc None j)" "decode_list_message vc None j \<noteq> Panic" "j \<noteq> JNull"
  shows "UnmarshalJSON vc (JObject [(''allowedValues'', j)]) r = (Ok (), r)"
  using assms by (cases "decode_list_message vc None j")
    (simp_all add: UnmarshalJSON_def decode_object_single del: decode_object.simps list.map)

section \<open>Properties\<close>

text \<open>
  C37: what is written to a column can be read back. The range of a metric that the database
  accepts is read back as it was, whatever was in the variable, except that null among allowed
  values or orders becomes a nil pointer; a range without an alternative is refused, one whose
  alternative is nil leaves the variable unchanged. Timestamps, \<open>Any\<close> and \<open>Value\<close> messages
  are read back as they were, by their serializer.
\<close>

theorem columns_roundtrip:
  assumes "codec_ok vc" "\<And>a j. ac_Marshal acd a = Ok j \<Longrightarrow> ac_Unmarshal acd j = Ok a"
    "\<And>m. r = Range_MinMax (Some m) \<Longrightarrow> in_range m"
  shows "(Range_Value vc (Some r) = Ok d \<longrightarrow>
       Range_Scan vc d r0 = (Ok (), if r \<in> {Range_AllowedValues None, Range_Order None, Range_MinMax None} then r0 else stored_range r)) \<and>
    \<not> is_ok (Range_Value vc (Some NoRange)) \<and>
    (Timestamp_Value (FTimestamp (Some t) :: 'any field_value) = Ok d \<longrightarrow> Timestamp_Scan d dst = (Ok (), FTimestamp (Some t) :: 'any field_value)) \<and>
    (Any_Value acd (FAny (Some a)) = Ok d \<longrightarrow> Any_Scan acd d dst = (Ok (), FAny (Some a))) \<and>
    (Value_Value vc (FValue (Some v) :: 'any field_value) = Ok d \<longrightarrow> Value_Scan vc d dst = (Ok (), FValue (Some v)))"
proof (intro conjI impI)
  assume val: "Range_Value vc (Some r) = Ok d"
  then obtain j where j: "MarshalJSON vc r = Ok j" "d = DBytes (Some j)"
    by (auto simp: Range_Value_def split: res.splits)
  show "Range_Scan vc d r0 = (Ok (), if r \<in> {Range_AllowedValues None, Range_Order None, Range_MinMax None} then r0 else stored_range r)"
  proof (cases "r \<in> {Range_AllowedValues None, Range_Order None, Range_MinMax None}")
    case True
    then obtain k where "j = JObject [(k, JNull)]"
      using j(1) by (auto simp: MarshalJSON_def encode_list_message_def encode_MinMax_def)
    then show ?thesis
      using True by (simp add: j(2) Range_Scan_def UnmarshalJSON_def)
  next
    case False
    show ?thesis
      using Unmarshal_Marshal [OF assms(1) j(1) assms(3) False, of r0] False by (simp add: j(2) Range_Scan_def)
  qed
next
  show "\<not> is_ok (Range_Value vc (Some NoRange))"
    by (simp add: Range_Value_def MarshalJSON_def)
next
  assume "Any_Value acd (FAny (Some a)) = Ok d"
  then show "Any_Scan acd d dst = (Ok (), FAny (Some a))"
    using assms(2) by (auto simp: Any_Value_def Any_Scan_def map_res_eq_Ok)
next
  assume "Value_Value vc (FValue (Some v) :: 'any field_value) = Ok d"
  then show "Value_Scan vc d dst = (Ok (), FValue (Some v))"
    using assms(1) by (auto simp: Value_Value_def Value_Scan_def map_res_eq_Ok codec_ok_def)
qed (auto simp: Timestamp_Value_def Timestamp_Scan_def)

text \<open>A codec of the values without structure, for examples.\<close>

definition flat_codec :: value_codec where
  "flat_codec = \<lparr> vc_Marshal = (\<lambda>v. case v of NullValue \<Rightarrow> Ok JNull | BoolValue b \<Rightarrow> Ok (JBool b) | StringValue s \<Rightarrow> Ok (JString s)
       | _ \<Rightarrow> Err (ErrText ''unsupported'')),
     vc_Unmarshal = (\<lambda>j. case j of JNull \<Rightarrow> Ok NullValue | JBool b \<Rightarrow> Ok (BoolValue b) | JString s \<Rightarrow> Ok (StringValue s)
       | _ \<Rightarrow> Err (ErrText ''unsupported'')) \<rparr>"

lemma flat_codec_ok: "codec_ok flat_codec"
  by (auto simp: codec_ok_def flat_codec_def split: structpb_Value.splits)

theorem columns_roundtrip_witness:
  "Range_Scan flat_codec (DBytes (Some (JObject [(''order'', JObject [(''values'', JArray [JString ''low'', JNull])])]))) NoRange
     = (Ok (), Range_Order (Some [Some (StringValue ''low''), None])) \<and>
   Range_Scan flat_codec (DBytes (Some (JObject [(''minMax'', JObject [(''max'', JNumber 9)])]))) NoRange
     = (Ok (), Range_MinMax (Some \<lparr> mm_Min = 0, mm_Max = 9 \<rparr>))"
proof -
  let ?acd = "\<lparr> ac_Marshal = (\<lambda>b. Ok (JBool b)), ac_Unmarshal = (\<lambda>j. Ok (j = JBool True)), ac_empty = False \<rparr>"
  note p = columns_roundtrip [OF flat_codec_ok, of ?acd _ _ NoRange 0 FNil True NullValue]
  show ?thesis
    using p [of "Range_Order (Some [Some (StringValue ''low''), Some NullValue])"
        "DBytes (Some (JObject [(''order'', JObject [(''values'', JArray [JString ''low'', JNull])])]))"]
      p [of "Range_MinMax (Some \<lparr> mm_Min = 0, mm_Max = 9 \<rparr>)" "DBytes (Some (JObject [(''minMax'', JObject [(''max'', JNumber 9)])]))"]
    by (simp add: Range_Value_def MarshalJSON_def encode_list_message_def encode_MinMax_def flat_codec_def
        stored_range_def stored_value_def in_range_def in_int64_def)
qed

end
