(* ===== verification/Resources.thy ===== *)
theory Resources
  imports Complex_Main Discovery
begin

text \<open>
  The messages of the ontology that the discoverers build (src/api/ontology/ontology.pb.go), and how the discovery service sees
  them. Every message of a resource has the fields of \<open>ontology_base\<close>; an extension holds those further fields that some
  discoverer sets, the others always have their zero value. A pointer is an option, a map of labels a partial function (a nil map and
  an empty one are not told apart), \<open>float32\<close> constants are the decimals they are written as, durations are nanoseconds.
\<close>

definition zero_time :: timestamp where
  "zero_time = - 62135596800 * 10 ^ 9"

section \<open>Security features\<close>

record ManagedKeyEncryption =
  mk_Algorithm :: string
  mk_Enabled :: bool

record CustomerKeyEncryption =
  ck_Algorithm :: string
  ck_Enabled :: bool
  ck_KeyUrl :: string

datatype AtRestEncryption =
  AtRestEncryption_Unset
| AtRestEncryption_CustomerKeyEncryption CustomerKeyEncryption
| AtRestEncryption_ManagedKeyEncryption ManagedKeyEncryption

record CipherSuite =
  cs_AuthenticationMechanism :: string
  cs_KeyExchangeAlgorithm :: string
  cs_MacAlgorithm :: string
  cs_SessionCipher :: string

record TransportEncryption =
  te_Enabled :: bool
  te_Enforced :: bool
  te_Protocol :: string
  te_ProtocolVersion :: rat
  te_CipherSuites :: "CipherSuite list"

record HttpEndpoint =
  he_Url :: string
  he_TransportEncryption :: "TransportEncryption option"

text \<open>\<open>BootLogging\<close>, \<open>OSLogging\<close>, \<open>ActivityLogging\<close> and \<open>ResourceLogging\<close> have the same fields.\<close>

record Logging =
  lg_Enabled :: bool
  lg_MonitoringEnabled :: bool
  lg_RetentionPeriod :: "int option"
  lg_SecurityAlertsEnabled :: bool
  lg_LoggingServiceIds :: "string list"

definition empty_Logging :: Logging where
  "empty_Logging = \<lparr> lg_Enabled = False, lg_MonitoringEnabled = False, lg_RetentionPeriod = None,
     lg_SecurityAlertsEnabled = False, lg_LoggingServiceIds = [] \<rparr>"

record Backup =
  bp_Enabled :: bool
  bp_RetentionPeriod :: "int option"
  bp_StorageId :: "string option"
  bp_TransportEncryption :: "TransportEncryption option"

record AutomaticUpdates =
  au_Enabled :: bool
  au_Interval :: "int option"

record AnomalyDetection =
  ad_Enabled :: bool
  ad_Scope :: string

datatype Redundancy = Redundancy_GeoRedundancy | Redundancy_ZoneRedundancy

datatype AccessRestriction =
  AccessRestriction_L3Firewall (ar_Firewall: bool)
| AccessRestriction_WebApplicationFirewall (ar_Firewall: bool)

section \<open>Resources\<close>

record ontology_base =
  ob_CreationTime :: "timestamp option"
  ob_Id :: string
  ob_InternetAccessibleEndpoint :: bool
  ob_Labels :: "string \<rightharpoonup> string"
  ob_Name :: string
  ob_Raw :: string
  ob_GeoLocation :: "string option"
  ob_ParentId :: "string option"

record BlockStorage = ontology_base +
  bk_AtRestEncryption :: "AtRestEncryption option"
  bk_Backups :: "Backup list"

record FileStorage = ontology_base +
  fi_AtRestEncryption :: "AtRestEncryption option"
  fi_ResourceLogging :: "Logging option"

record ObjectStorage = ontology_base +
  oj_PublicAccess :: bool
  oj_AtRestEncryption :: "AtRestEncryption option"
  oj_Backups :: "Backup list"
  oj_Immutability :: "bool option"
  oj_ResourceLogging :: "Logging option"

record DatabaseStorage = ontology_base +
  db_AtRestEncryption :: "AtRestEncryption option"

record ObjectStorageService = ontology_base +
  ss_HttpEndpoint :: "HttpEndpoint option"
  ss_StorageIds :: "string list"
  ss_TransportEncryption :: "TransportEncryption option"

record RelationalDatabaseService = ontology_base +
  rd_AnomalyDetections :: "AnomalyDetection list"
  rd_TransportEncryption :: "TransportEncryption option"

record Container = ontology_base +
  cn_NetworkInterfaceIds :: "string list"

record VirtualMachine = ontology_base +
  vm_ActivityLogging :: "Logging option"
  vm_AutomaticUpdates :: "AutomaticUpdates option"
  vm_BlockStorageIds :: "string list"
  vm_BootLogging :: "Logging option"
  vm_MalwareProtection :: "bool option"
  vm_NetworkInterfaceIds :: "string list"
  vm_OsLogging :: "Logging option"

record Function = ontology_base +
  fn_RuntimeLanguage :: string
  fn_RuntimeVersion :: string
  fn_NetworkInterfaceIds :: "string list"
  fn_Redundancies :: "Redundancy list"
  fn_ResourceLogging :: "Logging option"

record WebApp = ontology_base +
  wa_NetworkInterfaceIds :: "string list"
  wa_Redundancies :: "Redundancy list"
  wa_ResourceLogging :: "Logging option"

record GenericNetworkService = ontology_base +
  gn_Ips :: "string list"
  gn_Ports :: "int list"

record LoadBalancer = ontology_base +
  lb_Ips :: "string list"
  lb_Ports :: "int list"
  lb_AccessRestriction :: "AccessRestriction option"
  lb_HttpEndpoints :: "HttpEndpoint list"

record NetworkInterface = ontology_base +
  ni_AccessRestriction :: "AccessRestriction option"

text \<open>The interface \<open>ontology.IsResource\<close>: a pointer to one of the messages.\<close>

datatype IsResource =
  R_BlockStorage BlockStorage
| R_FileStorage FileStorage
| R_ObjectStorage ObjectStorage
| R_DatabaseStorage DatabaseStorage
| R_ObjectStorageService ObjectStorageService
| R_RelationalDatabaseService RelationalDatabaseService
| R_DocumentDatabaseService ontology_base
| R_Container Container
| R_VirtualMachine VirtualMachine
| R_Function Function
| R_WebApp WebApp
| R_GenericNetworkService GenericNetworkService
| R_LoadBalancer LoadBalancer
| R_NetworkInterface NetworkInterface
| R_ResourceGroup ontology_base
| R_Account ontology_base

primrec base_of :: "IsResource \<Rightarrow> ontology_base" where
  "base_of (R_BlockStorage r) = ontology_base.truncate r"
| "base_of (R_FileStorage r) = ontology_base.truncate r"
| "base_of (R_ObjectStorage r) = ontology_base.truncate r"
| "base_of (R_DatabaseStorage r) = ontology_base.truncate r"
| "base_of (R_ObjectStorageService r) = ontology_base.truncate r"
| "base_of (R_RelationalDatabaseService r) = ontology_base.truncate r"
| "base_of (R_DocumentDatabaseService r) = r"
| "base_of (R_Container r) = ontology_base.truncate r"
| "base_of (R_VirtualMachine r) = ontology_base.truncate r"
| "base_of (R_Function r) = ontology_base.truncate r"
| "base_of (R_WebApp r) = ontology_base.truncate r"
| "base_of (R_GenericNetworkService r) = ontology_base.truncate r"
| "base_of (R_LoadBalancer r) = ontology_base.truncate r"
| "base_of (R_NetworkInterface r) = ontology_base.truncate r"
| "base_of (R_ResourceGroup r) = r"
| "base_of (R_Account r) = r"

definition GetId :: "IsResource \<Rightarrow> string" where
  "GetId r = ob_Id (base_of r)"

text \<open>The option \<open>resource_type_names\<close> of the messages.\<close>

primrec type_names :: "IsResource \<Rightarrow> string list" where
  "type_names (R_BlockStorage r) = [''BlockStorage'', ''Storage'', ''CloudResource'', ''Resource'']"
| "type_names (R_FileStorage r) = [''FileStorage'', ''Storage'', ''CloudResource'', ''Resource'']"
| "type_names (R_ObjectStorage r) = [''ObjectStorage'', ''Storage'', ''CloudResource'', ''Resource'']"
| "type_names (R_DatabaseStorage r) = [''DatabaseStorage'', ''Storage'', ''CloudResource'', ''Resource'']"
| "type_names (R_ObjectStorageService r) =
     [''ObjectStorageService'', ''StorageService'', ''NetworkService'', ''Networking'', ''CloudResource'', ''Resource'']"
| "type_names (R_RelationalDatabaseService r) =
     [''RelationalDatabaseService'', ''DatabaseService'', ''StorageService'', ''NetworkService'', ''Networking'', ''CloudResource'', ''Resource'']"
| "type_names (R_DocumentDatabaseService r) =
     [''DocumentDatabaseService'', ''DatabaseService'', ''StorageService'', ''NetworkService'', ''Networking'', ''CloudResource'', ''Resource'']"
| "type_names (R_Container r) = [''Container'', ''Compute'', ''CloudResource'', ''Resource'']"
| "type_names (R_VirtualMachine r) = [''VirtualMachine'', ''Compute'', ''CloudResource'', ''Resource'']"
| "type_names (R_Function r) = [''Function'', ''Compute'', ''CloudResource'', ''Resource'']"
| "type_names (R_WebApp r) = [''WebApp'', ''Compute'', ''CloudResource'', ''Resource'']"
| "type_names (R_GenericNetworkService r) = [''GenericNetworkService'', ''NetworkService'', ''Networking'', ''CloudResource'', ''Resource'']"
| "type_names (R_LoadBalancer r) = [''LoadBalancer'', ''NetworkService'', ''Networking'', ''CloudResource'', ''Resource'']"
| "type_names (R_NetworkInterface r) = [''NetworkInterface'', ''Networking'', ''CloudResource'', ''Resource'']"
| "type_names (R_ResourceGroup r) = [''ResourceGroup'', ''CloudResource'', ''Resource'']"
| "type_names (R_Account r) = [''Account'', ''CloudResource'', ''Resource'']"

text \<open>
  A message as the discovery service reads it. Of the fields with the ending \<open>_id\<close> the discoverers set only the parent; protobuf
  reflection gives the empty string for one that is not set. The encoding by protojson is a parameter.
\<close>

definition as_resource :: "(IsResource \<Rightarrow> (string \<rightharpoonup> json) res) \<Rightarrow> IsResource \<Rightarrow> resource" where
  "as_resource pj r =
     \<lparr> or_Id = GetId r, or_TypeNames = type_names r, or_JSON = pj r, or_Raw = ob_Raw (base_of r),
       or_Fields = [(''parent_id'', FString (Deref [] (ob_ParentId (base_of r))))] \<rparr>"

text \<open>A loop that handles one element after the other and stops at the first error.\<close>

fun each_res :: "('a \<Rightarrow> 'b res) \<Rightarrow> 'a list \<Rightarrow> 'b list res" where
  "each_res f [] = Ok []"
| "each_res f (x # xs) =
     (case f x of
        Ok y \<Rightarrow> map_res ((#) y) (each_res f xs)
      | Err err \<Rightarrow> Err err
      | Panic \<Rightarrow> Panic)"

lemma each_res_Ok: "each_res f xs = Ok ys \<longleftrightarrow> map f xs = map Ok ys"
proof (induction xs arbitrary: ys)
  case (Cons x xs)
  then show ?case by (cases ys) (auto split: res.splits)
qed auto

section \<open>Raw data\<close>

text \<open>
  \<open>discovery.Raw\<close> groups the objects of the provider by their Go type and encodes the groups as JSON; type names
  (\<open>reflect.TypeOf\<close>) and encoding belong to the provider's objects and are parameters. An encoding error is ignored.
\<close>

record 'x raw_lib =
  rl_TypeOf :: "'x \<Rightarrow> string"
  rl_Marshal :: "(string \<rightharpoonup> 'x list) \<Rightarrow> string res"

fun raw_map :: "('x \<Rightarrow> string) \<Rightarrow> 'x list \<Rightarrow> (string \<rightharpoonup> 'x list) \<Rightarrow> (string \<rightharpoonup> 'x list)" where
  "raw_map typeOf [] rawMap = rawMap"
| "raw_map typeOf (raw # raws) rawMap =
     raw_map typeOf raws (rawMap(typeOf raw \<mapsto> Deref [] (rawMap (typeOf raw)) @ [raw]))"

definition Raw :: "'x raw_lib \<Rightarrow> 'x list \<Rightarrow> string" where
  "Raw lib raws = (case rl_Marshal lib (raw_map (rl_TypeOf lib) raws Map.empty) of Ok b \<Rightarrow> b | _ \<Rightarrow> [])"

text \<open>Nothing is lost or reordered within a type.\<close>

lemma raw_map_lookup:
  "Deref [] (raw_map typeOf raws m t) = Deref [] (m t) @ filter (\<lambda>raw. typeOf raw = t) raws"
  by (induction raws arbitrary: m) auto

lemma raw_map_dom: "dom (raw_map typeOf raws m) = dom m \<union> typeOf ` set raws"
  by (induction raws arbitrary: m) auto

section \<open>Runs of the discovery service\<close>

text \<open>The list of a discoverer as the discovery service gets it.\<close>

definition discovered :: "(IsResource \<Rightarrow> (string \<rightharpoonup> json) res) \<Rightarrow> IsResource list res \<Rightarrow> resource list res" where
  "discovered pj = map_res (map (as_resource pj))"

lemma as_resource_Id [simp]: "or_Id (as_resource pj r) = GetId r"
  by (simp add: as_resource_def)

lemma GetId_simps [simp]:
  "GetId (R_BlockStorage b) = ob_Id b" "GetId (R_FileStorage f) = ob_Id f" "GetId (R_ObjectStorage os) = ob_Id os"
  "GetId (R_DatabaseStorage db) = ob_Id db" "GetId (R_ObjectStorageService ss) = ob_Id ss" "GetId (R_Container c) = ob_Id c"
  "GetId (R_RelationalDatabaseService rd) = ob_Id rd" "GetId (R_DocumentDatabaseService dd) = ob_Id dd"
  "GetId (R_VirtualMachine vm) = ob_Id vm" "GetId (R_Function fn) = ob_Id fn" "GetId (R_WebApp wa) = ob_Id wa"
  "GetId (R_GenericNetworkService gn) = ob_Id gn" "GetId (R_LoadBalancer lb) = ob_Id lb" "GetId (R_NetworkInterface ni) = ob_Id ni"
  "GetId (R_ResourceGroup rg) = ob_Id rg" "GetId (R_Account ac) = ob_Id ac"
  by (simp_all add: GetId_def ontology_base.defs)

text \<open>What a run leaves under an identifier is the last of the listed resources with it.\<close>

definition sync_rows :: "(resource \<Rightarrow> Any) \<Rightarrow> string \<Rightarrow> resource list \<Rightarrow> Resource set \<Rightarrow> Resource set" where
  "sync_rows any csID list rows =
     fold (\<lambda>r rows. insert (stored_resource any csID r) {y \<in> rows. rs_Id y \<noteq> or_Id r}) list rows"

lemma sync_rows_with_id:
  "{y \<in> sync_rows any csID list rows. rs_Id y = i} =
     (if \<exists>r \<in> set list. or_Id r = i then {stored_resource any csID (last (filter (\<lambda>r. or_Id r = i) list))}
      else {y \<in> rows. rs_Id y = i})"
proof (induction list rule: rev_induct)
  case (snoc r list)
  let ?rows = "sync_rows any csID list rows"
  have step: "sync_rows any csID (list @ [r]) rows = insert (stored_resource any csID r) {y \<in> ?rows. rs_Id y \<noteq> or_Id r}"
    by (simp add: sync_rows_def)
  show ?case
  proof (cases "or_Id r = i")
    case True
    then show ?thesis by (auto simp: step stored_resource_def)
  next
    case False
    then have "{y \<in> sync_rows any csID (list @ [r]) rows. rs_Id y = i} = {y \<in> ?rows. rs_Id y = i}"
      by (auto simp: step stored_resource_def)
    with snoc.IH False show ?thesis by simp
  qed
qed (simp add: sync_rows_def)

lemma run_last:
  assumes "gorm_table (d_storage svc) T" "t_key T = resource_key" "saves (d_storage svc)" "streams_ok (d_assessmentStreams svc)"
    "\<forall>r. dl_New lib r = Ok (any r)" "StartDiscovery lib (Inr st) uuid now discoverer (discovered pj out) svc = (Ok u, svc')" "out = Ok rs"
    "filter (\<lambda>r. GetId r = i) rs = found" "found \<noteq> []"
  shows "{y \<in> t_rows T (d_db svc'). rs_Id y = i} = {stored_resource any (d_csID svc) (as_resource pj (last found))}"
proof -
  let ?list = "map (as_resource pj) rs"
  have "t_rows T (d_db svc') = sync_rows any (d_csID svc) ?list (t_rows T (d_db svc))"
    using StartDiscovery_spec [OF assms(1-4) _ _ refl, of ?list lib any st uuid now discoverer u svc'] assms(5-7)
    by (simp add: discovered_def sync_rows_def)
  moreover have "filter (\<lambda>x. or_Id x = i) ?list = map (as_resource pj) found" using assms(8) by (simp add: filter_map comp_def)
  moreover have "\<exists>x \<in> set ?list. or_Id x = i" using assms(8,9) by (auto simp: filter_empty_conv)
  ultimately show ?thesis using assms(9) by (simp add: sync_rows_with_id last_map)
qed

lemma run_stores:
  assumes "gorm_table (d_storage svc) T" "t_key T = resource_key" "saves (d_storage svc)" "streams_ok (d_assessmentStreams svc)"
    "\<forall>r. dl_New lib r = Ok (any r)" "StartDiscovery lib (Inr st) uuid now discoverer (discovered pj out) svc = (Ok u, svc')" "out = Ok rs"
    "r \<in> set rs" "\<forall>r' \<in> set rs. GetId r' = GetId r \<longrightarrow> r' = r"
  shows "{y \<in> t_rows T (d_db svc'). rs_Id y = GetId r} = {stored_resource any (d_csID svc) (as_resource pj r)}"
proof -
  let ?found = "filter (\<lambda>r'. GetId r' = GetId r) rs"
  have ne: "?found \<noteq> []" using assms(8) by (auto simp: filter_empty_conv)
  then have "last ?found \<in> set ?found" by (rule last_in_set)
  then have "last ?found = r" using assms(9) by auto
  with run_last [OF assms(1-7) refl ne] show ?thesis by simp
qed

lemma run_hands_over:
  assumes "gorm_table (d_storage svc) T" "t_key T = resource_key" "saves (d_storage svc)" "streams_ok (d_assessmentStreams svc)"
    "\<forall>r. dl_New lib r = Ok (any r)" "StartDiscovery lib (Inr st) uuid now discoverer (discovered pj out) svc = (Ok u, svc')" "out = Ok rs"
    "tgt = rc_Target (d_assessment svc)"
  shows "handed (d_assessmentStreams svc') tgt = handed (d_assessmentStreams svc) tgt @
    map (evidence_request any uuid now (d_csID svc)) (enumerate 0 (map (as_resource pj) rs))"
  using StartDiscovery_spec [OF assms(1-4) _ _ assms(8), of "map (as_resource pj) rs" lib any st uuid now discoverer u svc'] assms(5-7)
  by (simp add: discovered_def)

text \<open>Runs of a new discovery service on the executable storage.\<close>

abbreviation sample_any :: "resource \<Rightarrow> Any" where
  "sample_any \<equiv> \<lambda>r. \<lparr> any_TypeUrl = ''resource'', any_Value = or_Id r \<rparr>"

abbreviation sample_disc :: "(unit, mem_db, unit, unit, unit, unit, unit) discovery" where
  "sample_disc \<equiv> new_disc strategy_AllowAll empty_db"

definition sample_run :: "Discoverer \<Rightarrow> IsResource list res \<Rightarrow> (unit, mem_db, unit, unit, unit, unit, unit) discovery" where
  "sample_run discoverer out = snd (StartDiscovery any_lib (Inr ()) (\<lambda>_. ''e1'') 7 discoverer (discovered (\<lambda>_. Ok Map.empty) out) sample_disc)"

lemma sample_disc_ok:
  "gorm_table (d_storage sample_disc) (mem_sem mt_Resource)" "t_key (mem_sem mt_Resource) = resource_key" "saves (d_storage sample_disc)"
  "streams_ok (d_assessmentStreams sample_disc)" "\<forall>r. dl_New any_lib r = Ok (sample_any r)"
  using mem_resource.gorm_table_axioms mem_saves [of mt_Resource]
  by (simp_all add: mt_Resource_def any_lib_def streams_ok_def NewStreamsOf_def)

lemma sample_run_ok:
  assumes "out = Ok rs" "length rs \<le> channel_cap"
  shows "StartDiscovery any_lib (Inr ()) (\<lambda>_. ''e1'') 7 discoverer (discovered (\<lambda>_. Ok Map.empty) out) sample_disc = (Ok (), sample_run discoverer out)"
proof -
  obtain svc' where "StartDiscovery any_lib (Inr ()) (\<lambda>_. ''e1'') 7 discoverer (Ok (map (as_resource (\<lambda>_. Ok Map.empty)) rs)) sample_disc = (Ok (), svc')"
    using StartDiscovery_runs [OF sample_disc_ok, of "map (as_resource (\<lambda>_. Ok Map.empty)) rs" "()" "\<lambda>_. ''e1''" 7 discoverer] assms(2)
    by (auto simp: handed_new)
  then show ?thesis using assms(1) by (simp add: sample_run_def discovered_def)
qed

end
