(* ===== verification/Discover_K8s.thy ===== *)
theory Discover_K8s
  imports Resources
begin

text \<open>
  The discoverers of Kubernetes (src/service/discovery/k8s): pods with their volumes, services and ingresses, persistent volumes.
  The objects of the Kubernetes API are records with the fields that the discoverers read; what its client answers is the record
  \<open>k8s_intf\<close>. \<open>List\<close> of the network discoverer returns a partial list beside an error, which its only caller drops, and so does the model.
\<close>

section \<open>Objects\<close>

record ObjectMeta =
  om_Name :: string
  om_Namespace :: string
  om_UID :: string
  om_CreationTimestamp :: timestamp
  om_Labels :: "string \<rightharpoonup> string"

text \<open>A volume source is a struct of pointers; it is given by those that are not nil.\<close>

datatype volume_source =
  AWSElasticBlockStore | AzureDisk | Cinder | FlexVolume | CephFS | Glusterfs | GCEPersistentDisk | RBD | StorageOS | FC
| PortworxVolume | ISCSI | Flocker | AzureFile | EmptyDir | NFS | HostPath | Secret | OtherSource string

record Volume =
  vol_Name :: string
  vol_VolumeSource :: "volume_source list"

record Pod =
  pod_Meta :: ObjectMeta
  pod_Volumes :: "Volume list"

record K8sService =
  ks_Meta :: ObjectMeta
  ks_ClusterIPs :: "string list"
  ks_Ports :: "int list"

record IngressRule =
  ir_Host :: string
  ir_HTTP :: "string list option"

record Ingress =
  ig_Meta :: ObjectMeta
  ig_Rules :: "IngressRule list"
  ig_TLS :: "string list option"

record PersistentVolume =
  pv_Meta :: ObjectMeta
  pv_Source :: "volume_source list"

datatype k8s_object = O_Pod Pod | O_Volume Volume | O_Service K8sService | O_Ingress Ingress | O_PersistentVolume PersistentVolume

record k8s_intf =
  ki_Pods :: "Pod list res"
  ki_Services :: "K8sService list res"
  ki_Ingresses :: "Ingress list res"
  ki_PersistentVolumes :: "PersistentVolume list res"

section \<open>Access and constructors\<close>

text \<open>\<open>home\<close> is the home directory, \<open>build\<close> and \<open>new\<close> are \<open>BuildConfigFromFlags\<close> and \<open>NewForConfig\<close> of the client library.\<close>

definition AuthFromKubeConfig :: "string \<Rightarrow> (string \<Rightarrow> 'cfg res) \<Rightarrow> ('cfg \<Rightarrow> k8s_intf res) \<Rightarrow> k8s_intf res" where
  "AuthFromKubeConfig home build new =
     (if home = [] then Err (ErrText ''could not find kubeconfig'')
      else case build (home @ ''/.kube/config'') of
             Err err \<Rightarrow> Err (Wrap ''could not read kubeconfig: '' err)
           | Panic \<Rightarrow> Panic
           | Ok config \<Rightarrow>
               (case new config of
                  Err err \<Rightarrow> Err (Wrap ''could not create client: '' err)
                | r \<Rightarrow> r))"

definition NewKubernetesComputeDiscovery :: "string \<Rightarrow> Discoverer" where
  "NewKubernetesComputeDiscovery csID = \<lparr> dc_Name = ''Kubernetes Compute'', dc_CloudServiceID = csID \<rparr>"

definition NewKubernetesNetworkDiscovery :: "string \<Rightarrow> Discoverer" where
  "NewKubernetesNetworkDiscovery csID = \<lparr> dc_Name = ''Kubernetes Network'', dc_CloudServiceID = csID \<rparr>"

definition NewKubernetesStorageDiscovery :: "string \<Rightarrow> Discoverer" where
  "NewKubernetesStorageDiscovery csID = \<lparr> dc_Name = ''Kubernetes Storage'', dc_CloudServiceID = csID \<rparr>"

text \<open>What \<open>Start\<close> of the discovery service does for this provider.\<close>

definition provider_K8S :: "k8s_intf res \<Rightarrow> string \<Rightarrow> Discoverer list res" where
  "provider_K8S auth csID =
     map_res (\<lambda>k8sClient. [NewKubernetesComputeDiscovery csID, NewKubernetesNetworkDiscovery csID, NewKubernetesStorageDiscovery csID]) auth"

section \<open>Pods and their volumes\<close>

definition is_block_source :: "volume_source list \<Rightarrow> bool" where
  "is_block_source vs \<longleftrightarrow>
     AWSElasticBlockStore \<in> set vs \<or> AzureDisk \<in> set vs \<or> Cinder \<in> set vs \<or> FlexVolume \<in> set vs \<or> CephFS \<in> set vs \<or>
     Glusterfs \<in> set vs \<or> GCEPersistentDisk \<in> set vs \<or> RBD \<in> set vs \<or> StorageOS \<in> set vs \<or> FC \<in> set vs \<or>
     PortworxVolume \<in> set vs \<or> ISCSI \<in> set vs \<or> Flocker \<in> set vs"

definition is_file_source :: "volume_source list \<Rightarrow> bool" where
  "is_file_source vs \<longleftrightarrow> AzureFile \<in> set vs \<or> EmptyDir \<in> set vs \<or> NFS \<in> set vs \<or> HostPath \<in> set vs \<or> Secret \<in> set vs"

definition getContainerResourceID :: "Pod \<Rightarrow> string" where
  "getContainerResourceID pod = ''/namespaces/'' @ om_Namespace (pod_Meta pod) @ ''/containers/'' @ om_Name (pod_Meta pod)"

definition handlePod :: "k8s_object raw_lib \<Rightarrow> Pod \<Rightarrow> Container" where
  "handlePod lib pod =
     \<lparr> ob_CreationTime = Some (om_CreationTimestamp (pod_Meta pod)), ob_Id = getContainerResourceID pod,
       ob_InternetAccessibleEndpoint = False, ob_Labels = om_Labels (pod_Meta pod), ob_Name = om_Name (pod_Meta pod),
       ob_Raw = Raw lib [O_Pod pod], ob_GeoLocation = None, ob_ParentId = None,
       cn_NetworkInterfaceIds = [om_Namespace (pod_Meta pod)] \<rparr>"

definition block_volume :: "k8s_object raw_lib \<Rightarrow> Pod \<Rightarrow> Volume \<Rightarrow> BlockStorage" where
  "block_volume lib pod vol =
     \<lparr> ob_CreationTime = None, ob_Id = vol_Name vol, ob_InternetAccessibleEndpoint = False, ob_Labels = Map.empty, ob_Name = vol_Name vol,
       ob_Raw = Raw lib [O_Pod pod, O_Volume vol], ob_GeoLocation = None, ob_ParentId = None,
       bk_AtRestEncryption = Some AtRestEncryption_Unset, bk_Backups = [] \<rparr>"

definition file_volume :: "k8s_object raw_lib \<Rightarrow> Pod \<Rightarrow> Volume \<Rightarrow> FileStorage" where
  "file_volume lib pod vol =
     \<lparr> ob_CreationTime = None, ob_Id = vol_Name vol, ob_InternetAccessibleEndpoint = False, ob_Labels = Map.empty, ob_Name = vol_Name vol,
       ob_Raw = Raw lib [O_Pod pod, O_Volume vol], ob_GeoLocation = None, ob_ParentId = None,
       fi_AtRestEncryption = Some AtRestEncryption_Unset, fi_ResourceLogging = None \<rparr>"

text \<open>The loop over the volumes; the variable \<open>v\<close> lives outside of the loop.\<close>

fun pod_volumes :: "k8s_object raw_lib \<Rightarrow> Pod \<Rightarrow> IsResource option \<Rightarrow> Volume list \<Rightarrow> IsResource list" where
  "pod_volumes lib pod v [] = []"
| "pod_volumes lib pod v (vol # vols) =
     (let vs = vol_VolumeSource vol;
          v = (if is_block_source vs then Some (R_BlockStorage (block_volume lib pod vol))
               else if is_file_source vs then Some (R_FileStorage (file_volume lib pod vol))
               else v)
      in (case v of None \<Rightarrow> [] | Some r \<Rightarrow> [r]) @ pod_volumes lib pod v vols)"

definition handlePodVolume :: "k8s_object raw_lib \<Rightarrow> Pod \<Rightarrow> IsResource list" where
  "handlePodVolume lib pod = pod_volumes lib pod None (pod_Volumes pod)"

definition List_kc :: "k8s_object raw_lib \<Rightarrow> k8s_intf \<Rightarrow> IsResource list res" where
  "List_kc lib intf =
     (case ki_Pods intf of
        Err err \<Rightarrow> Err (ErrText (''could not list ingresses: '' @ error_string err))
      | Panic \<Rightarrow> Panic
      | Ok pods \<Rightarrow> Ok (concat (map (\<lambda>pod. R_Container (handlePod lib pod) # handlePodVolume lib pod) pods)))"

section \<open>Services and ingresses\<close>

text \<open>The conversion of an \<open>int32\<close> to \<open>uint32\<close>.\<close>

definition uint32 :: "int \<Rightarrow> int" where
  "uint32 i = i mod 2 ^ 32"

definition getNetworkServiceResourceID :: "K8sService \<Rightarrow> string" where
  "getNetworkServiceResourceID service = ''/namespaces/'' @ om_Namespace (ks_Meta service) @ ''/services/'' @ om_Name (ks_Meta service)"

definition handleService :: "k8s_object raw_lib \<Rightarrow> K8sService \<Rightarrow> GenericNetworkService" where
  "handleService lib service =
     \<lparr> ob_CreationTime = Some (om_CreationTimestamp (ks_Meta service)), ob_Id = getNetworkServiceResourceID service,
       ob_InternetAccessibleEndpoint = False, ob_Labels = om_Labels (ks_Meta service), ob_Name = om_Name (ks_Meta service),
       ob_Raw = Raw lib [O_Service service], ob_GeoLocation = None, ob_ParentId = None,
       gn_Ips = ks_ClusterIPs service, gn_Ports = map uint32 (ks_Ports service) \<rparr>"

definition getLoadBalancerResourceID :: "Ingress \<Rightarrow> string" where
  "getLoadBalancerResourceID ingress = ''/namespaces/'' @ om_Namespace (ig_Meta ingress) @ ''/ingresses/'' @ om_Name (ig_Meta ingress)"

definition path_endpoint :: "Ingress \<Rightarrow> string \<Rightarrow> string \<Rightarrow> HttpEndpoint" where
  "path_endpoint ingress host path =
     (let url = host @ ''/'' @ path
      in if ig_TLS ingress = None then \<lparr> he_Url = ''http://'' @ url, he_TransportEncryption = None \<rparr>
         else \<lparr> he_Url = ''https://'' @ url,
                he_TransportEncryption = Some \<lparr> te_Enabled = True, te_Enforced = True, te_Protocol = [], te_ProtocolVersion = 0,
                  te_CipherSuites = [] \<rparr> \<rparr>)"

text \<open>The loop over the rules; reading \<open>rule.HTTP.Paths\<close> of a rule without HTTP is a nil dereference.\<close>

fun ingress_rules :: "Ingress \<Rightarrow> IngressRule list \<Rightarrow> LoadBalancer \<Rightarrow> LoadBalancer res" where
  "ingress_rules ingress [] lb = Ok lb"
| "ingress_rules ingress (rule # rules) lb =
     (let lb = lb\<lparr>lb_Ips := lb_Ips lb @ [ir_Host rule]\<rparr>
      in case ir_HTTP rule of
           None \<Rightarrow> Panic
         | Some paths \<Rightarrow>
             ingress_rules ingress rules (lb\<lparr>lb_HttpEndpoints := lb_HttpEndpoints lb @ map (path_endpoint ingress (ir_Host rule)) paths\<rparr>))"

definition handleIngress :: "k8s_object raw_lib \<Rightarrow> Ingress \<Rightarrow> LoadBalancer res" where
  "handleIngress lib ingress =
     ingress_rules ingress (ig_Rules ingress)
       \<lparr> ob_CreationTime = Some (om_CreationTimestamp (ig_Meta ingress)), ob_Id = getLoadBalancerResourceID ingress,
         ob_InternetAccessibleEndpoint = False, ob_Labels = om_Labels (ig_Meta ingress), ob_Name = om_Name (ig_Meta ingress),
         ob_Raw = Raw lib [O_Ingress ingress], ob_GeoLocation = None, ob_ParentId = None,
         lb_Ips = [], lb_Ports = [80, 443], lb_AccessRestriction = None, lb_HttpEndpoints = [] \<rparr>"

fun handle_ingresses :: "k8s_object raw_lib \<Rightarrow> Ingress list \<Rightarrow> IsResource list res" where
  "handle_ingresses lib [] = Ok []"
| "handle_ingresses lib (ingress # ingresses) =
     (case handleIngress lib ingress of
        Ok lb \<Rightarrow> map_res ((#) (R_LoadBalancer lb)) (handle_ingresses lib ingresses)
      | Err err \<Rightarrow> Err err
      | Panic \<Rightarrow> Panic)"

definition List_kn :: "k8s_object raw_lib \<Rightarrow> k8s_intf \<Rightarrow> IsResource list res" where
  "List_kn lib intf =
     (case ki_Services intf of
        Err err \<Rightarrow> Err (Wrap ''could not list services: '' err)
      | Panic \<Rightarrow> Panic
      | Ok services \<Rightarrow>
          (case ki_Ingresses intf of
             Err err \<Rightarrow> Err (Wrap ''could not list ingresses: '' err)
           | Panic \<Rightarrow> Panic
           | Ok ingresses \<Rightarrow>
               map_res ((@) (map (\<lambda>service. R_GenericNetworkService (handleService lib service)) services)) (handle_ingresses lib ingresses)))"

section \<open>Persistent volumes\<close>

definition is_file_pv :: "volume_source list \<Rightarrow> bool" where
  "is_file_pv vs \<longleftrightarrow> AzureFile \<in> set vs \<or> NFS \<in> set vs \<or> HostPath \<in> set vs"

definition handlePV :: "k8s_object raw_lib \<Rightarrow> PersistentVolume \<Rightarrow> IsResource option" where
  "handlePV lib pv =
     (if is_block_source (pv_Source pv) then
        Some (R_BlockStorage
          \<lparr> ob_CreationTime = Some (om_CreationTimestamp (pv_Meta pv)), ob_Id = om_UID (pv_Meta pv), ob_InternetAccessibleEndpoint = False,
            ob_Labels = om_Labels (pv_Meta pv), ob_Name = om_Name (pv_Meta pv), ob_Raw = Raw lib [O_PersistentVolume pv],
            ob_GeoLocation = None, ob_ParentId = None, bk_AtRestEncryption = Some AtRestEncryption_Unset, bk_Backups = [] \<rparr>)
      else if is_file_pv (pv_Source pv) then
        Some (R_FileStorage
          \<lparr> ob_CreationTime = Some (om_CreationTimestamp (pv_Meta pv)), ob_Id = om_UID (pv_Meta pv), ob_InternetAccessibleEndpoint = False,
            ob_Labels = om_Labels (pv_Meta pv), ob_Name = om_Name (pv_Meta pv), ob_Raw = Raw lib [O_PersistentVolume pv],
            ob_GeoLocation = None, ob_ParentId = None, fi_AtRestEncryption = Some AtRestEncryption_Unset, fi_ResourceLogging = None \<rparr>)
      else None)"

definition List_ks :: "k8s_object raw_lib \<Rightarrow> k8s_intf \<Rightarrow> IsResource list res" where
  "List_ks lib intf =
     (case ki_PersistentVolumes intf of
        Err err \<Rightarrow> Err (ErrText (''could not list ingresses: '' @ error_string err))
      | Panic \<Rightarrow> Panic
      | Ok pvs \<Rightarrow> Ok (List.map_filter (handlePV lib) pvs))"

section \<open>Lemmas\<close>

text \<open>The resource of a volume on its own.\<close>

definition volume_resource :: "k8s_object raw_lib \<Rightarrow> Pod \<Rightarrow> Volume \<Rightarrow> IsResource option" where
  "volume_resource lib pod vol =
     (if is_block_source (vol_VolumeSource vol) then Some (R_BlockStorage (block_volume lib pod vol))
      else if is_file_source (vol_VolumeSource vol) then Some (R_FileStorage (file_volume lib pod vol))
      else None)"

lemma pod_volumes_Cons:
  "pod_volumes lib pod v (vol # vols) =
     (let v = (case volume_resource lib pod vol of None \<Rightarrow> v | Some r \<Rightarrow> Some r)
      in (case v of None \<Rightarrow> [] | Some r \<Rightarrow> [r]) @ pod_volumes lib pod v vols)"
  by (simp add: volume_resource_def)

lemma pod_volumes_set:
  "set (pod_volumes lib pod v vols) \<subseteq> {r. v = Some r} \<union> {r. \<exists>vol \<in> set vols. volume_resource lib pod vol = Some r}"
  "\<exists>vol \<in> set vols. volume_resource lib pod vol = Some r \<Longrightarrow> r \<in> set (pod_volumes lib pod v vols)"
  by (induction vols arbitrary: v) (auto simp: pod_volumes_Cons Let_def simp del: pod_volumes.simps(2) split: option.splits)

lemma pod_volumes_length:
  "length (pod_volumes lib pod v vols) =
     (if v = None then length (dropWhile (\<lambda>vol. volume_resource lib pod vol = None) vols) else length vols)"
  by (induction vols arbitrary: v) (auto simp: pod_volumes_Cons Let_def simp del: pod_volumes.simps(2) split: option.splits)

lemma volume_resource_id: "volume_resource lib pod vol = Some r \<Longrightarrow> GetId r = vol_Name vol"
  by (auto simp: volume_resource_def block_volume_def file_volume_def split: if_splits)

lemma handlePod_id [simp]: "ob_Id (handlePod lib pod) = getContainerResourceID pod"
  by (simp add: handlePod_def)

text \<open>Names in Kubernetes are DNS labels or subdomains, in which there is no slash, and the name of a pod is unique in its namespace.\<close>

definition k8s_names :: "Pod list \<Rightarrow> bool" where
  "k8s_names pods \<longleftrightarrow>
     distinct (map (\<lambda>pod. (om_Namespace (pod_Meta pod), om_Name (pod_Meta pod))) pods) \<and>
     (\<forall>pod \<in> set pods. CHR ''/'' \<notin> set (om_Namespace (pod_Meta pod)) \<and> (\<forall>vol \<in> set (pod_Volumes pod). CHR ''/'' \<notin> set (vol_Name vol)))"

lemma append_sep_inject:
  assumes "xs @ c # ys = xs' @ c # ys'" "c \<notin> set xs" "c \<notin> set xs'"
  shows "xs = xs' \<and> ys = ys'"
  using assms by (induction xs arbitrary: xs') (auto simp: Cons_eq_append_conv append_eq_Cons_conv)

lemma container_id_inject:
  assumes "k8s_names pods" "pod \<in> set pods" "pod' \<in> set pods" "getContainerResourceID pod = getContainerResourceID pod'"
  shows "pod = pod'"
proof -
  have "om_Namespace (pod_Meta pod) = om_Namespace (pod_Meta pod') \<and> ''containers/'' @ om_Name (pod_Meta pod) = ''containers/'' @ om_Name (pod_Meta pod')"
    using assms by (intro append_sep_inject [of _ "CHR ''/''"]) (simp_all add: getContainerResourceID_def k8s_names_def)
  then show ?thesis using assms(1-3) by (auto simp: k8s_names_def distinct_map inj_on_def)
qed

lemma container_unique:
  assumes "k8s_names pods" "pod \<in> set pods" "r \<in> set (R_Container (handlePod lib pod') # handlePodVolume lib pod')" "pod' \<in> set pods"
    "GetId r = getContainerResourceID pod"
  shows "r = R_Container (handlePod lib pod)"
proof (cases "r = R_Container (handlePod lib pod')")
  case True
  then show ?thesis using assms container_id_inject by fastforce
next
  case False
  then have "r \<in> set (pod_volumes lib pod' None (pod_Volumes pod'))" using assms(3) by (simp add: handlePodVolume_def)
  then obtain vol where "vol \<in> set (pod_Volumes pod')" "volume_resource lib pod' vol = Some r"
    using pod_volumes_set(1) [of lib pod' None "pod_Volumes pod'"] by auto
  then have "CHR ''/'' \<notin> set (GetId r)" using assms(1,4) by (auto simp: k8s_names_def volume_resource_id)
  then show ?thesis using assms(5) by (simp add: getContainerResourceID_def)
qed

lemma List_kc_Ok: "ki_Pods intf = Ok pods \<Longrightarrow>
  List_kc lib intf = Ok (concat (map (\<lambda>pod. R_Container (handlePod lib pod) # handlePodVolume lib pod) pods))"
  by (simp add: List_kc_def)

text \<open>
  A load balancer lists the hosts of its rules and one endpoint per path, all with the same scheme; but a rule without HTTP, which Kubernetes
  allows, makes the discoverer panic.
\<close>

lemma ingress_rules_result:
  "ingress_rules ingress rules lb =
     (if list_all (\<lambda>rule. ir_HTTP rule \<noteq> None) rules then
        Ok (lb\<lparr>lb_Ips := lb_Ips lb @ map ir_Host rules,
               lb_HttpEndpoints := lb_HttpEndpoints lb @
                 concat (map (\<lambda>rule. map (path_endpoint ingress (ir_Host rule)) (the (ir_HTTP rule))) rules)\<rparr>)
      else Panic)"
  by (induction rules arbitrary: lb) (auto simp: Let_def split: option.splits)

lemma handleIngress_panics: "handleIngress lib ingress = Panic \<longleftrightarrow> (\<exists>rule \<in> set (ig_Rules ingress). ir_HTTP rule = None)"
  by (auto simp: handleIngress_def ingress_rules_result list_all_iff)

lemma handleIngress_endpoints:
  assumes "handleIngress lib ingress = Ok lb"
  shows "map he_Url (lb_HttpEndpoints lb) = concat (map (\<lambda>rule. map (\<lambda>path.
      (if ig_TLS ingress = None then ''http://'' else ''https://'') @ ir_Host rule @ ''/'' @ path) (the (ir_HTTP rule))) (ig_Rules ingress)) \<and>
    (\<forall>e \<in> set (lb_HttpEndpoints lb). he_TransportEncryption e = None \<longleftrightarrow> ig_TLS ingress = None)"
  using assms by (auto simp: handleIngress_def ingress_rules_result map_concat path_endpoint_def Let_def comp_def split: if_splits)

lemma uint32_range: "0 \<le> uint32 i \<and> uint32 i < 2 ^ 32" "0 \<le> i \<Longrightarrow> i < 2 ^ 32 \<Longrightarrow> uint32 i = i"
  by (simp_all add: uint32_def)

text \<open>A cluster with one pod that has a secret and a configuration map as volumes.\<close>

definition web_pod :: Pod where
  "web_pod = \<lparr> pod_Meta = \<lparr> om_Name = ''web'', om_Namespace = ''default'', om_UID = ''1'', om_CreationTimestamp = 5, om_Labels = Map.empty \<rparr>,
     pod_Volumes = [\<lparr> vol_Name = ''token'', vol_VolumeSource = [Secret] \<rparr>, \<lparr> vol_Name = ''config'', vol_VolumeSource = [OtherSource ''ConfigMap''] \<rparr>] \<rparr>"

definition web_cluster :: k8s_intf where
  "web_cluster = \<lparr> ki_Pods = Ok [web_pod], ki_Services = Ok [], ki_Ingresses = Ok [], ki_PersistentVolumes = Ok [] \<rparr>"

definition k8s_raw :: "k8s_object raw_lib" where
  "k8s_raw = \<lparr> rl_TypeOf = (\<lambda>_. ''object''), rl_Marshal = (\<lambda>_. Ok ''{}'') \<rparr>"

text \<open>The secret is listed twice.\<close>

lemma web_listed:
  "map GetId (case List_kc k8s_raw web_cluster of Ok rs \<Rightarrow> rs | _ \<Rightarrow> []) = [''/namespaces/default/containers/web'', ''token'', ''token'']"
  by (simp add: List_kc_def web_cluster_def web_pod_def handlePodVolume_def is_block_source_def is_file_source_def getContainerResourceID_def
      file_volume_def Let_def)

section \<open>Properties\<close>


text \<open>
  C17: pods arrive in the storage of the discovery service. After a run of the compute discoverer, the storage has for every pod exactly
  one resource under the identifier made of its namespace and name, which is the container of this pod as it was listed; and the assessment has been
  handed an evidence for every listed resource.
\<close>

theorem k8s_pods_stored:
  assumes "gorm_table (d_storage svc) T" "t_key T = resource_key" "saves (d_storage svc)" "streams_ok (d_assessmentStreams svc)"
    "\<forall>r. dl_New lib r = Ok (any r)" "ki_Pods intf = Ok pods" "k8s_names pods"
    "StartDiscovery lib (Inr st) uuid now (NewKubernetesComputeDiscovery csID) (discovered pj (List_kc raw intf)) svc = (Ok u, svc')"
  shows "(\<forall>pod \<in> set pods. {y \<in> t_rows T (d_db svc'). rs_Id y = getContainerResourceID pod} =
      {stored_resource any (d_csID svc) (as_resource pj (R_Container (handlePod raw pod)))}) \<and>
    (\<exists>rs. List_kc raw intf = Ok rs \<and> handed (d_assessmentStreams svc') (rc_Target (d_assessment svc)) =
      handed (d_assessmentStreams svc) (rc_Target (d_assessment svc)) @
        map (evidence_request any uuid now (d_csID svc)) (enumerate 0 (map (as_resource pj) rs)))"
proof -
  let ?rs = "concat (map (\<lambda>pod. R_Container (handlePod raw pod) # handlePodVolume raw pod) pods)"
  have l: "List_kc raw intf = Ok ?rs" using assms(6) by (rule List_kc_Ok)
  have "{y \<in> t_rows T (d_db svc'). rs_Id y = getContainerResourceID pod} =
      {stored_resource any (d_csID svc) (as_resource pj (R_Container (handlePod raw pod)))}" if "pod \<in> set pods" for pod
  proof -
    have mem: "R_Container (handlePod raw pod) \<in> set ?rs" using that by auto
    have uniq: "\<forall>r' \<in> set ?rs. GetId r' = GetId (R_Container (handlePod raw pod)) \<longrightarrow> r' = R_Container (handlePod raw pod)"
      using container_unique [OF assms(7) that] by fastforce
    from run_stores [OF assms(1-5,8) l mem uniq] show ?thesis by simp
  qed
  then show ?thesis using run_hands_over [OF assms(1-5,8) l refl] l by blast
qed

theorem k8s_pods_stored_witness:
  "{y \<in> t_rows (mem_sem mt_Resource) (d_db (sample_run (NewKubernetesComputeDiscovery ''u1'') (List_kc k8s_raw web_cluster))).
      rs_Id y = ''/namespaces/default/containers/web''} =
   {stored_resource sample_any ''u1'' (as_resource (\<lambda>_. Ok Map.empty) (R_Container (handlePod k8s_raw web_pod)))}"
proof -
  have pods: "ki_Pods web_cluster = Ok [web_pod]" by (simp add: web_cluster_def)
  have names: "k8s_names [web_pod]" by (simp add: k8s_names_def web_pod_def)
  obtain rs where rs: "List_kc k8s_raw web_cluster = Ok rs" using List_kc_Ok [OF pods] by blast
  have "length rs \<le> channel_cap" using arg_cong [OF web_listed, of length] rs by (simp add: channel_cap_def)
  from k8s_pods_stored [OF sample_disc_ok pods names sample_run_ok [OF rs this]] show ?thesis
    by (simp add: getContainerResourceID_def web_pod_def)
qed

end
