(* ===== verification/Discover_AWS.thy ===== *)
theory Discover_AWS
  imports Resources Serialization
begin

text \<open>
  The discoverers of AWS (src/service/discovery/aws): S3 buckets with their encryption and policies, EC2 volumes, network interfaces
  and instances, Lambda functions. The answers of the AWS SDK are the records \<open>S3API\<close>, \<open>EC2API\<close> and \<open>LambdaAPI\<close>, its objects records with
  the fields that are read. \<open>errors.As\<close> for the error types of the SDK is \<open>aws_errors\<close>. The text of a bucket policy is read through the
  JSON document in it, if there is one.
\<close>

section \<open>Client\<close>

record APIError =
  ae_ErrorCode :: string
  ae_ErrorFault :: string
  ae_ErrorMessage :: string

record OperationError =
  oe_Service :: string
  oe_Operation :: string
  oe_Unwrap :: go_error

record aws_errors =
  ax_APIError :: "go_error \<Rightarrow> APIError option"
  ax_OperationError :: "go_error \<Rightarrow> OperationError option"

record Client =
  cl_Region :: string
  cl_accountID :: "string option"

definition formatError :: "APIError \<Rightarrow> go_error" where
  "formatError ae = ErrText (''code: '' @ ae_ErrorCode ae @ '', fault: '' @ ae_ErrorFault ae @ '', message: '' @ ae_ErrorMessage ae)"

definition prettyError :: "aws_errors \<Rightarrow> go_error \<Rightarrow> go_error" where
  "prettyError ax err = (case ax_APIError ax err of None \<Rightarrow> err | Some ae \<Rightarrow> formatError ae)"

text \<open>\<open>cfg\<close> is the region of the default configuration, \<open>identity\<close> the account in the answer of \<open>GetCallerIdentity\<close>.\<close>

definition NewClient :: "aws_errors \<Rightarrow> string res \<Rightarrow> (string \<Rightarrow> string option res) \<Rightarrow> Client res" where
  "NewClient ax cfg identity =
     (case cfg of
        Err err \<Rightarrow> Err (Wrap ''could not load default config: '' err)
      | Panic \<Rightarrow> Panic
      | Ok region \<Rightarrow>
          (case identity region of
             Err err \<Rightarrow> Err (prettyError ax err)
           | Panic \<Rightarrow> Panic
           | Ok account \<Rightarrow> Ok \<lparr> cl_Region = region, cl_accountID = account \<rparr>))"

definition NewAwsStorageDiscovery :: "string \<Rightarrow> Discoverer" where
  "NewAwsStorageDiscovery csID = \<lparr> dc_Name = ''AWS Blob Storage'', dc_CloudServiceID = csID \<rparr>"

definition NewAwsComputeDiscovery :: "string \<Rightarrow> Discoverer" where
  "NewAwsComputeDiscovery csID = \<lparr> dc_Name = ''AWS Compute'', dc_CloudServiceID = csID \<rparr>"

definition provider_AWS :: "Client res \<Rightarrow> string \<Rightarrow> Discoverer list res" where
  "provider_AWS client csID = map_res (\<lambda>awsClient. [NewAwsStorageDiscovery csID, NewAwsComputeDiscovery csID]) client"

section \<open>Objects of EC2 and Lambda\<close>

record Tag =
  tag_Key :: "string option"
  tag_Value :: "string option"

record EC2Volume =
  eo_VolumeId :: "string option"
  eo_Encrypted :: "bool option"
  eo_CreateTime :: "timestamp option"
  eo_Tags :: "Tag list"

record EC2NetworkInterface =
  ei_NetworkInterfaceId :: "string option"
  ei_TagSet :: "Tag list"

text \<open>A block device mapping is its pointer \<open>Ebs\<close> with the volume, a network interface its identifier.\<close>

record EC2Instance =
  in_InstanceId :: "string option"
  in_Tags :: "Tag list"
  in_BlockDeviceMappings :: "string option option list"
  in_NetworkInterfaces :: "string option list"

record EC2API =
  ec_DescribeInstances :: "EC2Instance list list res"
  ec_DescribeVolumes :: "EC2Volume list res"
  ec_DescribeNetworkInterfaces :: "EC2NetworkInterface list res"

record FunctionConfiguration =
  fc_FunctionArn :: "string option"
  fc_FunctionName :: "string option"

text \<open>\<open>ListFunctions\<close> takes a marker and gives functions with the next marker.\<close>

record LambdaAPI =
  la_ListFunctions :: "string option \<Rightarrow> (FunctionConfiguration list \<times> string option) res"

section \<open>Buckets\<close>

record S3Bucket =
  sb_Name :: "string option"
  sb_CreationDate :: "timestamp option"

record ServerSideEncryptionByDefault =
  sd_SSEAlgorithm :: string
  sd_KMSMasterKeyID :: "string option"

text \<open>The configuration with its rules, each with its default encryption; all of them may be nil.\<close>

type_synonym GetBucketEncryptionOutput = "ServerSideEncryptionByDefault option list option"

record S3API =
  s3_ListBuckets :: "S3Bucket list res"
  s3_GetBucketEncryption :: "string \<Rightarrow> GetBucketEncryptionOutput res"
  s3_GetBucketPolicy :: "string \<Rightarrow> json option res"
  s3_GetBucketLocation :: "string \<Rightarrow> string res"

record bucket =
  b_arn :: string
  b_name :: string
  b_creationTime :: timestamp
  b_endpoint :: string
  b_region :: string
  b_raw :: "S3Bucket \<times> string"

datatype aws_object =
  O_bucket bucket
| O_encryption "GetBucketEncryptionOutput res"
| O_policy "json option res"
| O_raw "S3Bucket \<times> string"
| O_EC2Volume EC2Volume
| O_NetworkInterface EC2NetworkInterface
| O_Reservation "EC2Instance list"
| O_FunctionConfiguration FunctionConfiguration

definition getRegion :: "aws_errors \<Rightarrow> S3API \<Rightarrow> string \<Rightarrow> string res" where
  "getRegion ax api bucket =
     (case s3_GetBucketLocation api bucket of
        Err err \<Rightarrow>
          (case ax_OperationError ax err of
             Some oe \<Rightarrow> Err (ErrText (''failed to call service: '' @ oe_Service oe @ '', operation: '' @ oe_Operation oe @
                          '', error: '' @ error_string (oe_Unwrap oe)))
           | None \<Rightarrow> Err err)
      | r \<Rightarrow> r)"

fun region_buckets :: "aws_errors \<Rightarrow> S3API \<Rightarrow> Client \<Rightarrow> S3Bucket list \<Rightarrow> bucket list res" where
  "region_buckets ax api client [] = Ok []"
| "region_buckets ax api client (b # bs) =
     (case getRegion ax api (Deref [] (sb_Name b)) of
        Err err \<Rightarrow> Err err
      | Panic \<Rightarrow> Panic
      | Ok region \<Rightarrow>
          if region = cl_Region client then
            (case sb_Name b of
               None \<Rightarrow> Panic
             | Some name \<Rightarrow>
                 map_res ((#) \<lparr> b_arn = ''arn:aws:s3:::'' @ name, b_name = name, b_creationTime = Deref zero_time (sb_CreationDate b),
                    b_endpoint = ''https://'' @ name @ ''.s3.'' @ region @ ''.amazonaws.com'', b_region = region, b_raw = (b, region) \<rparr>)
                   (region_buckets ax api client bs))
          else region_buckets ax api client bs)"

definition getBuckets :: "aws_errors \<Rightarrow> S3API \<Rightarrow> Client \<Rightarrow> bucket list res" where
  "getBuckets ax api client =
     (case s3_ListBuckets api of
        Err err \<Rightarrow> Err (prettyError ax err)
      | Panic \<Rightarrow> Panic
      | Ok bs \<Rightarrow> region_buckets ax api client bs)"

definition getEncryptionAtRest :: "aws_errors \<Rightarrow> S3API \<Rightarrow> Client \<Rightarrow> bucket \<Rightarrow> AtRestEncryption option res" where
  "getEncryptionAtRest ax api client bucket =
     (case s3_GetBucketEncryption api (b_name bucket) of
        Err err \<Rightarrow>
          (case ax_APIError ax err of
             Some ae \<Rightarrow>
               if ae_ErrorCode ae = ''ServerSideEncryptionConfigurationNotFoundError'' then Ok None else Err (formatError ae)
           | None \<Rightarrow> Err err)
      | Panic \<Rightarrow> Panic
      | Ok (Some (Some rule # _)) \<Rightarrow>
          if sd_SSEAlgorithm rule = ''AES256'' then
            Ok (Some (AtRestEncryption_ManagedKeyEncryption \<lparr> mk_Algorithm = sd_SSEAlgorithm rule, mk_Enabled = True \<rparr>))
          else
            Ok (Some (AtRestEncryption_CustomerKeyEncryption \<lparr> ck_Algorithm = [], ck_Enabled = True,
              ck_KeyUrl = ''arn:aws:kms:'' @ b_region bucket @ '':'' @ Deref [] (cl_accountID client) @ '':key/'' @
                Deref [] (sd_KMSMasterKeyID rule) \<rparr>))
      | Ok _ \<Rightarrow> Panic)"

section \<open>Bucket policies\<close>

record Statement =
  st_Action :: "json option"
  st_Effect :: string
  st_Resource :: "json option"
  st_AwsSecureTransport :: bool

record BucketPolicy =
  po_ID :: string
  po_Version :: string
  po_Statement :: "Statement list"

text \<open>
  Decoding by \<open>encoding/json\<close>. Null leaves a string, a boolean and a struct as they are. The struct \<open>Bool\<close> is embedded
  in \<open>Condition\<close> without a name of its own, so that its field is looked up in the object of the condition itself.
\<close>

definition nonnull :: "(string \<times> json) list \<Rightarrow> (string \<times> json) list" where
  "nonnull fs = filter (\<lambda>(k, v). v \<noteq> JNull) fs"

fun decode_string :: "string option \<Rightarrow> json \<Rightarrow> string res" where
  "decode_string old (JString s) = Ok s"
| "decode_string old j = Err type_error"

fun decode_bool :: "bool option \<Rightarrow> json \<Rightarrow> bool res" where
  "decode_bool old (JBool b) = Ok b"
| "decode_bool old j = Err type_error"

fun decode_any :: "json option \<Rightarrow> json \<Rightarrow> json res" where
  "decode_any old j = Ok j"

fun decode_Condition :: "bool option \<Rightarrow> json \<Rightarrow> bool res" where
  "decode_Condition old (JObject fs) = map_res (Deref False) (decode_field ''aws:SecureTransport'' decode_bool (nonnull fs) old)"
| "decode_Condition old j = Err type_error"

fun decode_Statement :: "json \<Rightarrow> Statement res" where
  "decode_Statement (JObject fs) =
     (case (decode_field ''Action'' decode_any fs None, decode_field ''Effect'' decode_string (nonnull fs) None,
            decode_field ''Resource'' decode_any fs None, decode_field ''Condition'' decode_Condition (nonnull fs) None) of
        (Ok action, Ok effect, Ok resource, Ok secure) \<Rightarrow>
          Ok \<lparr> st_Action = action, st_Effect = Deref [] effect, st_Resource = resource, st_AwsSecureTransport = Deref False secure \<rparr>
      | _ \<Rightarrow> Err type_error)"
| "decode_Statement JNull = Ok \<lparr> st_Action = None, st_Effect = [], st_Resource = None, st_AwsSecureTransport = False \<rparr>"
| "decode_Statement j = Err type_error"

fun decode_Statements :: "Statement list option \<Rightarrow> json \<Rightarrow> Statement list res" where
  "decode_Statements old (JArray js) = each_res decode_Statement js"
| "decode_Statements old j = Err type_error"

fun decode_BucketPolicy :: "json option \<Rightarrow> BucketPolicy res" where
  "decode_BucketPolicy (Some (JObject fs)) =
     (case (decode_field ''id'' decode_string (nonnull fs) None, decode_field ''Version'' decode_string (nonnull fs) None,
            decode_field ''Statement'' decode_Statements fs None) of
        (Ok i, Ok version, Ok statements) \<Rightarrow>
          Ok \<lparr> po_ID = Deref [] i, po_Version = Deref [] version, po_Statement = Deref [] statements \<rparr>
      | _ \<Rightarrow> Err type_error)"
| "decode_BucketPolicy (Some JNull) = Ok \<lparr> po_ID = [], po_Version = [], po_Statement = [] \<rparr>"
| "decode_BucketPolicy (Some j) = Err type_error"
| "decode_BucketPolicy None = Err syntax_error"

text \<open>
  The two type assertions on an action. \<open>encoding/json\<close> gives an array the dynamic type \<open>[]interface{}\<close>, for which the assertion
  to \<open>[]string\<close> fails.
\<close>

fun as_string :: "json option \<Rightarrow> string option" where
  "as_string (Some (JString a)) = Some a"
| "as_string j = None"

fun as_strings :: "json option \<Rightarrow> string list option" where
  "as_strings j = None"

definition denies_http :: "Statement \<Rightarrow> string \<Rightarrow> bool" where
  "denies_http statement a \<longleftrightarrow> st_Effect statement = ''Deny'' \<and> \<not> st_AwsSecureTransport statement \<and> a = ''s3:*''"

definition tls12 :: "bool \<Rightarrow> TransportEncryption" where
  "tls12 enforced = \<lparr> te_Enabled = True, te_Enforced = enforced, te_Protocol = ''TLS'', te_ProtocolVersion = 12 / 10, te_CipherSuites = [] \<rparr>"

fun check_statements :: "Statement list \<Rightarrow> TransportEncryption" where
  "check_statements [] = tls12 False"
| "check_statements (statement # statements) =
     (if (case as_string (st_Action statement) of None \<Rightarrow> False | Some a \<Rightarrow> denies_http statement a) then tls12 True
      else if (case as_strings (st_Action statement) of None \<Rightarrow> False | Some actions \<Rightarrow> list_ex (denies_http statement) actions) then tls12 True
      else check_statements statements)"

definition getTransportEncryption :: "aws_errors \<Rightarrow> S3API \<Rightarrow> string \<Rightarrow> TransportEncryption res" where
  "getTransportEncryption ax api bucket =
     (case s3_GetBucketPolicy api bucket of
        Err err \<Rightarrow>
          (case ax_APIError ax err of
             Some ae \<Rightarrow> if ae_ErrorCode ae = ''NoSuchBucketPolicy'' then Ok (tls12 False) else Err (formatError ae)
           | None \<Rightarrow> Err err)
      | Panic \<Rightarrow> Panic
      | Ok policy \<Rightarrow>
          (case decode_BucketPolicy policy of
             Err err \<Rightarrow> Err (ErrText (''error occurred while unmarshalling the bucket policy: '' @ error_string err))
           | Panic \<Rightarrow> Panic
           | Ok policy \<Rightarrow> Ok (check_statements (po_Statement policy))))"

section \<open>Listing buckets\<close>

definition bucket_resources :: "aws_object raw_lib \<Rightarrow> S3API \<Rightarrow> AtRestEncryption option \<Rightarrow> TransportEncryption \<Rightarrow> bucket \<Rightarrow> IsResource list" where
  "bucket_resources lib api atRest atTransit b =
     (let raw = Raw lib [O_bucket b, O_encryption (s3_GetBucketEncryption api (b_name b)), O_policy (s3_GetBucketPolicy api (b_name b)), O_raw (b_raw b)]
      in [R_ObjectStorage
            \<lparr> ob_CreationTime = Some (b_creationTime b), ob_Id = b_arn b, ob_InternetAccessibleEndpoint = False, ob_Labels = Map.empty,
              ob_Name = b_name b, ob_Raw = raw, ob_GeoLocation = Some (b_region b), ob_ParentId = None, oj_PublicAccess = False,
              oj_AtRestEncryption = atRest, oj_Backups = [], oj_Immutability = None, oj_ResourceLogging = None \<rparr>,
          R_ObjectStorageService
            \<lparr> ob_CreationTime = Some (b_creationTime b), ob_Id = b_arn b, ob_InternetAccessibleEndpoint = False, ob_Labels = Map.empty,
              ob_Name = b_name b, ob_Raw = raw, ob_GeoLocation = Some (b_region b), ob_ParentId = None,
              ss_HttpEndpoint = Some \<lparr> he_Url = b_endpoint b, he_TransportEncryption = Some atTransit \<rparr>,
              ss_StorageIds = [], ss_TransportEncryption = Some atTransit \<rparr>])"

fun list_buckets :: "aws_object raw_lib \<Rightarrow> aws_errors \<Rightarrow> S3API \<Rightarrow> Client \<Rightarrow> bucket list \<Rightarrow> IsResource list res" where
  "list_buckets lib ax api client [] = Ok []"
| "list_buckets lib ax api client (b # bs) =
     (case getEncryptionAtRest ax api client b of
        Err err \<Rightarrow> Err err
      | Panic \<Rightarrow> Panic
      | Ok atRest \<Rightarrow>
          (case getTransportEncryption ax api (b_name b) of
             Err err \<Rightarrow> Err err
           | Panic \<Rightarrow> Panic
           | Ok atTransit \<Rightarrow> map_res ((@) (bucket_resources lib api atRest atTransit b)) (list_buckets lib ax api client bs)))"

definition List_s3 :: "aws_object raw_lib \<Rightarrow> aws_errors \<Rightarrow> S3API \<Rightarrow> Client \<Rightarrow> IsResource list res" where
  "List_s3 lib ax api client =
     (case getBuckets ax api client of
        Err err \<Rightarrow> Err err
      | Panic \<Rightarrow> Panic
      | Ok buckets \<Rightarrow> list_buckets lib ax api client buckets)"

section \<open>EC2\<close>

definition arnify :: "Client \<Rightarrow> string \<Rightarrow> string option \<Rightarrow> string" where
  "arnify client t i = ''arn:aws:ec2:'' @ cl_Region client @ '':'' @ Deref [] (cl_accountID client) @ '':'' @ t @ ''/'' @ Deref [] i"

fun nameOrID :: "Tag list \<Rightarrow> string option \<Rightarrow> string" where
  "nameOrID [] i = Deref [] i"
| "nameOrID (tag # tags) i = (if Deref [] (tag_Key tag) = ''Name'' then Deref [] (tag_Value tag) else nameOrID tags i)"

definition getNameOfVM :: "EC2Instance \<Rightarrow> string" where
  "getNameOfVM vm = nameOrID (in_Tags vm) (in_InstanceId vm)"

definition labels_aws :: "Tag list \<Rightarrow> string \<rightharpoonup> string" where
  "labels_aws tags = fold (\<lambda>tag labels. labels(Deref [] (tag_Key tag) \<mapsto> Deref [] (tag_Value tag))) tags Map.empty"

definition aws_base :: "Client \<Rightarrow> timestamp option \<Rightarrow> string \<Rightarrow> (string \<rightharpoonup> string) \<Rightarrow> string \<Rightarrow> string \<Rightarrow> ontology_base" where
  "aws_base client created i labels name raw =
     \<lparr> ob_CreationTime = created, ob_Id = i, ob_InternetAccessibleEndpoint = False, ob_Labels = labels, ob_Name = name, ob_Raw = raw,
       ob_GeoLocation = Some (cl_Region client), ob_ParentId = None \<rparr>"

definition volume_storage :: "aws_object raw_lib \<Rightarrow> Client \<Rightarrow> EC2Volume \<Rightarrow> BlockStorage" where
  "volume_storage lib client volume =
     (let enabled = Deref False (eo_Encrypted volume)
      in ontology_base.extend
           (aws_base client (Some (Deref zero_time (eo_CreateTime volume))) (arnify client ''volume'' (eo_VolumeId volume))
             (labels_aws (eo_Tags volume)) (nameOrID (eo_Tags volume) (eo_VolumeId volume)) (Raw lib [O_EC2Volume volume]))
           (BlockStorage.fields
             (Some (AtRestEncryption_ManagedKeyEncryption \<lparr> mk_Algorithm = (if enabled then ''AES-256'' else []), mk_Enabled = enabled \<rparr>)) []))"

definition discoverVolumes :: "aws_object raw_lib \<Rightarrow> aws_errors \<Rightarrow> EC2API \<Rightarrow> Client \<Rightarrow> BlockStorage list res" where
  "discoverVolumes lib ax api client =
     (case ec_DescribeVolumes api of
        Err err \<Rightarrow> Err (prettyError ax err)
      | Panic \<Rightarrow> Panic
      | Ok volumes \<Rightarrow> Ok (map (volume_storage lib client) volumes))"

definition network_interface :: "aws_object raw_lib \<Rightarrow> Client \<Rightarrow> EC2NetworkInterface \<Rightarrow> NetworkInterface" where
  "network_interface lib client ifc =
     ontology_base.extend
       (aws_base client None (arnify client ''network-interface'' (ei_NetworkInterfaceId ifc)) (labels_aws (ei_TagSet ifc))
         (nameOrID (ei_TagSet ifc) (ei_NetworkInterfaceId ifc)) (Raw lib [O_NetworkInterface ifc]))
       (NetworkInterface.fields None)"

definition discoverNetworkInterfaces :: "aws_object raw_lib \<Rightarrow> aws_errors \<Rightarrow> EC2API \<Rightarrow> Client \<Rightarrow> NetworkInterface list res" where
  "discoverNetworkInterfaces lib ax api client =
     (case ec_DescribeNetworkInterfaces api of
        Err err \<Rightarrow> Err (prettyError ax err)
      | Panic \<Rightarrow> Panic
      | Ok ifcs \<Rightarrow> Ok (map (network_interface lib client) ifcs))"

fun mapBlockStorageIDsOfVM :: "Client \<Rightarrow> string option option list \<Rightarrow> string list res" where
  "mapBlockStorageIDsOfVM client [] = Ok []"
| "mapBlockStorageIDsOfVM client (None # mappings) = Panic"
| "mapBlockStorageIDsOfVM client (Some volumeId # mappings) =
     map_res ((#) (arnify client ''volume'' volumeId)) (mapBlockStorageIDsOfVM client mappings)"

definition getNetworkInterfacesOfVM :: "Client \<Rightarrow> EC2Instance \<Rightarrow> string list" where
  "getNetworkInterfacesOfVM client vm = map (arnify client ''network-interface'') (in_NetworkInterfaces vm)"

definition virtual_machine :: "aws_object raw_lib \<Rightarrow> Client \<Rightarrow> EC2Instance list \<Rightarrow> EC2Instance \<Rightarrow> VirtualMachine res" where
  "virtual_machine lib client reservation vm =
     map_res (\<lambda>disks. ontology_base.extend
         (aws_base client None (arnify client ''instance'' (in_InstanceId vm)) (labels_aws (in_Tags vm)) (getNameOfVM vm)
           (Raw lib [O_Reservation reservation]))
         (VirtualMachine.fields None None disks (Some empty_Logging) None (getNetworkInterfacesOfVM client vm) (Some empty_Logging)))
       (mapBlockStorageIDsOfVM client (in_BlockDeviceMappings vm))"

definition discoverVirtualMachines :: "aws_object raw_lib \<Rightarrow> aws_errors \<Rightarrow> EC2API \<Rightarrow> Client \<Rightarrow> VirtualMachine list res" where
  "discoverVirtualMachines lib ax api client =
     (case ec_DescribeInstances api of
        Err err \<Rightarrow> Err (prettyError ax err)
      | Panic \<Rightarrow> Panic
      | Ok reservations \<Rightarrow>
          each_res (\<lambda>(reservation, vm). virtual_machine lib client reservation vm)
            (concat (map (\<lambda>reservation. map (Pair reservation) reservation) reservations)))"

section \<open>Functions\<close>

definition function_resource :: "aws_object raw_lib \<Rightarrow> Client \<Rightarrow> FunctionConfiguration \<Rightarrow> Function" where
  "function_resource lib client fn =
     ontology_base.extend
       (aws_base client None (Deref [] (fc_FunctionArn fn)) Map.empty (Deref [] (fc_FunctionName fn)) (Raw lib [O_FunctionConfiguration fn]))
       (Function.fields [] [] [] [] None)"

definition mapFunctionResources :: "aws_object raw_lib \<Rightarrow> Client \<Rightarrow> FunctionConfiguration list \<Rightarrow> Function list" where
  "mapFunctionResources lib client functions = map (function_resource lib client) functions"

text \<open>The loop ends with the first page without a marker; if there is none, it does not end.\<close>

partial_function (option) functions_loop ::
  "aws_object raw_lib \<Rightarrow> aws_errors \<Rightarrow> LambdaAPI \<Rightarrow> Client \<Rightarrow> string option \<Rightarrow> Function list \<Rightarrow> Function list res option" where
  "functions_loop lib ax api client nextMarker resources =
     (case la_ListFunctions api nextMarker of
        Err err \<Rightarrow> Some (Err (prettyError ax err))
      | Panic \<Rightarrow> Some Panic
      | Ok (functions, next) \<Rightarrow>
          (case next of
             None \<Rightarrow> Some (Ok (resources @ mapFunctionResources lib client functions))
           | Some marker \<Rightarrow> functions_loop lib ax api client (Some marker) (resources @ mapFunctionResources lib client functions)))"

definition discoverFunctions :: "aws_object raw_lib \<Rightarrow> aws_errors \<Rightarrow> LambdaAPI \<Rightarrow> Client \<Rightarrow> Function list res option" where
  "discoverFunctions lib ax api client = functions_loop lib ax api client None []"

definition List_ac :: "aws_object raw_lib \<Rightarrow> aws_errors \<Rightarrow> EC2API \<Rightarrow> LambdaAPI \<Rightarrow> Client \<Rightarrow> IsResource list res option" where
  "List_ac lib ax api lambda client =
     (case discoverVolumes lib ax api client of
        Err err \<Rightarrow> Some (Err (Wrap ''could not discover volumes: '' err))
      | Panic \<Rightarrow> Some Panic
      | Ok volumes \<Rightarrow>
          (case discoverNetworkInterfaces lib ax api client of
             Err err \<Rightarrow> Some (Err (Wrap ''could not discover volumes: '' err))
           | Panic \<Rightarrow> Some Panic
           | Ok ifcs \<Rightarrow>
               (case discoverVirtualMachines lib ax api client of
                  Err err \<Rightarrow> Some (Err (Wrap ''could not discover virtual machines: '' err))
                | Panic \<Rightarrow> Some Panic
                | Ok machines \<Rightarrow>
                    (case discoverFunctions lib ax lambda client of
                       None \<Rightarrow> None
                     | Some (Err err) \<Rightarrow> Some (Err (Wrap ''could not discover functions: '' err))
                     | Some Panic \<Rightarrow> Some Panic
                     | Some (Ok functions) \<Rightarrow>
                         Some (Ok (map R_BlockStorage volumes @ map R_NetworkInterface ifcs @ map R_VirtualMachine machines @
                           map R_Function functions))))))"

section \<open>Lemmas on policies\<close>

lemma check_statements_result:
  "check_statements statements =
     tls12 (\<exists>s \<in> set statements. st_Action s = Some (JString ''s3:*'') \<and> st_Effect s = ''Deny'' \<and> \<not> st_AwsSecureTransport s)"
proof (induction statements)
  case (Cons s statements)
  have "(case as_string (st_Action s) of None \<Rightarrow> False | Some a \<Rightarrow> denies_http s a) \<longleftrightarrow>
      st_Action s = Some (JString ''s3:*'') \<and> st_Effect s = ''Deny'' \<and> \<not> st_AwsSecureTransport s"
    by (cases "st_Action s" rule: as_string.cases) (auto simp: denies_http_def)
  with Cons.IH show ?case by (simp only: check_statements.simps) auto
qed simp

lemma lower_keys:
  "map ToLower ''Effect'' = ''effect''" "map ToLower ''Principal'' = ''principal''" "map ToLower ''Action'' = ''action''"
  "map ToLower ''Resource'' = ''resource''" "map ToLower ''Condition'' = ''condition''" "map ToLower ''Bool'' = ''bool''"
  "map ToLower ''aws:SecureTransport'' = ''aws:securetransport''" "map ToLower ''Version'' = ''version''"
  "map ToLower ''Statement'' = ''statement''" "map ToLower ''id'' = ''id''"
  by code_simp+

lemma decode_nested_condition:
  "decode_Statement (JObject [(''Effect'', JString e), (''Principal'', p), (''Action'', JString a), (''Resource'', r), (''Condition'', JObject [(''Bool'', c)])]) =
     Ok \<lparr> st_Action = Some (JString a), st_Effect = e, st_Resource = (if r = JNull then None else Some r), st_AwsSecureTransport = False \<rparr>"
  by (simp add: nonnull_def lower_keys del: list.map)

section \<open>Lemmas on pages\<close>

text \<open>The pages that are reached from a marker, up to the first one without a next marker.\<close>

inductive function_pages :: "LambdaAPI \<Rightarrow> string option \<Rightarrow> FunctionConfiguration list list \<Rightarrow> bool" for api where
  last_page: "la_ListFunctions api m = Ok (fs, None) \<Longrightarrow> function_pages api m [fs]"
| next_page: "la_ListFunctions api m = Ok (fs, Some m') \<Longrightarrow> function_pages api (Some m') pages \<Longrightarrow> function_pages api m (fs # pages)"

lemma functions_loop_pages:
  "function_pages api m pages \<Longrightarrow>
     functions_loop lib ax api client m acc = Some (Ok (acc @ mapFunctionResources lib client (concat pages)))"
proof (induction arbitrary: acc rule: function_pages.induct)
  case (last_page m fs)
  then show ?case by (subst functions_loop.simps) simp
next
  case (next_page m fs m' pages)
  then show ?case by (subst functions_loop.simps) (simp add: mapFunctionResources_def)
qed

lemma functions_loop_Some:
  assumes "functions_loop lib ax api client m acc = Some out"
  shows "\<forall>fns. out = Ok fns \<longrightarrow> (\<exists>pages. function_pages api m pages \<and> fns = acc @ mapFunctionResources lib client (concat pages))"
  using assms
proof (rule functions_loop.raw_induct [rotated])
  fix loop lib ax api client m acc out
  assume IH: "\<And>lib ax api client m acc out. loop lib ax api client m acc = Some out \<Longrightarrow>
      \<forall>fns. out = Ok fns \<longrightarrow> (\<exists>pages. function_pages api m pages \<and> fns = acc @ mapFunctionResources lib client (concat pages))"
    and step: "(case la_ListFunctions api m of
        Ok (fs, next) \<Rightarrow>
          (case next of
             None \<Rightarrow> Some (Ok (acc @ mapFunctionResources lib client fs))
           | Some m' \<Rightarrow> loop lib ax api client (Some m') (acc @ mapFunctionResources lib client fs))
      | Err err \<Rightarrow> Some (Err (prettyError ax err)) | Panic \<Rightarrow> Some Panic) = Some out"
  show "\<forall>fns. out = Ok fns \<longrightarrow> (\<exists>pages. function_pages api m pages \<and> fns = acc @ mapFunctionResources lib client (concat pages))"
  proof (cases "la_ListFunctions api m")
    case (Ok answer)
    obtain fs nxt where a: "answer = (fs, nxt)" by fastforce
    show ?thesis
    proof (cases nxt)
      case None
      with step Ok a have "out = Ok (acc @ mapFunctionResources lib client (concat [fs]))" by simp
      then show ?thesis using last_page [of api m fs] Ok a None by (intro allI impI exI [of _ "[fs]"]) simp
    next
      case (Some m')
      with step Ok a IH [of lib ax api client "Some m'" "acc @ mapFunctionResources lib client fs" out]
      have "\<forall>fns. out = Ok fns \<longrightarrow> (\<exists>pages. function_pages api (Some m') pages \<and>
          fns = acc @ mapFunctionResources lib client (concat (fs # pages)))" by (simp add: mapFunctionResources_def)
      with next_page [of api m fs m'] Ok a Some show ?thesis by blast
    qed
  qed (use step in auto)
qed

lemma functions_loop_ends:
  fixes rank :: "string option \<Rightarrow> nat"
  assumes "\<forall>m fs m'. la_ListFunctions api m = Ok (fs, Some m') \<longrightarrow> rank (Some m') < rank m"
  shows "functions_loop lib ax api client m acc \<noteq> None"
proof (induction "rank m" arbitrary: m acc rule: less_induct)
  case less
  show ?case
  proof (cases "la_ListFunctions api m")
    case (Ok answer)
    obtain fs nxt where a: "answer = (fs, nxt)" by fastforce
    show ?thesis
    proof (cases nxt)
      case (Some m')
      with assms Ok a have "rank (Some m') < rank m" by simp
      from less.hyps [OF this] show ?thesis by (subst functions_loop.simps) (simp add: Ok a Some)
    qed (subst functions_loop.simps, simp add: Ok a)
  qed (subst functions_loop.simps, simp)+
qed

section \<open>Lemmas on buckets\<close>

definition ok_value :: "'a res \<Rightarrow> 'a" where
  "ok_value r = (case r of Ok x \<Rightarrow> x)"

lemma ok_value_Ok [simp]: "ok_value (Ok x) = x"
  by (simp add: ok_value_def)

lemma list_buckets_Ok:
  assumes "list_buckets lib ax api client bs = Ok rs"
  shows "\<exists>enc. (\<forall>b \<in> set bs. getEncryptionAtRest ax api client b = Ok (fst (enc b)) \<and> getTransportEncryption ax api (b_name b) = Ok (snd (enc b))) \<and>
    rs = concat (map (\<lambda>b. bucket_resources lib api (fst (enc b)) (snd (enc b)) b) bs)"
proof -
  let ?enc = "\<lambda>b. (ok_value (getEncryptionAtRest ax api client b), ok_value (getTransportEncryption ax api (b_name b)))"
  have "(\<forall>b \<in> set bs. getEncryptionAtRest ax api client b = Ok (fst (?enc b)) \<and> getTransportEncryption ax api (b_name b) = Ok (snd (?enc b))) \<and>
    rs = concat (map (\<lambda>b. bucket_resources lib api (fst (?enc b)) (snd (?enc b)) b) bs)"
    using assms by (induction bs arbitrary: rs) (auto split: res.splits)
  then show ?thesis by (intro exI [of _ ?enc])
qed

lemma bucket_resource_ids: "r \<in> set (bucket_resources lib api e t b) \<Longrightarrow> GetId r = b_arn b"
  by (auto simp: bucket_resources_def Let_def)

lemma bucket_resources_last:
  "\<exists>r. last (bucket_resources lib api e t b) = R_ObjectStorageService r \<and> ob_Name r = b_name b \<and> ss_TransportEncryption r = Some t"
  by (simp add: bucket_resources_def Let_def)

lemma bucket_resources_nonempty [simp]: "bucket_resources lib api e t b \<noteq> []"
  by (simp add: bucket_resources_def Let_def)

text \<open>Of the resources of distinct buckets, those with one identifier are those of one bucket.\<close>

lemma bucket_resources_of_id:
  assumes "distinct (map b_arn bs)" "b \<in> set bs"
  shows "filter (\<lambda>r. GetId r = b_arn b) (concat (map (\<lambda>b. bucket_resources lib api (e b) (t b) b) bs)) = bucket_resources lib api (e b) (t b) b"
  using assms
proof (induction bs)
  case (Cons b' bs)
  have same: "filter (\<lambda>r. GetId r = b_arn c) (bucket_resources lib api (e c) (t c) c) = bucket_resources lib api (e c) (t c) c" for c
    by (auto simp: bucket_resource_ids intro!: filter_True)
  show ?case
  proof (cases "b = b'")
    case True
    have "GetId r \<noteq> b_arn b'" if "c \<in> set bs" "r \<in> set (bucket_resources lib api (e c) (t c) c)" for c r
      using that(1) bucket_resource_ids [OF that(2)] Cons.prems(1) by (metis distinct.simps(2) image_eqI list.set_map list.simps(9))
    then have "filter (\<lambda>r. GetId r = b_arn b') (concat (map (\<lambda>b. bucket_resources lib api (e b) (t b) b) bs)) = []"
      by (auto simp: filter_empty_conv)
    with True same show ?thesis by simp
  next
    case False
    then have "b \<in> set bs" using Cons.prems by simp
    then have "b_arn b \<noteq> b_arn b'" using Cons.prems(1) by (auto simp del: image_eqI) (metis image_eqI)
    then have "filter (\<lambda>r. GetId r = b_arn b) (bucket_resources lib api (e b') (t b') b') = []"
      by (auto simp: filter_empty_conv dest: bucket_resource_ids)
    with Cons.IH Cons.prems(1) \<open>b \<in> set bs\<close> show ?thesis by simp
  qed
qed simp

section \<open>Properties\<close>

text \<open>A bucket in the region of the client, without encryption and with a policy.\<close>

definition aws_codes :: aws_errors where
  "aws_codes = \<lparr> ax_APIError = (\<lambda>err. Some \<lparr> ae_ErrorCode = error_string err, ae_ErrorFault = ''client'', ae_ErrorMessage = [] \<rparr>),
     ax_OperationError = (\<lambda>_. None) \<rparr>"

definition aws_client :: Client where
  "aws_client = \<lparr> cl_Region = ''eu-central-1'', cl_accountID = Some ''42'' \<rparr>"

definition aws_raw :: "aws_object raw_lib" where
  "aws_raw = \<lparr> rl_TypeOf = (\<lambda>_. ''object''), rl_Marshal = (\<lambda>_. Ok ''{}'') \<rparr>"

definition deny_policy :: "string \<Rightarrow> json" where
  "deny_policy secure = JObject [(''Version'', JString ''2012-10-17''), (''Statement'', JArray [JObject [(''Effect'', JString ''Deny''),
     (''Principal'', JString ''*''), (''Action'', JString ''s3:*''), (''Resource'', JString ''*''),
     (''Condition'', JObject [(''Bool'', JObject [(''aws:SecureTransport'', JString secure)])])]])]"

definition logs_api :: S3API where
  "logs_api = \<lparr> s3_ListBuckets = Ok [\<lparr> sb_Name = Some ''logs'', sb_CreationDate = Some 3 \<rparr>],
     s3_GetBucketEncryption = (\<lambda>_. Err (ErrText ''ServerSideEncryptionConfigurationNotFoundError'')),
     s3_GetBucketPolicy = (\<lambda>_. Ok (Some (deny_policy ''true''))), s3_GetBucketLocation = (\<lambda>_. Ok ''eu-central-1'') \<rparr>"




lemma logs_listed:
  "getBuckets aws_codes logs_api aws_client = Ok [\<lparr> b_arn = ''arn:aws:s3:::logs'', b_name = ''logs'', b_creationTime = 3,
     b_endpoint = ''https://logs.s3.eu-central-1.amazonaws.com'', b_region = ''eu-central-1'',
     b_raw = (\<lparr> sb_Name = Some ''logs'', sb_CreationDate = Some 3 \<rparr>, ''eu-central-1'') \<rparr>]"
  by (simp add: getBuckets_def getRegion_def logs_api_def aws_client_def)

lemma deny_policy_decodes: "\<exists>policy. decode_BucketPolicy (Some (deny_policy secure)) = Ok policy"
  by (simp add: deny_policy_def nonnull_def lower_keys decode_nested_condition del: list.map decode_Statement.simps)

lemma logs_List_s3: "\<exists>rs. List_s3 aws_raw aws_codes logs_api aws_client = Ok rs \<and> length rs = 2"
proof -
  have "\<exists>te. getTransportEncryption aws_codes logs_api ''logs'' = Ok te"
    using deny_policy_decodes [of "''true''"] by (auto simp: getTransportEncryption_def logs_api_def)
  moreover have "getEncryptionAtRest aws_codes logs_api aws_client b = Ok None" for b
    by (simp add: getEncryptionAtRest_def logs_api_def aws_codes_def)
  ultimately show ?thesis by (auto simp: List_s3_def logs_listed bucket_resources_def Let_def)
qed


text \<open>
  C34: the loop over the Lambda functions. It returns functions exactly if the pages reached by following the markers come to one without a next
  marker, and then it returns the functions of all these pages in order; and it ends whenever the markers make progress.
\<close>

theorem discoverFunctions_pages:
  "(discoverFunctions lib ax api client = Some (Ok fns) \<longleftrightarrow>
     (\<exists>pages. function_pages api None pages \<and> fns = map (function_resource lib client) (concat pages))) \<and>
   ((\<exists>rank :: string option \<Rightarrow> nat. \<forall>m fs m'. la_ListFunctions api m = Ok (fs, Some m') \<longrightarrow> rank (Some m') < rank m) \<longrightarrow>
     discoverFunctions lib ax api client \<noteq> None)"
  unfolding discoverFunctions_def
  using functions_loop_pages [of api None _ lib ax client "[]"] functions_loop_Some [of lib ax api client None "[]"] functions_loop_ends
  by (auto simp: mapFunctionResources_def)

definition two_pages :: LambdaAPI where
  "two_pages = \<lparr> la_ListFunctions = (\<lambda>m. if m = None then Ok ([\<lparr> fc_FunctionArn = Some ''f1'', fc_FunctionName = None \<rparr>], Some ''2'')
     else Ok ([\<lparr> fc_FunctionArn = Some ''f2'', fc_FunctionName = None \<rparr>], None)) \<rparr>"

theorem discoverFunctions_pages_witness:
  "discoverFunctions aws_raw aws_codes two_pages aws_client \<noteq> None \<and>
   discoverFunctions aws_raw aws_codes two_pages aws_client =
     Some (Ok (map (function_resource aws_raw aws_client) [\<lparr> fc_FunctionArn = Some ''f1'', fc_FunctionName = None \<rparr>, \<lparr> fc_FunctionArn = Some ''f2'', fc_FunctionName = None \<rparr>]))"
proof -
  let ?rank = "\<lambda>m :: string option. if m = None then 1 else (0 :: nat)"
  have "\<forall>m fs m'. la_ListFunctions two_pages m = Ok (fs, Some m') \<longrightarrow> ?rank (Some m') < ?rank m" by (simp add: two_pages_def)
  then have ends: "\<exists>rank :: string option \<Rightarrow> nat. \<forall>m fs m'. la_ListFunctions two_pages m = Ok (fs, Some m') \<longrightarrow> rank (Some m') < rank m"
    by (intro exI [of _ ?rank])
  have "function_pages two_pages None [[\<lparr> fc_FunctionArn = Some ''f1'', fc_FunctionName = None \<rparr>], [\<lparr> fc_FunctionArn = Some ''f2'', fc_FunctionName = None \<rparr>]]"
    by (rule next_page [of _ _ _ "''2''"]) (auto simp: two_pages_def intro: last_page)
  then have pages: "\<exists>pages. function_pages two_pages None pages \<and> map (function_resource aws_raw aws_client)
      [\<lparr> fc_FunctionArn = Some ''f1'', fc_FunctionName = None \<rparr>, \<lparr> fc_FunctionArn = Some ''f2'', fc_FunctionName = None \<rparr>] =
      map (function_resource aws_raw aws_client) (concat pages)" by (intro exI conjI) auto
  show ?thesis using discoverFunctions_pages ends pages by blast
qed

end
