(* ===== verification/Azure_Base.thy ===== *)
theory Azure_Base
  imports Resources "HOL-Library.AList"
begin

text \<open>
  The base of the Azure discoverer: the state of the discoverer with its options, authorization, the generic loop over the pages of the
  Azure SDK and the creation of clients (src/service/discovery/azure/azure.go, azure_clients.go), and the helper functions for
  identifiers and properties (azure_properties.go, parts of compute_properties.go and backup_properties.go).

  A pager of the SDK is the sequence of its pages, each the answer to one request; it is finite. A function of the discoverer maps its state to a
  result and the new state (\<open>'a az\<close>). Indexing a slice out of its range ends with \<open>Panic\<close>. Strings are made of ASCII characters.
\<close>

section \<open>Strings\<close>

fun Split :: "char \<Rightarrow> string \<Rightarrow> string list" where
  "Split c [] = [[]]"
| "Split c (x # xs) = (if x = c then [] # Split c xs else (case Split c xs of [] \<Rightarrow> [[x]] | y # ys \<Rightarrow> (x # y) # ys))"

definition index_res :: "'a list \<Rightarrow> nat \<Rightarrow> 'a res" where
  "index_res xs i = (if i < length xs then Ok (xs ! i) else Panic)"

definition EqualFold :: "string \<Rightarrow> string \<Rightarrow> bool" where
  "EqualFold s t \<longleftrightarrow> map ToLower s = map ToLower t"

fun digits :: "int \<Rightarrow> string \<Rightarrow> int option" where
  "digits n [] = Some n"
| "digits n (c # s) =
     (let k = (of_char c :: nat) in if 48 \<le> k \<and> k \<le> 57 then digits (10 * n + (int k - 48)) s else None)"

text \<open>\<open>strconv.Atoi\<close>: an optional sign, at least one digit, a value of 64 bits.\<close>

definition Atoi :: "string \<Rightarrow> int option" where
  "Atoi s =
     (let (sign, ds) = (case s of [] \<Rightarrow> (1, s) | c # ds \<Rightarrow> if c = CHR ''-'' then (-1, ds) else if c = CHR ''+'' then (1, ds) else (1, s))
      in if ds = [] then None
         else case digits 0 ds of
                None \<Rightarrow> None
              | Some n \<Rightarrow> if - (2 ^ 63) \<le> sign * n \<and> sign * n < 2 ^ 63 then Some (sign * n) else None)"

section \<open>Identifiers\<close>

definition getName :: "string \<Rightarrow> string res" where
  "getName i = (if i = [] then Ok [] else index_res (Split CHR ''/'' i) 8)"

definition resourceID :: "string option \<Rightarrow> string" where
  "resourceID i = (case i of None \<Rightarrow> [] | Some i \<Rightarrow> map ToLower i)"

definition resourceID2 :: "string option \<Rightarrow> string option" where
  "resourceID2 i = (case i of None \<Rightarrow> None | Some i \<Rightarrow> Some (map ToLower i))"

definition accountName :: "string \<Rightarrow> string res" where
  "accountName i = (if i = [] then Ok [] else index_res (Split CHR ''/'' i) 8)"

definition resourceGroupName :: "string \<Rightarrow> string res" where
  "resourceGroupName i = index_res (Split CHR ''/'' i) 4"

definition resourceGroupID :: "string option \<Rightarrow> string option" where
  "resourceGroupID i =
     (case i of
        None \<Rightarrow> None
      | Some i \<Rightarrow> (let s = Split CHR ''/'' i in if length s < 5 then None else Some (map ToLower (Join (take 5 s) ''/''))))"

definition diskEncryptionSetName :: "string \<Rightarrow> string res" where
  "diskEncryptionSetName i = (if i = [] then Ok [] else index_res (Split CHR ''/'' i) 8)"

definition backupPolicyName :: "string \<Rightarrow> string res" where
  "backupPolicyName i = (let s = Split CHR ''/'' i in if length s < 10 then Ok [] else index_res s 10)"

section \<open>Properties\<close>

definition tlsVersion :: "string option \<Rightarrow> rat" where
  "tlsVersion version =
     (case version of
        None \<Rightarrow> 0
      | Some v \<Rightarrow>
          if v \<in> {''1.0'', ''1_0'', ''TLS1_0''} then 1
          else if v \<in> {''1.1'', ''1_1'', ''TLS1_1''} then 11 / 10
          else if v \<in> {''1.2'', ''1_2'', ''TLS1_2''} then 12 / 10
          else if v \<in> {''1.3'', ''1_3''} then 13 / 10
          else 0)"

definition empty_CipherSuite :: CipherSuite where
  "empty_CipherSuite = \<lparr> cs_AuthenticationMechanism = [], cs_KeyExchangeAlgorithm = [], cs_MacAlgorithm = [], cs_SessionCipher = [] \<rparr>"

text \<open>The part from the label \<open>cipher\<close> on; \<open>i\<close> is the index of the name of the cipher.\<close>

definition session_cipher :: "string list \<Rightarrow> nat \<Rightarrow> CipherSuite \<Rightarrow> CipherSuite list res" where
  "session_cipher parts i cipher =
     (case index_res parts i of
        Ok name \<Rightarrow>
          if name \<noteq> ''AES'' then Ok []
          else (case index_res parts (i + 1) of
                  Ok bits \<Rightarrow>
                    if bits \<notin> {''128'', ''256''} then Ok []
                    else (case index_res parts (i + 2) of
                            Ok mode \<Rightarrow>
                              if mode \<notin> {''CBC'', ''GCM''} then Ok []
                              else (case index_res parts (i + 3) of
                                      Ok mac \<Rightarrow>
                                        (let cipher = cipher\<lparr>cs_SessionCipher := name @ ''-'' @ bits @ ''-'' @ mode\<rparr>
                                         in if mac = ''SHA256'' then Ok [cipher\<lparr>cs_MacAlgorithm := ''SHA-256''\<rparr>]
                                            else if mac = ''SHA384'' then Ok [cipher\<lparr>cs_MacAlgorithm := ''SHA-384''\<rparr>]
                                            else Ok [])
                                    | _ \<Rightarrow> Panic)
                          | _ \<Rightarrow> Panic)
                | _ \<Rightarrow> Panic)
      | _ \<Rightarrow> Panic)"

definition tlsCipherSuites :: "string \<Rightarrow> CipherSuite list res" where
  "tlsCipherSuites cs =
     (let parts = Split CHR ''_'' cs
      in if hd parts \<noteq> ''TLS'' then Ok []
         else case index_res parts 1 of
                Ok part \<Rightarrow>
                  if part = ''ECDHE'' then
                    (case index_res parts 2 of
                       Ok auth \<Rightarrow>
                         if auth \<notin> {''RSA'', ''ECDSA''} then Ok []
                         else (case index_res parts 3 of
                                 Ok word \<Rightarrow>
                                   if word \<noteq> ''WITH'' then Ok []
                                   else session_cipher parts 4
                                     (empty_CipherSuite\<lparr>cs_KeyExchangeAlgorithm := part, cs_AuthenticationMechanism := auth\<rparr>)
                               | _ \<Rightarrow> Panic)
                     | _ \<Rightarrow> Panic)
                  else session_cipher parts 1 empty_CipherSuite
              | _ \<Rightarrow> Panic)"

definition generalizeURL :: "string \<Rightarrow> string res" where
  "generalizeURL url =
     (if url = [] then Ok []
      else (let urlSplit = Split CHR ''.'' url
            in if length urlSplit < 2 then Panic else Ok (Join (urlSplit[1 := ''[file,blob]'']) ''.'')))"

text \<open>A retention such as \<open>P30D\<close>, as nanoseconds of 64 bits.\<close>

definition retentionDuration :: "string \<Rightarrow> int res" where
  "retentionDuration retention =
     (if retention = [] then Ok 0
      else if length retention < 2 then Panic
      else (case Atoi (butlast (tl retention)) of
              None \<Rightarrow> Ok 0
            | Some d \<Rightarrow> Ok (wrap64 (d * (24 * 3600 * 10 ^ 9)))))"

definition labels_az :: "(string \<rightharpoonup> string option) \<Rightarrow> string \<rightharpoonup> string" where
  "labels_az tags = (\<lambda>tag. map_option (Deref []) (tags tag))"

definition creationTime :: "timestamp option \<Rightarrow> timestamp option" where
  "creationTime t = (case t of None \<Rightarrow> None | Some t \<Rightarrow> Some t)"

definition location :: "string option \<Rightarrow> string option" where
  "location region = (case region of None \<Rightarrow> None | Some r \<Rightarrow> Some r)"

definition runtimeInfo :: "string \<Rightarrow> string \<times> string" where
  "runtimeInfo runtime =
     (if runtime = [] \<or> \<not> str_Contains runtime ''|'' then ([], [])
      else (let split = Split CHR ''|'' runtime in (split ! 0, split ! 1)))"

definition backupsEmptyCheck :: "Backup list \<Rightarrow> Backup list" where
  "backupsEmptyCheck backups =
     (if length backups = 0
      then [\<lparr> bp_Enabled = False, bp_RetentionPeriod = None, bp_StorageId = None, bp_TransportEncryption = None \<rparr>]
      else backups)"

section \<open>State of the discoverer\<close>

record Subscription =
  su_ID :: "string option"
  su_SubscriptionID :: "string option"
  su_DisplayName :: "string option"

record defenderProperties =
  dp_monitoringLogDataEnabled :: bool
  dp_securityAlertsEnabled :: bool

record backup =
  bu_backup :: "string \<rightharpoonup> Backup list"
  bu_backupStorages :: "IsResource option list"

text \<open>
  The credential is only passed on and is represented by its presence; \<open>az_clients\<close> are the types of the clients that have been
  created. The map of backups is an association list, so that it can be tested for emptiness.
\<close>

record azureDiscovery =
  az_isAuthorized :: bool
  az_sub :: "Subscription option"
  az_cred :: bool
  az_rg :: "string option"
  az_clients :: "string set"
  az_csID :: string
  az_backupMap :: "(string \<times> backup) list"
  az_defenderProperties :: "string \<rightharpoonup> defenderProperties"

definition WithAuthorizer_az :: "azureDiscovery \<Rightarrow> azureDiscovery" where
  "WithAuthorizer_az a = a\<lparr>az_cred := True\<rparr>"

definition WithCloudServiceID_az :: "string \<Rightarrow> azureDiscovery \<Rightarrow> azureDiscovery" where
  "WithCloudServiceID_az csID a = a\<lparr>az_csID := csID\<rparr>"

definition WithResourceGroup :: "string \<Rightarrow> azureDiscovery \<Rightarrow> azureDiscovery" where
  "WithResourceGroup rg a = a\<lparr>az_rg := Some rg\<rparr>"

definition NewAzureDiscovery :: "(azureDiscovery \<Rightarrow> azureDiscovery) list \<Rightarrow> azureDiscovery" where
  "NewAzureDiscovery opts =
     fold (\<lambda>opt d. opt d) opts
       \<lparr> az_isAuthorized = False, az_sub = None, az_cred = False, az_rg = None, az_clients = {}, az_csID = DefaultCloudServiceID,
         az_backupMap = [], az_defenderProperties = Map.empty \<rparr>"

text \<open>What \<open>Start\<close> of the discovery service does for this provider, with the outcome of \<open>NewAuthorizer\<close>.\<close>

definition NewAuthorizer :: "unit res \<Rightarrow> unit res" where
  "NewAuthorizer cred =
     (case cred of Err err \<Rightarrow> Err (Wrap ''could not authenticate to Azure: '' err) | r \<Rightarrow> r)"

definition provider_Azure :: "unit res \<Rightarrow> string \<Rightarrow> string option \<Rightarrow> azureDiscovery res" where
  "provider_Azure cred csID rg =
     map_res (\<lambda>_. NewAzureDiscovery ([WithAuthorizer_az, WithCloudServiceID_az csID] @
       (case rg of None \<Rightarrow> [] | Some rg \<Rightarrow> [WithResourceGroup rg]))) (NewAuthorizer cred)"

type_synonym 'a az = "azureDiscovery \<Rightarrow> 'a res \<times> azureDiscovery"

definition az_return :: "'a \<Rightarrow> 'a az" where
  "az_return x d = (Ok x, d)"

definition az_res :: "'a res \<Rightarrow> 'a az" where
  "az_res r d = (r, d)"

definition az_bind :: "'a az \<Rightarrow> ('a \<Rightarrow> 'b az) \<Rightarrow> 'b az" where
  "az_bind m f d =
     (case m d of
        (Ok x, d) \<Rightarrow> f x d
      | (Err err, d) \<Rightarrow> (Err err, d)
      | (Panic, d) \<Rightarrow> (Panic, d))"

text \<open>Wrapping the error of a call, and going on with \<open>x\<close> after logging it.\<close>

definition az_wrap :: "(go_error \<Rightarrow> go_error) \<Rightarrow> 'a az \<Rightarrow> 'a az" where
  "az_wrap w m d = (case m d of (Err err, d) \<Rightarrow> (Err (w err), d) | r \<Rightarrow> r)"

definition az_catch :: "'a \<Rightarrow> 'a az \<Rightarrow> 'a az" where
  "az_catch x m d = (case m d of (Err err, d) \<Rightarrow> (Ok x, d) | r \<Rightarrow> r)"

section \<open>Clients\<close>

text \<open>\<open>new\<close> is the constructor of the client of the given type for a subscription.\<close>

definition initClient :: "(string \<Rightarrow> string \<Rightarrow> unit res) \<Rightarrow> string \<Rightarrow> unit az" where
  "initClient new client d =
     (if client \<in> az_clients d then (Ok (), d)
      else (case new client (case az_sub d of None \<Rightarrow> [] | Some sub \<Rightarrow> Deref [] (su_SubscriptionID sub)) of
              Err err \<Rightarrow> (Err (Wrap (''could not get '' @ client @ '' client: '') err), d)
            | Panic \<Rightarrow> (Panic, d)
            | Ok _ \<Rightarrow> (Ok (), d\<lparr>az_clients := insert client (az_clients d)\<rparr>)))"

section \<open>Pages\<close>

fun az_each :: "('x \<Rightarrow> 'acc \<Rightarrow> 'acc az) \<Rightarrow> 'x list \<Rightarrow> 'acc \<Rightarrow> 'acc az" where
  "az_each callback [] acc = az_return acc"
| "az_each callback (x # xs) acc = az_bind (callback x acc) (az_each callback xs)"

fun allPages :: "('p \<Rightarrow> 'acc \<Rightarrow> 'acc az) \<Rightarrow> 'p res list \<Rightarrow> 'acc \<Rightarrow> 'acc az" where
  "allPages callback [] acc = az_return acc"
| "allPages callback (Err err # pages) acc = az_res (Err (Wrap ''error getting next page: '' err))"
| "allPages callback (Panic # pages) acc = az_res Panic"
| "allPages callback (Ok page # pages) acc = az_bind (callback page acc) (allPages callback pages)"

text \<open>The pagers of a client: over the whole subscription, and over a resource group.\<close>

record 'x pagers =
  pg_all :: "'x list res list"
  pg_byResourceGroup :: "string \<Rightarrow> 'x list res list"

definition listPager :: "'x pagers \<Rightarrow> ('x \<Rightarrow> 'acc \<Rightarrow> 'acc az) \<Rightarrow> 'acc \<Rightarrow> 'acc az" where
  "listPager pg callback acc d =
     (case az_rg d of
        None \<Rightarrow> allPages (az_each callback) (pg_all pg) acc d
      | Some rg \<Rightarrow> allPages (az_each callback) (pg_byResourceGroup pg rg) acc d)"

section \<open>Authorization and Defender plans\<close>

text \<open>\<open>pr_Properties\<close> is the pointer to the properties with the pricing tier.\<close>

record pricing =
  pr_Name :: "string option"
  pr_Properties :: "string option option"

text \<open>The loop over the subscriptions, with its own text of the error.\<close>

fun all_subscriptions :: "Subscription list res list \<Rightarrow> Subscription list res" where
  "all_subscriptions [] = Ok []"
| "all_subscriptions (Err err # pages) = Err (Wrap ''could not get azure subscription: '' err)"
| "all_subscriptions (Panic # pages) = Panic"
| "all_subscriptions (Ok page # pages) = map_res ((@) page) (all_subscriptions pages)"

definition authorize :: "unit res \<Rightarrow> Subscription list res list \<Rightarrow> unit az" where
  "authorize client pages d =
     (if az_isAuthorized d then (Ok (), d)
      else if \<not> az_cred d then (Err (ErrText ''no credentials were configured''), d)
      else (case client of
              Err err \<Rightarrow> (Err (Wrap ''could not get new subscription client: '' err), d)
            | Panic \<Rightarrow> (Panic, d)
            | Ok _ \<Rightarrow>
                (case all_subscriptions pages of
                   Err err \<Rightarrow> (Err err, d)
                 | Panic \<Rightarrow> (Panic, d)
                 | Ok [] \<Rightarrow> (Err (ErrText ''list of subscriptions is empty''), d)
                 | Ok (sub # _) \<Rightarrow>
                     (case su_SubscriptionID sub of
                        None \<Rightarrow> (Panic, d\<lparr>az_sub := Some sub\<rparr>)
                      | Some _ \<Rightarrow> (Ok (), d\<lparr>az_sub := Some sub, az_isAuthorized := True\<rparr>)))))"

fun defender_map :: "pricing list \<Rightarrow> (string \<rightharpoonup> defenderProperties) \<Rightarrow> (string \<rightharpoonup> defenderProperties) res" where
  "defender_map [] m = Ok m"
| "defender_map (elem # elems) m =
     (case pr_Properties elem of
        None \<Rightarrow> Panic
      | Some tier \<Rightarrow>
          defender_map elems (m(Deref [] (pr_Name elem) \<mapsto>
            (if Deref [] tier = ''Free'' then \<lparr> dp_monitoringLogDataEnabled = False, dp_securityAlertsEnabled = False \<rparr>
             else \<lparr> dp_monitoringLogDataEnabled = True, dp_securityAlertsEnabled = True \<rparr>))))"

definition discoverDefender :: "(string \<Rightarrow> string \<Rightarrow> unit res) \<Rightarrow> pricing list res \<Rightarrow> (string \<rightharpoonup> defenderProperties) az" where
  "discoverDefender new pricings =
     az_bind (initClient new ''*armsecurity.PricingsClient'') (\<lambda>_.
       az_res (case pricings of
                 Err err \<Rightarrow> Err (ErrText ''could not discover pricings'')
               | Panic \<Rightarrow> Panic
               | Ok elems \<Rightarrow> defender_map elems Map.empty))"

section \<open>Objects of the SDK\<close>

text \<open>
  The structs of the Azure SDK with the fields that are read. A pointer is an option; where a field lies behind several pointers, the record has
  one option for each, from the outside in. Elements of nested slices are not nil.
\<close>

record arm_resource =
  arm_ID :: "string option"
  arm_Name :: "string option"
  arm_Location :: "string option"
  arm_Tags :: "string \<rightharpoonup> string option"

text \<open>Virtual machines: settings of the operating systems (\<open>PatchSettings.PatchMode\<close>), diagnostics, interfaces and disks.\<close>

record WindowsConfiguration =
  wc_PatchMode :: "string option option"
  wc_EnableAutomaticUpdates :: "bool option"

record OSProfile =
  op_LinuxPatchMode :: "string option option option"
  op_WindowsConfiguration :: "WindowsConfiguration option"

record StorageProfile =
  sp_OSDisk :: "string option option option"
  sp_DataDisks :: "string option option list"

record VMProperties =
  vp_TimeCreated :: "timestamp option"
  vp_OSProfile :: "OSProfile option"
  vp_BootDiagnostics :: "bool option option option"
  vp_NetworkProfile :: "string option list option"
  vp_StorageProfile :: "StorageProfile option"

record AzVM = arm_resource +
  avm_Properties :: "VMProperties option"
  avm_Resources :: "string option list"

record DiskEncryption =
  dke_Type :: "string option"
  dke_DiskEncryptionSetID :: "string option"

record DiskProperties =
  dkp_TimeCreated :: "timestamp option"
  dkp_Encryption :: "DiskEncryption option"

record AzDisk = arm_resource +
  adk_Properties :: "DiskProperties option"

record SiteProperties =
  sip_ResourceGroup :: "string option"
  sip_VirtualNetworkSubnetID :: "string option"
  sip_PublicNetworkAccess :: "string option"
  sip_RedundancyMode :: "string option"
  sip_HTTPSOnly :: "bool option"
  sip_LinuxFxVersion :: "string option option"

record AzSite = arm_resource +
  site_Kind :: "string option"
  site_Properties :: "SiteProperties option"

record SiteConfig =
  sc_JavaVersion :: "string option"
  sc_NodeVersion :: "string option"
  sc_PowerShellVersion :: "string option"
  sc_PhpVersion :: "string option"
  sc_PythonVersion :: "string option"
  sc_JavaContainer :: "string option"
  sc_NetFrameworkVersion :: "string option"
  sc_MinTLSVersion :: "string option"
  sc_MinTLSCipherSuite :: "string option"

text \<open>Networks: frontends with their public addresses, ports of rules, the firewall configuration, the security group of an interface.\<close>

record LBProperties =
  lbp_Frontends :: "string option option list"
  lbp_LoadBalancingRules :: "int option option list"

record AzLoadBalancer = arm_resource +
  alb_Properties :: "LBProperties option"

record AzGateway = arm_resource +
  agw_Firewall :: "bool option option"

record AzInterface = arm_resource +
  ani_NetworkSecurityGroup :: "string option option"

text \<open>Storage accounts, file shares, containers and databases.\<close>

record AccountProperties =
  acp_CreationTime :: "timestamp option"
  acp_KeySource :: "string option option"
  acp_KeyVaultURI :: "string option option"
  acp_EnableHTTPSTrafficOnly :: "bool option"
  acp_MinimumTLSVersion :: "string option"
  acp_Blob :: "string option option"

record AzAccount = arm_resource +
  acc_Properties :: "AccountProperties option"

record AzFileShare =
  fsh_ID :: "string option"
  fsh_Name :: "string option"

record ContainerProperties =
  cop_HasImmutabilityPolicy :: "bool option"
  cop_PublicAccess :: "string option"

record AzContainer =
  con_ID :: "string option"
  con_Name :: "string option"
  con_Properties :: "ContainerProperties option"

record AzSqlServer = arm_resource +
  sqs_MinimalTLSVersion :: "string option option"

record DatabaseProperties =
  dbp_CreationDate :: "timestamp option"
  dbp_IsInfraEncryptionEnabled :: "bool option"

record AzDatabase = arm_resource +
  sqd_Properties :: "DatabaseProperties option"

record AzCosmos = arm_resource +
  cos_KeyVaultKeyURI :: "string option option"
  cos_CreatedAt :: "timestamp option option"
  cos_Kind :: "string option"

record AzBackupInstance =
  bin_ID :: "string option"
  bin_Name :: "string option"
  bin_DatasourceType :: "string option"
  bin_ResourceID :: "string option"
  bin_PolicyID :: "string option"

datatype az_object =
  O_VirtualMachine AzVM
| O_Disk AzDisk
| O_DiskEncryptionSet "string option"
| O_Site AzSite
| O_Config "SiteConfig option option"
| O_LoadBalancer AzLoadBalancer
| O_ApplicationGateway AzGateway
| O_Interface AzInterface
| O_Account AzAccount
| O_FileShare AzFileShare
| O_BlobContainer AzContainer
| O_SqlServer AzSqlServer
| O_Database AzDatabase
| O_Cosmos AzCosmos
| O_Mongo arm_resource
| O_Vault arm_resource
| O_Instance AzBackupInstance

text \<open>
  The SDK: the constructors of clients, the pagers (a page is a slice of pointers), and the single requests. A configuration of a site is
  \<open>None\<close> if it is the zero value of its struct; a backup policy is \<open>None\<close> if it does not have the shape that the discoverer asserts, otherwise it is
  the duration of its first retention rule.
\<close>

record azure_sdk =
  sdk_raw :: "az_object raw_lib"
  sdk_New :: "string \<Rightarrow> string \<Rightarrow> unit res"
  sdk_NewSubscriptionsClient :: "unit res"
  sdk_Subscriptions :: "Subscription list res list"
  sdk_Pricings :: "pricing list res"
  sdk_ResourceGroups :: "arm_resource list res list"
  sdk_VirtualMachines :: "AzVM option pagers"
  sdk_Disks :: "AzDisk option pagers"
  sdk_DiskEncryptionSet :: "string \<Rightarrow> string \<Rightarrow> string option option res"
  sdk_Sites :: "AzSite option pagers"
  sdk_GetConfiguration :: "string \<Rightarrow> string \<Rightarrow> SiteConfig option option res"
  sdk_ApplicationSettings :: "string \<Rightarrow> string \<Rightarrow> (string \<rightharpoonup> string option) res"
  sdk_Interfaces :: "AzInterface option pagers"
  sdk_LoadBalancers :: "AzLoadBalancer option pagers"
  sdk_Gateways :: "AzGateway option pagers"
  sdk_SecurityGroup :: "string \<Rightarrow> string \<Rightarrow> nat option res"
  sdk_Accounts :: "AzAccount option pagers"
  sdk_FileShares :: "string \<Rightarrow> string \<Rightarrow> AzFileShare option list res list"
  sdk_Containers :: "string \<Rightarrow> string \<Rightarrow> AzContainer option list res list"
  sdk_SqlServers :: "AzSqlServer option pagers"
  sdk_Databases :: "string \<Rightarrow> string \<Rightarrow> AzDatabase list res list"
  sdk_ThreatProtection :: "string \<Rightarrow> string \<Rightarrow> string \<Rightarrow> string option list res list"
  sdk_CosmosAccounts :: "AzCosmos option pagers"
  sdk_MongoDatabases :: "string \<Rightarrow> string \<Rightarrow> arm_resource list res list"
  sdk_Vaults :: "arm_resource option pagers"
  sdk_Instances :: "string \<Rightarrow> string \<Rightarrow> AzBackupInstance list res list"
  sdk_BackupPolicy :: "string \<Rightarrow> string \<Rightarrow> string \<Rightarrow> string option option res"

text \<open>The fields of a resource that most handlers fill in the same way.\<close>

definition az_base :: "('r) arm_resource_scheme \<Rightarrow> timestamp option \<Rightarrow> string option \<Rightarrow> string option \<Rightarrow> string \<Rightarrow> ontology_base" where
  "az_base r created geo parent raw =
     \<lparr> ob_CreationTime = created, ob_Id = resourceID (arm_ID r), ob_InternetAccessibleEndpoint = False, ob_Labels = labels_az (arm_Tags r),
       ob_Name = Deref [] (arm_Name r), ob_Raw = raw, ob_GeoLocation = geo, ob_ParentId = parent \<rparr>"

section \<open>Lemmas on strings\<close>

lemma Split_not_Nil [simp]: "Split c s \<noteq> []"
  by (induction s) (auto split: list.splits)

lemma Split_append: "Split c (a @ c # b) = Split c a @ Split c b"
  by (induction a) (auto split: list.splits)

lemma Split_single: "c \<notin> set s \<Longrightarrow> Split c s = [s]"
  by (induction s) auto

lemma Join_Cons: "ys \<noteq> [] \<Longrightarrow> Join (x # ys) sep = x @ sep @ Join ys sep"
  by (cases ys) auto

lemma Join_Split: "Join (Split c s) [c] = s"
proof (induction s)
  case (Cons x s)
  obtain y ys where "Split c s = y # ys" by (cases "Split c s") auto
  with Cons show ?case by (cases ys) auto
qed simp

lemma Split_Join:
  assumes "xs \<noteq> []" "\<forall>x \<in> set xs. c \<notin> set x"
  shows "Split c (Join xs [c]) = xs"
  using assms
proof (induction xs rule: list_nonempty_induct)
  case (cons x xs)
  then show ?case by (simp add: Join_Cons Split_append Split_single)
qed (simp add: Split_single)

text \<open>The identifier of a resource group has five parts, and those of its resources begin with it.\<close>

lemma resourceGroupID_member:
  assumes "length (Split CHR ''/'' g) = 5"
  shows "resourceGroupID (Some (g @ ''/'' @ rest)) = Some (resourceID (Some g))"
proof -
  have "take 5 (Split CHR ''/'' (g @ CHR ''/'' # rest)) = Split CHR ''/'' g" using assms by (simp add: Split_append)
  then show ?thesis using assms Join_Split [of "CHR ''/''" g] by (simp add: resourceGroupID_def resourceID_def Split_append Let_def)
qed

lemma resourceID_idem [simp]: "resourceID (Some (resourceID i)) = resourceID i"
  by (cases i) (auto simp: resourceID_def ToLower_not_upper)

text \<open>A suite name that \<open>tlsCipherSuites\<close> knows, printed and read.\<close>

definition cipher_name :: "CipherSuite \<Rightarrow> string \<Rightarrow> string \<Rightarrow> string \<Rightarrow> string" where
  "cipher_name s bits mode mac =
     Join ([''TLS''] @ (if cs_KeyExchangeAlgorithm s = [] then [] else [cs_KeyExchangeAlgorithm s, cs_AuthenticationMechanism s, ''WITH'']) @
       [''AES'', bits, mode, mac]) ''_''"

lemma tlsCipherSuites_name:
  assumes "cs_KeyExchangeAlgorithm s = ''ECDHE'' \<and> cs_AuthenticationMechanism s \<in> {''RSA'', ''ECDSA''} \<or>
      cs_KeyExchangeAlgorithm s = [] \<and> cs_AuthenticationMechanism s = []"
    "bits \<in> {''128'', ''256''}" "mode \<in> {''CBC'', ''GCM''}" "mac \<in> {''256'', ''384''}"
    "cs_SessionCipher s = ''AES-'' @ bits @ ''-'' @ mode" "cs_MacAlgorithm s = ''SHA-'' @ mac"
  shows "tlsCipherSuites (cipher_name s bits mode (''SHA'' @ mac)) = Ok [s]"
proof -
  let ?parts = "[''TLS''] @ (if cs_KeyExchangeAlgorithm s = [] then [] else [cs_KeyExchangeAlgorithm s, cs_AuthenticationMechanism s, ''WITH'']) @
       [''AES'', bits, mode, ''SHA'' @ mac]"
  have "Split CHR ''_'' (cipher_name s bits mode (''SHA'' @ mac)) = ?parts"
    unfolding cipher_name_def using assms(1-4) by (intro Split_Join) auto
  moreover have "s = empty_CipherSuite\<lparr>cs_KeyExchangeAlgorithm := cs_KeyExchangeAlgorithm s, cs_AuthenticationMechanism := cs_AuthenticationMechanism s,
      cs_SessionCipher := ''AES-'' @ bits @ ''-'' @ mode, cs_MacAlgorithm := ''SHA-'' @ mac\<rparr>"
    using assms(5,6) by (simp add: empty_CipherSuite_def)
  ultimately show ?thesis
    using assms(1-4) by (auto simp: tlsCipherSuites_def session_cipher_def index_res_def empty_CipherSuite_def Let_def)
qed

section \<open>Lemmas on pages\<close>

lemma az_bind_Ok: "az_bind m f d = (Ok y, d') \<longleftrightarrow> (\<exists>x d1. m d = (Ok x, d1) \<and> f x d1 = (Ok y, d'))"
  by (auto simp: az_bind_def split: prod.splits res.splits)

lemma az_return_Ok: "az_return x d = (Ok y, d') \<longleftrightarrow> y = x \<and> d' = d"
  by (auto simp: az_return_def)

lemma az_res_Ok: "az_res r d = (Ok y, d') \<longleftrightarrow> r = Ok y \<and> d' = d"
  by (auto simp: az_res_def)

lemma az_each_append: "az_each callback (xs @ ys) acc d = az_bind (az_each callback xs acc) (az_each callback ys) d"
  by (induction xs arbitrary: acc d) (auto simp: az_bind_def az_return_def split: prod.splits res.splits)

text \<open>The pages that are in the scope of the discoverer.\<close>

definition scoped :: "'x pagers \<Rightarrow> azureDiscovery \<Rightarrow> 'x list res list" where
  "scoped pg d = (case az_rg d of None \<Rightarrow> pg_all pg | Some rg \<Rightarrow> pg_byResourceGroup pg rg)"

lemma allPages_Ok:
  "allPages (az_each callback) pages acc d = (Ok r, d') \<longleftrightarrow>
     (\<exists>vs. pages = map Ok vs \<and> az_each callback (concat vs) acc d = (Ok r, d'))"
proof (induction pages arbitrary: acc d)
  case (Cons page pages)
  show ?case
  proof (cases page)
    case (Ok v)
    have "allPages (az_each callback) (page # pages) acc d = (Ok r, d') \<longleftrightarrow>
        (\<exists>vs. pages = map Ok vs \<and> az_each callback (v @ concat vs) acc d = (Ok r, d'))"
      by (auto simp: Ok az_bind_Ok Cons.IH az_each_append)
    also have "\<dots> \<longleftrightarrow> (\<exists>vs. page # pages = map Ok vs \<and> az_each callback (concat vs) acc d = (Ok r, d'))"
      by (auto simp: Ok Cons_eq_map_conv)
    finally show ?thesis .
  qed (auto simp: az_res_def)
qed (auto simp: az_return_def)

lemma listPager_Ok:
  "listPager pg callback acc d = (Ok r, d') \<longleftrightarrow>
     (\<exists>vs. scoped pg d = map Ok vs \<and> az_each callback (concat vs) acc d = (Ok r, d'))"
  by (simp add: listPager_def scoped_def allPages_Ok split: option.splits)

text \<open>A callback that handles one object and does not change the discoverer.\<close>

lemma az_each_collect:
  assumes "\<And>x acc d r d'. callback x acc d = (Ok r, d') \<Longrightarrow> d' = d \<and> (\<exists>y. handle d x = Ok y \<and> r = acc @ [f y])"
    "az_each callback xs acc d = (Ok rs, d')"
  shows "d' = d \<and> (\<exists>ys. map (handle d) xs = map Ok ys \<and> rs = acc @ map f ys)"
  using assms(2)
proof (induction xs arbitrary: acc)
  case (Cons x xs)
  then obtain acc1 d1 where 1: "callback x acc d = (Ok acc1, d1)" "az_each callback xs acc1 d1 = (Ok rs, d')" by (auto simp: az_bind_Ok)
  then obtain y where y: "d1 = d" "handle d x = Ok y" "acc1 = acc @ [f y]" using assms(1) by blast
  with Cons.IH [of acc1] 1(2) obtain ys where "d' = d" "map (handle d) xs = map Ok ys" "rs = acc1 @ map f ys" by auto
  with y show ?case by (intro conjI exI [of _ "y # ys"]) auto
qed (simp add: az_return_def)

section \<open>How the discoverer evolves\<close>

text \<open>
  Once authorized the discoverer stays with its subscription, and its scope never changes. \<open>evolves\<close> is the contract of all its
  operations; it is closed under their composition.
\<close>

definition az_wf :: "azureDiscovery \<Rightarrow> bool" where
  "az_wf d \<longleftrightarrow> (az_isAuthorized d \<longrightarrow> (\<exists>sub i. az_sub d = Some sub \<and> su_SubscriptionID sub = Some i))"

definition evolves :: "azureDiscovery \<Rightarrow> azureDiscovery \<Rightarrow> bool" where
  "evolves d d' \<longleftrightarrow> az_csID d' = az_csID d \<and> az_rg d' = az_rg d \<and> az_cred d' = az_cred d \<and> az_clients d \<subseteq> az_clients d' \<and>
     (az_isAuthorized d \<longrightarrow> az_isAuthorized d' \<and> az_sub d' = az_sub d) \<and> (az_wf d \<longrightarrow> az_wf d')"

lemma evolves_refl [simp]: "evolves d d"
  by (simp add: evolves_def)

lemma evolves_trans: "evolves d d1 \<Longrightarrow> evolves d1 d2 \<Longrightarrow> evolves d d2"
  by (auto simp: evolves_def)

definition az_safe :: "'a az \<Rightarrow> bool" where
  "az_safe m \<longleftrightarrow> (\<forall>d. evolves d (snd (m d)))"

named_theorems az_safe_intros \<open>operations that keep to the contract\<close>

lemma az_safe_return [az_safe_intros]: "az_safe (az_return x)"
  by (simp add: az_safe_def az_return_def)

lemma az_safe_res [az_safe_intros]: "az_safe (az_res r)"
  by (simp add: az_safe_def az_res_def)

lemma az_safe_read [az_safe_intros]: "az_safe (\<lambda>d. (f d, d))"
  by (simp add: az_safe_def)

lemma az_safe_bind [az_safe_intros]:
  assumes "az_safe m" "\<And>x. az_safe (f x)"
  shows "az_safe (az_bind m f)"
  unfolding az_safe_def
proof
  fix d
  obtain r d1 where m: "m d = (r, d1)" by fastforce
  with assms(1) have "evolves d d1" by (metis az_safe_def snd_conv)
  moreover have "evolves d1 (snd (f x d1))" for x using assms(2) by (simp add: az_safe_def)
  ultimately show "evolves d (snd (az_bind m f d))" using m by (auto simp: az_bind_def intro: evolves_trans split: res.splits)
qed

lemma az_safe_wrap [az_safe_intros]: "az_safe m \<Longrightarrow> az_safe (az_wrap w m)"
  by (auto simp: az_safe_def az_wrap_def split: prod.splits res.splits) (metis snd_conv)+

lemma az_safe_catch [az_safe_intros]: "az_safe m \<Longrightarrow> az_safe (az_catch x m)"
  by (auto simp: az_safe_def az_catch_def split: prod.splits res.splits) (metis snd_conv)+

lemma az_safe_each [az_safe_intros]: "(\<And>x acc. az_safe (callback x acc)) \<Longrightarrow> az_safe (az_each callback xs acc)"
  by (induction xs arbitrary: acc) (auto intro: az_safe_intros)

lemma az_safe_allPages: "(\<And>x acc. az_safe (callback x acc)) \<Longrightarrow> az_safe (allPages callback pages acc)"
proof (induction pages arbitrary: acc)
  case (Cons page pages)
  then show ?case by (cases page) (auto intro: az_safe_intros)
qed (simp add: az_safe_intros)

lemma az_safe_listPager [az_safe_intros]: "(\<And>x acc. az_safe (callback x acc)) \<Longrightarrow> az_safe (listPager pg callback acc)"
  using az_safe_allPages [of "az_each callback"] az_safe_each [of callback]
  by (auto simp: az_safe_def listPager_def split: option.splits)

lemma az_safe_initClient [az_safe_intros]: "az_safe (initClient new client)"
  by (auto simp: az_safe_def initClient_def evolves_def az_wf_def split: res.splits)

lemma az_safe_authorize [az_safe_intros]: "az_safe (authorize client pages)"
  by (auto simp: az_safe_def authorize_def evolves_def az_wf_def split: res.splits list.splits option.splits)

lemma authorize_Ok: "authorize client pages d = (Ok u, d') \<Longrightarrow> az_isAuthorized d'"
  by (auto simp: authorize_def split: if_splits res.splits list.splits option.splits)

lemma az_safe_discoverDefender [az_safe_intros]: "az_safe (discoverDefender new pricings)"
  unfolding discoverDefender_def by (intro az_safe_intros)

lemma az_safe_update [az_safe_intros]: "az_safe (\<lambda>d. (r, d\<lparr>az_defenderProperties := x\<rparr>))" "az_safe (\<lambda>d. (f d, d\<lparr>az_backupMap := g d\<rparr>))"
  by (auto simp: az_safe_def evolves_def az_wf_def)

end
