(* ===== verification/Azure_Compute.thy ===== *)
theory Azure_Compute
  imports Azure_Base
begin

text \<open>
  Compute and network resources and resource groups of Azure: virtual machines, disks, functions and web apps (compute_handle.go, compute_discover.go,
  compute_properties.go), network interfaces, load balancers and application gateways (network_*.go), the subscription and its resource groups
  (resource_group_*.go), all under src/service/discovery/azure.
\<close>

section \<open>Virtual machines\<close>

definition Duration30Days :: int where
  "Duration30Days = 30 * 24 * 3600 * 10 ^ 9"

definition RetentionPeriod90Days :: int where
  "RetentionPeriod90Days = 90 * 24 * 3600 * 10 ^ 9"

text \<open>
  Whether \<open>*EnableAutomaticUpdates\<close> is read, and may be a nil dereference, depends on the patch mode.
\<close>

definition automaticUpdates :: "AzVM \<Rightarrow> AutomaticUpdates res" where
  "automaticUpdates vm =
     (let off = \<lparr> au_Enabled = False, au_Interval = None \<rparr>; on = \<lparr> au_Enabled = True, au_Interval = Some Duration30Days \<rparr>
      in case avm_Properties vm of
           None \<Rightarrow> Ok off
         | Some properties \<Rightarrow>
             (case vp_OSProfile properties of
                None \<Rightarrow> Ok off
              | Some profile \<Rightarrow>
                  if (case op_LinuxPatchMode profile of Some (Some mode) \<Rightarrow> Deref [] mode = ''AutomaticByPlatform'' | _ \<Rightarrow> False) then Ok on
                  else (case op_WindowsConfiguration profile of
                          Some windows \<Rightarrow>
                            (case wc_PatchMode windows of
                               Some mode \<Rightarrow>
                                 if Deref [] mode = ''AutomaticByOS'' \<or> Deref [] mode = ''AutomaticByPlatform'' then
                                   (case wc_EnableAutomaticUpdates windows of
                                      None \<Rightarrow> Panic
                                    | Some enabled \<Rightarrow> Ok (if enabled then on else off))
                                 else Ok off
                             | None \<Rightarrow> Ok off)
                        | None \<Rightarrow> Ok off)))"

definition isBootDiagnosticEnabled :: "AzVM \<Rightarrow> bool" where
  "isBootDiagnosticEnabled vm =
     (case avm_Properties vm of
        None \<Rightarrow> False
      | Some properties \<Rightarrow>
          (case vp_BootDiagnostics properties of Some (Some enabled) \<Rightarrow> Deref False enabled | _ \<Rightarrow> False))"

definition bootLogOutput :: "AzVM \<Rightarrow> string" where
  "bootLogOutput vm = (if isBootDiagnosticEnabled vm then [] else [])"

fun osLogging :: "string option list \<Rightarrow> bool \<Rightarrow> bool res" where
  "osLogging [] enabled = Ok enabled"
| "osLogging (None # extensions) enabled = Panic"
| "osLogging (Some i # extensions) enabled =
     osLogging extensions (enabled \<or> str_Contains i ''OmsAgentForLinux'' \<or> str_Contains i ''MicrosoftMonitoringAgent'' \<or>
       str_Contains i ''AzureMonitoringWindowsAgent'' \<or> str_Contains i ''AzureMonitoringLinuxAgent'')"

definition DefenderVirtualMachineType :: string where
  "DefenderVirtualMachineType = ''VirtualMachines''"

fun data_disks :: "string option option list \<Rightarrow> string list res" where
  "data_disks [] = Ok []"
| "data_disks (None # disks) = Panic"
| "data_disks (Some i # disks) = map_res ((#) (resourceID i)) (data_disks disks)"

definition os_disk :: "VMProperties \<Rightarrow> string list" where
  "os_disk properties =
     (case vp_StorageProfile properties of
        Some storage \<Rightarrow> (case sp_OSDisk storage of Some (Some i) \<Rightarrow> [resourceID i] | _ \<Rightarrow> [])
      | None \<Rightarrow> [])"

definition handleVirtualMachines :: "azure_sdk \<Rightarrow> azureDiscovery \<Rightarrow> AzVM option \<Rightarrow> VirtualMachine res" where
  "handleVirtualMachines sdk d vm =
     (case vm of
        None \<Rightarrow> Err (ErrText ''virtual machine is empty'')
      | Some vm \<Rightarrow>
          if arm_ID vm = None then Err (ErrText ''virtual machine is empty'')
          else
            (let bootLogging = (if bootLogOutput vm \<noteq> [] then [bootLogOutput vm] else []);
                 (monitoring, alerts) =
                   (case az_defenderProperties d DefenderVirtualMachineType of
                      None \<Rightarrow> (False, False)
                    | Some p \<Rightarrow> (dp_monitoringLogDataEnabled p, dp_securityAlertsEnabled p))
             in case automaticUpdates vm of
                  Ok autoUpdates \<Rightarrow>
                    (case osLogging (avm_Resources vm) False of
                       Ok osLoggingEnabled \<Rightarrow>
                         (case avm_Properties vm of
                            None \<Rightarrow> Panic
                          | Some properties \<Rightarrow>
                              map_res (\<lambda>disks. ontology_base.extend
                                  (az_base vm (creationTime (vp_TimeCreated properties)) (Some (Deref [] (arm_Location vm)))
                                    (resourceGroupID (arm_ID vm)) (Raw (sdk_raw sdk) [O_VirtualMachine vm]))
                                  (VirtualMachine.fields
                                    (Some \<lparr> lg_Enabled = True, lg_MonitoringEnabled = False, lg_RetentionPeriod = Some RetentionPeriod90Days,
                                       lg_SecurityAlertsEnabled = False, lg_LoggingServiceIds = [] \<rparr>)
                                    (Some autoUpdates)
                                    (os_disk properties @ disks)
                                    (Some \<lparr> lg_Enabled = isBootDiagnosticEnabled vm, lg_MonitoringEnabled = monitoring, lg_RetentionPeriod = Some 0,
                                       lg_SecurityAlertsEnabled = alerts, lg_LoggingServiceIds = bootLogging \<rparr>)
                                    (Some False)
                                    (map resourceID (Deref [] (vp_NetworkProfile properties)))
                                    (Some \<lparr> lg_Enabled = osLoggingEnabled, lg_MonitoringEnabled = monitoring, lg_RetentionPeriod = Some 0,
                                       lg_SecurityAlertsEnabled = monitoring, lg_LoggingServiceIds = [] \<rparr>)))
                                (case vp_StorageProfile properties of None \<Rightarrow> Ok [] | Some storage \<Rightarrow> data_disks (sp_DataDisks storage)))
                     | _ \<Rightarrow> Panic)
                | _ \<Rightarrow> Panic))"

definition discoverVirtualMachines_az :: "azure_sdk \<Rightarrow> IsResource list az" where
  "discoverVirtualMachines_az sdk =
     az_bind (initClient (sdk_New sdk) ''*armcompute.VirtualMachinesClient'') (\<lambda>_.
       listPager (sdk_VirtualMachines sdk) (\<lambda>vm acc d.
         (case handleVirtualMachines sdk d vm of
            Err err \<Rightarrow> (Err (Wrap ''could not handle virtual machine: '' err), d)
          | Panic \<Rightarrow> (Panic, d)
          | Ok r \<Rightarrow> (Ok (acc @ [R_VirtualMachine r]), d))) [])"

section \<open>Disks\<close>

definition keyURL :: "azure_sdk \<Rightarrow> string \<Rightarrow> (string \<times> string option) az" where
  "keyURL sdk diskEncryptionSetID =
     (if diskEncryptionSetID = [] then az_res (Err (ErrText ''no disk encryption set ID was specified''))
      else az_bind (initClient (sdk_New sdk) ''*armcompute.DiskEncryptionSetsClient'') (\<lambda>_. az_res
        (case (resourceGroupName diskEncryptionSetID, diskEncryptionSetName diskEncryptionSetID) of
           (Ok rg, Ok name) \<Rightarrow>
             (case sdk_DiskEncryptionSet sdk rg name of
                Err err \<Rightarrow> Err (Wrap ''could not get key vault: '' err)
              | Ok (Some (Some url)) \<Rightarrow> Ok (url, Some url)
              | Ok (Some None) \<Rightarrow> Err (ErrText ''could not get keyURL'')
              | _ \<Rightarrow> Panic)
         | _ \<Rightarrow> Panic)))"

text \<open>The result is the encryption, nil for an unknown type, with the key set of which the raw data are kept.\<close>

definition blockStorageAtRestEncryption :: "azure_sdk \<Rightarrow> AzDisk \<Rightarrow> (AtRestEncryption option \<times> string option) az" where
  "blockStorageAtRestEncryption sdk disk =
     (case map_option dkp_Encryption (adk_Properties disk) of
        Some (Some encryption) \<Rightarrow>
          (case dke_Type encryption of
             None \<Rightarrow> az_res (Err (ErrText ''error getting atRestEncryption properties of blockStorage''))
           | Some t \<Rightarrow>
               if t = ''EncryptionAtRestWithPlatformKey'' then
                 az_return (Some (AtRestEncryption_ManagedKeyEncryption \<lparr> mk_Algorithm = ''AES256'', mk_Enabled = True \<rparr>), None)
               else if t = ''EncryptionAtRestWithCustomerKey'' then
                 az_bind (az_wrap (Wrap ''could not get keyVaultID: '') (keyURL sdk (Deref [] (dke_DiskEncryptionSetID encryption)))) (\<lambda>(url, raw).
                   az_return (Some (AtRestEncryption_CustomerKeyEncryption \<lparr> ck_Algorithm = [], ck_Enabled = True, ck_KeyUrl = url \<rparr>), raw))
               else az_return (None, None))
      | _ \<Rightarrow> az_res Panic)"

definition DataSourceTypeDisc :: string where
  "DataSourceTypeDisc = ''Microsoft.Compute/disks''"

definition stored_backups :: "azureDiscovery \<Rightarrow> string \<Rightarrow> string option \<Rightarrow> Backup list" where
  "stored_backups d t i =
     (case map_of (az_backupMap d) t of
        None \<Rightarrow> []
      | Some b \<Rightarrow> (case bu_backup b (Deref [] i) of None \<Rightarrow> [] | Some backups \<Rightarrow> backups))"

definition handleBlockStorage :: "azure_sdk \<Rightarrow> AzDisk option \<Rightarrow> BlockStorage az" where
  "handleBlockStorage sdk disk =
     (case disk of
        None \<Rightarrow> az_res (Err (ErrText ''disk is nil''))
      | Some disk \<Rightarrow>
          if arm_ID disk = None then az_res (Err (ErrText ''disk is nil''))
          else az_bind (az_wrap (Wrap ''could not get block storage properties for the atRestEncryption: '') (blockStorageAtRestEncryption sdk disk))
            (\<lambda>(enc, rawKeyUrl) d.
               (case adk_Properties disk of
                  None \<Rightarrow> (Panic, d)
                | Some properties \<Rightarrow>
                    (Ok (ontology_base.extend
                       (az_base disk (creationTime (dkp_TimeCreated properties)) (location (arm_Location disk)) (resourceGroupID (arm_ID disk))
                         (Raw (sdk_raw sdk) [O_Disk disk, O_DiskEncryptionSet rawKeyUrl]))
                       (BlockStorage.fields enc (backupsEmptyCheck (stored_backups d DataSourceTypeDisc (arm_ID disk))))), d))))"

definition discoverBlockStorages :: "azure_sdk \<Rightarrow> IsResource list az" where
  "discoverBlockStorages sdk =
     az_bind (initClient (sdk_New sdk) ''*armcompute.DisksClient'') (\<lambda>_.
       listPager (sdk_Disks sdk) (\<lambda>disk acc.
         az_bind (az_wrap (Wrap ''could not handle block storage: '') (handleBlockStorage sdk disk)) (\<lambda>r. az_return (acc @ [R_BlockStorage r]))) [])"

section \<open>Functions and web apps\<close>

text \<open>The properties of a site are a pointer, the caller has dereferenced it before.\<close>

definition getVirtualNetworkSubnetId :: "SiteProperties \<Rightarrow> string list" where
  "getVirtualNetworkSubnetId p = (case sip_VirtualNetworkSubnetID p of None \<Rightarrow> [] | Some i \<Rightarrow> [resourceID (Some i)])"

definition getInternetAccessibleEndpoint :: "SiteProperties \<Rightarrow> bool" where
  "getInternetAccessibleEndpoint p = (Deref [] (sip_PublicNetworkAccess p) = ''Enabled'')"

definition getResourceLoggingWebApps :: "azure_sdk \<Rightarrow> AzSite \<Rightarrow> SiteProperties \<Rightarrow> Logging res" where
  "getResourceLoggingWebApps sdk site p =
     (case (sip_ResourceGroup p, arm_Name site) of
        (Some rg, Some name) \<Rightarrow>
          (case sdk_ApplicationSettings sdk rg name of
             Err err \<Rightarrow> Ok empty_Logging
           | Panic \<Rightarrow> Panic
           | Ok settings \<Rightarrow>
               (case settings ''APPLICATIONINSIGHTS_CONNECTION_STRING'' of
                  Some (Some _) \<Rightarrow> Ok (empty_Logging\<lparr>lg_Enabled := True\<rparr>)
                | _ \<Rightarrow> Ok empty_Logging))
      | _ \<Rightarrow> Panic)"

definition getRedundancies :: "SiteProperties \<Rightarrow> Redundancy list" where
  "getRedundancies p =
     (let mode = Deref [] (sip_RedundancyMode p)
      in if mode = ''ActiveActive'' then [Redundancy_ZoneRedundancy]
         else if mode = ''Failover'' \<or> mode = ''GeoRedundant'' then [Redundancy_ZoneRedundancy, Redundancy_GeoRedundancy]
         else [])"

definition getTransportEncryption_az :: "SiteProperties \<Rightarrow> SiteConfig \<Rightarrow> TransportEncryption res" where
  "getTransportEncryption_az p config =
     (let version = tlsVersion (sc_MinTLSVersion config)
      in if version \<noteq> 0 then
           map_res (\<lambda>suites. \<lparr> te_Enabled = True, te_Enforced = Deref False (sip_HTTPSOnly p), te_Protocol = ''TLS'', te_ProtocolVersion = version,
               te_CipherSuites = suites \<rparr>) (tlsCipherSuites (Deref [] (sc_MinTLSCipherSuite config)))
         else Ok \<lparr> te_Enabled = False, te_Enforced = Deref False (sip_HTTPSOnly p), te_Protocol = [], te_ProtocolVersion = 0, te_CipherSuites = [] \<rparr>)"

definition windows_runtime :: "SiteConfig \<Rightarrow> string \<times> string" where
  "windows_runtime c =
     (if Deref [] (sc_JavaVersion c) \<noteq> [] then (''Java'', Deref [] (sc_JavaVersion c))
      else if Deref [] (sc_NodeVersion c) \<noteq> [] then (''Node.js'', Deref [] (sc_NodeVersion c))
      else if Deref [] (sc_PowerShellVersion c) \<noteq> [] then (''PowerShell'', Deref [] (sc_PowerShellVersion c))
      else if Deref [] (sc_PhpVersion c) \<noteq> [] then (''PHP'', Deref [] (sc_PhpVersion c))
      else if Deref [] (sc_PythonVersion c) \<noteq> [] then (''Python'', Deref [] (sc_PythonVersion c))
      else if Deref [] (sc_JavaContainer c) \<noteq> [] then (''JavaContainer'', Deref [] (sc_JavaContainer c))
      else if Deref [] (sc_NetFrameworkVersion c) \<noteq> [] then (''.NET'', Deref [] (sc_NetFrameworkVersion c))
      else ([], []))"

definition site_base :: "azure_sdk \<Rightarrow> AzSite \<Rightarrow> SiteProperties \<Rightarrow> SiteConfig option option \<Rightarrow> ontology_base" where
  "site_base sdk site p config =
     (az_base site None (Some (Deref [] (arm_Location site))) (resourceGroupID (arm_ID site)) (Raw (sdk_raw sdk) [O_Site site, O_Config config]))
       \<lparr>ob_InternetAccessibleEndpoint := getInternetAccessibleEndpoint p\<rparr>"

definition handleFunction :: "azure_sdk \<Rightarrow> AzSite \<Rightarrow> SiteProperties \<Rightarrow> SiteConfig option option \<Rightarrow> IsResource option res" where
  "handleFunction sdk function p config =
     (case config of
        None \<Rightarrow> Ok None
      | Some properties \<Rightarrow>
          (case (if site_Kind function = Some ''functionapp,linux'' then
                   (case sip_LinuxFxVersion p of None \<Rightarrow> Panic | Some version \<Rightarrow> Ok (runtimeInfo (Deref [] version)))
                 else if site_Kind function = Some ''functionapp'' then
                   (case properties of None \<Rightarrow> Panic | Some c \<Rightarrow> Ok (windows_runtime c))
                 else if site_Kind function = None then Panic
                 else Ok ([], [])) of
             Ok (runtimeLanguage, runtimeVersion) \<Rightarrow>
               map_res (\<lambda>logging. Some (R_Function (ontology_base.extend (site_base sdk function p config)
                   (Function.fields runtimeLanguage runtimeVersion (getVirtualNetworkSubnetId p) (getRedundancies p) (Some logging)))))
                 (getResourceLoggingWebApps sdk function p)
           | _ \<Rightarrow> Panic))"

definition handleWebApp :: "azure_sdk \<Rightarrow> AzSite \<Rightarrow> SiteProperties \<Rightarrow> SiteConfig option option \<Rightarrow> IsResource option res" where
  "handleWebApp sdk webApp p config =
     (case config of
        None \<Rightarrow> Ok None
      | Some _ \<Rightarrow>
          map_res (\<lambda>logging. Some (R_WebApp (ontology_base.extend (site_base sdk webApp p config)
              (WebApp.fields (getVirtualNetworkSubnetId p) (getRedundancies p) (Some logging)))))
            (getResourceLoggingWebApps sdk webApp p))"

definition handle_site :: "azure_sdk \<Rightarrow> AzSite option \<Rightarrow> IsResource option res" where
  "handle_site sdk site =
     (case site of
        None \<Rightarrow> Panic
      | Some site \<Rightarrow>
          (case site_Properties site of
             None \<Rightarrow> Panic
           | Some p \<Rightarrow>
               (case sdk_GetConfiguration sdk (Deref [] (sip_ResourceGroup p)) (Deref [] (arm_Name site)) of
                  Panic \<Rightarrow> Panic
                | out \<Rightarrow>
                    (let config = (case out of Ok config \<Rightarrow> config | _ \<Rightarrow> None)
                     in case site_Kind site of
                          None \<Rightarrow> Panic
                        | Some kind \<Rightarrow>
                            if kind = ''app'' \<or> kind = ''app,linux'' then handleWebApp sdk site p config
                            else if kind = ''functionapp'' \<or> kind = ''functionapp,linux'' then handleFunction sdk site p config
                            else Ok None))))"

definition discoverFunctionsWebApps :: "azure_sdk \<Rightarrow> IsResource list az" where
  "discoverFunctionsWebApps sdk =
     az_bind (initClient (sdk_New sdk) ''*armappservice.WebAppsClient'') (\<lambda>_.
       listPager (sdk_Sites sdk) (\<lambda>site acc.
         az_res (map_res (\<lambda>r. acc @ (case r of None \<Rightarrow> [] | Some r \<Rightarrow> [r])) (handle_site sdk site))) [])"

section \<open>Networks\<close>

definition nsgFirewallEnabled :: "azure_sdk \<Rightarrow> AzInterface \<Rightarrow> bool az" where
  "nsgFirewallEnabled sdk ni d =
     (case initClient (sdk_New sdk) ''*armnetwork.SecurityGroupsClient'' d of
        (Err err, d) \<Rightarrow> (Ok False, d)
      | (Panic, d) \<Rightarrow> (Panic, d)
      | (Ok _, d) \<Rightarrow>
          (case ani_NetworkSecurityGroup ni of
             None \<Rightarrow> (Ok False, d)
           | Some None \<Rightarrow> (Panic, d)
           | Some (Some i) \<Rightarrow>
               (case (resourceGroupName i, getName i) of
                  (Ok rg, Ok name) \<Rightarrow>
                    (case sdk_SecurityGroup sdk rg name of
                       Err err \<Rightarrow> (Ok False, d)
                     | Ok (Some rules) \<Rightarrow> (Ok (rules > 0), d)
                     | _ \<Rightarrow> (Panic, d))
                | _ \<Rightarrow> (Panic, d))))"

definition handleNetworkInterfaces :: "azure_sdk \<Rightarrow> AzInterface option \<Rightarrow> NetworkInterface az" where
  "handleNetworkInterfaces sdk ni =
     (case ni of
        None \<Rightarrow> az_res Panic
      | Some ni \<Rightarrow>
          az_bind (nsgFirewallEnabled sdk ni) (\<lambda>enabled. az_return (ontology_base.extend
            (az_base ni None (Some (Deref [] (arm_Location ni))) (resourceGroupID (arm_ID ni)) (Raw (sdk_raw sdk) [O_Interface ni]))
            (NetworkInterface.fields (Some (AccessRestriction_L3Firewall enabled))))))"

definition discoverNetworkInterfaces_az :: "azure_sdk \<Rightarrow> IsResource list az" where
  "discoverNetworkInterfaces_az sdk =
     az_bind (initClient (sdk_New sdk) ''*armnetwork.InterfacesClient'') (\<lambda>_.
       listPager (sdk_Interfaces sdk) (\<lambda>ni acc.
         az_bind (handleNetworkInterfaces sdk ni) (\<lambda>r. az_return (acc @ [R_NetworkInterface r]))) [])"

fun publicIPAddresses :: "string option option list \<Rightarrow> string list res" where
  "publicIPAddresses [] = Ok []"
| "publicIPAddresses (None # configs) = Panic"
| "publicIPAddresses (Some ip # configs) =
     (if Deref [] ip = [] then publicIPAddresses configs else map_res ((#) (Deref [] ip)) (publicIPAddresses configs))"

fun loadBalancerPorts :: "int option option list \<Rightarrow> int list res" where
  "loadBalancerPorts [] = Ok []"
| "loadBalancerPorts (None # rules) = Panic"
| "loadBalancerPorts (Some port # rules) = map_res ((#) (Deref 0 port mod 2 ^ 32)) (loadBalancerPorts rules)"

definition handleLoadBalancer :: "azure_sdk \<Rightarrow> AzLoadBalancer option \<Rightarrow> LoadBalancer res" where
  "handleLoadBalancer sdk lb =
     (case lb of
        None \<Rightarrow> Panic
      | Some lb \<Rightarrow>
          (case alb_Properties lb of
             None \<Rightarrow> Panic
           | Some p \<Rightarrow>
               (case (publicIPAddresses (lbp_Frontends p), loadBalancerPorts (lbp_LoadBalancingRules p)) of
                  (Ok ips, Ok ports) \<Rightarrow>
                    Ok (ontology_base.extend
                      (az_base lb None (Some (Deref [] (arm_Location lb))) (resourceGroupID (arm_ID lb)) (Raw (sdk_raw sdk) [O_LoadBalancer lb]))
                      (LoadBalancer.fields ips ports None []))
                | _ \<Rightarrow> Panic)))"

definition discoverLoadBalancer :: "azure_sdk \<Rightarrow> IsResource list az" where
  "discoverLoadBalancer sdk =
     az_bind (initClient (sdk_New sdk) ''*armnetwork.LoadBalancersClient'') (\<lambda>_.
       listPager (sdk_LoadBalancers sdk) (\<lambda>lb acc.
         az_res (map_res (\<lambda>r. acc @ [R_LoadBalancer r]) (handleLoadBalancer sdk lb))) [])"

text \<open>The firewall configuration of a gateway is dereferenced without a test.\<close>

definition handleApplicationGateway :: "azure_sdk \<Rightarrow> AzGateway option \<Rightarrow> LoadBalancer res" where
  "handleApplicationGateway sdk ag =
     (case ag of
        None \<Rightarrow> Panic
      | Some ag \<Rightarrow>
          (case agw_Firewall ag of
             None \<Rightarrow> Panic
           | Some enabled \<Rightarrow>
               Ok (ontology_base.extend
                 (az_base ag None (Some (Deref [] (arm_Location ag))) (resourceGroupID (arm_ID ag)) (Raw (sdk_raw sdk) [O_ApplicationGateway ag]))
                 (LoadBalancer.fields [] [] (Some (AccessRestriction_WebApplicationFirewall (Deref False enabled))) []))))"

definition discoverApplicationGateway :: "azure_sdk \<Rightarrow> IsResource list az" where
  "discoverApplicationGateway sdk =
     az_bind (initClient (sdk_New sdk) ''*armnetwork.ApplicationGatewaysClient'') (\<lambda>_.
       listPager (sdk_Gateways sdk) (\<lambda>ag acc.
         az_res (map_res (\<lambda>r. acc @ [R_LoadBalancer r]) (handleApplicationGateway sdk ag))) [])"

section \<open>Resource groups\<close>

definition handleResourceGroup :: "azureDiscovery \<Rightarrow> arm_resource \<Rightarrow> ontology_base res" where
  "handleResourceGroup d rg =
     (case az_sub d of
        None \<Rightarrow> Panic
      | Some sub \<Rightarrow> Ok (az_base rg None (location (arm_Location rg)) (su_ID sub) []))"

definition handleSubscription :: "Subscription \<Rightarrow> ontology_base" where
  "handleSubscription s =
     \<lparr> ob_CreationTime = None, ob_Id = resourceID (su_ID s), ob_InternetAccessibleEndpoint = False, ob_Labels = Map.empty,
       ob_Name = Deref [] (su_DisplayName s), ob_Raw = [], ob_GeoLocation = None, ob_ParentId = None \<rparr>"

fun group_resources :: "azureDiscovery \<Rightarrow> arm_resource list \<Rightarrow> IsResource list res" where
  "group_resources d [] = Ok []"
| "group_resources d (rg # rgs) =
     (if (case az_rg d of None \<Rightarrow> False | Some name \<Rightarrow> \<not> EqualFold (Deref [] (arm_Name rg)) name) then group_resources d rgs
      else (case handleResourceGroup d rg of
              Ok r \<Rightarrow> map_res ((#) (R_ResourceGroup r)) (group_resources d rgs)
            | Err err \<Rightarrow> Err err
            | Panic \<Rightarrow> Panic))"

fun group_pages :: "azureDiscovery \<Rightarrow> arm_resource list res list \<Rightarrow> IsResource list res" where
  "group_pages d [] = Ok []"
| "group_pages d (Err err # pages) = Err (ErrText (''error getting next page: '' @ error_string err))"
| "group_pages d (Panic # pages) = Panic"
| "group_pages d (Ok page # pages) =
     (case group_resources d page of
        Ok rs \<Rightarrow> map_res ((@) rs) (group_pages d pages)
      | Err err \<Rightarrow> Err err
      | Panic \<Rightarrow> Panic)"

definition discoverResourceGroups :: "azure_sdk \<Rightarrow> IsResource list az" where
  "discoverResourceGroups sdk =
     az_bind (initClient (sdk_New sdk) ''*armresources.ResourceGroupsClient'') (\<lambda>_ d.
       (case az_sub d of
          None \<Rightarrow> (Panic, d)
        | Some sub \<Rightarrow> (map_res ((#) (R_Account (handleSubscription sub))) (group_pages d (sdk_ResourceGroups sdk)), d)))"

section \<open>Lemmas\<close>

lemma az_safe_if [az_safe_intros]: "az_safe m \<Longrightarrow> az_safe m' \<Longrightarrow> az_safe (if b then m else m')"
  by simp

lemma az_safe_option [az_safe_intros]: "az_safe m \<Longrightarrow> (\<And>x. az_safe (f x)) \<Longrightarrow> az_safe (case o' of None \<Rightarrow> m | Some x \<Rightarrow> f x)"
  by (cases o') auto

lemma az_safe_res_case [az_safe_intros]:
  "(\<And>x. az_safe (f x)) \<Longrightarrow> (\<And>e. az_safe (g e)) \<Longrightarrow> az_safe h \<Longrightarrow> az_safe (case r of Ok x \<Rightarrow> f x | Err e \<Rightarrow> g e | Panic \<Rightarrow> h)"
  by (cases r) auto

lemma az_safe_prod [az_safe_intros]: "(\<And>x y. az_safe (f x y)) \<Longrightarrow> az_safe (case p of (x, y) \<Rightarrow> f x y)"
  by (cases p) auto

text \<open>An operation that first creates a client and then only reads.\<close>

lemma az_safe_after_init:
  assumes "\<And>d. \<exists>r. m d = (r, snd (initClient new client d))"
  shows "az_safe m"
  using assms az_safe_initClient [of new client] by (metis az_safe_def snd_conv)

lemma az_safe_keyURL [az_safe_intros]: "az_safe (keyURL sdk i)"
  unfolding keyURL_def by (intro az_safe_intros)

lemma az_safe_blockStorageAtRestEncryption [az_safe_intros]: "az_safe (blockStorageAtRestEncryption sdk disk)"
  unfolding blockStorageAtRestEncryption_def by (intro az_safe_intros)

lemma az_safe_handleBlockStorage [az_safe_intros]: "az_safe (handleBlockStorage sdk disk)"
proof -
  have "az_safe (\<lambda>d. case adk_Properties disk of None \<Rightarrow> (Panic, d) | Some p \<Rightarrow> (Ok (f p d), d))" for disk :: AzDisk and f
    by (cases "adk_Properties disk") (simp_all add: az_safe_def)
  then show ?thesis unfolding handleBlockStorage_def by (intro az_safe_intros)
qed

lemma az_safe_nsgFirewallEnabled [az_safe_intros]: "az_safe (nsgFirewallEnabled sdk ni)"
  by (rule az_safe_after_init [of _ "sdk_New sdk" "''*armnetwork.SecurityGroupsClient''"])
    (auto simp: nsgFirewallEnabled_def split: prod.splits res.splits option.splits)

lemma az_safe_handleNetworkInterfaces [az_safe_intros]: "az_safe (handleNetworkInterfaces sdk ni)"
  unfolding handleNetworkInterfaces_def by (intro az_safe_intros)

lemma az_safe_discover_compute [az_safe_intros]:
  "az_safe (discoverBlockStorages sdk)" "az_safe (discoverFunctionsWebApps sdk)" "az_safe (discoverNetworkInterfaces_az sdk)"
  "az_safe (discoverLoadBalancer sdk)" "az_safe (discoverApplicationGateway sdk)"
  unfolding discoverBlockStorages_def discoverFunctionsWebApps_def discoverNetworkInterfaces_az_def discoverLoadBalancer_def
    discoverApplicationGateway_def by (intro az_safe_intros)+

lemma az_safe_discoverVirtualMachines [az_safe_intros]: "az_safe (discoverVirtualMachines_az sdk)"
proof -
  have "az_safe (\<lambda>d. case handleVirtualMachines sdk d vm of Ok r \<Rightarrow> (Ok (acc @ [R_VirtualMachine r]), d)
      | Err err \<Rightarrow> (Err (Wrap ''could not handle virtual machine: '' err), d) | Panic \<Rightarrow> (Panic, d))" for vm acc
    by (auto simp: az_safe_def split: res.splits)
  then show ?thesis unfolding discoverVirtualMachines_az_def by (intro az_safe_intros)
qed

lemma az_safe_discoverResourceGroups [az_safe_intros]: "az_safe (discoverResourceGroups sdk)"
proof -
  have "az_safe (\<lambda>d. case az_sub d of None \<Rightarrow> (Panic, d) | Some sub \<Rightarrow> (f sub d, d))" for f :: "Subscription \<Rightarrow> azureDiscovery \<Rightarrow> IsResource list res"
    by (auto simp: az_safe_def split: option.splits)
  then show ?thesis unfolding discoverResourceGroups_def by (intro az_safe_intros)
qed

text \<open>What the handlers make of identifiers and parents.\<close>

lemma base_fields [simp]:
  "ob_Id (ontology_base.extend (az_base r created geo parent raw) rest) = resourceID (arm_ID r)"
  "ob_ParentId (ontology_base.extend (az_base r created geo parent raw) rest) = parent"
  by (simp_all add: az_base_def ontology_base.defs)

lemma handleVirtualMachines_Ok:
  assumes "handleVirtualMachines sdk d vm = Ok r"
  shows "\<exists>x. vm = Some x \<and> ob_Id r = resourceID (arm_ID x) \<and> ob_ParentId r = resourceGroupID (arm_ID x)"
proof -
  from assms obtain x where vm: "vm = Some x" and i: "arm_ID x \<noteq> None"
    by (auto simp: handleVirtualMachines_def split: option.splits if_splits)
  obtain a b where "(case az_defenderProperties d DefenderVirtualMachineType of
      None \<Rightarrow> (False, False) | Some p \<Rightarrow> (dp_monitoringLogDataEnabled p, dp_securityAlertsEnabled p)) = (a, b)" by fastforce
  with assms vm i have "ob_Id r = resourceID (arm_ID x) \<and> ob_ParentId r = resourceGroupID (arm_ID x)"
    by (auto simp: handleVirtualMachines_def Let_def split: option.splits res.splits)
  with vm show ?thesis by blast
qed

lemma handleVirtualMachines_id: "handleVirtualMachines sdk d vm = Ok r \<Longrightarrow> Some (GetId (R_VirtualMachine r)) = map_option (\<lambda>vm. resourceID (arm_ID vm)) vm"
  using handleVirtualMachines_Ok by fastforce

lemma map_ids:
  assumes "map handle xs = map Ok ys" "\<And>x y. handle x = Ok y \<Longrightarrow> Some (GetId (f y)) = i x"
  shows "map (Some \<circ> GetId) (map f ys) = map i xs"
  using assms(1)
proof (induction xs arbitrary: ys)
  case (Cons x xs)
  then show ?case using assms(2) by (cases ys) auto
qed simp

end
