(* ===== verification/Azure_Storage.thy ===== *)
theory Azure_Storage
  imports Azure_Compute "HOL-Library.Sublist"
begin

text \<open>
  Storage resources and backups of Azure: storage accounts with their containers and file shares, SQL servers and Cosmos DB accounts with their databases
  (storage_handle.go, storage_discover.go, storage_properties.go), backup vaults (backup_*.go), all under src/service/discovery/azure;
  and \<open>List\<close> of azure.go, which puts everything together.
\<close>

section \<open>Backups\<close>

definition DataSourceTypeStorageAccountObject :: string where
  "DataSourceTypeStorageAccountObject = ''Microsoft.Storage/storageAccounts/blobServices''"

definition instance_base :: "azure_sdk \<Rightarrow> arm_resource \<Rightarrow> AzBackupInstance \<Rightarrow> ontology_base" where
  "instance_base sdk vault inst =
     \<lparr> ob_CreationTime = None, ob_Id = resourceID (bin_ID inst), ob_InternetAccessibleEndpoint = False, ob_Labels = Map.empty,
       ob_Name = Deref [] (bin_Name inst), ob_Raw = Raw (sdk_raw sdk) [O_Instance inst, O_Vault vault],
       ob_GeoLocation = location (arm_Location vault), ob_ParentId = resourceGroupID (bin_ID inst) \<rparr>"

definition handleInstances :: "azure_sdk \<Rightarrow> arm_resource \<Rightarrow> AzBackupInstance \<Rightarrow> IsResource option res" where
  "handleInstances sdk vault inst =
     (case bin_DatasourceType inst of
        None \<Rightarrow> Panic
      | Some t \<Rightarrow>
          if t = DataSourceTypeStorageAccountObject then
            Ok (Some (R_ObjectStorage (ontology_base.extend (instance_base sdk vault inst) (ObjectStorage.fields False None [] None None))))
          else if t = DataSourceTypeDisc then
            Ok (Some (R_BlockStorage (ontology_base.extend (instance_base sdk vault inst) (BlockStorage.fields None []))))
          else Ok None)"

text \<open>The loop over the pages of instances assigns each page to the same variable.\<close>

fun instance_pages :: "AzBackupInstance list \<Rightarrow> AzBackupInstance list res list \<Rightarrow> AzBackupInstance list res" where
  "instance_pages values [] = Ok values"
| "instance_pages values (Err err # pages) = Err (ErrText (''error getting next page: '' @ error_string err))"
| "instance_pages values (Panic # pages) = Panic"
| "instance_pages values (Ok page # pages) = instance_pages page pages"

definition discoverBackupInstances :: "azure_sdk \<Rightarrow> string \<Rightarrow> string \<Rightarrow> AzBackupInstance list res" where
  "discoverBackupInstances sdk resourceGroup vaultName =
     (if resourceGroup = [] \<or> vaultName = [] then Err (ErrText ''missing resource group and/or vault name'')
      else instance_pages [] (sdk_Instances sdk resourceGroup vaultName))"

definition instance_backup :: "AzBackupInstance \<Rightarrow> int \<Rightarrow> Backup" where
  "instance_backup inst retention =
     \<lparr> bp_Enabled = True, bp_RetentionPeriod = Some retention, bp_StorageId = bin_ID inst,
       bp_TransportEncryption = Some \<lparr> te_Enabled = True, te_Enforced = True, te_Protocol = ''TLS'', te_ProtocolVersion = 12 / 10, te_CipherSuites = [] \<rparr> \<rparr>"

definition add_backup :: "string \<Rightarrow> string \<Rightarrow> Backup \<Rightarrow> IsResource option \<Rightarrow> (string \<times> backup) list \<Rightarrow> (string \<times> backup) list" where
  "add_backup t i b resp m =
     (let entry = Deref \<lparr> bu_backup = Map.empty, bu_backupStorages = [] \<rparr> (map_of m t)
      in AList.update t \<lparr> bu_backup = (bu_backup entry)(i \<mapsto> [b]), bu_backupStorages = bu_backupStorages entry @ [resp] \<rparr> m)"

text \<open>One instance of a vault; a policy that cannot be read skips it.\<close>

definition backup_instance :: "azure_sdk \<Rightarrow> arm_resource \<Rightarrow> AzBackupInstance \<Rightarrow> unit \<Rightarrow> unit az" where
  "backup_instance sdk vault inst u d =
     (case (resourceGroupName (Deref [] (arm_ID vault)), arm_ID vault, arm_Name vault, bin_PolicyID inst) of
        (Ok rg, Some _, Some vaultName, Some policyID) \<Rightarrow>
          (case backupPolicyName policyID of
             Ok name \<Rightarrow>
               (case sdk_BackupPolicy sdk rg vaultName name of
                  Err err \<Rightarrow> (Ok (), d)
                | Ok (Some retention) \<Rightarrow>
                    (case handleInstances sdk vault inst of
                       Err err \<Rightarrow> (Err (ErrText ''could not handle instance''), d)
                     | Panic \<Rightarrow> (Panic, d)
                     | Ok resp \<Rightarrow>
                         (case retentionDuration (Deref [] retention) of
                            Ok duration \<Rightarrow>
                              (Ok (), d\<lparr>az_backupMap := add_backup (Deref [] (bin_DatasourceType inst)) (Deref [] (bin_ResourceID inst))
                                 (instance_backup inst duration) resp (az_backupMap d)\<rparr>)
                          | _ \<Rightarrow> (Panic, d)))
                | _ \<Rightarrow> (Panic, d))
           | _ \<Rightarrow> (Panic, d))
      | _ \<Rightarrow> (Panic, d))"

definition handle_vault :: "azure_sdk \<Rightarrow> arm_resource option \<Rightarrow> unit \<Rightarrow> unit az" where
  "handle_vault sdk vault u =
     (case vault of
        None \<Rightarrow> az_res Panic
      | Some vault \<Rightarrow>
          (case resourceGroupName (Deref [] (arm_ID vault)) of
             Ok rg \<Rightarrow>
               az_bind (az_wrap (\<lambda>err. ErrText (''could not discover backup instances: '' @ error_string err))
                   (az_res (discoverBackupInstances sdk rg (Deref [] (arm_Name vault))))) (\<lambda>instances.
                 az_each (backup_instance sdk vault) instances ())
           | _ \<Rightarrow> az_res Panic))"

definition discoverBackupVaults :: "azure_sdk \<Rightarrow> unit az" where
  "discoverBackupVaults sdk d =
     (if az_backupMap d \<noteq> [] then (Ok (), d)
      else az_bind (initClient (sdk_New sdk) ''*armdataprotection.BackupVaultsClient'') (\<lambda>_.
           az_bind (initClient (sdk_New sdk) ''*armdataprotection.BackupInstancesClient'') (\<lambda>_.
           az_bind (initClient (sdk_New sdk) ''*armdataprotection.BackupPoliciesClient'') (\<lambda>_.
             listPager (sdk_Vaults sdk) (handle_vault sdk) ()))) d)"

definition backup_storages :: "azureDiscovery \<Rightarrow> string \<Rightarrow> IsResource option list" where
  "backup_storages d t = (case map_of (az_backupMap d) t of None \<Rightarrow> [] | Some b \<Rightarrow> bu_backupStorages b)"

section \<open>Storage accounts\<close>

definition storageAtRestEncryption :: "AzAccount \<Rightarrow> AtRestEncryption option res" where
  "storageAtRestEncryption account =
     (case acc_Properties account of
        None \<Rightarrow> Err (ErrText ''keySource is empty'')
      | Some p \<Rightarrow>
          (case acp_KeySource p of
             None \<Rightarrow> Panic
           | Some None \<Rightarrow> Err (ErrText ''keySource is empty'')
           | Some (Some source) \<Rightarrow>
               if source = ''Microsoft.Storage'' then
                 Ok (Some (AtRestEncryption_ManagedKeyEncryption \<lparr> mk_Algorithm = ''AES256'', mk_Enabled = True \<rparr>))
               else if source = ''Microsoft.Keyvault'' then
                 (case acp_KeyVaultURI p of
                    None \<Rightarrow> Panic
                  | Some uri \<Rightarrow> Ok (Some (AtRestEncryption_CustomerKeyEncryption \<lparr> ck_Algorithm = [], ck_Enabled = True, ck_KeyUrl = Deref [] uri \<rparr>)))
               else Ok None))"

text \<open>
  The Defender plan of a storage: the test is for the plan of storage accounts, the values are those of the plan of virtual machines, and
  reading them without that plan is a nil dereference.
\<close>

definition storage_defender :: "azureDiscovery \<Rightarrow> (bool \<times> bool) res" where
  "storage_defender d =
     (case az_defenderProperties d ''StorageAccounts'' of
        None \<Rightarrow> Ok (False, False)
      | Some _ \<Rightarrow>
          (case az_defenderProperties d DefenderVirtualMachineType of
             None \<Rightarrow> Panic
           | Some p \<Rightarrow> Ok (dp_monitoringLogDataEnabled p, dp_securityAlertsEnabled p)))"

definition storage_logging :: "bool \<times> bool \<Rightarrow> Logging" where
  "storage_logging p = empty_Logging\<lparr>lg_MonitoringEnabled := fst p, lg_SecurityAlertsEnabled := snd p\<rparr>"

definition account_part :: "AzAccount \<Rightarrow> string option \<Rightarrow> string option \<Rightarrow> string \<Rightarrow> ontology_base res" where
  "account_part account i name raw =
     (case acc_Properties account of
        None \<Rightarrow> Panic
      | Some p \<Rightarrow> Ok \<lparr> ob_CreationTime = creationTime (acp_CreationTime p), ob_Id = resourceID i, ob_InternetAccessibleEndpoint = False,
          ob_Labels = labels_az (arm_Tags account), ob_Name = Deref [] name, ob_Raw = raw, ob_GeoLocation = location (arm_Location account),
          ob_ParentId = resourceID2 (arm_ID account) \<rparr>)"

definition handleFileStorage :: "azure_sdk \<Rightarrow> azureDiscovery \<Rightarrow> AzAccount \<Rightarrow> AzFileShare option \<Rightarrow> FileStorage res" where
  "handleFileStorage sdk d account fileshare =
     (case fileshare of
        None \<Rightarrow> Err (ErrText ''fileshare is nil'')
      | Some share \<Rightarrow>
          if fsh_ID share = None then Err (ErrText ''fileshare is nil'')
          else (case storageAtRestEncryption account of
                  Err err \<Rightarrow> Err (Wrap ''could not get file storage properties for the atRestEncryption: '' err)
                | Panic \<Rightarrow> Panic
                | Ok enc \<Rightarrow>
                    (case (storage_defender d, account_part account (fsh_ID share) (fsh_Name share) (Raw (sdk_raw sdk) [O_Account account, O_FileShare share])) of
                       (Ok plan, Ok base) \<Rightarrow> Ok (ontology_base.extend base (FileStorage.fields enc (Some (storage_logging plan))))
                     | _ \<Rightarrow> Panic)))"

definition handleObjectStorage :: "azure_sdk \<Rightarrow> azureDiscovery \<Rightarrow> AzAccount \<Rightarrow> AzContainer option \<Rightarrow> ObjectStorage res" where
  "handleObjectStorage sdk d account container =
     (case container of
        None \<Rightarrow> Err (ErrText ''container is nil'')
      | Some container \<Rightarrow>
          if con_ID container = None then Err (ErrText ''container is nil'')
          else (case storageAtRestEncryption account of
                  Err err \<Rightarrow> Err (Wrap ''could not get object storage properties for the atRestEncryption: '' err)
                | Panic \<Rightarrow> Panic
                | Ok enc \<Rightarrow>
                    (case (storage_defender d, con_Properties container,
                           account_part account (con_ID container) (con_Name container) (Raw (sdk_raw sdk) [O_Account account, O_BlobContainer container])) of
                       (Ok plan, Some p, Ok base) \<Rightarrow>
                         Ok (ontology_base.extend base
                           (ObjectStorage.fields (Deref [] (cop_PublicAccess p) \<noteq> ''None'') enc
                             (backupsEmptyCheck (stored_backups d DataSourceTypeStorageAccountObject (arm_ID account)))
                             (Some (Deref False (cop_HasImmutabilityPolicy p))) (Some (storage_logging plan))))
                     | _ \<Rightarrow> Panic)))"

text \<open>The loop over pages of a storage account, for containers and file shares.\<close>

fun storage_pages :: "string \<Rightarrow> ('x \<Rightarrow> IsResource res) \<Rightarrow> 'x list res list \<Rightarrow> IsResource list res" where
  "storage_pages what handle [] = Ok []"
| "storage_pages what handle (Err err # pages) = Err (ErrText (''error getting next page: '' @ error_string err))"
| "storage_pages what handle (Panic # pages) = Panic"
| "storage_pages what handle (Ok page # pages) =
     (case each_res handle page of
        Err err \<Rightarrow> Err (Wrap what err)
      | Panic \<Rightarrow> Panic
      | Ok rs \<Rightarrow> map_res ((@) rs) (storage_pages what handle pages))"

definition discoverFileStorages :: "azure_sdk \<Rightarrow> azureDiscovery \<Rightarrow> AzAccount \<Rightarrow> IsResource list res" where
  "discoverFileStorages sdk d account =
     (case resourceGroupName (Deref [] (arm_ID account)) of
        Ok rg \<Rightarrow> storage_pages ''could not handle file storage: '' (\<lambda>share. map_res R_FileStorage (handleFileStorage sdk d account share))
                   (sdk_FileShares sdk rg (Deref [] (arm_Name account)))
      | _ \<Rightarrow> Panic)"

definition discoverObjectStorages :: "azure_sdk \<Rightarrow> azureDiscovery \<Rightarrow> AzAccount \<Rightarrow> IsResource list res" where
  "discoverObjectStorages sdk d account =
     (case resourceGroupName (Deref [] (arm_ID account)) of
        Ok rg \<Rightarrow> storage_pages ''could not handle object storage: '' (\<lambda>container. map_res R_ObjectStorage (handleObjectStorage sdk d account container))
                   (sdk_Containers sdk rg (Deref [] (arm_Name account)))
      | _ \<Rightarrow> Panic)"

definition handleStorageAccount :: "azure_sdk \<Rightarrow> AzAccount \<Rightarrow> IsResource list \<Rightarrow> ObjectStorageService res" where
  "handleStorageAccount sdk account storagesList =
     (case (if storagesList = [] then Ok [] else accountName (Deref [] (arm_ID account)), acc_Properties account) of
        (Ok name, Some p) \<Rightarrow>
          (let te = \<lparr> te_Enabled = True, te_Enforced = Deref False (acp_EnableHTTPSTrafficOnly p), te_Protocol = ''TLS'',
                 te_ProtocolVersion = tlsVersion (acp_MinimumTLSVersion p), te_CipherSuites = [] \<rparr>
           in case acp_Blob p of
                None \<Rightarrow> Panic
              | Some url \<Rightarrow>
                  map_res (\<lambda>url. ontology_base.extend
                      (az_base account (creationTime (acp_CreationTime p)) (location (arm_Location account)) (resourceGroupID (arm_ID account))
                        (Raw (sdk_raw sdk) [O_Account account]))
                      (ObjectStorageService.fields (Some \<lparr> he_Url = url, he_TransportEncryption = Some te \<rparr>)
                        (map GetId (filter (\<lambda>storage. str_Contains (GetId storage) name) storagesList)) (Some te)))
                    (generalizeURL (Deref [] url)))
      | _ \<Rightarrow> Panic)"

definition handle_account :: "azure_sdk \<Rightarrow> AzAccount option \<Rightarrow> IsResource list \<Rightarrow> IsResource list az" where
  "handle_account sdk account acc d =
     (case account of
        None \<Rightarrow> (Panic, d)
      | Some account \<Rightarrow>
          (case discoverObjectStorages sdk d account of
             Err err \<Rightarrow> (Err (Wrap ''could not handle object storages: '' err), d)
           | Panic \<Rightarrow> (Panic, d)
           | Ok objectStorages \<Rightarrow>
               (case discoverFileStorages sdk d account of
                  Err err \<Rightarrow> (Err (Wrap ''could not handle file storages: '' err), d)
                | Panic \<Rightarrow> (Panic, d)
                | Ok fileStorages \<Rightarrow>
                    (let acc = acc @ objectStorages @ fileStorages
                     in case handleStorageAccount sdk account acc of
                          Err err \<Rightarrow> (Err (Wrap ''could not create storage service: '' err), d)
                        | Panic \<Rightarrow> (Panic, d)
                        | Ok service \<Rightarrow> (Ok (acc @ [R_ObjectStorageService service]), d)))))"

text \<open>The list may hold nil resources of backups.\<close>

definition discoverStorageAccounts :: "azure_sdk \<Rightarrow> IsResource option list az" where
  "discoverStorageAccounts sdk =
     az_bind (initClient (sdk_New sdk) ''*armdataprotection.BackupPoliciesClient'') (\<lambda>_.
     az_bind (initClient (sdk_New sdk) ''*armdataprotection.BackupInstancesClient'') (\<lambda>_.
     az_bind (initClient (sdk_New sdk) ''*armdataprotection.BackupVaultsClient'') (\<lambda>_.
     az_bind (initClient (sdk_New sdk) ''*armstorage.AccountsClient'') (\<lambda>_.
     az_bind (initClient (sdk_New sdk) ''*armstorage.BlobContainersClient'') (\<lambda>_.
     az_bind (initClient (sdk_New sdk) ''*armstorage.FileSharesClient'') (\<lambda>_.
     az_bind (az_catch () (discoverBackupVaults sdk)) (\<lambda>_.
     az_bind (listPager (sdk_Accounts sdk) (handle_account sdk) []) (\<lambda>list d.
       (Ok (map Some list @ backup_storages d DataSourceTypeStorageAccountObject), d)))))))))"

section \<open>Databases\<close>

fun threat_states :: "string option list \<Rightarrow> bool res" where
  "threat_states [] = Ok False"
| "threat_states (None # states) = Panic"
| "threat_states (Some state # states) = (if state = ''Enabled'' then Ok True else threat_states states)"

fun threat_pages :: "string option list res list \<Rightarrow> bool res" where
  "threat_pages [] = Ok False"
| "threat_pages (Err err # pages) = Err (ErrText (''error getting next page: '' @ error_string err))"
| "threat_pages (Panic # pages) = Panic"
| "threat_pages (Ok page # pages) = (case threat_states page of Ok False \<Rightarrow> threat_pages pages | r \<Rightarrow> r)"

definition anomalyDetectionEnabled :: "azure_sdk \<Rightarrow> AzSqlServer \<Rightarrow> AzDatabase \<Rightarrow> bool az" where
  "anomalyDetectionEnabled sdk server db =
     az_bind (initClient (sdk_New sdk) ''*armsql.DatabaseAdvancedThreatProtectionSettingsClient'') (\<lambda>_. az_res
       (case (resourceGroupName (Deref [] (arm_ID db)), arm_Name server, arm_Name db) of
          (Ok rg, Some serverName, Some dbName) \<Rightarrow> threat_pages (sdk_ThreatProtection sdk rg serverName dbName)
        | _ \<Rightarrow> Panic))"

definition sql_database :: "azure_sdk \<Rightarrow> AzSqlServer \<Rightarrow> AzDatabase \<Rightarrow> DatabaseStorage res" where
  "sql_database sdk server db =
     (case sqd_Properties db of
        None \<Rightarrow> Panic
      | Some p \<Rightarrow>
          (case dbp_IsInfraEncryptionEnabled p of
             None \<Rightarrow> Panic
           | Some enabled \<Rightarrow>
               Ok (ontology_base.extend
                 (az_base db (creationTime (dbp_CreationDate p)) (location (arm_Location db)) (resourceID2 (arm_ID server)) (Raw (sdk_raw sdk) [O_Database db]))
                 (DatabaseStorage.fields (Some (AtRestEncryption_ManagedKeyEncryption \<lparr> mk_Algorithm = ''AES256'', mk_Enabled = enabled \<rparr>))))))"

text \<open>An error of the anomaly detection is logged and counts as not enabled, an error of a page ends the loop with what there is.\<close>

definition anomaly_status :: "azure_sdk \<Rightarrow> AzSqlServer \<Rightarrow> AzDatabase \<Rightarrow> bool az" where
  "anomaly_status sdk server db d =
     (case anomalyDetectionEnabled sdk server db d of
        (Err err, d) \<Rightarrow> (if arm_Name db = None then Panic else Ok False, d)
      | r \<Rightarrow> r)"

fun sql_pages :: "azure_sdk \<Rightarrow> AzSqlServer \<Rightarrow> AzDatabase list res list \<Rightarrow> IsResource list \<times> AnomalyDetection list \<Rightarrow>
    (IsResource list \<times> AnomalyDetection list) az" where
  "sql_pages sdk server [] acc = az_return acc"
| "sql_pages sdk server (Err err # pages) acc = az_return acc"
| "sql_pages sdk server (Panic # pages) acc = az_res Panic"
| "sql_pages sdk server (Ok page # pages) acc =
     az_bind (az_each (\<lambda>db (list, anomalies).
         az_bind (anomaly_status sdk server db) (\<lambda>enabled.
         az_bind (az_res (sql_database sdk server db)) (\<lambda>r.
           az_return (list @ [R_DatabaseStorage r], anomalies @ [\<lparr> ad_Enabled = enabled, ad_Scope = Deref [] (arm_ID db) \<rparr>])))) page acc)
       (sql_pages sdk server pages)"

definition getSqlDBs :: "azure_sdk \<Rightarrow> AzSqlServer \<Rightarrow> (IsResource list \<times> AnomalyDetection list) az" where
  "getSqlDBs sdk server d =
     (case initClient (sdk_New sdk) ''*armsql.DatabasesClient'' d of
        (Err err, d) \<Rightarrow> (Ok ([], []), d)
      | (Panic, d) \<Rightarrow> (Panic, d)
      | (Ok _, d) \<Rightarrow>
          (case (resourceGroupName (Deref [] (arm_ID server)), arm_Name server) of
             (Ok rg, Some name) \<Rightarrow> sql_pages sdk server (sdk_Databases sdk rg name) ([], []) d
           | _ \<Rightarrow> (Panic, d)))"

definition handleSqlServer :: "azure_sdk \<Rightarrow> AzSqlServer option \<Rightarrow> IsResource list az" where
  "handleSqlServer sdk server =
     (case server of
        None \<Rightarrow> az_res Panic
      | Some server \<Rightarrow>
          az_bind (getSqlDBs sdk server) (\<lambda>(dbList, anomalies).
            (case sqs_MinimalTLSVersion server of
               None \<Rightarrow> az_res Panic
             | Some version \<Rightarrow>
                 az_return (R_RelationalDatabaseService (ontology_base.extend
                   (az_base server None (location (arm_Location server)) (resourceGroupID (arm_ID server)) (Raw (sdk_raw sdk) [O_SqlServer server]))
                   (RelationalDatabaseService.fields anomalies (Some \<lparr> te_Enabled = True, te_Enforced = True, te_Protocol = ''TLS'',
                      te_ProtocolVersion = tlsVersion version, te_CipherSuites = [] \<rparr>))) # dbList))))"

definition discoverSqlServers :: "azure_sdk \<Rightarrow> IsResource list az" where
  "discoverSqlServers sdk =
     az_bind (initClient (sdk_New sdk) ''*armsql.ServersClient'') (\<lambda>_.
       listPager (sdk_SqlServers sdk) (\<lambda>server acc.
         az_bind (az_wrap (Wrap ''could not handle sql database: '') (handleSqlServer sdk server)) (\<lambda>db.
           if map_option arm_Name server = Some None then az_res Panic else az_return (acc @ db))) [])"

fun mongo_pages :: "(arm_resource \<Rightarrow> IsResource) \<Rightarrow> arm_resource list res list \<Rightarrow> IsResource list res" where
  "mongo_pages db [] = Ok []"
| "mongo_pages db (Err err # pages) = Ok []"
| "mongo_pages db (Panic # pages) = Panic"
| "mongo_pages db (Ok page # pages) = map_res ((@) (map db page)) (mongo_pages db pages)"

definition discoverMongoDBDatabases :: "azure_sdk \<Rightarrow> AzCosmos \<Rightarrow> AtRestEncryption \<Rightarrow> IsResource list az" where
  "discoverMongoDBDatabases sdk account atRestEnc d =
     (case initClient (sdk_New sdk) ''*armcosmos.MongoDBResourcesClient'' d of
        (Err err, d) \<Rightarrow> (Ok [], d)
      | (Panic, d) \<Rightarrow> (Panic, d)
      | (Ok _, d) \<Rightarrow>
          (case (resourceGroupName (Deref [] (arm_ID account)), arm_Name account) of
             (Ok rg, Some name) \<Rightarrow>
               (mongo_pages (\<lambda>value. R_DatabaseStorage (ontology_base.extend
                    (az_base value None (location (arm_Location value)) (resourceID2 (arm_ID account)) (Raw (sdk_raw sdk) [O_Cosmos account, O_Mongo value]))
                    (DatabaseStorage.fields (Some atRestEnc)))) (sdk_MongoDatabases sdk rg name), d)
           | _ \<Rightarrow> (Panic, d)))"

definition handleCosmosDB :: "azure_sdk \<Rightarrow> AzCosmos option \<Rightarrow> IsResource list az" where
  "handleCosmosDB sdk account =
     az_bind (initClient (sdk_New sdk) ''*armcosmos.DatabaseAccountsClient'') (\<lambda>_.
       (case account of
          None \<Rightarrow> az_res Panic
        | Some account \<Rightarrow>
            (case (cos_KeyVaultKeyURI account, cos_CreatedAt account) of
               (Some uri, Some created) \<Rightarrow>
                 (let atRestEnc = (case uri of
                        Some uri \<Rightarrow> AtRestEncryption_CustomerKeyEncryption \<lparr> ck_Algorithm = [], ck_Enabled = True, ck_KeyUrl = uri \<rparr>
                      | None \<Rightarrow> AtRestEncryption_ManagedKeyEncryption \<lparr> mk_Algorithm = ''AES256'', mk_Enabled = True \<rparr>);
                      dbService = R_DocumentDatabaseService
                        (az_base account (creationTime created) (location (arm_Location account)) (resourceGroupID (arm_ID account))
                          (Raw (sdk_raw sdk) [O_Cosmos account]))
                  in if Deref [] (cos_Kind account) = ''MongoDB'' then
                       az_bind (discoverMongoDBDatabases sdk account atRestEnc) (\<lambda>dbs. az_return (dbService # dbs))
                     else az_return [dbService])
             | _ \<Rightarrow> az_res Panic)))"

definition discoverCosmosDB :: "azure_sdk \<Rightarrow> IsResource list az" where
  "discoverCosmosDB sdk =
     az_bind (initClient (sdk_New sdk) ''*armcosmos.DatabaseAccountsClient'') (\<lambda>_.
       listPager (sdk_CosmosAccounts sdk) (\<lambda>account acc.
         az_bind (az_wrap (Wrap ''could not cosmos db accounts: '') (handleCosmosDB sdk account)) (\<lambda>cosmos.
           if map_option arm_Name account = Some None then az_res Panic else az_return (acc @ cosmos))) [])"

section \<open>The list of resources\<close>

definition List_az :: "azure_sdk \<Rightarrow> IsResource option list az" where
  "List_az sdk =
     az_bind (az_wrap (Wrap ''could not authenticate to Azure: '') (authorize (sdk_NewSubscriptionsClient sdk) (sdk_Subscriptions sdk))) (\<lambda>_.
     az_bind (az_wrap (Wrap ''could not discover resource groups: '') (discoverResourceGroups sdk)) (\<lambda>rg.
     az_bind (az_wrap (Wrap ''could not discover Defender for X: '') (discoverDefender (sdk_New sdk) (sdk_Pricings sdk))) (\<lambda>defender.
     az_bind (\<lambda>d. (Ok (), d\<lparr>az_defenderProperties := defender\<rparr>)) (\<lambda>_.
     az_bind (az_wrap (Wrap ''could not discover storage accounts: '') (discoverStorageAccounts sdk)) (\<lambda>storageAccounts.
     az_bind (az_wrap (Wrap ''could not discover sql databases: '') (discoverSqlServers sdk)) (\<lambda>dbs.
     az_bind (az_wrap (Wrap ''could not discover cosmos db accounts: '') (discoverCosmosDB sdk)) (\<lambda>cosmosDB.
     az_bind (az_catch () (discoverBackupVaults sdk)) (\<lambda>_.
     az_bind (az_wrap (Wrap ''could not discover block storage: '') (discoverBlockStorages sdk)) (\<lambda>storage.
     az_bind (\<lambda>d. (Ok (backup_storages d DataSourceTypeDisc), d)) (\<lambda>backupStorages.
     az_bind (az_wrap (Wrap ''could not discover virtual machines: '') (discoverVirtualMachines_az sdk)) (\<lambda>virtualMachines.
     az_bind (az_wrap (Wrap ''could not discover functions: '') (discoverFunctionsWebApps sdk)) (\<lambda>resources.
     az_bind (az_wrap (Wrap ''could not discover network interfaces: '') (discoverNetworkInterfaces_az sdk)) (\<lambda>networkInterfaces.
     az_bind (az_wrap (Wrap ''could not discover load balancer: '') (discoverLoadBalancer sdk)) (\<lambda>loadBalancer.
     az_bind (az_wrap (Wrap ''could not discover application gateways: '') (discoverApplicationGateway sdk)) (\<lambda>ag.
       az_return (map Some rg @ storageAccounts @ map Some dbs @ map Some cosmosDB @ map Some storage @ backupStorages @
         map Some virtualMachines @ map Some resources @ map Some networkInterfaces @ map Some loadBalancer @ map Some ag))))))))))))))))"

section \<open>Lemmas\<close>

lemma az_safe_when [az_safe_intros]: "az_safe m \<Longrightarrow> az_safe (\<lambda>d. if b d then (r, d) else m d)"
  by (auto simp: az_safe_def)

lemma az_safe_backup_instance [az_safe_intros]: "az_safe (backup_instance sdk vault inst u)"
  by (auto simp: az_safe_def backup_instance_def evolves_def az_wf_def split: prod.splits res.splits option.splits)

lemma az_safe_handle_vault [az_safe_intros]: "az_safe (handle_vault sdk vault u)"
  unfolding handle_vault_def by (intro az_safe_intros)

lemma az_safe_discoverBackupVaults [az_safe_intros]: "az_safe (discoverBackupVaults sdk)"
  unfolding discoverBackupVaults_def by (intro az_safe_intros)

lemma az_safe_handle_account [az_safe_intros]: "az_safe (handle_account sdk account acc)"
  by (auto simp: az_safe_def handle_account_def Let_def split: res.splits option.splits)

lemma az_safe_discoverStorageAccounts [az_safe_intros]: "az_safe (discoverStorageAccounts sdk)"
  unfolding discoverStorageAccounts_def by (intro az_safe_intros)

lemma az_safe_anomaly_status [az_safe_intros]: "az_safe (anomaly_status sdk server db)"
proof -
  have "az_safe (anomalyDetectionEnabled sdk server db)" unfolding anomalyDetectionEnabled_def by (intro az_safe_intros)
  then show ?thesis by (auto simp: az_safe_def anomaly_status_def split: prod.splits res.splits) (metis snd_conv)+
qed

lemma az_safe_sql_pages [az_safe_intros]: "az_safe (sql_pages sdk server pages acc)"
proof (induction pages arbitrary: acc)
  case (Cons page pages)
  then show ?case by (cases page) (auto simp del: az_each.simps intro!: az_safe_intros)
qed (simp add: az_safe_intros)

lemma az_safe_getSqlDBs [az_safe_intros]: "az_safe (getSqlDBs sdk server)"
  unfolding az_safe_def
proof
  fix d
  have i: "evolves d (snd (initClient (sdk_New sdk) ''*armsql.DatabasesClient'' d))" using az_safe_initClient by (simp add: az_safe_def)
  have p: "evolves d1 (snd (sql_pages sdk server pages acc d1))" for pages acc d1 using az_safe_sql_pages by (simp add: az_safe_def)
  show "evolves d (snd (getSqlDBs sdk server d))"
    using i p by (auto simp: getSqlDBs_def intro: evolves_trans split: prod.splits res.splits option.splits)
qed

lemma az_safe_discoverSqlServers [az_safe_intros]: "az_safe (discoverSqlServers sdk)"
  unfolding discoverSqlServers_def handleSqlServer_def by (intro az_safe_intros)

lemma az_safe_discoverMongoDBDatabases [az_safe_intros]: "az_safe (discoverMongoDBDatabases sdk account enc)"
  by (rule az_safe_after_init [of _ "sdk_New sdk" "''*armcosmos.MongoDBResourcesClient''"])
    (auto simp: discoverMongoDBDatabases_def split: prod.splits res.splits option.splits)

lemma az_safe_discoverCosmosDB [az_safe_intros]: "az_safe (discoverCosmosDB sdk)"
  unfolding discoverCosmosDB_def handleCosmosDB_def Let_def by (intro az_safe_intros)

lemma az_safe_List [az_safe_intros]: "az_safe (List_az sdk)"
  unfolding List_az_def by (intro az_safe_intros)

text \<open>Only the last page of instances is returned.\<close>

lemma instance_pages_map: "instance_pages old (map Ok vs) = Ok (last (old # vs))"
  by (induction vs arbitrary: old) auto

lemma instance_pages_Ok: "instance_pages old pages = Ok insts \<Longrightarrow> \<exists>vs. pages = map Ok vs"
proof (induction pages arbitrary: old)
  case (Cons page pages)
  show ?case
  proof (cases page)
    case (Ok v)
    with Cons obtain vs where "pages = map Ok vs" by fastforce
    with Ok show ?thesis by (intro exI [of _ "v # vs"]) simp
  qed (use Cons.prems in auto)
qed simp

text \<open>Every virtual machine on the pages in scope is handled, in order.\<close>

lemma discoverVirtualMachines_listed:
  assumes "discoverVirtualMachines_az sdk d = (Ok rs, d')"
  shows "\<exists>pages vms. scoped (sdk_VirtualMachines sdk) d = map Ok pages \<and> rs = map R_VirtualMachine vms \<and>
    map (handleVirtualMachines sdk d') (concat pages) = map Ok vms \<and>
    map (Some \<circ> GetId) rs = map (map_option (\<lambda>vm. resourceID (arm_ID vm))) (concat pages)"
proof -
  let ?callback = "\<lambda>vm acc d. case handleVirtualMachines sdk d vm of
      Ok r \<Rightarrow> (Ok (acc @ [R_VirtualMachine r]), d) | Err err \<Rightarrow> (Err (Wrap ''could not handle virtual machine: '' err), d) | Panic \<Rightarrow> (Panic, d)"
  obtain d1 where i: "initClient (sdk_New sdk) ''*armcompute.VirtualMachinesClient'' d = (Ok (), d1)"
    and l: "listPager (sdk_VirtualMachines sdk) ?callback [] d1 = (Ok rs, d')"
    using assms by (auto simp: discoverVirtualMachines_az_def az_bind_Ok)
  have "az_rg d1 = az_rg d" using i by (auto simp: initClient_def split: if_splits res.splits)
  then have sc: "scoped (sdk_VirtualMachines sdk) d1 = scoped (sdk_VirtualMachines sdk) d" by (simp add: scoped_def)
  from l obtain pages where p: "scoped (sdk_VirtualMachines sdk) d = map Ok pages" "az_each ?callback (concat pages) [] d1 = (Ok rs, d')"
    unfolding listPager_Ok sc by blast
  have "d' = d1 \<and> (\<exists>vms. map (handleVirtualMachines sdk d1) (concat pages) = map Ok vms \<and> rs = [] @ map R_VirtualMachine vms)"
    by (rule az_each_collect [OF _ p(2)]) (auto split: res.splits)
  then obtain vms where v: "map (handleVirtualMachines sdk d') (concat pages) = map Ok vms" "rs = map R_VirtualMachine vms" by auto
  have "map (Some \<circ> GetId) (map R_VirtualMachine vms) = map (map_option (\<lambda>vm. resourceID (arm_ID vm))) (concat pages)"
    using v(1) handleVirtualMachines_id by (rule map_ids)
  with p(1) v show ?thesis by blast
qed

text \<open>
  The virtual machines in the list of all resources: \<open>lists_vms\<close> is kept by every operation before their discovery, since none changes the scope,
  and \<open>keeps_part\<close> by every operation after it.
\<close>

definition keeps_part :: "IsResource option list \<Rightarrow> IsResource option list az \<Rightarrow> bool" where
  "keeps_part xs m \<longleftrightarrow> (\<forall>d list d'. m d = (Ok list, d') \<longrightarrow> sublist xs list)"

lemma keeps_part_bind: "(\<And>x. keeps_part xs (f x)) \<Longrightarrow> keeps_part xs (az_bind m f)"
  unfolding keeps_part_def by (metis az_bind_Ok)

lemma keeps_part_return: "sublist xs list \<Longrightarrow> keeps_part xs (az_return list)"
  by (simp add: keeps_part_def az_return_Ok)

definition lists_vms :: "azure_sdk \<Rightarrow> IsResource option list az \<Rightarrow> bool" where
  "lists_vms sdk m \<longleftrightarrow> (\<forall>d list d'. m d = (Ok list, d') \<longrightarrow>
     (\<exists>pages vms. scoped (sdk_VirtualMachines sdk) d = map Ok pages \<and> sublist (map (Some \<circ> R_VirtualMachine) vms) list \<and>
        map (Some \<circ> GetId \<circ> R_VirtualMachine) vms = map (map_option (\<lambda>vm. resourceID (arm_ID vm))) (concat pages)))"

lemma lists_vms_bind:
  assumes "az_safe m" "\<And>x. lists_vms sdk (f x)"
  shows "lists_vms sdk (az_bind m f)"
  unfolding lists_vms_def
proof (intro allI impI)
  fix d list d'
  assume "az_bind m f d = (Ok list, d')"
  then obtain x d1 where 1: "m d = (Ok x, d1)" "f x d1 = (Ok list, d')" unfolding az_bind_Ok by blast
  have "evolves d d1" using assms(1) 1(1) unfolding az_safe_def by (metis snd_conv)
  then have "scoped (sdk_VirtualMachines sdk) d1 = scoped (sdk_VirtualMachines sdk) d" by (simp add: evolves_def scoped_def)
  with assms(2) [of x] 1(2) show "\<exists>pages vms. scoped (sdk_VirtualMachines sdk) d = map Ok pages \<and> sublist (map (Some \<circ> R_VirtualMachine) vms) list \<and>
        map (Some \<circ> GetId \<circ> R_VirtualMachine) vms = map (map_option (\<lambda>vm. resourceID (arm_ID vm))) (concat pages)"
    unfolding lists_vms_def by metis
qed

lemma lists_vms_discover:
  assumes "\<And>rs. keeps_part (map Some rs) (f rs)"
  shows "lists_vms sdk (az_bind (az_wrap w (discoverVirtualMachines_az sdk)) f)"
  unfolding lists_vms_def
proof (intro allI impI)
  fix d list d'
  assume "az_bind (az_wrap w (discoverVirtualMachines_az sdk)) f d = (Ok list, d')"
  then obtain rs d1 where 1: "discoverVirtualMachines_az sdk d = (Ok rs, d1)" "f rs d1 = (Ok list, d')"
    by (auto simp: az_bind_Ok az_wrap_def split: prod.splits res.splits)
  obtain pages vms where 2: "scoped (sdk_VirtualMachines sdk) d = map Ok pages" "rs = map R_VirtualMachine vms"
    "map (Some \<circ> GetId) rs = map (map_option (\<lambda>vm. resourceID (arm_ID vm))) (concat pages)"
    using discoverVirtualMachines_listed [OF 1(1)] by blast
  have "sublist (map Some rs) list" using assms 1(2) unfolding keeps_part_def by blast
  with 2 show "\<exists>pages vms. scoped (sdk_VirtualMachines sdk) d = map Ok pages \<and> sublist (map (Some \<circ> R_VirtualMachine) vms) list \<and>
        map (Some \<circ> GetId \<circ> R_VirtualMachine) vms = map (map_option (\<lambda>vm. resourceID (arm_ID vm))) (concat pages)"
    by (intro exI [of _ pages] exI [of _ vms]) (simp add: comp_assoc)
qed

lemma sublist_rest: "sublist xs ys \<Longrightarrow> sublist xs (zs @ ys)"
  by (auto simp: sublist_append)

lemma List_lists_vms: "lists_vms sdk (List_az sdk)"
  unfolding List_az_def
  by (intro lists_vms_discover lists_vms_bind az_safe_intros keeps_part_bind keeps_part_return sublist_append_rightI sublist_rest)

section \<open>Properties\<close>

text \<open>
  C19: the state of the Azure discoverer. Whatever Azure answers, a run keeps the scope of the discoverer, its credential and the clients
  it has; an authorized discoverer stays authorized with the same subscription, which has an identifier.
\<close>

theorem azure_List_invariant:
  assumes "az_wf d" "List_az sdk d = (out, d')"
  shows "az_wf d' \<and> az_csID d' = az_csID d \<and> az_rg d' = az_rg d \<and> az_cred d' = az_cred d \<and> az_clients d \<subseteq> az_clients d' \<and>
    (az_isAuthorized d \<longrightarrow> az_isAuthorized d' \<and> az_sub d' = az_sub d)"
proof -
  have "evolves d d'" using az_safe_List [of sdk] assms(2) by (metis az_safe_def snd_conv)
  then show ?thesis using assms(1) by (simp add: evolves_def)
qed

definition no_pages :: "'x pagers" where
  "no_pages = \<lparr> pg_all = [], pg_byResourceGroup = (\<lambda>_. []) \<rparr>"

definition sample_vm :: "string \<Rightarrow> AzVM option" where
  "sample_vm i = Some \<lparr> arm_ID = Some i, arm_Name = Some ''vm'', arm_Location = None, arm_Tags = Map.empty,
     avm_Properties = Some \<lparr> vp_TimeCreated = None, vp_OSProfile = None, vp_BootDiagnostics = None, vp_NetworkProfile = None, vp_StorageProfile = None \<rparr>,
     avm_Resources = [] \<rparr>"

text \<open>A subscription with two pages of virtual machines and nothing else; constructors of clients succeed.\<close>

definition sample_sdk :: azure_sdk where
  "sample_sdk =
     \<lparr> sdk_raw = \<lparr> rl_TypeOf = (\<lambda>_. ''object''), rl_Marshal = (\<lambda>_. Ok ''{}'') \<rparr>, sdk_New = (\<lambda>_ _. Ok ()), sdk_NewSubscriptionsClient = Ok (),
       sdk_Subscriptions = [Ok [\<lparr> su_ID = Some ''/subscriptions/s'', su_SubscriptionID = Some ''s'', su_DisplayName = None \<rparr>]],
       sdk_Pricings = Ok [], sdk_ResourceGroups = [],
       sdk_VirtualMachines = \<lparr> pg_all = [Ok [sample_vm ''/VM/1''], Ok [sample_vm ''/VM/2'']], pg_byResourceGroup = (\<lambda>_. []) \<rparr>, sdk_Disks = no_pages,
       sdk_DiskEncryptionSet = (\<lambda>_ _. Ok None), sdk_Sites = no_pages, sdk_GetConfiguration = (\<lambda>_ _. Ok None),
       sdk_ApplicationSettings = (\<lambda>_ _. Ok Map.empty), sdk_Interfaces = no_pages, sdk_LoadBalancers = no_pages, sdk_Gateways = no_pages,
       sdk_SecurityGroup = (\<lambda>_ _. Ok None), sdk_Accounts = no_pages, sdk_FileShares = (\<lambda>_ _. []), sdk_Containers = (\<lambda>_ _. []),
       sdk_SqlServers = no_pages, sdk_Databases = (\<lambda>_ _. []), sdk_ThreatProtection = (\<lambda>_ _ _. []), sdk_CosmosAccounts = no_pages,
       sdk_MongoDatabases = (\<lambda>_ _. []), sdk_Vaults = no_pages, sdk_Instances = (\<lambda>_ _. []), sdk_BackupPolicy = (\<lambda>_ _ _. Ok None) \<rparr>"

definition sample_az :: azureDiscovery where
  "sample_az = NewAzureDiscovery [WithAuthorizer_az]"

lemma sample_List: "\<exists>list. List_az sample_sdk sample_az = (Ok list, snd (List_az sample_sdk sample_az)) \<and> length list = 3"
proof -
  have "(case fst (List_az sample_sdk sample_az) of Ok list \<Rightarrow> length list = 3 | _ \<Rightarrow> False)" by code_simp
  then show ?thesis by (auto simp: prod_eq_iff split: res.splits)
qed

theorem azure_List_invariant_witness:
  "az_wf (snd (List_az sample_sdk sample_az)) \<and> az_cred (snd (List_az sample_sdk sample_az)) \<and>
   az_rg (snd (List_az sample_sdk sample_az)) = None \<and> az_csID (snd (List_az sample_sdk sample_az)) = DefaultCloudServiceID"
proof -
  have "az_wf sample_az" by (simp add: az_wf_def sample_az_def NewAzureDiscovery_def WithAuthorizer_az_def)
  from azure_List_invariant [OF this prod.collapse [symmetric], of sample_sdk] show ?thesis
    by (simp add: sample_az_def NewAzureDiscovery_def WithAuthorizer_az_def)
qed

text \<open>
  C16: virtual machines of Azure. If a run of the Azure discoverer succeeds, then it has read every page of virtual machines in its scope, the whole
  subscription or the resource group of the discoverer, and its list contains, as one stretch, exactly one resource for each virtual machine on these
  pages, in their order, under its identifier in lower case.
\<close>

theorem azure_vms_listed:
  assumes "List_az sdk d = (Ok list, d')"
  shows "\<exists>pages vms. (case az_rg d of None \<Rightarrow> pg_all (sdk_VirtualMachines sdk) | Some rg \<Rightarrow> pg_byResourceGroup (sdk_VirtualMachines sdk) rg) = map Ok pages \<and>
    sublist (map (Some \<circ> R_VirtualMachine) vms) list \<and>
    map (Some \<circ> GetId \<circ> R_VirtualMachine) vms = map (map_option (\<lambda>vm. resourceID (arm_ID vm))) (concat pages)"
  using List_lists_vms [of sdk] assms unfolding lists_vms_def scoped_def by blast

theorem azure_vms_listed_witness:
  "\<exists>list vms. fst (List_az sample_sdk sample_az) = Ok list \<and> sublist (map (Some \<circ> R_VirtualMachine) vms) list \<and>
    map (GetId \<circ> R_VirtualMachine) vms = [''/vm/1'', ''/vm/2'']"
proof -
  obtain list where l: "List_az sample_sdk sample_az = (Ok list, snd (List_az sample_sdk sample_az))" using sample_List by blast
  have i: "resourceID (Some ''/VM/1'') = ''/vm/1''" "resourceID (Some ''/VM/2'') = ''/vm/2''" by code_simp+
  have rg: "az_rg sample_az = None" by (simp add: sample_az_def NewAzureDiscovery_def WithAuthorizer_az_def)
  obtain pages vms where p: "pg_all (sdk_VirtualMachines sample_sdk) = map Ok pages" "sublist (map (Some \<circ> R_VirtualMachine) vms) list"
    "map (Some \<circ> GetId \<circ> R_VirtualMachine) vms = map (map_option (\<lambda>vm. resourceID (arm_ID vm))) (concat pages)"
    using azure_vms_listed [OF l] rg by auto
  from p(1) have "pages = [[sample_vm ''/VM/1''], [sample_vm ''/VM/2'']]" by (simp add: sample_sdk_def Cons_eq_map_conv)
  with p(3) i have "map Some (map (GetId \<circ> R_VirtualMachine) vms) = map Some [''/vm/1'', ''/vm/2'']" by (simp add: sample_vm_def comp_assoc)
  then have "map (GetId \<circ> R_VirtualMachine) vms = [''/vm/1'', ''/vm/2'']" by (rule map_injective) simp
  with p(2) l show ?thesis by (metis fst_conv)
qed

end
