(* ===== verification/Spec2Isabelle.thy ===== *)
theory Spec2Isabelle
  imports Orch_Service Orch_Certificates Pipeline Rest Serialization Discover_K8s Discover_AWS Azure_Storage
begin

text \<open>
  Clouditor continuously checks cloud services against catalogs of security controls. Its Go
  sources are under src/. This library models the services of the program as HOL functions on
  explicit states and proves what makes them correct.

  \<^bold>\<open>The program and its data flow.\<close> The \<^emph>\<open>discovery\<close> lists the resources of a cloud provider
  and sends one evidence per resource to the \<^emph>\<open>assessment\<close>. The assessment evaluates the Rego
  policy of every applicable metric on the evidence, hands the evidence to the \<^emph>\<open>evidence store\<close>
  and sends one assessment result per metric to the \<^emph>\<open>orchestrator\<close>, which stores it next to
  cloud services, metrics with their configurations, catalogs, targets of evaluation and
  certificates. The \<^emph>\<open>evaluation\<close> periodically reads the latest assessment results back from
  the orchestrator and computes the status of the controls of a catalog. All of them are gRPC
  services on one storage layer, behind a server that authenticates bearer tokens and an
  authorization strategy that restricts callers to cloud services; a REST gateway stands in
  front.

  \<^bold>\<open>Theories, bottom up.\<close>

  \<^item> \<open>Prelude\<close>: results of Go functions (\<open>'a res\<close>: value, error or panic), gRPC and wrapped
    errors, the fragments of Go's library in use, generic lemmas.
  \<^item> \<open>Sql\<close>, \<open>Storage\<close>, \<open>Mem_Storage\<close>: the conditions of queries with their SQL meaning,
    persistence/gorm/gorm.go as functions \<open>storage_*\<close> over the record \<open>gorm\<close> of library calls
    (locale \<open>gorm_table\<close>, from which a sublocale gives \<open>storage_contract\<close>, the contract of
    persistence/persistence.go), and an executable table engine that satisfies it.
  \<^item> \<open>Pagination\<close> (service/paginate.go, api/pagination.go), \<open>Api_Base\<close> (api/validate.go,
    internal/util), \<open>Authorization\<close> (service/authorization.go, locale \<open>authz_strategy\<close>),
    \<open>Messages\<close> (the structs of the generated *.pb.go files), \<open>Serialization\<close>
    (persistence/gorm/serializer.go and the JSON of ranges in api/assessment/metric.go).
  \<^item> \<open>Orchestrator\<close> (state, hooks and event channel of service/orchestrator/orchestrator.go),
    \<open>Orch_CloudService\<close>, \<open>Orch_Metrics\<close>, \<open>Orch_Toe\<close>, \<open>Orch_Certificates\<close>, \<open>Orch_Catalogs\<close>,
    \<open>Orch_Results\<close> (one per file of service/orchestrator) and \<open>Orch_Service\<close> (constructor and
    delivery of events).
  \<^item> \<open>Stream_Loop\<close> (the server loop of the three bidirectional streams, locale
    \<open>storing_handler\<close>), \<open>Evidence_Store\<close> (service/evidence), \<open>Streams\<close> (api/streams.go),
    \<open>Connection\<close> (api/connection.go, api/authorizer.go).
  \<^item> \<open>Ontology\<close> (api/ontology/ontology.go), \<open>Policies\<close> (policies/*.go, locale \<open>stable_source\<close>),
    \<open>Assessment\<close> (service/assessment/assessment.go).
  \<^item> \<open>Evaluation\<close>, \<open>Eval_Status\<close>, \<open>Eval_Jobs\<close>, \<open>Eval_Cache\<close>
    (service/evaluation/evaluation.go): the handlers, the status of controls (locale
    \<open>group_tasks\<close> for the goroutines of an errgroup), the scheduled jobs, the cache of controls.
  \<^item> \<open>Discovery\<close> (service/discovery/discovery.go, graph.go, api/discovery/discovery.go).
  \<^item> \<open>Resources\<close> (the messages of api/ontology/ontology.pb.go that discoverers create, and what a
    run of the discovery does with a list of them), \<open>Discover_K8s\<close> (service/discovery/k8s),
    \<open>Discover_AWS\<close> (service/discovery/aws), \<open>Azure_Base\<close> (azure.go, azure_clients.go and
    azure_properties.go of service/discovery/azure: the state of the discoverer, a state and error
    monad for its calls, pagers, the objects of the SDK), \<open>Azure_Compute\<close> (virtual machines,
    disks, sites, network, resource groups) and \<open>Azure_Storage\<close> (storage accounts, databases,
    backups, the list of all resources).
  \<^item> \<open>Server\<close> (server/grpc.go, server/auth_middleware.go) and \<open>Rest\<close> (server/rest/rest.go).
  \<^item> \<open>Pipeline\<close> and this theory: the services connected with each other.

  \<^bold>\<open>Correspondence.\<close> A Go struct is a record whose fields carry a short prefix, a handler is
  a function from the request (an option, nil is \<open>None\<close>) and the state of its service to a result
  and the new state, with the guards and early returns of the source in their order. Current
  time, fresh identifiers and outcomes of the network are arguments. A \<open>go\<close> statement either
  leaves a task in the state that a step relation runs at any later moment (\<open>orch_step\<close>,
  \<open>stream_step\<close>), or the order in which the goroutines of a group run is an argument and the
  theorems hold for every order. Third-party code is a record of functions (\<open>gorm\<close>,
  \<open>proto_lib\<close>, \<open>rego_lib\<close>, \<open>gocron\<close>, \<open>token_lib\<close>, \<open>jwt_lib\<close>, the generated clients); what
  is needed of it is a named predicate or locale that states its documentation, and witnesses
  instantiate it.

  \<^bold>\<open>What is shown.\<close>

  \<^item> Across services (here): an assessed evidence arrives in the status of the sub-controls of
    its metrics, this status reflects exactly the latest results that the orchestrator has
    stored, and only calls with a signed token whose claims cover a cloud service change it.
  \<^item> Concurrency: client streams neither lose nor duplicate messages under failing sends,
    restarts and any interleaving; metric change events are delivered exactly once and the
    system cannot get stuck; the concurrent evaluation of a catalog stores what its sequential
    specification says; there is at most one job per target in every reachable state.
  \<^item> Storage and listings: every operation keeps the contract, pagination ends and returns every
    row once, listings are sound and complete within the scope of the caller, page tokens and
    columns survive encoding and decoding.
  \<^item> Caches: those of the policy evaluation and of the control catalog do not change results.
  \<^item> Discoverers: what reaches the storage and the assessment for pods and buckets, that the
    virtual machines of all pages are listed, that a run of the Azure discoverer keeps its scope
    and authorization whatever is answered (every operation is shown to keep it, the rules are
    collected in \<open>az_safe_intros\<close>), which bucket policies count as enforcing encryption.
  \<^item> Handlers: their result and effect on every branch, including errors.

  \<^bold>\<open>Bounds and fuel.\<close> Two loops have no structural argument and are defined by
  \<open>partial_function (option)\<close>: \<open>ListAllPaginated_loop\<close>, the client loop over pages, and
  \<open>functions_loop\<close>, the loop over the markers of AWS Lambda. The first is proved to end over the
  server's pagination, the second whenever the markers make progress. The pagers of Azure are
  finite sequences of pages, so that the loops over them recurse on the sequence. No fuel is used.
  The channels keep their capacities (1000 messages per client stream, 1000 metric events); a
  send to a full stream channel blocks in Go and stops the model with \<open>Panic\<close>, so statements
  about delivered messages are about runs with room. Page tokens wrap around at 64 bits, ports of
  Kubernetes services at 32 bits. TLS versions are rational constants and not floating-point.

  \<^bold>\<open>Not modelled.\<close> The command line client (cli, cmd/cli) and the start-up of the engine
  (cmd/engine), which read flags and call the modelled code; the generated gateways, stubs and
  message methods (*.pb.gw.go, *_grpc.pb.go, reflection); opening and migrating the database and
  the in-memory storage (persistence/inmemory), which configure gorm; logging; the runtime
  information of the binary (service/runtime.go); the walk over directories
  (internal/util/filesystem.go); the constructors of OAuth token sources and the start of key
  sets; the embedded authorization server; test support (internal/testutil, internal/testdata).
  Data races on fields that Go code accesses without a lock are outside the models, in which an
  operation on such a field is one step.
\<close>

section \<open>Properties across services\<close>

text \<open>
  C3: the status of a sub-control is a function of the results that the orchestrator has
  stored. When the evaluation, connected to the handlers of an orchestrator whose results it
  may read, succeeds for a sub-control with metrics, then its result is judged by a selection
  of the latest stored results of the cloud service for these metrics, one per resource and
  metric: pending without any, compliant if all are, not compliant otherwise, with the
  identifiers of the failing ones; and exactly this result is added to the stored evaluation
  results.
\<close>

theorem subcontrol_reflects_orchestrator:
  assumes "readable_results T vr ctx (toe_CloudServiceId toe) s" "gorm_table (e_storage svc) TE"
    "getAllMetricsFromControl (toe_CatalogId toe) (ctl_CategoryName c) (ctl_Id c) (e_catalogControls svc) = Ok metrics" "metrics \<noteq> []"
    "evaluateSubcontrol (orchestrator_client pb vt vc vl vr ctx s) idt (Some toe) (Some c) svc = (Ok (Some er), svc')"
  shows "\<exists>rs. latest_results (t_rows T (o_db s)) (toe_CloudServiceId toe) (getMetricIds metrics) rs \<and>
    er_Status er = (if rs = [] then PENDING else if \<forall>r \<in> set rs. ar_Compliant r then COMPLIANT else NOT_COMPLIANT) \<and>
    er_FailingAssessmentResultIds er = map ar_Id (filter (\<lambda>r. \<not> ar_Compliant r) rs) \<and>
    t_rows TE (e_db svc') = insert er (t_rows TE (e_db svc))"
proof -
  let ?rs = "judged (orchestrator_client pb vt vc vl vr ctx s) (e_catalogControls svc) toe c"
  have "er = subcontrol_result idt toe c ?rs" "t_rows TE (e_db svc') = insert er (t_rows TE (e_db svc))"
    using evaluateSubcontrol_ok [OF assms(2,5)] by simp_all
  then show ?thesis
    using judged_latest [OF assms(1,3,4), of pb vt vc vl]
    by (intro exI [of _ ?rs]) (simp add: subcontrol_result_status status_of_def failing_of_def)
qed

theorem subcontrol_reflects_orchestrator_witness:
  "\<exists>er svc'. evaluateSubcontrol (orchestrator_client unary_proto (\<lambda>_. None) (\<lambda>_. None) (\<lambda>_. None) (\<lambda>_. None) () (results_orch [sample_result]))
      (ops_fresh 1) (Some ops_toe) (Some ops_sub) (memory_eval ops_cache) = (Ok (Some er), svc') \<and>
    er_Status er = COMPLIANT"
proof -
  have m: "getAllMetricsFromControl (toe_CatalogId ops_toe) (ctl_CategoryName ops_sub) (ctl_Id ops_sub) ops_cache = Ok [ops_metric]"
    using ops_metrics by (simp add: ops_toe_def ops_sub_def)
  obtain er svc' where e: "evaluateSubcontrol (orchestrator_client unary_proto (\<lambda>_. None) (\<lambda>_. None) (\<lambda>_. None) (\<lambda>_. None) () (results_orch [sample_result]))
      (ops_fresh 1) (Some ops_toe) (Some ops_sub) (memory_eval ops_cache) = (Ok (Some er), svc')"
    by (rule evaluateSubcontrol_in_memory [OF results_orch_readable list.distinct(2) m])
  obtain rs where "latest_results {sample_result} ''u1'' [''TLS''] rs"
      "er_Status er = (if rs = [] then PENDING else if \<forall>r \<in> set rs. ar_Compliant r then COMPLIANT else NOT_COMPLIANT)"
    using subcontrol_reflects_orchestrator [OF results_orch_readable _ _ _ e, of "mem_sem mt_EvaluationResult" "[ops_metric]"]
      m mem_eval.gorm_table_axioms by (auto simp: results_orch_def ops_toe_def getMetricIds_def ops_metric_def)
  then have "er_Status er = COMPLIANT"
    by (auto simp: latest_results_def sample_result_def)
  then show ?thesis
    using e by blast
qed

text \<open>
  C1: an assessed evidence shows in the status of the controls. Suppose the assessment of an
  evidence succeeds and hands its results to the stream to the orchestrator; the orchestrator
  receives them, in any order and possibly repeated, and acknowledges them; one of them, for a
  metric of a sub-control, is newer than what was stored for its resource and metric. Then an
  evaluation of this sub-control for the cloud service of the evidence that reads the
  orchestrator afterwards is not pending, and if the result is not compliant, neither is the
  sub-control, and the result is among those that it names as failing.
\<close>

theorem evidence_reaches_status:
  assumes assess: "AssessEvidence al lib client sc uuid now v ctx (Some \<lparr> aer_Evidence = Some ev \<rparr>) svc = (Ok u, svc')"
      "streams_ok (as_orchestratorStreams svc)" "streams_ok (as_evidenceStoreStreams svc)"
    and sent: "handed (as_orchestratorStreams svc') (rc_Target (as_orchestrator svc)) =
       handed (as_orchestratorStreams svc) (rc_Target (as_orchestrator svc)) @ results" "set received = set results"
    and store: "gorm_table (tb_AssessmentResult (o_tables s)) T"
      "StoreAssessmentResults v2 ctx2 (\<lambda>_. None) (map (\<lambda>r. Ok \<lparr> sar_Result = Some r \<rparr>) received) s = (Ok u2, s', out)"
      "\<forall>(ok, m) \<in> set out. ok"
    and r: "r \<in> set results" "\<forall>x \<in> set results. ar_ResourceId x = ar_ResourceId r \<and> ar_MetricId x = ar_MetricId r \<longrightarrow> x = r"
      "\<forall>x \<in> t_rows T (o_db s). ar_ResourceId x = ar_ResourceId r \<and> ar_MetricId x = ar_MetricId r \<longrightarrow> (\<exists>t < now. ar_Timestamp x = Some t)"
    and eval: "readable_results T vr ctx3 (toe_CloudServiceId toe) s'" "toe_CloudServiceId toe = ev_CloudServiceId ev"
      "getAllMetricsFromControl (toe_CatalogId toe) (ctl_CategoryName c) (ctl_Id c) (e_catalogControls esvc) = Ok metrics"
      "ar_MetricId r \<in> set (getMetricIds metrics)" "gorm_table (e_storage esvc) TE"
      "evaluateSubcontrol (orchestrator_client pb vt vc vl vr ctx3 s') idt (Some toe) (Some c) esvc = (Ok (Some er), esvc')"
  shows "er_Status er \<noteq> PENDING \<and>
    (\<not> ar_Compliant r \<longrightarrow> er_Status er = NOT_COMPLIANT \<and> ar_Id r \<in> set (er_FailingAssessmentResultIds er))"
proof -
  let ?rows = "t_rows T (o_db s')" and ?rs = "judged (orchestrator_client pb vt vc vl vr ctx3 s') (e_catalogControls esvc) toe c"
  have rows: "?rows = t_rows T (o_db s) \<union> set results"
    using StoreAssessmentResults_all [OF store] sent(2) by simp
  have new: "ar_Timestamp r = Some now" "ar_CloudServiceId r = ev_CloudServiceId ev"
    using AssessEvidence_results [OF assess sent(1) r(1)] by simp_all
  have "newest ?rows r"
    unfolding newest_def
  proof (intro ballI impI)
    fix x
    assume x: "x \<in> ?rows" "ar_ResourceId x = ar_ResourceId r \<and> ar_MetricId x = ar_MetricId r \<and> ar_CloudServiceId x = ar_CloudServiceId r \<and> x \<noteq> r"
    then have "x \<in> t_rows T (o_db s)"
      using rows r(2) by blast
    then obtain t where "t < now" "ar_Timestamp x = Some t"
      using r(3) x(2) by blast
    then show "\<not> ts_le (opt_time (ar_Timestamp r)) (opt_time (ar_Timestamp x))"
      by (simp add: new(1))
  qed
  moreover have "metrics \<noteq> []"
    using eval(4) by (auto simp: getMetricIds_def)
  ultimately have "r \<in> set ?rs"
    using newest_selected [OF judged_latest [OF eval(1,3)]] r(1) rows new(2) eval(2,4) by simp
  then show ?thesis
    using status_of_member evaluateSubcontrol_ok [OF eval(5,6)] by (simp add: subcontrol_result_status)
qed

theorem evidence_reaches_status_witness:
  "\<exists>s' er esvc'. StoreAssessmentResults (\<lambda>_. None) () (\<lambda>_. None) [Ok \<lparr> sar_Result = Some echo_stored \<rparr>] (results_orch []) = (Ok (), s', [(True, [])]) \<and>
    evaluateSubcontrol (orchestrator_client unary_proto (\<lambda>_. None) (\<lambda>_. None) (\<lambda>_. None) (\<lambda>_. None) () s')
      (ops_fresh 1) (Some echo_toe) (Some echo_sub) (memory_eval echo_cache) = (Ok (Some er), esvc') \<and>
    er_Status er \<noteq> PENDING"
proof -
  obtain svc' where a: "AssessEvidence echo_al echo_lib echo_client echo_streams (\<lambda>_. ''u'') 7 (\<lambda>_. None) () (Some \<lparr> aer_Evidence = Some echo_evidence \<rparr>) echo_service = (Ok (), svc')"
      and h: "handed (as_orchestratorStreams svc') ''localhost:9090'' = [echo_stored]"
    by (rule echo_AssessEvidence)
  obtain s' where st: "StoreAssessmentResults (\<lambda>_. None) () (\<lambda>_. None) (map (\<lambda>r. Ok \<lparr> sar_Result = Some r \<rparr>) [echo_stored]) (results_orch []) = (Ok (), s', [(True, [])])"
      and rd: "readable_results (mem_sem mt_AssessmentResult) (\<lambda>_. None) () (toe_CloudServiceId echo_toe) s'"
    by (rule echo_StoreAssessmentResults)
  obtain er esvc' where e: "evaluateSubcontrol (orchestrator_client unary_proto (\<lambda>_. None) (\<lambda>_. None) (\<lambda>_. None) (\<lambda>_. None) () s')
      (ops_fresh 1) (Some echo_toe) (Some echo_sub) (memory_eval echo_cache) = (Ok (Some er), esvc')"
    by (rule evaluateSubcontrol_in_memory [OF rd list.distinct(2) echo_sub_metrics])
  have "er_Status er \<noteq> PENDING"
    using evidence_reaches_status [OF a _ _ _ _ _ st _ _ _ _ rd _ _ _ _ e, of "[echo_stored]" echo_stored "[echo_metric]" "mem_sem mt_EvaluationResult"]
      h echo_sub_metrics mem_result.gorm_table_axioms mem_eval.gorm_table_axioms
    by (simp add: echo_service_fields handed_new results_orch_def echo_toe_def getMetricIds_def echo_metric_def echo_stored_def
        new_result_def echo_result_def)
  then show ?thesis
    using st e by auto
qed

text \<open>
  C2: authentication and authorization together protect the cloud services. Suppose an
  orchestrator with the token based strategy runs behind the server, on an endpoint that is not
  public. If a call to remove or to update a cloud service succeeds, or changes the state of the
  orchestrator at all, then the metadata of the call carry a bearer token that a trusted key has
  signed, and the claims of this token grant access to everything or to this cloud service.
\<close>

theorem change_needs_signed_token:
  assumes libs: "authenticates_unary au" "authenticates_unary au'" "reads_metadata lib" "checks_signature jl vouches"
    and az: "o_authz s = strategy_JWT lib st" and prot: "\<not> public_endpoint c info"
    and call: "unary_chain au lib jl fetched ctx (Some \<lparr> dcs_CloudServiceId = csid \<rparr>) info (serve_handler (RemoveCloudService v)) (c, s) = (r, c', s') \<and>
        (is_ok r \<or> s' \<noteq> s) \<or>
      unary_chain au' lib jl fetched ctx (Some upd) info (serve_handler (UpdateCloudService v' now)) (c, s) = (r', c', s') \<and>
        (is_ok r' \<or> s' \<noteq> s) \<and> ucs_GetCloudServiceId upd = csid"
  shows "\<exists>token k claims. AuthFromMD lib ctx = Ok token \<and> trusted jl (snd (load_jwks fetched (c_ac c))) k \<and> vouches k token \<and>
    ParseUnverified lib token = Ok claims \<and> claims_grant st claims csid"
  using call
proof (rule disjE)
  assume "unary_chain au lib jl fetched ctx (Some \<lparr> dcs_CloudServiceId = csid \<rparr>) info (serve_handler (RemoveCloudService v)) (c, s) = (r, c', s') \<and>
    (is_ok r \<or> s' \<noteq> s)"
  then show ?thesis
    using guarded_call [OF libs(1,3,4) RemoveCloudService_guarded [of s, unfolded az] prot] by blast
next
  assume "unary_chain au' lib jl fetched ctx (Some upd) info (serve_handler (UpdateCloudService v' now)) (c, s) = (r', c', s') \<and>
    (is_ok r' \<or> s' \<noteq> s) \<and> ucs_GetCloudServiceId upd = csid"
  then show ?thesis
    using guarded_call [OF libs(2-4) UpdateCloudService_guarded [of s, unfolded az] prot] by blast
qed

theorem change_needs_signed_token_witness:
  "\<exists>token k claims. AuthFromMD plain_lib \<lparr> ctx_metadata = Some ''k.u1'', ctx_token = None \<rparr> = Ok token \<and>
    trusted plain_tokens (snd (load_jwks (Some ''k'', None) (c_ac (srv_config sample_srv)))) k \<and> plain_signed k token \<and>
    ParseUnverified plain_lib token = Ok claims \<and> claims_grant \<lparr> CloudServicesKey = ''cloudserviceid'', AllowAllKey = ''cladmin'' \<rparr> claims ''u1''"
proof -
  let ?st = "\<lparr> CloudServicesKey = ''cloudserviceid'', AllowAllKey = ''cladmin'' \<rparr>"
  let ?ctx = "\<lparr> ctx_metadata = Some ''k.u1'', ctx_token = None \<rparr> :: (string option, string) rpc_context"
  let ?s = "new_orch (strategy_JWT plain_lib ?st) (empty_db\<lparr>md_CloudService := [shop]\<rparr>)"
  let ?call = "unary_chain plain_unary plain_lib plain_tokens (Some ''k'', None) ?ctx (Some \<lparr> dcs_CloudServiceId = ''u1'' \<rparr>) ''/Remove''
    (serve_handler (RemoveCloudService (\<lambda>_. None))) (srv_config sample_srv, ?s)"
  have "is_ok (fst ?call)"
    by (simp add: unary_chain_eq public_endpoint_def sample_srv_simps reflection_method_def plain_unary_def auth_step_def AuthFunc_def
        load_jwks_def empty_AuthConfig_def plain_lib_def parseToken_def key_source_def plain_tokens_def plain_signed_def serve_handler_def
        RemoveCloudService_def strategy_JWT_def jwt_access_cases claims_grant_def storage_Delete_def mem_gorm_def mt_CloudService_def
        cloud_service_key_def shop_def mt_list_def split: prod.split)
  then obtain r c' s' where run: "?call = (r, c', s')" "is_ok r"
    by (metis fst_conv prod.collapse)
  show ?thesis
    by (rule change_needs_signed_token [OF plain_interceptors(1) plain_interceptors(1) plain_reads_metadata plain_checks_signature _ _
          disjI1 [OF conjI [OF run(1) disjI1 [OF run(2)]]]])
      (simp_all add: public_endpoint_def sample_srv_simps reflection_method_def)
qed

end
